(* ===== verification/Lark_Prelude.thy ===== *)
theory Lark_Prelude
  imports Main "HOL-Library.AList"
begin

text \<open>
  Prelude of the development: Go maps as association lists, the result type of
  fallible operations, the interface locale of key-value tables and the
  generic lemmas the component theories share.

  A Go map is an association list with distinct keys.  Go iterates over a map in
  an unspecified order; every model of such a loop walks the list, and the
  component theories prove that the result does not depend on that order.
\<close>

named_theorems frame \<open>an operation leaves a part of the state alone\<close>
named_theorems preserve \<open>an operation keeps an invariant\<close>

section \<open>Go maps\<close>

type_synonym ('k, 'v) go_map = "('k \<times> 'v) list"

abbreviation go_get :: "('k, 'v) go_map \<Rightarrow> 'k \<Rightarrow> 'v option" where
  "go_get m k \<equiv> map_of m k"

abbreviation go_put :: "'k \<Rightarrow> 'v \<Rightarrow> ('k, 'v) go_map \<Rightarrow> ('k, 'v) go_map" where
  "go_put \<equiv> AList.update"

abbreviation go_del :: "'k \<Rightarrow> ('k, 'v) go_map \<Rightarrow> ('k, 'v) go_map" where
  "go_del \<equiv> AList.delete"

abbreviation go_wf :: "('k, 'v) go_map \<Rightarrow> bool" where
  "go_wf m \<equiv> distinct (map fst m)"

abbreviation go_has :: "('k, 'v) go_map \<Rightarrow> 'k \<Rightarrow> bool" where
  "go_has m k \<equiv> map_of m k \<noteq> None"

lemma go_get_put [simp]: "map_of (go_put k v m) k' = (if k' = k then Some v else map_of m k')"
  by (simp add: update_conv')

lemma go_get_del [simp]: "map_of (go_del k m) k' = (if k' = k then None else map_of m k')"
  by (simp add: AList.delete_conv')

lemma go_wf_put [simp, preserve]: "go_wf m \<Longrightarrow> go_wf (go_put k v m)"
  by (rule distinct_update)

lemma go_wf_del [simp, preserve]: "go_wf m \<Longrightarrow> go_wf (go_del k m)"
  by (rule distinct_delete)

lemma go_del_idle: "map_of m k = None \<Longrightarrow> go_del k m = m"
  by (induction m) (auto split: if_splits)

lemma go_del_empty: "go_del k m = [] \<Longrightarrow> k' \<noteq> k \<Longrightarrow> map_of m k' = None"
  by (metis go_get_del map_of.simps(1))

lemma set_go_put: "go_wf m \<Longrightarrow>
  set (go_put k v m) = insert (k, v) {p \<in> set m. fst p \<noteq> k}"
  by (induction m) (auto simp: image_iff)

lemma set_go_del: "set (go_del k m) = {p \<in> set m. fst p \<noteq> k}"
  by (induction m) auto

lemma length_go_put: "length (go_put k v m) = (if k \<in> fst ` set m then length m else Suc (length m))"
  by (induction m) auto

lemma length_go_del_le: "length (go_del k m) \<le> length m"
  by (simp add: AList.length_delete_le)

lemma go_get_mem: "go_wf m \<Longrightarrow> (map_of m k = Some v) = ((k, v) \<in> set m)"
  by (simp add: map_of_eq_Some_iff)

lemma go_keys_put: "fst ` set (go_put k v m) = insert k (fst ` set m)"
  by (simp add: dom_update)

lemma go_keys_del: "fst ` set (go_del k m) = fst ` set m - {k}"
  by (induction m) auto

lemma go_get_filter:
  "go_wf m \<Longrightarrow> map_of (filter P m) k =
     (case map_of m k of Some v \<Rightarrow> if P (k, v) then Some v else None | None \<Rightarrow> None)"
proof (induction m)
  case (Cons p m)
  then have "map_of m (fst p) = None" by (simp add: map_of_eq_None_iff)
  then show ?case using Cons by (cases p) (auto split: option.splits)
qed simp

section \<open>Key-value tables as an interface\<close>

text \<open>
  The contract that several operations of the program share: a lookup after an
  insert or a delete.  The hub's maps provide it, and so does the agent memory
  table of the database.  The lemmas inside are the loops that register or
  unregister a list of keys.
\<close>

locale kv_table =
  fixes ok :: "'m \<Rightarrow> bool"
    and lookup :: "'m \<Rightarrow> 'k \<Rightarrow> 'v option"
    and put :: "'k \<Rightarrow> 'v \<Rightarrow> 'm \<Rightarrow> 'm"
    and del :: "'k \<Rightarrow> 'm \<Rightarrow> 'm"
  assumes ok_put: "ok m \<Longrightarrow> ok (put k v m)"
    and ok_del: "ok m \<Longrightarrow> ok (del k m)"
    and lookup_put: "ok m \<Longrightarrow> lookup (put k v m) k' = (if k' = k then Some v else lookup m k')"
    and lookup_del: "ok m \<Longrightarrow> lookup (del k m) k' = (if k' = k then None else lookup m k')"
begin

lemma ok_fold_put: "ok m \<Longrightarrow> ok (fold (\<lambda>k. put k (f k)) ks m)"
  by (induction ks arbitrary: m) (auto intro: ok_put)

lemma ok_fold_del: "ok m \<Longrightarrow> ok (fold del ks m)"
  by (induction ks arbitrary: m) (auto intro: ok_del)

lemma lookup_fold_put:
  "ok m \<Longrightarrow> lookup (fold (\<lambda>k. put k (f k)) ks m) k = (if k \<in> set ks then Some (f k) else lookup m k)"
  by (induction ks arbitrary: m) (auto simp: ok_put lookup_put)

lemma lookup_fold_del:
  "ok m \<Longrightarrow> lookup (fold del ks m) k = (if k \<in> set ks then None else lookup m k)"
  by (induction ks arbitrary: m) (auto simp: ok_del lookup_del)

lemma put_idem: "ok m \<Longrightarrow> lookup (put k v (put k v' m)) k' = lookup (put k v m) k'"
  by (simp add: ok_put lookup_put)

lemma put_comm: "ok m \<Longrightarrow> k1 \<noteq> k2 \<Longrightarrow>
  lookup (put k1 v1 (put k2 v2 m)) k' = lookup (put k2 v2 (put k1 v1 m)) k'"
  by (simp add: ok_put lookup_put)

lemma register_unregister:
  "ok m \<Longrightarrow> lookup (fold del ks (fold (\<lambda>k. put k (f k)) ks m)) k
    = (if k \<in> set ks then None else lookup m k)"
  by (simp add: lookup_fold_del ok_fold_put lookup_fold_put)

end

interpretation go_map: kv_table go_wf map_of go_put go_del
  by unfold_locales auto

text \<open>The lookups do not need the keys to be distinct.\<close>

interpretation go_any: kv_table "\<lambda>_. True" map_of go_put go_del
  by unfold_locales auto

section \<open>Lists\<close>

text \<open>Update, delete and search of table rows by a predicate.\<close>

definition upd_where :: "('r \<Rightarrow> bool) \<Rightarrow> ('r \<Rightarrow> 'r) \<Rightarrow> 'r list \<Rightarrow> 'r list" where
  "upd_where p f rs = map (\<lambda>r. if p r then f r else r) rs"

definition del_where :: "('r \<Rightarrow> bool) \<Rightarrow> 'r list \<Rightarrow> 'r list" where
  "del_where p rs = filter (\<lambda>r. \<not> p r) rs"

lemma set_upd_where: "set (upd_where p f rs) = {if p r then f r else r | r. r \<in> set rs}"
  by (auto simp: upd_where_def)

lemma set_del_where [simp]: "set (del_where p rs) = {r \<in> set rs. \<not> p r}"
  by (auto simp: del_where_def)

lemma length_upd_where [simp]: "length (upd_where p f rs) = length rs"
  by (simp add: upd_where_def)

lemma map_upd_where_id:
  "(\<And>r. p r \<Longrightarrow> g (f r) = g r) \<Longrightarrow> map g (upd_where p f rs) = map g rs"
  by (auto simp: upd_where_def)

lemma upd_where_none: "(\<And>r. r \<in> set rs \<Longrightarrow> \<not> p r) \<Longrightarrow> upd_where p f rs = rs"
  by (auto simp: upd_where_def intro: map_idI)

lemma del_where_none: "(\<And>r. r \<in> set rs \<Longrightarrow> \<not> p r) \<Longrightarrow> del_where p rs = rs"
  by (auto simp: del_where_def)

lemma distinct_del_where: "distinct (map g rs) \<Longrightarrow> distinct (map g (del_where p rs))"
  by (simp add: del_where_def distinct_map_filter)

lemma find_upd_where:
  assumes "\<And>r. q (f r) = q r"
  shows "List.find q (upd_where p f rs) =
    map_option (\<lambda>r. if p r then f r else r) (List.find q rs)"
  by (induction rs) (auto simp: upd_where_def assms)

lemma find_Some_iff: "List.find p xs = Some x \<Longrightarrow> x \<in> set xs \<and> p x"
  by (induction xs) (auto split: if_splits)

lemma find_None_iff': "List.find p xs = None \<longleftrightarrow> (\<forall>x\<in>set xs. \<not> p x)"
  by (induction xs) auto

lemma find_unique:
  assumes "distinct (map g xs)" "x \<in> set xs" "\<And>y. p y \<longleftrightarrow> g y = g x"
  shows "List.find p xs = Some x"
  using assms(1,2)
proof (induction xs)
  case (Cons a xs)
  then show ?case using assms(3) by (cases "a = x") (auto simp: image_iff)
qed simp

lemma find_append: "List.find p (xs @ ys) =
  (case List.find p xs of Some x \<Rightarrow> Some x | None \<Rightarrow> List.find p ys)"
  by (induction xs) auto

lemma filter_upd_where_other:
  "(\<And>r. p r \<Longrightarrow> \<not> q r \<and> \<not> q (f r)) \<Longrightarrow> filter q (upd_where p f rs) = filter q rs"
  by (induction rs) (auto simp: upd_where_def)

section \<open>Results\<close>

text \<open>A Go function returning a value and an error: the error on the left.\<close>

fun on_ok :: "('e + 'a) \<times> 's \<Rightarrow> ('a \<Rightarrow> 's \<Rightarrow> ('e + 'b) \<times> 's) \<Rightarrow> ('e + 'b) \<times> 's" where
  "on_ok (Inl e, s) k = (Inl e, s)"
| "on_ok (Inr a, s) k = k a s"

lemma on_ok_cases:
  assumes "on_ok r k = (y, s')"
  obtains e where "r = (Inl e, s')" "y = Inl e"
    | a s where "r = (Inr a, s)" "k a s = (y, s')"
  using assms by (cases r; cases "fst r") auto

fun is_ok :: "'e + 'a \<Rightarrow> bool" where
  "is_ok (Inl e) = False"
| "is_ok (Inr a) = True"

end
