(* ===== verification/Go_Json.thy ===== *)
theory Go_Json
  imports Lark_Prelude
begin

text \<open>
  JSON values as the program exchanges them, and the rules of Go's
  encoding/json that the handlers rely on: an absent member leaves the field at
  its zero value, null is a no-op, a member of the wrong kind is an error, a
  repeated member overwrites the earlier one, and names are compared without
  regard to (ASCII) case.  Values are abstract syntax trees: lexing is the
  library's.  Strings are lists of 8-bit characters, the bytes of the Go
  string.
\<close>

datatype json =
    JNull
  | JBool bool
  | JNum int
  | JFrac string
  | JStr string
  | JArr "json list"
  | JObj "(string \<times> json) list"

section \<open>Decoding\<close>

definition lower_char :: "char \<Rightarrow> char" where
  "lower_char c = (if of_char c \<in> {65..90 :: nat} then char_of (of_char c + 32 :: nat) else c)"

definition key_eq :: "string \<Rightarrow> string \<Rightarrow> bool" where
  "key_eq a b \<longleftrightarrow> map lower_char a = map lower_char b"

lemma key_eq_refl [simp]: "key_eq a a"
  by (simp add: key_eq_def)

fun fold_members :: "(string \<Rightarrow> json \<Rightarrow> 'a \<Rightarrow> 'a option) \<Rightarrow> (string \<times> json) list \<Rightarrow> 'a \<Rightarrow> 'a option" where
  "fold_members f [] a = Some a"
| "fold_members f ((k, v) # kvs) a =
     (case f k v a of None \<Rightarrow> None | Some a' \<Rightarrow> fold_members f kvs a')"

text \<open>json.Unmarshal into a struct: absent data (a nil RawMessage) is an error.\<close>

fun unmarshal :: "(string \<Rightarrow> json \<Rightarrow> 'a \<Rightarrow> 'a option) \<Rightarrow> json option \<Rightarrow> 'a \<Rightarrow> 'a option" where
  "unmarshal f None a = None"
| "unmarshal f (Some JNull) a = Some a"
| "unmarshal f (Some (JObj kvs)) a = fold_members f kvs a"
| "unmarshal f (Some (JBool b)) a = None"
| "unmarshal f (Some (JNum n)) a = None"
| "unmarshal f (Some (JFrac s)) a = None"
| "unmarshal f (Some (JStr s)) a = None"
| "unmarshal f (Some (JArr js)) a = None"

fun set_str :: "(string \<Rightarrow> 'a \<Rightarrow> 'a) \<Rightarrow> json \<Rightarrow> 'a \<Rightarrow> 'a option" where
  "set_str u (JStr s) a = Some (u s a)"
| "set_str u JNull a = Some a"
| "set_str u _ a = None"

fun set_bool :: "(bool \<Rightarrow> 'a \<Rightarrow> 'a) \<Rightarrow> json \<Rightarrow> 'a \<Rightarrow> 'a option" where
  "set_bool u (JBool b) a = Some (u b a)"
| "set_bool u JNull a = Some a"
| "set_bool u _ a = None"

text \<open>A number must fit the 64-bit field, else Unmarshal reports an error.\<close>

fun set_int :: "(int \<Rightarrow> 'a \<Rightarrow> 'a) \<Rightarrow> json \<Rightarrow> 'a \<Rightarrow> 'a option" where
  "set_int u (JNum n) a =
     (if - (2 ^ 63) \<le> n \<and> n < 2 ^ 63 then Some (u n a) else None)"
| "set_int u JNull a = Some a"
| "set_int u _ a = None"

fun strs_of :: "json list \<Rightarrow> string list option" where
  "strs_of [] = Some []"
| "strs_of (JStr s # js) = map_option (Cons s) (strs_of js)"
| "strs_of (JNull # js) = map_option (Cons []) (strs_of js)"
| "strs_of (_ # js) = None"

fun set_strs :: "(string list \<Rightarrow> 'a \<Rightarrow> 'a) \<Rightarrow> json \<Rightarrow> 'a \<Rightarrow> 'a option" where
  "set_strs u (JArr js) a = map_option (\<lambda>ss. u ss a) (strs_of js)"
| "set_strs u JNull a = Some (u [] a)"
| "set_strs u _ a = None"

text \<open>A nested struct: null leaves it alone.\<close>

definition set_struct ::
  "(string \<Rightarrow> json \<Rightarrow> 'b \<Rightarrow> 'b option) \<Rightarrow> ('a \<Rightarrow> 'b) \<Rightarrow> ('b \<Rightarrow> 'a \<Rightarrow> 'a) \<Rightarrow> json \<Rightarrow> 'a \<Rightarrow> 'a option" where
  "set_struct f g u j a = map_option (\<lambda>b. u b a) (unmarshal f (Some j) (g a))"

section \<open>Encoding\<close>

text \<open>Struct members with omitempty are left out at their zero value.\<close>

definition omit_str :: "string \<Rightarrow> string \<Rightarrow> (string \<times> json) list" where
  "omit_str k s = (if s = [] then [] else [(k, JStr s)])"

definition omit_int :: "string \<Rightarrow> int \<Rightarrow> (string \<times> json) list" where
  "omit_int k n = (if n = 0 then [] else [(k, JNum n)])"

definition omit_bool :: "string \<Rightarrow> bool \<Rightarrow> (string \<times> json) list" where
  "omit_bool k b = (if b then [(k, JBool True)] else [])"

definition omit_strs :: "string \<Rightarrow> string list \<Rightarrow> (string \<times> json) list" where
  "omit_strs k ss = (if ss = [] then [] else [(k, JArr (map JStr ss))])"

definition str_obj :: "(string \<times> string) list \<Rightarrow> json" where
  "str_obj kvs = JObj (map (\<lambda>(k, v). (k, JStr v)) kvs)"

fun jmember :: "string \<Rightarrow> json \<Rightarrow> json option" where
  "jmember k (JObj kvs) = map_of kvs k"
| "jmember k _ = None"

lemma fold_members_append:
  "fold_members f (xs @ ys) a = Option.bind (fold_members f xs a) (fold_members f ys)"
  by (induction f xs a rule: fold_members.induct) (auto split: option.splits)

end
