(* ===== verification/Protocol.thy ===== *)
theory Protocol
  imports Go_Json
begin

text \<open>
  websocket/protocol.go: the envelope, the environment it is stamped from (clock
  and UUID supply), the event names and the payload structs with their decoders.
\<close>

section \<open>Environment\<close>

text \<open>
  What the code takes from outside: the wall clock in Unix milliseconds, the
  stream of UUIDs that uuid.New().String() returns, and the errors the SQL
  driver reports, one entry per statement (None when the driver itself does not
  fail; an exhausted list means no further driver failure).
\<close>

record env =
  now :: int
  uuids :: "nat \<Rightarrow> string"
  uuid_ctr :: nat
  faults :: "string option list"

definition new_uuid :: "'a env_scheme \<Rightarrow> string \<times> 'a env_scheme" where
  "new_uuid e = (uuids e (uuid_ctr e), e\<lparr>uuid_ctr := Suc (uuid_ctr e)\<rparr>)"

section \<open>Envelope\<close>

record envelope =
  env_V :: int
  env_ID :: string
  env_Type :: string
  env_TS :: int
  env_Data :: "json option"

definition NewEnvelope :: "string \<Rightarrow> json \<Rightarrow> 'a env_scheme \<Rightarrow> envelope \<times> 'a env_scheme" where
  "NewEnvelope eventType data e =
     (let (u, e') = new_uuid e in
      (\<lparr>env_V = 1, env_ID = u, env_Type = eventType, env_TS = now e, env_Data = Some data\<rparr>, e'))"

section \<open>Payload structs\<close>

record AuthLoginData =
  al_Token :: string

definition AuthLoginData_member :: "string \<Rightarrow> json \<Rightarrow> AuthLoginData \<Rightarrow> AuthLoginData option" where
  "AuthLoginData_member k j d =
     (if key_eq k ''token'' then set_str (\<lambda>s d. d\<lparr>al_Token := s\<rparr>) j d else Some d)"

definition ParseAuthLogin :: "json option \<Rightarrow> AuthLoginData option" where
  "ParseAuthLogin data = unmarshal AuthLoginData_member data \<lparr>al_Token = []\<rparr>"

record RoleCard =
  rc_SystemPrompt :: string
  rc_Capabilities :: "string list"

record RuntimeInfo =
  ri_Type :: string
  ri_Provider :: string
  ri_Model :: string

definition RoleCard_member :: "string \<Rightarrow> json \<Rightarrow> RoleCard \<Rightarrow> RoleCard option" where
  "RoleCard_member k j d =
     (if key_eq k ''system_prompt'' then set_str (\<lambda>s d. d\<lparr>rc_SystemPrompt := s\<rparr>) j d
      else if key_eq k ''capabilities'' then set_strs (\<lambda>s d. d\<lparr>rc_Capabilities := s\<rparr>) j d
      else Some d)"

definition RuntimeInfo_member :: "string \<Rightarrow> json \<Rightarrow> RuntimeInfo \<Rightarrow> RuntimeInfo option" where
  "RuntimeInfo_member k j d =
     (if key_eq k ''type'' then set_str (\<lambda>s d. d\<lparr>ri_Type := s\<rparr>) j d
      else if key_eq k ''provider'' then set_str (\<lambda>s d. d\<lparr>ri_Provider := s\<rparr>) j d
      else if key_eq k ''model'' then set_str (\<lambda>s d. d\<lparr>ri_Model := s\<rparr>) j d
      else Some d)"

record AgentHelloData =
  ah_Name :: string
  ah_RoleCard :: RoleCard
  ah_Runtime :: RuntimeInfo

definition AgentHelloData_member :: "string \<Rightarrow> json \<Rightarrow> AgentHelloData \<Rightarrow> AgentHelloData option" where
  "AgentHelloData_member k j d =
     (if key_eq k ''name'' then set_str (\<lambda>s d. d\<lparr>ah_Name := s\<rparr>) j d
      else if key_eq k ''role_card''
        then set_struct RoleCard_member ah_RoleCard (\<lambda>b d. d\<lparr>ah_RoleCard := b\<rparr>) j d
      else if key_eq k ''runtime''
        then set_struct RuntimeInfo_member ah_Runtime (\<lambda>b d. d\<lparr>ah_Runtime := b\<rparr>) j d
      else Some d)"

definition ParseAgentHello :: "json option \<Rightarrow> AgentHelloData option" where
  "ParseAgentHello data = unmarshal AgentHelloData_member data
     \<lparr>ah_Name = [], ah_RoleCard = \<lparr>rc_SystemPrompt = [], rc_Capabilities = []\<rparr>,
      ah_Runtime = \<lparr>ri_Type = [], ri_Provider = [], ri_Model = []\<rparr>\<rparr>"

text \<open>message.send; the raw metadata member is accepted whatever its kind.\<close>

record MessageSendData =
  ms_ChannelID :: string
  ms_Content :: string
  ms_ThreadID :: string
  ms_ContentType :: string
  ms_Type :: string
  ms_Metadata :: "json option"

definition MessageSendData_member :: "string \<Rightarrow> json \<Rightarrow> MessageSendData \<Rightarrow> MessageSendData option" where
  "MessageSendData_member k j d =
     (if key_eq k ''channel_id'' then set_str (\<lambda>s d. d\<lparr>ms_ChannelID := s\<rparr>) j d
      else if key_eq k ''content'' then set_str (\<lambda>s d. d\<lparr>ms_Content := s\<rparr>) j d
      else if key_eq k ''thread_id'' then set_str (\<lambda>s d. d\<lparr>ms_ThreadID := s\<rparr>) j d
      else if key_eq k ''content_type'' then set_str (\<lambda>s d. d\<lparr>ms_ContentType := s\<rparr>) j d
      else if key_eq k ''type'' then set_str (\<lambda>s d. d\<lparr>ms_Type := s\<rparr>) j d
      else if key_eq k ''metadata'' then Some (d\<lparr>ms_Metadata := Some j\<rparr>)
      else Some d)"

definition ParseMessageSend :: "json option \<Rightarrow> MessageSendData option" where
  "ParseMessageSend data = unmarshal MessageSendData_member data
     \<lparr>ms_ChannelID = [], ms_Content = [], ms_ThreadID = [], ms_ContentType = [], ms_Type = [],
      ms_Metadata = None\<rparr>"

record InboxPollData =
  ip_SourceType :: string
  ip_UnreadOnly :: bool
  ip_Since :: int
  ip_Limit :: int

definition InboxPollData_member :: "string \<Rightarrow> json \<Rightarrow> InboxPollData \<Rightarrow> InboxPollData option" where
  "InboxPollData_member k j d =
     (if key_eq k ''source_type'' then set_str (\<lambda>s d. d\<lparr>ip_SourceType := s\<rparr>) j d
      else if key_eq k ''unread_only'' then set_bool (\<lambda>b d. d\<lparr>ip_UnreadOnly := b\<rparr>) j d
      else if key_eq k ''since'' then set_int (\<lambda>n d. d\<lparr>ip_Since := n\<rparr>) j d
      else if key_eq k ''limit'' then set_int (\<lambda>n d. d\<lparr>ip_Limit := n\<rparr>) j d
      else Some d)"

record DraftSendData =
  ds_DraftID :: string
  ds_ForceVersion :: bool

definition DraftSendData_member :: "string \<Rightarrow> json \<Rightarrow> DraftSendData \<Rightarrow> DraftSendData option" where
  "DraftSendData_member k j d =
     (if key_eq k ''draft_id'' then set_str (\<lambda>s d. d\<lparr>ds_DraftID := s\<rparr>) j d
      else if key_eq k ''force_version'' then set_bool (\<lambda>b d. d\<lparr>ds_ForceVersion := b\<rparr>) j d
      else Some d)"

record WorkspaceUpdateData =
  wu_ItemID :: string
  wu_Name :: string
  wu_Content :: string
  wu_Namespace :: string
  wu_Description :: string
  wu_Tags :: "string list"

definition WorkspaceUpdateData_member ::
  "string \<Rightarrow> json \<Rightarrow> WorkspaceUpdateData \<Rightarrow> WorkspaceUpdateData option" where
  "WorkspaceUpdateData_member k j d =
     (if key_eq k ''item_id'' then set_str (\<lambda>s d. d\<lparr>wu_ItemID := s\<rparr>) j d
      else if key_eq k ''name'' then set_str (\<lambda>s d. d\<lparr>wu_Name := s\<rparr>) j d
      else if key_eq k ''content'' then set_str (\<lambda>s d. d\<lparr>wu_Content := s\<rparr>) j d
      else if key_eq k ''namespace'' then set_str (\<lambda>s d. d\<lparr>wu_Namespace := s\<rparr>) j d
      else if key_eq k ''description'' then set_str (\<lambda>s d. d\<lparr>wu_Description := s\<rparr>) j d
      else if key_eq k ''tags'' then set_strs (\<lambda>s d. d\<lparr>wu_Tags := s\<rparr>) j d
      else Some d)"

record DaemonAgent =
  da_Name :: string
  da_AgentID :: string

definition DaemonAgent_member :: "string \<Rightarrow> json \<Rightarrow> DaemonAgent \<Rightarrow> DaemonAgent option" where
  "DaemonAgent_member k j d =
     (if key_eq k ''name'' then set_str (\<lambda>s d. d\<lparr>da_Name := s\<rparr>) j d
      else if key_eq k ''agent_id'' then set_str (\<lambda>s d. d\<lparr>da_AgentID := s\<rparr>) j d
      else Some d)"

fun decode_agents :: "json list \<Rightarrow> DaemonAgent list option" where
  "decode_agents [] = Some []"
| "decode_agents (j # js) =
     (case unmarshal DaemonAgent_member (Some j) \<lparr>da_Name = [], da_AgentID = []\<rparr> of
        None \<Rightarrow> None
      | Some a \<Rightarrow> map_option (Cons a) (decode_agents js))"

definition DaemonRegisterData_member ::
  "string \<Rightarrow> json \<Rightarrow> DaemonAgent list \<Rightarrow> DaemonAgent list option" where
  "DaemonRegisterData_member k j d =
     (if key_eq k ''agents'' then
        (case j of JArr js \<Rightarrow> decode_agents js | JNull \<Rightarrow> Some [] | _ \<Rightarrow> None)
      else Some d)"

definition DaemonAgent_json :: "DaemonAgent \<Rightarrow> json" where
  "DaemonAgent_json a = str_obj [(''name'', da_Name a), (''agent_id'', da_AgentID a)]"

text \<open>Structs whose members are all strings decode into the list of those members.\<close>

fun set_nth_str :: "string list \<Rightarrow> string \<Rightarrow> json \<Rightarrow> string list \<Rightarrow> string list option" where
  "set_nth_str [] k j vs = Some vs"
| "set_nth_str (f # fs) k j [] = Some []"
| "set_nth_str (f # fs) k j (v # vs) =
     (if key_eq k f then set_str (\<lambda>s _. s # vs) j (v # vs)
      else map_option (Cons v) (set_nth_str fs k j vs))"

definition unmarshal_strs :: "string list \<Rightarrow> json option \<Rightarrow> string list option" where
  "unmarshal_strs fs data = unmarshal (set_nth_str fs) data (map (\<lambda>_. []) fs)"

lemma set_nth_str_length:
  "set_nth_str fs k j vs = Some ws \<Longrightarrow> length ws = length vs"
proof (induction fs k j vs arbitrary: ws rule: set_nth_str.induct)
  case (3 f fs k j v vs)
  then show ?case by (cases j) (auto split: if_splits)
qed auto

lemma fold_members_length:
  "fold_members (set_nth_str fs) kvs vs = Some ws \<Longrightarrow> length ws = length vs"
proof (induction kvs arbitrary: vs)
  case (Cons kv kvs)
  then show ?case
    by (cases kv) (auto split: option.splits dest: set_nth_str_length)
qed simp

lemma unmarshal_strs_length:
  "unmarshal_strs fs data = Some ws \<Longrightarrow> length ws = length fs"
proof -
  assume a: "unmarshal_strs fs data = Some ws"
  show ?thesis
  proof (cases data)
    case None
    then show ?thesis using a by (simp add: unmarshal_strs_def)
  next
    case (Some j)
    then show ?thesis using a
      by (cases j) (auto simp: unmarshal_strs_def dest: fold_members_length)
  qed
qed

end
