(* ===== verification/Conn.thy ===== *)
theory Conn
  imports Protocol "HOL-Library.Sublist"
begin

text \<open>
  websocket/conn.go: one WebSocket connection, its identity, its channel
  subscriptions, the bounded send channel and the write pump.
\<close>

section \<open>State\<close>

datatype frame = TextFrame envelope | CloseFrame string | PingFrame

text \<open>
  The socket keeps the frames written to it, oldest first; a connection built
  without a socket (as the tests do) has None.  The Go channel send is the list
  c_send; closing it is c_closed.
\<close>

record socket =
  wire :: "frame list"
  sock_closed :: bool

record conn =
  c_sock :: "socket option"
  c_id :: string
  c_name :: string
  c_isAgent :: bool
  c_authenticated :: bool
  c_channels :: "(string, bool) go_map"
  c_send :: "envelope list"
  c_closed :: bool
  c_cancelled :: bool

definition send_cap :: nat where
  "send_cap = 256"

definition MaxSubscriptions :: nat where
  "MaxSubscriptions = 200"

section \<open>Operations\<close>

definition NewConn :: "socket option \<Rightarrow> string \<Rightarrow> string \<Rightarrow> bool \<Rightarrow> conn" where
  "NewConn s i n a = \<lparr>c_sock = s, c_id = i, c_name = n, c_isAgent = a, c_authenticated = False,
     c_channels = [], c_send = [], c_closed = False, c_cancelled = False\<rparr>"

definition SetAuthenticated :: "bool \<Rightarrow> conn \<Rightarrow> conn" where
  "SetAuthenticated auth c = c\<lparr>c_authenticated := auth\<rparr>"

definition SetIdentity :: "string \<Rightarrow> string \<Rightarrow> bool \<Rightarrow> conn \<Rightarrow> conn" where
  "SetIdentity i n a c = c\<lparr>c_id := i, c_name := n, c_isAgent := a\<rparr>"

definition Subscribe :: "string \<Rightarrow> conn \<Rightarrow> bool \<times> conn" where
  "Subscribe ch c =
     (if MaxSubscriptions \<le> length (c_channels c) then (False, c)
      else (True, c\<lparr>c_channels := go_put ch True (c_channels c)\<rparr>))"

definition Unsubscribe :: "string \<Rightarrow> conn \<Rightarrow> conn" where
  "Unsubscribe ch c = c\<lparr>c_channels := go_del ch (c_channels c)\<rparr>"

definition IsSubscribed :: "string \<Rightarrow> conn \<Rightarrow> bool" where
  "IsSubscribed ch c = (case go_get (c_channels c) ch of Some b \<Rightarrow> b | None \<Rightarrow> False)"

definition Send :: "envelope \<Rightarrow> conn \<Rightarrow> conn" where
  "Send e c =
     (if c_closed c then c
      else if length (c_send c) < send_cap then c\<lparr>c_send := c_send c @ [e]\<rparr>
      else c)"

definition write_frame :: "frame \<Rightarrow> socket \<Rightarrow> socket" where
  "write_frame f s = (if sock_closed s then s else s\<lparr>wire := wire s @ [f]\<rparr>)"

definition CloseWithMessage :: "nat \<Rightarrow> string \<Rightarrow> conn \<Rightarrow> conn" where
  "CloseWithMessage messageType data c =
     (if c_closed c then c
      else c\<lparr>c_closed := True, c_cancelled := True,
             c_sock := map_option (\<lambda>s.
               (if 0 < messageType then write_frame (CloseFrame data) s else s)\<lparr>sock_closed := True\<rparr>)
               (c_sock c)\<rparr>)"

definition Close :: "conn \<Rightarrow> conn" where
  "Close c = CloseWithMessage 0 [] c"

text \<open>
  One turn of the WritePump loop.  The select takes the send channel or the
  ticker; io_err says that the write fails.  The result tells whether the pump
  goes on; leaving the loop closes the socket.
\<close>

datatype pump_event = PumpSend bool | PumpTick bool

definition pump_stop :: "conn \<Rightarrow> bool \<times> conn" where
  "pump_stop c = (False, c\<lparr>c_sock := map_option (\<lambda>s. s\<lparr>sock_closed := True\<rparr>) (c_sock c)\<rparr>)"

fun pump_write :: "frame \<Rightarrow> bool \<Rightarrow> conn \<Rightarrow> bool \<times> conn" where
  "pump_write f io_err c =
     (case c_sock c of
        None \<Rightarrow> (True, c)
      | Some s \<Rightarrow>
          if sock_closed s \<or> io_err then pump_stop c
          else (True, c\<lparr>c_sock := Some (write_frame f s)\<rparr>))"

fun WritePump :: "pump_event \<Rightarrow> conn \<Rightarrow> bool \<times> conn" where
  "WritePump (PumpSend io_err) c =
     (case c_send c of
        [] \<Rightarrow> if c_closed c then pump_stop c else (True, c)
      | e # es \<Rightarrow> pump_write (TextFrame e) io_err (c\<lparr>c_send := es\<rparr>))"
| "WritePump (PumpTick io_err) c = pump_write PingFrame io_err c"

section \<open>Facts\<close>

lemma Send_fields [simp]:
  "c_id (Send e c) = c_id c" "c_name (Send e c) = c_name c"
  "c_isAgent (Send e c) = c_isAgent c" "c_authenticated (Send e c) = c_authenticated c"
  "c_channels (Send e c) = c_channels c" "c_closed (Send e c) = c_closed c"
  "c_sock (Send e c) = c_sock c" "c_cancelled (Send e c) = c_cancelled c"
  by (auto simp: Send_def)

lemma CloseWithMessage_fields [simp]:
  "c_id (CloseWithMessage m d c) = c_id c" "c_name (CloseWithMessage m d c) = c_name c"
  "c_isAgent (CloseWithMessage m d c) = c_isAgent c"
  "c_authenticated (CloseWithMessage m d c) = c_authenticated c"
  "c_channels (CloseWithMessage m d c) = c_channels c"
  "c_send (CloseWithMessage m d c) = c_send c" "c_closed (CloseWithMessage m d c)"
  by (auto simp: CloseWithMessage_def)

lemma Close_fields [simp]:
  "c_id (Close c) = c_id c" "c_name (Close c) = c_name c" "c_isAgent (Close c) = c_isAgent c"
  "c_authenticated (Close c) = c_authenticated c" "c_channels (Close c) = c_channels c"
  "c_send (Close c) = c_send c" "c_closed (Close c)"
  by (auto simp: Close_def)

lemma SetIdentity_fields [simp]:
  "c_id (SetIdentity i n a c) = i" "c_name (SetIdentity i n a c) = n"
  "c_isAgent (SetIdentity i n a c) = a"
  "c_authenticated (SetIdentity i n a c) = c_authenticated c"
  "c_channels (SetIdentity i n a c) = c_channels c" "c_send (SetIdentity i n a c) = c_send c"
  "c_closed (SetIdentity i n a c) = c_closed c" "c_sock (SetIdentity i n a c) = c_sock c"
  by (auto simp: SetIdentity_def)

lemma SetAuthenticated_fields [simp]:
  "c_id (SetAuthenticated b c) = c_id c" "c_name (SetAuthenticated b c) = c_name c"
  "c_isAgent (SetAuthenticated b c) = c_isAgent c" "c_authenticated (SetAuthenticated b c) = b"
  "c_channels (SetAuthenticated b c) = c_channels c" "c_send (SetAuthenticated b c) = c_send c"
  "c_closed (SetAuthenticated b c) = c_closed c" "c_sock (SetAuthenticated b c) = c_sock c"
  by (auto simp: SetAuthenticated_def)

lemma Unsubscribe_fields [simp]:
  "c_id (Unsubscribe ch c) = c_id c" "c_name (Unsubscribe ch c) = c_name c"
  "c_isAgent (Unsubscribe ch c) = c_isAgent c"
  "c_authenticated (Unsubscribe ch c) = c_authenticated c"
  "c_send (Unsubscribe ch c) = c_send c" "c_closed (Unsubscribe ch c) = c_closed c"
  "c_sock (Unsubscribe ch c) = c_sock c"
  by (auto simp: Unsubscribe_def)

lemma Subscribe_fields [simp]:
  "c_id (snd (Subscribe ch c)) = c_id c" "c_name (snd (Subscribe ch c)) = c_name c"
  "c_isAgent (snd (Subscribe ch c)) = c_isAgent c"
  "c_authenticated (snd (Subscribe ch c)) = c_authenticated c"
  "c_send (snd (Subscribe ch c)) = c_send c" "c_closed (snd (Subscribe ch c)) = c_closed c"
  "c_sock (snd (Subscribe ch c)) = c_sock c"
  by (auto simp: Subscribe_def)

lemma IsSubscribed_Subscribe:
  "fst (Subscribe ch c) \<Longrightarrow> IsSubscribed ch' (snd (Subscribe ch c)) = (ch' = ch \<or> IsSubscribed ch' c)"
  by (auto simp: Subscribe_def IsSubscribed_def split: if_splits)

lemma IsSubscribed_Subscribe_fail:
  "\<not> fst (Subscribe ch c) \<Longrightarrow> snd (Subscribe ch c) = c"
  by (auto simp: Subscribe_def split: if_splits)

lemma IsSubscribed_Subscribe_mono:
  "IsSubscribed ch' c \<Longrightarrow> IsSubscribed ch' (snd (Subscribe ch c))"
  by (auto simp: Subscribe_def IsSubscribed_def split: if_splits)

lemma IsSubscribed_Unsubscribe [simp]:
  "IsSubscribed ch' (Unsubscribe ch c) = (ch' \<noteq> ch \<and> IsSubscribed ch' c)"
  by (auto simp: Unsubscribe_def IsSubscribed_def)

lemma IsSubscribed_frame [simp]:
  "IsSubscribed ch (Send e c) = IsSubscribed ch c"
  "IsSubscribed ch (Close c) = IsSubscribed ch c"
  "IsSubscribed ch (CloseWithMessage m d c) = IsSubscribed ch c"
  "IsSubscribed ch (SetIdentity i n a c) = IsSubscribed ch c"
  "IsSubscribed ch (SetAuthenticated b c) = IsSubscribed ch c"
  by (simp_all add: IsSubscribed_def)

lemma Close_idem [simp]: "Close (Close c) = Close c"
  by (simp add: Close_def CloseWithMessage_def)

section \<open>Invariant\<close>

text \<open>
  The subscription set is a map of at most 200 true entries, the queue holds
  at most 256 envelopes, and a closed connection has its context cancelled and
  its socket closed.
\<close>

definition conn_inv :: "conn \<Rightarrow> bool" where
  "conn_inv c \<longleftrightarrow>
     go_wf (c_channels c) \<and> length (c_channels c) \<le> MaxSubscriptions \<and>
     (\<forall>p\<in>set (c_channels c). snd p) \<and>
     length (c_send c) \<le> send_cap \<and>
     (c_closed c \<longrightarrow> c_cancelled c \<and> pred_option sock_closed (c_sock c))"

lemma conn_inv_NewConn [preserve]: "conn_inv (NewConn s i n a)"
  by (simp add: conn_inv_def NewConn_def)

lemma conn_inv_SetAuthenticated [preserve]: "conn_inv c \<Longrightarrow> conn_inv (SetAuthenticated b c)"
  by (simp add: conn_inv_def SetAuthenticated_def)

lemma conn_inv_SetIdentity [preserve]: "conn_inv c \<Longrightarrow> conn_inv (SetIdentity i n a c)"
  by (simp add: conn_inv_def SetIdentity_def)

lemma conn_inv_Subscribe [preserve]: "conn_inv c \<Longrightarrow> conn_inv (snd (Subscribe ch c))"
  by (auto simp: conn_inv_def Subscribe_def length_go_put set_go_put)

lemma conn_inv_Unsubscribe [preserve]: "conn_inv c \<Longrightarrow> conn_inv (Unsubscribe ch c)"
  using length_go_del_le [of ch "c_channels c"]
  by (auto simp: conn_inv_def Unsubscribe_def set_go_del)

lemma conn_inv_Send [preserve]: "conn_inv c \<Longrightarrow> conn_inv (Send e c)"
  by (auto simp: conn_inv_def Send_def)

lemma conn_inv_CloseWithMessage [preserve]: "conn_inv c \<Longrightarrow> conn_inv (CloseWithMessage m d c)"
  by (cases "c_sock c") (auto simp: conn_inv_def CloseWithMessage_def)

lemma conn_inv_Close [preserve]: "conn_inv c \<Longrightarrow> conn_inv (Close c)"
  by (simp add: Close_def conn_inv_CloseWithMessage)

lemma conn_inv_pump_stop: "conn_inv c \<Longrightarrow> conn_inv (snd (pump_stop c))"
  by (cases "c_sock c") (auto simp: conn_inv_def pump_stop_def)

lemma conn_inv_pump_write: "conn_inv c \<Longrightarrow> conn_inv (snd (pump_write f b c))"
  using conn_inv_pump_stop [of c]
  by (auto simp: conn_inv_def write_frame_def split: option.splits)

lemma conn_inv_WritePump [preserve]: "conn_inv c \<Longrightarrow> conn_inv (snd (WritePump p c))"
proof (cases p)
  case (PumpSend b)
  assume inv: "conn_inv c"
  show ?thesis
  proof (cases "c_send c")
    case Nil
    then show ?thesis using inv PumpSend conn_inv_pump_stop by auto
  next
    case (Cons e es)
    then have "conn_inv (c\<lparr>c_send := es\<rparr>)" using inv by (simp add: conn_inv_def)
    then show ?thesis using Cons PumpSend conn_inv_pump_write [of "c\<lparr>c_send := es\<rparr>"] by simp
  qed
next
  case (PumpTick b)
  assume "conn_inv c"
  then show ?thesis using PumpTick conn_inv_pump_write by simp
qed

section \<open>The send queue as a bounded channel\<close>

text \<open>
  What the connection promises its senders, the contract of a buffered Go
  channel with a select/default send: an offer appends while there is room and is
  dropped otherwise, a receive takes the oldest entry.
\<close>

locale bounded_chan =
  fixes buf :: "'s \<Rightarrow> 'a list"
    and shut :: "'s \<Rightarrow> bool"
    and cap :: nat
    and offer :: "'a \<Rightarrow> 's \<Rightarrow> 's"
  assumes buf_offer: "buf (offer x s) =
      (if shut s \<or> cap \<le> length (buf s) then buf s else buf s @ [x])"
    and shut_offer: "shut (offer x s) = shut s"
begin

lemma shut_offers: "shut (fold offer xs s) = shut s"
  by (induction xs arbitrary: s) (auto simp: shut_offer)

lemma buf_offers_shut: "shut s \<Longrightarrow> buf (fold offer xs s) = buf s"
  by (induction xs arbitrary: s) (auto simp: shut_offer buf_offer)

lemma buf_offers:
  "\<not> shut s \<Longrightarrow> buf (fold offer xs s) = buf s @ take (cap - length (buf s)) xs"
proof (induction xs arbitrary: s)
  case (Cons x xs)
  have "\<not> shut (offer x s)" using Cons.prems by (simp add: shut_offer)
  note IH = Cons.IH [OF this]
  show ?case
  proof (cases "cap \<le> length (buf s)")
    case True
    then show ?thesis using IH Cons.prems by (simp add: buf_offer)
  next
    case False
    then have "cap - length (buf s) = Suc (cap - length (buf s @ [x]))" by simp
    then show ?thesis using IH Cons.prems False by (simp add: buf_offer)
  qed
qed simp

lemma offers_bounded: "length (buf s) \<le> cap \<Longrightarrow> length (buf (fold offer xs s)) \<le> cap"
  by (cases "shut s") (auto simp: buf_offers buf_offers_shut)

lemma offers_all_kept:
  "\<not> shut s \<Longrightarrow> length (buf s) + length xs \<le> cap \<Longrightarrow> buf (fold offer xs s) = buf s @ xs"
  by (simp add: buf_offers)

end

interpretation send_chan: bounded_chan c_send c_closed send_cap Send
  by unfold_locales (auto simp: Send_def)

section \<open>Runs of a connection\<close>

text \<open>
  What can happen to a connection: senders enqueue, its pump takes a turn (until
  it has stopped), somebody closes it, it joins and leaves channels.
\<close>

datatype conn_op =
    OpSend envelope
  | OpPump pump_event
  | OpClose nat string
  | OpSubscribe string
  | OpUnsubscribe string

fun conn_op_step :: "conn_op \<Rightarrow> bool \<times> conn \<Rightarrow> bool \<times> conn" where
  "conn_op_step (OpSend e) (run, c) = (run, Send e c)"
| "conn_op_step (OpPump p) (run, c) = (if run then WritePump p c else (run, c))"
| "conn_op_step (OpClose m d) (run, c) = (run, CloseWithMessage m d c)"
| "conn_op_step (OpSubscribe ch) (run, c) = (run, snd (Subscribe ch c))"
| "conn_op_step (OpUnsubscribe ch) (run, c) = (run, Unsubscribe ch c)"

definition conn_run :: "conn_op list \<Rightarrow> bool \<times> conn \<Rightarrow> bool \<times> conn" where
  "conn_run ops s = fold conn_op_step ops s"

fun sent_of :: "conn_op \<Rightarrow> envelope list" where
  "sent_of (OpSend e) = [e]"
| "sent_of _ = []"

definition sent :: "conn_op list \<Rightarrow> envelope list" where
  "sent ops = concat (map sent_of ops)"

fun text_of :: "frame \<Rightarrow> envelope list" where
  "text_of (TextFrame e) = [e]"
| "text_of _ = []"

definition wire_texts :: "conn \<Rightarrow> envelope list" where
  "wire_texts c = (case c_sock c of None \<Rightarrow> [] | Some s \<Rightarrow> concat (map text_of (wire s)))"

lemma wire_texts_simps [simp]:
  "wire_texts (c\<lparr>c_send := q\<rparr>) = wire_texts c"
  "wire_texts (Send e c) = wire_texts c"
  "wire_texts (Unsubscribe ch c) = wire_texts c"
  "wire_texts (snd (Subscribe ch c)) = wire_texts c"
  "wire_texts (snd (pump_stop c)) = wire_texts c"
  by (auto simp: wire_texts_def pump_stop_def split: option.splits)

lemma wire_texts_close [simp]: "wire_texts (CloseWithMessage m d c) = wire_texts c"
  by (auto simp: wire_texts_def CloseWithMessage_def write_frame_def split: option.splits)

lemma c_send_pump_stop [simp]: "c_send (snd (pump_stop c)) = c_send c"
  by (simp add: pump_stop_def)

lemma c_send_pump_write [simp]: "c_send (snd (pump_write f b c)) = c_send c"
  by (auto split: option.splits)

lemma wire_texts_pump_write:
  "wire_texts (snd (pump_write f b c)) \<in> {wire_texts c, wire_texts c @ text_of f}"
  by (auto simp: wire_texts_def write_frame_def pump_stop_def split: option.splits)

text \<open>Delivered followed by queued: the part of the sent envelopes still in flight.\<close>

definition in_flight :: "conn \<Rightarrow> envelope list" where
  "in_flight c = wire_texts c @ c_send c"

lemma in_flight_step:
  "subseq (in_flight (snd (conn_op_step op (run, c)))) (in_flight c @ sent_of op)"
proof (cases op)
  case (OpSend e)
  then show ?thesis by (auto simp: in_flight_def Send_def)
next
  case (OpPump p)
  show ?thesis
  proof (cases p)
    case (PumpSend b)
    show ?thesis
    proof (cases "c_send c")
      case Nil
      then show ?thesis using OpPump PumpSend by (auto simp: in_flight_def)
    next
      case (Cons e es)
      have "wire_texts (snd (pump_write (TextFrame e) b (c\<lparr>c_send := es\<rparr>)))
          \<in> {wire_texts c, wire_texts c @ [e]}"
        using wire_texts_pump_write [of "TextFrame e" b "c\<lparr>c_send := es\<rparr>"] by simp
      moreover have "subseq (wire_texts c @ es) (wire_texts c @ e # es)"
        by (rule list_emb_append_mono) auto
      ultimately show ?thesis using OpPump PumpSend Cons
        by (auto simp: in_flight_def simp del: pump_write.simps)
    qed
  next
    case (PumpTick b)
    have "wire_texts (snd (pump_write PingFrame b c)) = wire_texts c"
      using wire_texts_pump_write [of PingFrame b c] by simp
    then show ?thesis using OpPump PumpTick
      by (auto simp: in_flight_def simp del: pump_write.simps)
  qed
qed (auto simp: in_flight_def)

lemma in_flight_run:
  "subseq (in_flight (snd (conn_run ops s))) (in_flight (snd s) @ sent ops)"
proof (induction ops arbitrary: s)
  case (Cons op ops)
  obtain run c where s: "s = (run, c)" by force
  have "subseq (in_flight (snd (conn_run ops (conn_op_step op s))))
      (in_flight (snd (conn_op_step op s)) @ sent ops)"
    by (rule Cons.IH)
  also have "subseq \<dots> ((in_flight c @ sent_of op) @ sent ops)"
    unfolding s by (rule list_emb_append_mono [OF in_flight_step subseq_order.order_refl])
  finally show ?case by (simp add: conn_run_def sent_def s)
qed (simp add: conn_run_def sent_def)

lemma conn_inv_run: "conn_inv (snd s) \<Longrightarrow> conn_inv (snd (conn_run ops s))"
proof (induction ops arbitrary: s)
  case (Cons op ops)
  obtain run c where s: "s = (run, c)" by force
  have "conn_inv (snd (conn_op_step op (run, c)))"
    using Cons.prems s by (cases op) (auto intro: preserve)
  then show ?case using Cons.IH s by (simp add: conn_run_def)
qed (simp add: conn_run_def)

section \<open>Properties\<close>

text \<open>
  C14: whatever happens to a connection, in any order (sends, pump turns with or
  without write errors, closes, subscriptions), the envelopes written to its
  socket are a subsequence, in the original order, of the envelopes sent to it:
  nothing is reordered, duplicated or invented; and the queue never exceeds 256
  entries, the subscriptions never 200.
\<close>
theorem conn_delivers_in_order:
  "subseq (wire_texts (snd (conn_run ops (True, NewConn (Some \<lparr>wire = [], sock_closed = False\<rparr>) i n a))))
          (sent ops) \<and>
   conn_inv (snd (conn_run ops (True, NewConn (Some \<lparr>wire = [], sock_closed = False\<rparr>) i n a)))"
proof -
  let ?c = "NewConn (Some \<lparr>wire = [], sock_closed = False\<rparr>) i n a"
  let ?r = "snd (conn_run ops (True, ?c))"
  have "subseq (in_flight ?r) (in_flight ?c @ sent ops)"
    using in_flight_run [of ops "(True, ?c)"] by simp
  moreover have "in_flight ?c = []"
    by (simp add: in_flight_def NewConn_def wire_texts_def)
  moreover have "subseq (wire_texts ?r) (in_flight ?r)"
    by (simp add: in_flight_def list_emb_append2 list_emb_prefix)
  ultimately show ?thesis
    using conn_inv_run [of "(True, ?c)" ops] conn_inv_NewConn
    by (auto intro: subseq_order.order_trans)
qed

text \<open>
  A burst of sends to an open connection keeps exactly the first envelopes
  that fit in the 256-entry buffer, after those already queued, and drops the
  rest; a closed connection takes none.
\<close>
theorem Send_burst:
  "c_send (fold Send es c) =
     (if c_closed c then c_send c else c_send c @ take (256 - length (c_send c)) es)"
  using send_chan.buf_offers [of c es] send_chan.buf_offers_shut [of c es]
  by (simp add: send_cap_def)

end
