(* ===== verification/Hub.thy ===== *)
theory Hub
  imports Conn
begin

text \<open>
  websocket/hub.go: the registry of live connections.  Connections are
  references into a heap, since the code shares *Conn pointers between the
  hub's maps and the goroutines; the hub's maps are association lists with
  distinct keys.
\<close>

section \<open>State\<close>

record DaemonProxy =
  dp_ID :: string
  dp_Conn :: nat
  dp_Agents :: "(string, string) go_map"

record net =
  heap :: "nat \<Rightarrow> conn"
  next_ref :: nat
  connections :: "(string, nat) go_map"
  agents :: "(string, nat) go_map"
  agentNames :: "(string, nat) go_map"
  channels :: "(string, (string, nat) go_map) go_map"
  presence :: "(string, string) go_map"
  allowedOrigin :: string
  daemons :: "(string, DaemonProxy) go_map"
  daemonAgents :: "(string, nat) go_map"

definition upd_conn :: "(conn \<Rightarrow> conn) \<Rightarrow> nat \<Rightarrow> 'a net_scheme \<Rightarrow> 'a net_scheme" where
  "upd_conn f r n = n\<lparr>heap := (heap n)(r := f (heap n r))\<rparr>"

definition NewHub :: net where
  "NewHub = \<lparr>heap = (\<lambda>_. NewConn None [] [] False), next_ref = 0, connections = [], agents = [],
     agentNames = [], channels = [], presence = [], allowedOrigin = [], daemons = [],
     daemonAgents = []\<rparr>"

section \<open>Operations\<close>

definition send_ref :: "envelope \<Rightarrow> nat \<Rightarrow> 'a net_scheme \<Rightarrow> 'a net_scheme" where
  "send_ref e = upd_conn (Send e)"

definition Add :: "nat \<Rightarrow> 'a net_scheme \<Rightarrow> 'a net_scheme" where
  "Add r n =
     (let c = heap n r; i = c_id c; old = go_get (connections n) i;
          n1 = n\<lparr>connections := go_put i r (connections n),
                 agents := if c_isAgent c then go_put i r (agents n) else agents n,
                 agentNames := if c_isAgent c then go_put (c_name c) r (agentNames n)
                               else agentNames n,
                 presence := go_put i ''online'' (presence n)\<rparr>
      in case old of None \<Rightarrow> n1 | Some p \<Rightarrow> upd_conn Close p n1)"

definition drop_member ::
  "string \<Rightarrow> (string, (string, nat) go_map) go_map \<Rightarrow> (string, (string, nat) go_map) go_map" where
  "drop_member i chs = filter (\<lambda>(ch, cm). cm \<noteq> []) (map (\<lambda>(ch, cm). (ch, go_del i cm)) chs)"

definition Remove :: "nat \<Rightarrow> 'a net_scheme \<Rightarrow> 'a net_scheme" where
  "Remove r n =
     (let c = heap n r; i = c_id c in
      n\<lparr>connections := go_del i (connections n),
        agents := if c_isAgent c then go_del i (agents n) else agents n,
        agentNames := if c_isAgent c then go_del (c_name c) (agentNames n) else agentNames n,
        channels := drop_member i (channels n),
        presence := go_put i ''offline'' (presence n)\<rparr>)"

definition GetPresence :: "string \<Rightarrow> 'a net_scheme \<Rightarrow> string" where
  "GetPresence m n = (case go_get (presence n) m of Some p \<Rightarrow> p | None \<Rightarrow> ''offline'')"

definition GetConn :: "string \<Rightarrow> 'a net_scheme \<Rightarrow> nat option" where
  "GetConn m n = go_get (connections n) m"

definition GetAgent :: "string \<Rightarrow> 'a net_scheme \<Rightarrow> nat option" where
  "GetAgent a n = go_get (agents n) a"

definition GetAgentByName :: "string \<Rightarrow> 'a net_scheme \<Rightarrow> nat option" where
  "GetAgentByName nm n = go_get (agentNames n) nm"

definition SubscribeChannel :: "string \<Rightarrow> nat \<Rightarrow> 'a net_scheme \<Rightarrow> 'a net_scheme" where
  "SubscribeChannel ch r n =
     (let cm = (case go_get (channels n) ch of None \<Rightarrow> [] | Some cm \<Rightarrow> cm) in
      n\<lparr>channels := go_put ch (go_put (c_id (heap n r)) r cm) (channels n)\<rparr>)"

definition UnsubscribeChannel :: "string \<Rightarrow> string \<Rightarrow> 'a net_scheme \<Rightarrow> 'a net_scheme" where
  "UnsubscribeChannel ch m n =
     (case go_get (channels n) ch of
        None \<Rightarrow> n
      | Some cm \<Rightarrow>
          let cm' = go_del m cm in
          if cm' = [] then n\<lparr>channels := go_del ch (channels n)\<rparr>
          else n\<lparr>channels := go_put ch cm' (channels n)\<rparr>)"

definition BroadcastToChannel :: "string \<Rightarrow> envelope \<Rightarrow> 'a net_scheme \<Rightarrow> 'a net_scheme" where
  "BroadcastToChannel ch e n =
     (let cm = (case go_get (channels n) ch of None \<Rightarrow> [] | Some cm \<Rightarrow> cm) in
      fold (send_ref e) (map snd cm) n)"

definition BroadcastToAll :: "envelope \<Rightarrow> 'a net_scheme \<Rightarrow> 'a net_scheme" where
  "BroadcastToAll e n = fold (send_ref e) (map snd (connections n)) n"

definition BroadcastToAgents :: "envelope \<Rightarrow> 'a net_scheme \<Rightarrow> 'a net_scheme" where
  "BroadcastToAgents e n = fold (send_ref e) (map snd (agents n)) n"

definition AgentCount :: "'a net_scheme \<Rightarrow> nat" where
  "AgentCount n = length (agents n)"

definition RegisterDaemon ::
  "string \<Rightarrow> nat \<Rightarrow> (string, string) go_map \<Rightarrow> 'a net_scheme \<Rightarrow> 'a net_scheme" where
  "RegisterDaemon d r ags n =
     n\<lparr>daemons := go_put d \<lparr>dp_ID = d, dp_Conn = r, dp_Agents = ags\<rparr> (daemons n),
       daemonAgents := fold (\<lambda>a. go_put a r) (map fst ags) (daemonAgents n),
       agentNames := fold (\<lambda>a. go_put a r) (map fst ags) (agentNames n)\<rparr>"

definition UnregisterDaemon :: "string \<Rightarrow> 'a net_scheme \<Rightarrow> 'a net_scheme" where
  "UnregisterDaemon d n =
     (case go_get (daemons n) d of
        None \<Rightarrow> n
      | Some p \<Rightarrow>
          n\<lparr>daemonAgents := fold go_del (map fst (dp_Agents p)) (daemonAgents n),
            agentNames := fold go_del (map fst (dp_Agents p)) (agentNames n),
            daemons := go_del d (daemons n)\<rparr>)"

definition DaemonCount :: "'a net_scheme \<Rightarrow> nat" where
  "DaemonCount n = length (daemons n)"

definition wake_target :: "string \<Rightarrow> 'a net_scheme \<Rightarrow> nat option" where
  "wake_target nm n =
     (case go_get (daemonAgents n) nm of Some r \<Rightarrow> Some r | None \<Rightarrow> go_get (agentNames n) nm)"

definition Total :: "'a net_scheme \<Rightarrow> nat" where
  "Total n = length (connections n)"

definition shutdown_frame :: string where
  "shutdown_frame = ''{'' @ [CHR 0x22] @ ''type'' @ [CHR 0x22] @ '':'' @ [CHR 0x22] @ ''shutdown''
     @ [CHR 0x22] @ ''}''"

definition hub_Close :: "'a net_scheme \<Rightarrow> 'a net_scheme" where
  "hub_Close n =
     fold (upd_conn (CloseWithMessage 8 shutdown_frame)) (map snd (connections n))
       (n\<lparr>connections := [], agents := [], agentNames := [], channels := [], presence := []\<rparr>)"

definition SetAllowedOrigin :: "string \<Rightarrow> 'a net_scheme \<Rightarrow> 'a net_scheme" where
  "SetAllowedOrigin origin n = n\<lparr>allowedOrigin := origin\<rparr>"

text \<open>
  The CheckOrigin function of the upgrader.  Header.Get returns the first value of
  a header or the empty string; net/http moves the Host header of an incoming
  request into Request.Host and deletes it from the header map, as its
  documentation of Request.Header says.
\<close>

definition header_get :: "(string \<times> string) list \<Rightarrow> string \<Rightarrow> string" where
  "header_get hdr k = (case map_of hdr k of Some v \<Rightarrow> v | None \<Rightarrow> '''')"

definition incoming_header :: "(string \<times> string) list \<Rightarrow> (string \<times> string) list" where
  "incoming_header raw = filter (\<lambda>(k, v). k \<noteq> ''Host'') raw"

definition CheckOrigin :: "string \<Rightarrow> (string \<times> string) list \<Rightarrow> bool" where
  "CheckOrigin allowed hdr =
     (let origin = header_get hdr ''Origin'' in
      if origin = '''' then True
      else if allowed \<noteq> '''' \<and> allowed \<noteq> ''*'' then origin = allowed
      else let host = header_get hdr ''Host'' in
        if host = '''' then False
        else origin = ''http://'' @ host \<or> origin = ''https://'' @ host)"

text \<open>
  The two ends of a connection's life: handleWebSocket allocates it, and
  ReadPump's deferred function unregisters and closes it when reading fails.
\<close>

definition accept_conn :: "'a net_scheme \<Rightarrow> nat \<times> 'a net_scheme" where
  "accept_conn n =
     (next_ref n,
      n\<lparr>heap := (heap n)(next_ref n := NewConn (Some \<lparr>wire = [], sock_closed = False\<rparr>) [] [] False),
        next_ref := Suc (next_ref n)\<rparr>)"

definition ReadPump_exit :: "nat \<Rightarrow> 'a net_scheme \<Rightarrow> 'a net_scheme" where
  "ReadPump_exit r n = upd_conn Close r (Remove r n)"

section \<open>Lookup facts\<close>

text \<open>Who the hub thinks is subscribed to a channel.\<close>

definition subscriber :: "'a net_scheme \<Rightarrow> string \<Rightarrow> string \<Rightarrow> nat option" where
  "subscriber n ch m = (case go_get (channels n) ch of None \<Rightarrow> None | Some cm \<Rightarrow> go_get cm m)"

lemma upd_conn_fields [simp]:
  "next_ref (upd_conn f r n) = next_ref n"
  "connections (upd_conn f r n) = connections n" "agents (upd_conn f r n) = agents n"
  "agentNames (upd_conn f r n) = agentNames n" "channels (upd_conn f r n) = channels n"
  "presence (upd_conn f r n) = presence n" "daemons (upd_conn f r n) = daemons n"
  "daemonAgents (upd_conn f r n) = daemonAgents n"
  "allowedOrigin (upd_conn f r n) = allowedOrigin n"
  "net.more (upd_conn f r n) = net.more n"
  "heap (upd_conn f r n) = (heap n)(r := f (heap n r))"
  by (auto simp: upd_conn_def)

lemma send_ref_fields [simp]:
  "next_ref (send_ref e r n) = next_ref n"
  "connections (send_ref e r n) = connections n" "agents (send_ref e r n) = agents n"
  "agentNames (send_ref e r n) = agentNames n" "channels (send_ref e r n) = channels n"
  "presence (send_ref e r n) = presence n" "daemons (send_ref e r n) = daemons n"
  "daemonAgents (send_ref e r n) = daemonAgents n"
  "allowedOrigin (send_ref e r n) = allowedOrigin n"
  "net.more (send_ref e r n) = net.more n"
  "heap (send_ref e r n) = (heap n)(r := Send e (heap n r))"
  by (auto simp: send_ref_def)

lemma fold_upd_conn_fields [simp]:
  "next_ref (fold (upd_conn f) rs n) = next_ref n"
  "connections (fold (upd_conn f) rs n) = connections n"
  "agents (fold (upd_conn f) rs n) = agents n"
  "agentNames (fold (upd_conn f) rs n) = agentNames n"
  "channels (fold (upd_conn f) rs n) = channels n"
  "presence (fold (upd_conn f) rs n) = presence n"
  "daemons (fold (upd_conn f) rs n) = daemons n"
  "daemonAgents (fold (upd_conn f) rs n) = daemonAgents n"
  "allowedOrigin (fold (upd_conn f) rs n) = allowedOrigin n"
  "net.more (fold (upd_conn f) rs n) = net.more n"
  by (induction rs arbitrary: n) auto

lemma heap_fold_upd_conn:
  "heap (fold (upd_conn f) rs n) r = (f ^^ count_list rs r) (heap n r)"
  by (induction rs arbitrary: n) (auto simp: funpow_swap1)

lemma heap_fold_upd_conn_distinct:
  "distinct rs \<Longrightarrow> heap (fold (upd_conn f) rs n) r = (if r \<in> set rs then f (heap n r) else heap n r)"
  by (induction rs arbitrary: n) auto

lemma fold_upd_conn_eqI:
  assumes "\<And>r. count_list rs r = count_list rs' r"
  shows "fold (upd_conn f) rs n = fold (upd_conn f) rs' n"
  by (rule net.equality) (auto simp: heap_fold_upd_conn assms)

lemma broadcast_fields [simp]:
  "connections (BroadcastToChannel ch e n) = connections n"
  "agents (BroadcastToChannel ch e n) = agents n"
  "agentNames (BroadcastToChannel ch e n) = agentNames n"
  "channels (BroadcastToChannel ch e n) = channels n"
  "presence (BroadcastToChannel ch e n) = presence n"
  "daemons (BroadcastToChannel ch e n) = daemons n"
  "daemonAgents (BroadcastToChannel ch e n) = daemonAgents n"
  "next_ref (BroadcastToChannel ch e n) = next_ref n"
  "net.more (BroadcastToChannel ch e n) = net.more n"
  "connections (BroadcastToAll e n) = connections n"
  "agents (BroadcastToAll e n) = agents n"
  "agentNames (BroadcastToAll e n) = agentNames n"
  "channels (BroadcastToAll e n) = channels n"
  "presence (BroadcastToAll e n) = presence n"
  "daemons (BroadcastToAll e n) = daemons n"
  "daemonAgents (BroadcastToAll e n) = daemonAgents n"
  "next_ref (BroadcastToAll e n) = next_ref n"
  "net.more (BroadcastToAll e n) = net.more n"
  "connections (BroadcastToAgents e n) = connections n"
  "agents (BroadcastToAgents e n) = agents n"
  "agentNames (BroadcastToAgents e n) = agentNames n"
  "channels (BroadcastToAgents e n) = channels n"
  "presence (BroadcastToAgents e n) = presence n"
  "daemons (BroadcastToAgents e n) = daemons n"
  "daemonAgents (BroadcastToAgents e n) = daemonAgents n"
  "next_ref (BroadcastToAgents e n) = next_ref n"
  "net.more (BroadcastToAgents e n) = net.more n"
  by (auto simp: BroadcastToChannel_def BroadcastToAll_def BroadcastToAgents_def send_ref_def)

lemma drop_member_wf: "go_wf chs \<Longrightarrow> go_wf (drop_member i chs)"
  by (induction chs) (force simp: drop_member_def)+

lemma go_get_drop_member_wf:
  "go_wf chs \<Longrightarrow> go_get (drop_member i chs) ch =
     (case go_get chs ch of None \<Rightarrow> None
      | Some cm \<Rightarrow> if go_del i cm = [] then None else Some (go_del i cm))"
proof (induction chs)
  case (Cons p chs)
  obtain k cm where p: "p = (k, cm)" by force
  have "k \<notin> fst ` set chs" using Cons.prems p by simp
  then have "go_get (drop_member i chs) k = None"
    by (auto simp: drop_member_def map_of_eq_None_iff image_iff)
  then show ?case using Cons p by (auto simp: drop_member_def)
qed (simp add: drop_member_def)

lemma subscriber_Remove:
  "go_wf (channels n) \<Longrightarrow>
   subscriber (Remove r n) ch m = (if m = c_id (heap n r) then None else subscriber n ch m)"
  by (auto simp: subscriber_def Remove_def Let_def go_get_drop_member_wf go_del_empty
      split: option.splits)

lemma subscriber_SubscribeChannel:
  "subscriber (SubscribeChannel ch r n) ch' m =
     (if ch' = ch \<and> m = c_id (heap n r) then Some r else subscriber n ch' m)"
  by (auto simp: subscriber_def SubscribeChannel_def Let_def split: option.splits)

lemma subscriber_UnsubscribeChannel:
  "subscriber (UnsubscribeChannel ch m n) ch' m' =
     (if ch' = ch \<and> m' = m then None else subscriber n ch' m')"
  by (auto simp: subscriber_def UnsubscribeChannel_def Let_def go_del_empty split: option.splits)

lemma subscriber_frame [simp]:
  "subscriber (upd_conn f r n) = subscriber n"
  "subscriber (fold (upd_conn f) rs n) = subscriber n"
  "subscriber (send_ref e r n) = subscriber n"
  "subscriber (BroadcastToChannel ch e n) = subscriber n"
  "subscriber (BroadcastToAll e n) = subscriber n"
  "subscriber (BroadcastToAgents e n) = subscriber n"
  by (auto simp: subscriber_def fun_eq_iff)

end
