(* ===== verification/Hub_Inv.thy ===== *)
theory Hub_Inv
  imports Hub "HOL-Library.Multiset"
begin

text \<open>
  The hub as a state machine: every operation the server performs on the hub and
  its connections is a step, the hubs that can arise are the reachable ones, and
  the invariants hold in all of them.
\<close>

section \<open>Steps\<close>

text \<open>A join as the handlers do it: first the connection, then the hub.\<close>

definition join :: "string \<Rightarrow> nat \<Rightarrow> 'a net_scheme \<Rightarrow> bool \<times> 'a net_scheme" where
  "join ch r n =
     (let (ok, c) = Subscribe ch (heap n r); n1 = n\<lparr>heap := (heap n)(r := c)\<rparr> in
      if ok then (True, SubscribeChannel ch r n1) else (False, n1))"

definition leave :: "string \<Rightarrow> nat \<Rightarrow> 'a net_scheme \<Rightarrow> 'a net_scheme" where
  "leave ch r n =
     (let n1 = upd_conn (Unsubscribe ch) r n in UnsubscribeChannel ch (c_id (heap n1 r)) n1)"

text \<open>
  Removing a member from a channel over HTTP (handlers_channel.go): the member's
  connection, if there is one, gives up the subscription, then the hub forgets it.
\<close>

definition kick :: "string \<Rightarrow> string \<Rightarrow> 'a net_scheme \<Rightarrow> 'a net_scheme" where
  "kick ch m n =
     UnsubscribeChannel ch m (case GetConn m n of None \<Rightarrow> n | Some r \<Rightarrow> upd_conn (Unsubscribe ch) r n)"

definition login :: "string \<Rightarrow> string \<Rightarrow> bool \<Rightarrow> nat \<Rightarrow> 'a net_scheme \<Rightarrow> 'a net_scheme" where
  "login i nm a r n = Add r (upd_conn (\<lambda>c. SetAuthenticated True (SetIdentity i nm a c)) r n)"

text \<open>
  The steps, for clients that log in at most once per connection; agent_id tells
  which member ids belong to agents (a member's type never changes).
\<close>

inductive hub_step :: "(string \<Rightarrow> bool) \<Rightarrow> net \<Rightarrow> net \<Rightarrow> bool" for agent_id where
  step_accept: "hub_step agent_id n (snd (accept_conn n))"
| step_login: "r < next_ref n \<Longrightarrow> \<not> c_authenticated (heap n r) \<Longrightarrow> \<not> c_closed (heap n r) \<Longrightarrow>
    hub_step agent_id n (login i nm (agent_id i) r n)"
| step_timeout: "r < next_ref n \<Longrightarrow> \<not> c_authenticated (heap n r) \<Longrightarrow>
    hub_step agent_id n (upd_conn Close r n)"
| step_exit: "r < next_ref n \<Longrightarrow> c_authenticated (heap n r) \<Longrightarrow>
    hub_step agent_id n (ReadPump_exit r n)"
| step_join: "r < next_ref n \<Longrightarrow> c_authenticated (heap n r) \<Longrightarrow>
    hub_step agent_id n (snd (join ch r n))"
| step_leave: "r < next_ref n \<Longrightarrow> c_authenticated (heap n r) \<Longrightarrow>
    hub_step agent_id n (leave ch r n)"
| step_kick: "hub_step agent_id n (kick ch m n)"
| step_send: "hub_step agent_id n (send_ref e r n)"
| step_pump: "hub_step agent_id n (upd_conn (\<lambda>c. snd (WritePump p c)) r n)"
| step_broadcast: "hub_step agent_id n (BroadcastToChannel ch e n)"
| step_broadcast_all: "hub_step agent_id n (BroadcastToAll e n)"
| step_broadcast_agents: "hub_step agent_id n (BroadcastToAgents e n)"
| step_presence: "hub_step agent_id n (n\<lparr>presence := go_put m st (presence n)\<rparr>)"
| step_register: "r < next_ref n \<Longrightarrow> hub_step agent_id n (RegisterDaemon d r ags n)"
| step_unregister: "hub_step agent_id n (UnregisterDaemon d n)"
| step_shutdown: "hub_step agent_id n (hub_Close n)"

inductive hub_reach :: "(string \<Rightarrow> bool) \<Rightarrow> net \<Rightarrow> bool" for agent_id where
  reach_new: "hub_reach agent_id NewHub"
| reach_step: "hub_reach agent_id n \<Longrightarrow> hub_step agent_id n n' \<Longrightarrow> hub_reach agent_id n'"

inductive_cases hub_stepE: "hub_step agent_id n n'"

section \<open>Structural invariant\<close>

text \<open>
  The maps have distinct keys, no channel has an empty subscriber map, every
  registered connection has a presence entry.
\<close>

definition hub_wf :: "'a net_scheme \<Rightarrow> bool" where
  "hub_wf n \<longleftrightarrow>
     go_wf (connections n) \<and> go_wf (agents n) \<and> go_wf (agentNames n) \<and>
     go_wf (channels n) \<and> (\<forall>(ch, cm)\<in>set (channels n). go_wf cm \<and> cm \<noteq> []) \<and>
     go_wf (presence n) \<and> go_wf (daemons n) \<and> go_wf (daemonAgents n) \<and>
     fst ` set (connections n) \<subseteq> fst ` set (presence n)"

lemma go_put_nonempty [simp]: "go_put k v m \<noteq> []"
  by (cases m) auto

lemma hub_wf_NewHub [preserve]: "hub_wf NewHub"
  by (simp add: hub_wf_def NewHub_def)

lemma hub_wf_upd_conn [preserve, simp]: "hub_wf (upd_conn f r n) = hub_wf n"
  by (simp add: hub_wf_def)

lemma hub_wf_send_ref [preserve, simp]: "hub_wf (send_ref e r n) = hub_wf n"
  by (simp add: send_ref_def)

lemma hub_wf_fold_upd_conn [simp]: "hub_wf (fold (upd_conn f) rs n) = hub_wf n"
  by (simp add: hub_wf_def)

lemma hub_wf_heap [simp]: "hub_wf (n\<lparr>heap := h\<rparr>) = hub_wf n"
  by (simp add: hub_wf_def)

lemma hub_wf_broadcast [preserve, simp]:
  "hub_wf (BroadcastToChannel ch e n) = hub_wf n"
  "hub_wf (BroadcastToAll e n) = hub_wf n"
  "hub_wf (BroadcastToAgents e n) = hub_wf n"
  by (simp_all add: hub_wf_def)

lemma hub_wf_Add [preserve]: "hub_wf n \<Longrightarrow> hub_wf (Add r n)"
  by (auto simp: hub_wf_def Add_def Let_def go_keys_put split: option.splits)

lemma drop_member_entries:
  "(ch, cm) \<in> set (drop_member i chs) \<longleftrightarrow> (\<exists>cm0. (ch, cm0) \<in> set chs \<and> cm = go_del i cm0 \<and> cm \<noteq> [])"
  by (auto simp: drop_member_def)

lemma hub_wf_Remove [preserve]: "hub_wf n \<Longrightarrow> hub_wf (Remove r n)"
  by (auto simp: hub_wf_def Remove_def Let_def go_keys_put go_keys_del drop_member_wf
      drop_member_entries split_beta) (metis go_wf_del snd_conv)+

lemma hub_wf_SubscribeChannel [preserve]: "hub_wf n \<Longrightarrow> hub_wf (SubscribeChannel ch r n)"
  by (auto simp: hub_wf_def SubscribeChannel_def Let_def set_go_put
      split: option.splits dest!: map_of_SomeD)

lemma hub_wf_UnsubscribeChannel [preserve]: "hub_wf n \<Longrightarrow> hub_wf (UnsubscribeChannel ch m n)"
  by (auto simp: hub_wf_def UnsubscribeChannel_def Let_def set_go_put set_go_del
      split: option.splits dest!: map_of_SomeD)

lemma hub_wf_RegisterDaemon [preserve]: "hub_wf n \<Longrightarrow> hub_wf (RegisterDaemon d r ags n)"
  by (auto simp: hub_wf_def RegisterDaemon_def intro: go_map.ok_fold_put)

lemma hub_wf_UnregisterDaemon [preserve]: "hub_wf n \<Longrightarrow> hub_wf (UnregisterDaemon d n)"
  by (auto simp: hub_wf_def UnregisterDaemon_def intro: go_map.ok_fold_del split: option.splits)

lemma hub_wf_hub_Close [preserve]: "hub_wf n \<Longrightarrow> hub_wf (hub_Close n)"
  by (simp add: hub_wf_def hub_Close_def)

lemma hub_wf_accept [preserve]: "hub_wf n \<Longrightarrow> hub_wf (snd (accept_conn n))"
  by (simp add: hub_wf_def accept_conn_def)

lemma hub_wf_join [preserve]: "hub_wf n \<Longrightarrow> hub_wf (snd (join ch r n))"
  by (simp add: join_def split_beta Let_def hub_wf_SubscribeChannel)

lemma hub_wf_leave [preserve]: "hub_wf n \<Longrightarrow> hub_wf (leave ch r n)"
  by (simp add: leave_def Let_def hub_wf_UnsubscribeChannel)

lemma hub_wf_kick [preserve]: "hub_wf n \<Longrightarrow> hub_wf (kick ch m n)"
  by (simp add: kick_def hub_wf_UnsubscribeChannel split: option.split)

lemma hub_wf_step: "hub_step A n n' \<Longrightarrow> hub_wf n \<Longrightarrow> hub_wf n'"
  by (induction rule: hub_step.induct)
     (auto simp: login_def ReadPump_exit_def intro: hub_wf_Add hub_wf_Remove hub_wf_accept
        hub_wf_join hub_wf_leave hub_wf_kick hub_wf_RegisterDaemon hub_wf_UnregisterDaemon hub_wf_hub_Close,
      auto simp: hub_wf_def go_keys_put)

lemma hub_wf_reach: "hub_reach A n \<Longrightarrow> hub_wf n"
  by (induction rule: hub_reach.induct) (auto intro: hub_wf_NewHub hub_wf_step)

section \<open>Identity invariant\<close>

definition hub_ids :: "(string \<Rightarrow> bool) \<Rightarrow> 'a net_scheme \<Rightarrow> bool" where
  "hub_ids A n \<longleftrightarrow>
     (\<forall>i r. go_get (connections n) i = Some r \<longrightarrow>
        c_id (heap n r) = i \<and> c_authenticated (heap n r) \<and> \<not> c_closed (heap n r)
        \<and> r < next_ref n) \<and>
     (\<forall>i. go_get (agents n) i = (if A i then go_get (connections n) i else None)) \<and>
     (\<forall>ch m r. subscriber n ch m = Some r \<longrightarrow>
        c_id (heap n r) = m \<and> c_authenticated (heap n r) \<and> IsSubscribed ch (heap n r)
        \<and> r < next_ref n) \<and>
     (\<forall>r. c_authenticated (heap n r) \<longrightarrow> c_isAgent (heap n r) = A (c_id (heap n r))) \<and>
     (\<forall>r. conn_inv (heap n r))"

lemma hub_ids_conn:
  "hub_ids A n \<Longrightarrow> go_get (connections n) i = Some r \<Longrightarrow>
   c_id (heap n r) = i \<and> c_authenticated (heap n r) \<and> \<not> c_closed (heap n r) \<and> r < next_ref n"
  by (simp add: hub_ids_def)

lemma hub_ids_sub:
  "hub_ids A n \<Longrightarrow> subscriber n ch m = Some r \<Longrightarrow>
   c_id (heap n r) = m \<and> c_authenticated (heap n r) \<and> IsSubscribed ch (heap n r) \<and> r < next_ref n"
  by (simp add: hub_ids_def)

text \<open>An update of connections that keeps identity, subscriptions and openness.\<close>

definition benign :: "(conn \<Rightarrow> conn) \<Rightarrow> bool" where
  "benign f \<longleftrightarrow> (\<forall>c. c_id (f c) = c_id c \<and> c_authenticated (f c) = c_authenticated c \<and>
     c_isAgent (f c) = c_isAgent c \<and> c_closed (f c) = c_closed c \<and>
     c_channels (f c) = c_channels c \<and> (conn_inv c \<longrightarrow> conn_inv (f c)))"

lemma WritePump_fields [simp]:
  "c_id (snd (WritePump p c)) = c_id c" "c_isAgent (snd (WritePump p c)) = c_isAgent c"
  "c_authenticated (snd (WritePump p c)) = c_authenticated c"
  "c_closed (snd (WritePump p c)) = c_closed c" "c_channels (snd (WritePump p c)) = c_channels c"
  by (cases p; auto simp: pump_stop_def split: list.splits option.splits)+

lemma benign_Send: "benign (Send e)"
  by (simp add: benign_def conn_inv_Send)

lemma benign_WritePump: "benign (\<lambda>c. snd (WritePump p c))"
  by (simp add: benign_def conn_inv_WritePump)

lemma hub_ids_benign:
  assumes "benign f" "hub_ids A n"
  shows "hub_ids A (upd_conn f r n)"
  using assms by (auto simp: hub_ids_def benign_def IsSubscribed_def)

lemma hub_ids_benign_fold:
  "benign f \<Longrightarrow> hub_ids A n \<Longrightarrow> hub_ids A (fold (upd_conn f) rs n)"
  by (induction rs arbitrary: n) (auto intro: hub_ids_benign)

lemma hub_ids_broadcast [preserve]:
  assumes "hub_ids A n"
  shows "hub_ids A (BroadcastToChannel ch e n)" "hub_ids A (BroadcastToAll e n)"
    "hub_ids A (BroadcastToAgents e n)" "hub_ids A (send_ref e r n)"
  using assms
  by (auto simp: BroadcastToChannel_def BroadcastToAll_def BroadcastToAgents_def send_ref_def Let_def
      intro: hub_ids_benign hub_ids_benign_fold benign_Send)

lemma hub_ids_NewHub [preserve]: "hub_ids A NewHub"
  by (simp add: hub_ids_def NewHub_def subscriber_def conn_inv_NewConn)
     (simp add: NewConn_def)

lemma hub_ids_accept [preserve]:
  assumes "hub_ids A n"
  shows "hub_ids A (snd (accept_conn n))"
proof -
  have sub: "subscriber (snd (accept_conn n)) = subscriber n"
    by (simp add: fun_eq_iff subscriber_def accept_conn_def)
  have nx: "go_get (connections n) i \<noteq> Some (next_ref n)" "subscriber n ch m \<noteq> Some (next_ref n)"
    for i ch m using hub_ids_conn [OF assms] hub_ids_sub [OF assms] by blast+
  show ?thesis
    using assms nx unfolding hub_ids_def sub
    by (simp add: accept_conn_def conn_inv_NewConn) (auto simp: NewConn_def less_Suc_eq)
qed

lemma subscriber_Add [simp]: "subscriber (Add r n) = subscriber n"
  by (auto simp: fun_eq_iff subscriber_def Add_def Let_def split: option.splits)

lemma subscriber_upd_heap [simp]: "subscriber (n\<lparr>heap := h\<rparr>) = subscriber n"
  by (auto simp: fun_eq_iff subscriber_def)

lemma Add_fields:
  "connections (Add r n) = go_put (c_id (heap n r)) r (connections n)"
  "agents (Add r n) = (if c_isAgent (heap n r) then go_put (c_id (heap n r)) r (agents n) else agents n)"
  "next_ref (Add r n) = next_ref n"
  "heap (Add r n) = (case go_get (connections n) (c_id (heap n r)) of None \<Rightarrow> heap n
     | Some p \<Rightarrow> (heap n)(p := Close (heap n p)))"
  by (auto simp: Add_def Let_def split: option.splits)

definition hub_pre :: "(string \<Rightarrow> bool) \<Rightarrow> nat \<Rightarrow> 'a net_scheme \<Rightarrow> bool" where
  "hub_pre A r n \<longleftrightarrow> c_authenticated (heap n r) \<and> \<not> c_closed (heap n r) \<and> r < next_ref n \<and>
     (\<forall>i p. go_get (connections n) i = Some p \<longrightarrow> p \<noteq> r) \<and> hub_ids A n"

lemma hub_ids_Add:
  assumes "hub_pre A r n"
  shows "hub_ids A (Add r n)"
proof (cases "go_get (connections n) (c_id (heap n r))")
  case None
  then show ?thesis using assms
    by (auto simp: hub_pre_def hub_ids_def Add_fields)
next
  case (Some p)
  have inv: "hub_ids A n" and pr: "p \<noteq> r" using assms Some by (auto simp: hub_pre_def)
  have others: "p' \<noteq> p" if "go_get (connections n) j = Some p'" "j \<noteq> c_id (heap n r)" for j p'
    using hub_ids_conn [OF inv that(1)] hub_ids_conn [OF inv Some] that(2) by auto
  have h: "heap (Add r n) = (heap n)(p := Close (heap n p))" using Some by (simp add: Add_fields)
  show ?thesis
    unfolding hub_ids_def h subscriber_Add Add_fields(1,2,3)
  proof (intro conjI allI impI)
    fix i q assume q: "go_get (go_put (c_id (heap n r)) r (connections n)) i = Some q"
    show "\<not> c_closed (((heap n)(p := Close (heap n p))) q)"
      using q assms pr others hub_ids_conn [OF inv]
      by (cases "i = c_id (heap n r)") (auto simp: hub_pre_def)
  qed (use assms inv pr in \<open>auto simp: hub_pre_def hub_ids_def conn_inv_Close split: if_splits\<close>)
qed

lemma hub_ids_login [preserve]:
  assumes inv: "hub_ids A n" and r: "r < next_ref n"
    and fresh: "\<not> c_authenticated (heap n r)" "\<not> c_closed (heap n r)"
  shows "hub_ids A (login i nm (A i) r n)"
proof -
  have "go_get (connections n) j \<noteq> Some r" "subscriber n ch m \<noteq> Some r" for j ch m
    using hub_ids_conn [OF inv] hub_ids_sub [OF inv] fresh by blast+
  then have "hub_pre A r (upd_conn (\<lambda>c. SetAuthenticated True (SetIdentity i nm (A i) c)) r n)"
    using inv r fresh
    by (auto simp: hub_pre_def hub_ids_def conn_inv_SetAuthenticated conn_inv_SetIdentity)
  then show ?thesis unfolding login_def by (rule hub_ids_Add)
qed

lemma hub_ids_timeout [preserve]:
  "hub_ids A n \<Longrightarrow> \<not> c_authenticated (heap n r) \<Longrightarrow> hub_ids A (upd_conn Close r n)"
  by (auto simp: hub_ids_def conn_inv_Close)

lemma Remove_fields [simp]:
  "heap (Remove r n) = heap n" "next_ref (Remove r n) = next_ref n"
  "connections (Remove r n) = go_del (c_id (heap n r)) (connections n)"
  "agents (Remove r n) =
     (if c_isAgent (heap n r) then go_del (c_id (heap n r)) (agents n) else agents n)"
  "daemonAgents (Remove r n) = daemonAgents n" "daemons (Remove r n) = daemons n"
  by (auto simp: Remove_def Let_def)

lemma hub_ids_exit [preserve]:
  assumes "hub_ids A n" "hub_wf n" "c_authenticated (heap n r)"
  shows "hub_ids A (ReadPump_exit r n)"
proof -
  have "go_wf (channels n)" using assms(2) by (simp add: hub_wf_def)
  note sub = subscriber_Remove [OF this, of r]
  show ?thesis
    using assms(1,3)
    by (auto simp: hub_ids_def ReadPump_exit_def sub conn_inv_Close split: if_splits)
qed

lemma SubscribeChannel_fields [simp]:
  "heap (SubscribeChannel ch r n) = heap n" "connections (SubscribeChannel ch r n) = connections n"
  "agents (SubscribeChannel ch r n) = agents n" "next_ref (SubscribeChannel ch r n) = next_ref n"
  by (auto simp: SubscribeChannel_def Let_def)

lemma hub_ids_join [preserve]:
  assumes "hub_ids A n" "r < next_ref n" "c_authenticated (heap n r)"
  shows "hub_ids A (snd (join ch r n))"
proof (cases "fst (Subscribe ch (heap n r))")
  case True
  then show ?thesis
    using assms IsSubscribed_Subscribe [OF True]
    by (auto simp: join_def split_beta Let_def hub_ids_def subscriber_SubscribeChannel
        conn_inv_Subscribe split: if_splits)
next
  case False
  then show ?thesis using assms IsSubscribed_Subscribe_fail [OF False]
    by (simp add: join_def split_beta fun_upd_idem)
qed

lemma UnsubscribeChannel_fields [simp]:
  "heap (UnsubscribeChannel ch m n) = heap n" "connections (UnsubscribeChannel ch m n) = connections n"
  "agents (UnsubscribeChannel ch m n) = agents n" "next_ref (UnsubscribeChannel ch m n) = next_ref n"
  by (auto simp: UnsubscribeChannel_def Let_def split: option.splits)

lemma hub_ids_leave [preserve]:
  assumes "hub_ids A n"
  shows "hub_ids A (leave ch r n)"
  using assms
  by (auto simp: hub_ids_def leave_def Let_def subscriber_UnsubscribeChannel conn_inv_Unsubscribe
      split: if_splits)

lemma hub_ids_kick [preserve]:
  assumes inv: "hub_ids A n"
  shows "hub_ids A (kick ch m n)"
proof (cases "GetConn m n")
  case None
  then show ?thesis using inv
    by (auto simp: hub_ids_def kick_def subscriber_UnsubscribeChannel split: if_splits)
next
  case (Some r)
  then have "c_id (heap n r) = m" using hub_ids_conn [OF inv] by (simp add: GetConn_def)
  then have "kick ch m n = leave ch r n" using Some by (simp add: kick_def leave_def Let_def)
  then show ?thesis using hub_ids_leave [OF inv] by simp
qed

lemma subscriber_other [simp]:
  "subscriber (RegisterDaemon d r ags n) = subscriber n"
  "subscriber (UnregisterDaemon d n) = subscriber n"
  "subscriber (n\<lparr>presence := p\<rparr>) = subscriber n"
  by (auto simp: fun_eq_iff subscriber_def RegisterDaemon_def UnregisterDaemon_def
      split: option.splits)

lemma hub_ids_register [preserve]:
  "hub_ids A n \<Longrightarrow> hub_ids A (RegisterDaemon d r ags n)"
  by (simp add: hub_ids_def) (simp add: RegisterDaemon_def)

lemma hub_ids_unregister [preserve]:
  "hub_ids A n \<Longrightarrow> hub_ids A (UnregisterDaemon d n)"
  by (simp add: hub_ids_def) (simp add: UnregisterDaemon_def split: option.splits)

lemma funpow_CloseWithMessage:
  "(CloseWithMessage m d ^^ k) c = (if k = 0 then c else CloseWithMessage m d c)"
  by (induction k) (auto simp: CloseWithMessage_def)

lemma hub_ids_hub_Close [preserve]:
  assumes "hub_ids A n"
  shows "hub_ids A (hub_Close n)"
  using assms
  by (auto simp: hub_ids_def hub_Close_def heap_fold_upd_conn funpow_CloseWithMessage
      conn_inv_CloseWithMessage) (auto simp: subscriber_def)

lemma hub_ids_presence [preserve]: "hub_ids A n \<Longrightarrow> hub_ids A (n\<lparr>presence := p\<rparr>)"
  by (simp add: hub_ids_def)

lemmas hub_ids_ops = hub_ids_accept hub_ids_login hub_ids_timeout hub_ids_exit hub_ids_join
  hub_ids_leave hub_ids_kick hub_ids_broadcast hub_ids_register hub_ids_unregister hub_ids_hub_Close
  hub_ids_presence hub_ids_benign [OF benign_WritePump]

lemma hub_ids_step: "hub_step A n n' \<Longrightarrow> hub_wf n \<Longrightarrow> hub_ids A n \<Longrightarrow> hub_ids A n'"
  by (induction rule: hub_step.induct) (auto intro: hub_ids_ops)

lemma hub_ids_reach: "hub_reach A n \<Longrightarrow> hub_ids A n"
  by (induction rule: hub_reach.induct) (auto intro: hub_ids_NewHub hub_ids_step hub_wf_reach)

section \<open>A concrete run\<close>

text \<open>One member on two connections, the second of which then joins a channel.\<close>

definition two_logins :: net where
  "two_logins = login ''m'' ''Max'' False 1 (snd (accept_conn
     (login ''m'' ''Max'' False 0 (snd (accept_conn NewHub)))))"

lemmas hub_eval = login_def Add_def accept_conn_def NewHub_def NewConn_def SetIdentity_def
  SetAuthenticated_def Let_def Close_def CloseWithMessage_def

lemma two_logins_reach: "hub_reach (\<lambda>_. False) two_logins"
proof -
  let ?n1 = "snd (accept_conn NewHub)"
  have 1: "hub_reach (\<lambda>_. False) ?n1" by (rule reach_step [OF reach_new step_accept])
  have 2: "hub_reach (\<lambda>_. False) (login ''m'' ''Max'' False 0 ?n1)"
    by (rule reach_step [OF 1 step_login [where agent_id = "\<lambda>_. False"]]) (auto simp: hub_eval)
  have 3: "hub_reach (\<lambda>_. False) (snd (accept_conn (login ''m'' ''Max'' False 0 ?n1)))"
    by (rule reach_step [OF 2 step_accept])
  show ?thesis unfolding two_logins_def
    by (rule reach_step [OF 3 step_login [where agent_id = "\<lambda>_. False"]]) (auto simp: hub_eval)
qed

definition joined :: net where
  "joined = snd (join ''c'' 1 two_logins)"

definition hello_env :: envelope where
  "hello_env = \<lparr>env_V = 1, env_ID = ''u1'', env_Type = ''message.new'', env_TS = 0, env_Data = None\<rparr>"

lemma joined_reach: "hub_reach (\<lambda>_. False) joined"
  unfolding joined_def
  by (rule reach_step [OF two_logins_reach step_join]) (simp_all add: two_logins_def hub_eval)

section \<open>Properties\<close>

text \<open>
  C11: in every hub the server can reach (any interleaving of logins, joins, leaves,
  sends, broadcasts, disconnects, daemon registrations and shutdowns, each
  connection logging in at most once), the maps have distinct keys and no empty
  channel, each registered connection is open, authenticated and filed under its
  own id, the agents map is exactly the restriction of the connections to agents,
  and whoever the hub lists as a channel's subscriber has that channel in its own
  subscription set.
\<close>
theorem hub_invariant:
  assumes "hub_reach A n"
  shows "hub_wf n \<and> hub_ids A n"
  using assms hub_wf_reach hub_ids_reach by blast

theorem hub_invariant_witness:
  "hub_wf (snd (accept_conn NewHub)) \<and> hub_ids (\<lambda>_. True) (snd (accept_conn NewHub))"
  by (rule hub_invariant [OF reach_step [OF reach_new step_accept]])







text \<open>
  C13: the disconnect is keyed by member id, so the late exit of a replaced
  connection takes down its successor: when a member's second connection r2 has
  replaced r1, the read pump of r1 ending removes the registration of r2, sets the
  member offline and drops it from every channel, while r2 itself stays open,
  authenticated and convinced of its subscriptions.
\<close>
theorem stale_exit_evicts_replacement:
  assumes "hub_reach A n" and "GetConn i n = Some r2" and "c_id (heap n r1) = i" and "r1 \<noteq> r2"
  shows "GetConn i (ReadPump_exit r1 n) = None
    \<and> GetPresence i (ReadPump_exit r1 n) = ''offline''
    \<and> (\<forall>ch. subscriber (ReadPump_exit r1 n) ch i = None)
    \<and> \<not> c_closed (heap (ReadPump_exit r1 n) r2)
    \<and> c_authenticated (heap (ReadPump_exit r1 n) r2)
    \<and> (\<forall>ch. IsSubscribed ch (heap (ReadPump_exit r1 n) r2) = IsSubscribed ch (heap n r2))"
proof -
  have "go_wf (channels n)" using hub_wf_reach [OF assms(1)] by (simp add: hub_wf_def)
  note sub = subscriber_Remove [OF this, of r1]
  have "\<not> c_closed (heap n r2) \<and> c_authenticated (heap n r2)"
    using hub_ids_conn [OF hub_ids_reach [OF assms(1)]] assms(2) by (auto simp: GetConn_def)
  then show ?thesis
    using assms(3,4) sub
    by (simp add: ReadPump_exit_def GetConn_def GetPresence_def) (simp add: Remove_def Let_def)
qed

theorem stale_exit_evicts_replacement_witness:
  "GetConn ''m'' two_logins = Some 1 \<and> GetConn ''m'' (ReadPump_exit 0 two_logins) = None
   \<and> \<not> c_closed (heap (ReadPump_exit 0 two_logins) 1)"
proof -
  have "GetConn ''m'' two_logins = Some 1" "c_id (heap two_logins 0) = ''m''"
    by (simp_all add: two_logins_def hub_eval GetConn_def)
  then show ?thesis
    using stale_exit_evicts_replacement [OF two_logins_reach, of "''m''" 1 0] by simp
qed

text \<open>
  Authenticating again as the same member on the same connection makes the hub
  close that very connection as the stale one, while keeping it registered.
\<close>
theorem relogin_closes_itself:
  assumes "GetConn i n = Some r"
  shows "c_closed (heap (login i nm a r n) r) \<and> GetConn i (login i nm a r n) = Some r"
  using assms by (simp add: login_def GetConn_def Add_fields)

theorem relogin_closes_itself_witness:
  "c_closed (heap (login ''m'' ''Max'' False 1 two_logins) 1)"
proof -
  have "GetConn ''m'' two_logins = Some 1" by (simp add: two_logins_def hub_eval GetConn_def)
  then show ?thesis using relogin_closes_itself by blast
qed

text \<open>
  Registering a daemon routes the wake of every agent it lists to the daemon's
  connection and leaves all other names alone; unregistering it afterwards leaves
  no route for the agents it listed, restores the others, and forgets the daemon.
\<close>
theorem daemon_register_unregister:
  "wake_target nm (RegisterDaemon d r ags n) =
     (if nm \<in> fst ` set ags then Some r else wake_target nm n)
   \<and> wake_target nm (UnregisterDaemon d (RegisterDaemon d r ags n)) =
     (if nm \<in> fst ` set ags then None else wake_target nm n)
   \<and> go_get (daemons (UnregisterDaemon d (RegisterDaemon d r ags n))) d = None"
  by (simp add: wake_target_def RegisterDaemon_def UnregisterDaemon_def go_any.lookup_fold_put
      go_any.register_unregister split: option.splits)

text \<open>
  C15: disconnects do not unregister a daemon, so after a daemon's connection r has
  gone, an agent it hosted that comes back on a connection of its own is still woken
  through r, where the wake is lost.
\<close>
theorem dead_daemon_shadows_agent:
  assumes "go_get (daemonAgents n) nm = Some r" and "r \<noteq> r2"
  shows "wake_target nm (login i nm True r2 (ReadPump_exit r n)) = Some r
    \<and> GetAgentByName nm (login i nm True r2 (ReadPump_exit r n)) = Some r2
    \<and> send_ref e r (login i nm True r2 (ReadPump_exit r n)) = login i nm True r2 (ReadPump_exit r n)"
proof -
  let ?n = "login i nm True r2 (ReadPump_exit r n)"
  have da: "daemonAgents ?n = daemonAgents n"
    by (simp add: login_def ReadPump_exit_def Add_def Let_def split: option.splits)
  have closed: "c_closed (heap ?n r)"
    using assms(2) by (auto simp: login_def Add_fields ReadPump_exit_def split: option.splits)
  have name: "agentNames ?n = go_put nm r2 (agentNames (ReadPump_exit r n))"
    by (simp add: login_def Add_def Let_def split: option.splits)
  have "Send e (heap ?n r) = heap ?n r" using closed by (simp add: Send_def)
  then have "send_ref e r ?n = ?n"
    by (intro net.equality) (simp_all add: fun_upd_idem)
  then show ?thesis using assms(1) da name by (simp add: wake_target_def GetAgentByName_def)
qed

theorem dead_daemon_shadows_agent_witness:
  "wake_target ''bot'' (login ''b'' ''bot'' True 7
     (ReadPump_exit 1 (RegisterDaemon ''d'' 1 [(''bot'', ''b'')] two_logins))) = Some 1"
proof -
  let ?n = "RegisterDaemon ''d'' 1 [(''bot'', ''b'')] two_logins"
  have "go_get (daemonAgents ?n) ''bot'' = Some 1"
    by (simp add: RegisterDaemon_def)
  then show ?thesis using dead_daemon_shadows_agent [of ?n "''bot''" 1 7 "''b''"] by simp
qed

text \<open>
  With no specific origin configured (the default, or a star), a request that
  carries an Origin header is never upgraded, not even from the page's own host:
  the check looks for a Host header, which net/http has removed.
\<close>
theorem browser_upgrade_refused:
  assumes "allowed \<in> {'''', ''*''}" and "header_get raw ''Origin'' \<noteq> ''''"
  shows "\<not> CheckOrigin allowed (incoming_header raw)"
proof -
  have "map_of (incoming_header raw) k = (if k = ''Host'' then None else map_of raw k)" for k
    by (induction raw) (auto simp: incoming_header_def)
  then show ?thesis using assms by (auto simp: CheckOrigin_def header_get_def)
qed

theorem browser_upgrade_refused_witness:
  "\<not> CheckOrigin '''' (incoming_header
     [(''Host'', ''lark.local''), (''Origin'', ''https://lark.local'')])"
  by (rule browser_upgrade_refused) (simp_all add: header_get_def)

end
