(* ===== verification/Models.thy ===== *)
theory Models
  imports Protocol
begin

text \<open>
  proto/models.go: the rows of the database and the values the handlers pass
  around.  Go's string-typed enumerations stay strings, since any string can
  arrive from a client or a query; the database's CHECK constraints are where
  they are restricted.  Raw JSON is a value, None for a nil RawMessage, except the
  configuration of an integration, which the code stores as the text it is given and
  never parses; a nil slice is the empty list.  Times and counters are 64-bit integers
  that stay far below their bounds and are modelled as int.
\<close>

section \<open>Records\<close>

record Workspace =
  ws_ID :: string
  ws_Name :: string
  ws_Slug :: string
  ws_IconURL :: string
  ws_AgentProvisionToken :: string
  ws_CreatedAt :: int
  ws_UpdatedAt :: int

record Member =
  mb_ID :: string
  mb_WorkspaceID :: string
  mb_Name :: string
  mb_Email :: string
  mb_PasswordHash :: string
  mb_Type :: string
  mb_Role :: string
  mb_AvatarURL :: string
  mb_Status :: string
  mb_StatusText :: string
  mb_StatusEmoji :: string
  mb_APIKey :: string
  mb_RoleCard :: "RoleCard option"
  mb_Capabilities :: "string list"
  mb_RuntimeInfo :: "RuntimeInfo option"
  mb_CreatedAt :: int
  mb_UpdatedAt :: int

definition Member0 :: Member where
  "Member0 = \<lparr>mb_ID = [], mb_WorkspaceID = [], mb_Name = [], mb_Email = [], mb_PasswordHash = [],
     mb_Type = [], mb_Role = [], mb_AvatarURL = [], mb_Status = [], mb_StatusText = [],
     mb_StatusEmoji = [], mb_APIKey = [], mb_RoleCard = None, mb_Capabilities = [],
     mb_RuntimeInfo = None, mb_CreatedAt = 0, mb_UpdatedAt = 0\<rparr>"

record Channel =
  ch_ID :: string
  ch_WorkspaceID :: string
  ch_Name :: string
  ch_Category :: string
  ch_Type :: string
  ch_Topic :: string
  ch_IsPrivate :: bool
  ch_IsArchived :: bool
  ch_RoomVersion :: int
  ch_CreatedAt :: int
  ch_UpdatedAt :: int

definition Channel0 :: Channel where
  "Channel0 = \<lparr>ch_ID = [], ch_WorkspaceID = [], ch_Name = [], ch_Category = [], ch_Type = [], ch_Topic =
     [], ch_IsPrivate = False, ch_IsArchived = False, ch_RoomVersion = 0, ch_CreatedAt = 0,
     ch_UpdatedAt = 0\<rparr>"

record ChannelMember =
  cm_ChannelID :: string
  cm_MemberID :: string
  cm_LastReadAt :: int
  cm_NotificationPreference :: string

record Message =
  msg_ID :: string
  msg_ChannelID :: string
  msg_SenderID :: string
  msg_ThreadID :: string
  msg_Content :: string
  msg_ContentType :: string
  msg_FileID :: string
  msg_Type :: string
  msg_Metadata :: "json option"
  msg_EditedAt :: int
  msg_EditCount :: int
  msg_ReplyCount :: int
  msg_CreatedAt :: int
  msg_UpdatedAt :: int

definition Message0 :: Message where
  "Message0 = \<lparr>msg_ID = [], msg_ChannelID = [], msg_SenderID = [], msg_ThreadID = [], msg_Content = [],
     msg_ContentType = [], msg_FileID = [], msg_Type = [], msg_Metadata = None, msg_EditedAt =
     0, msg_EditCount = 0, msg_ReplyCount = 0, msg_CreatedAt = 0, msg_UpdatedAt = 0\<rparr>"

record Bookmark =
  bm_ID :: string
  bm_UserID :: string
  bm_MessageID :: string
  bm_ChannelID :: string
  bm_Note :: string
  bm_CreatedAt :: int

record Pin =
  pin_ID :: string
  pin_MessageID :: string
  pin_ChannelID :: string
  pin_PinnedBy :: string
  pin_CreatedAt :: int

record UnreadCount =
  uc_ChannelID :: string
  uc_Count :: int

record ApprovalRequest =
  apr_ID :: string
  apr_WorkspaceID :: string
  apr_AgentID :: string
  apr_ChannelID :: string
  apr_Action :: string
  apr_Payload :: string
  apr_Status :: string
  apr_ReviewerID :: string
  apr_ReviewNote :: string
  apr_CreatedAt :: int
  apr_ReviewedAt :: int

definition ApprovalRequest0 :: ApprovalRequest where
  "ApprovalRequest0 = \<lparr>apr_ID = [], apr_WorkspaceID = [], apr_AgentID = [], apr_ChannelID = [], apr_Action = [],
     apr_Payload = [], apr_Status = [], apr_ReviewerID = [], apr_ReviewNote = [], apr_CreatedAt
     = 0, apr_ReviewedAt = 0\<rparr>"

record Task =
  task_ID :: string
  task_WorkspaceID :: string
  task_ChannelID :: string
  task_AssignedTo :: string
  task_CreatedBy :: string
  task_Title :: string
  task_Description :: string
  task_Status :: string
  task_Priority :: string
  task_DueAt :: int
  task_CreatedAt :: int
  task_UpdatedAt :: int

definition Task0 :: Task where
  "Task0 = \<lparr>task_ID = [], task_WorkspaceID = [], task_ChannelID = [], task_AssignedTo = [],
     task_CreatedBy = [], task_Title = [], task_Description = [], task_Status = [],
     task_Priority = [], task_DueAt = 0, task_CreatedAt = 0, task_UpdatedAt = 0\<rparr>"

record Reaction =
  rx_MessageID :: string
  rx_MemberID :: string
  rx_Emoji :: string
  rx_CreatedAt :: int

record AgentMemory =
  am_ID :: string
  am_AgentID :: string
  am_Namespace :: string
  am_Key :: string
  am_Value :: string
  am_CreatedAt :: int
  am_UpdatedAt :: int

definition AgentMemory0 :: AgentMemory where
  "AgentMemory0 = \<lparr>am_ID = [], am_AgentID = [], am_Namespace = [], am_Key = [], am_Value = [], am_CreatedAt =
     0, am_UpdatedAt = 0\<rparr>"

record File =
  fl_ID :: string
  fl_WorkspaceID :: string
  fl_UploaderID :: string
  fl_Filename :: string
  fl_MimeType :: string
  fl_Size :: int
  fl_Path :: string
  fl_CreatedAt :: int

definition File0 :: File where
  "File0 = \<lparr>fl_ID = [], fl_WorkspaceID = [], fl_UploaderID = [], fl_Filename = [], fl_MimeType = [],
     fl_Size = 0, fl_Path = [], fl_CreatedAt = 0\<rparr>"

record Webhook =
  wh_ID :: string
  wh_WorkspaceID :: string
  wh_ChannelID :: string
  wh_Name :: string
  wh_Secret :: string
  wh_CreatedBy :: string
  wh_CreatedAt :: int

definition Webhook0 :: Webhook where
  "Webhook0 = \<lparr>wh_ID = [], wh_WorkspaceID = [], wh_ChannelID = [], wh_Name = [], wh_Secret = [],
     wh_CreatedBy = [], wh_CreatedAt = 0\<rparr>"

record EditHistory =
  eh_ID :: string
  eh_MessageID :: string
  eh_Content :: string
  eh_EditedAt :: int
  eh_EditedBy :: string

record OAuthIdentity =
  oa_ID :: string
  oa_MemberID :: string
  oa_Provider :: string
  oa_ProviderUserID :: string
  oa_Email :: string
  oa_CreatedAt :: int

record Notification =
  nt_ID :: string
  nt_MemberID :: string
  nt_Type :: string
  nt_Title :: string
  nt_Body :: string
  nt_ChannelID :: string
  nt_MessageID :: string
  nt_IsRead :: bool
  nt_SourceType :: string
  nt_Priority :: string
  nt_AckRequired :: bool
  nt_AckedAt :: int
  nt_ExpiresAt :: int
  nt_Payload :: string
  nt_CreatedAt :: int

definition Notification0 :: Notification where
  "Notification0 = \<lparr>nt_ID = [], nt_MemberID = [], nt_Type = [], nt_Title = [], nt_Body = [], nt_ChannelID =
     [], nt_MessageID = [], nt_IsRead = False, nt_SourceType = [], nt_Priority = [],
     nt_AckRequired = False, nt_AckedAt = 0, nt_ExpiresAt = 0, nt_Payload = [], nt_CreatedAt =
     0\<rparr>"

record Integration =
  ig_ID :: string
  ig_Name :: string
  ig_Description :: string
  ig_IconURL :: string
  ig_Type :: string
  ig_ConfigSchema :: string
  ig_CreatedAt :: int

record WorkspaceIntegration =
  wi_ID :: string
  wi_WorkspaceID :: string
  wi_IntegrationID :: string
  wi_InstalledBy :: string
  wi_Config :: string
  wi_Enabled :: bool
  wi_CreatedAt :: int

record SSOProvider =
  sso_ID :: string
  sso_WorkspaceID :: string
  sso_Name :: string
  sso_Type :: string
  sso_Issuer :: string
  sso_ClientID :: string
  sso_ClientSecret :: string
  sso_DiscoveryURL :: string
  sso_Domain :: string
  sso_Enabled :: bool
  sso_CreatedAt :: int

record Call =
  call_ID :: string
  call_WorkspaceID :: string
  call_ChannelID :: string
  call_CallerID :: string
  call_CalleeID :: string
  call_Type :: string
  call_Status :: string
  call_StartedAt :: int
  call_EndedAt :: int
  call_CreatedAt :: int

definition Call0 :: Call where
  "Call0 = \<lparr>call_ID = [], call_WorkspaceID = [], call_ChannelID = [], call_CallerID = [],
     call_CalleeID = [], call_Type = [], call_Status = [], call_StartedAt = 0, call_EndedAt =
     0, call_CreatedAt = 0\<rparr>"

record Workflow =
  wf_ID :: string
  wf_WorkspaceID :: string
  wf_Name :: string
  wf_Description :: string
  wf_TriggerType :: string
  wf_TriggerConfig :: "json option"
  wf_Steps :: "json option"
  wf_Enabled :: bool
  wf_CreatedBy :: string
  wf_CreatedAt :: int
  wf_UpdatedAt :: int

record WorkflowRun =
  wr_ID :: string
  wr_WorkflowID :: string
  wr_Status :: string
  wr_TriggerData :: "json option"
  wr_Result :: "json option"
  wr_Error :: string
  wr_StartedAt :: int
  wr_FinishedAt :: int

definition WorkflowRun0 :: WorkflowRun where
  "WorkflowRun0 = \<lparr>wr_ID = [], wr_WorkflowID = [], wr_Status = [], wr_TriggerData = None, wr_Result = None,
     wr_Error = [], wr_StartedAt = 0, wr_FinishedAt = 0\<rparr>"

record UserKey =
  uk_ID :: string
  uk_MemberID :: string
  uk_KeyType :: string
  uk_PublicKey :: string
  uk_PrivateKey :: string
  uk_CreatedAt :: int

record EncryptedMessage =
  em_ID :: string
  em_MessageID :: string
  em_RecipientID :: string
  em_EncryptedContent :: string
  em_SenderIdentityKey :: string
  em_EphemeralKey :: string
  em_CreatedAt :: int

record BillingCustomer =
  bc_ID :: string
  bc_WorkspaceID :: string
  bc_StripeCustomerID :: string
  bc_StripeSubscriptionID :: string
  bc_Plan :: string
  bc_Status :: string
  bc_CurrentPeriodStart :: int
  bc_CurrentPeriodEnd :: int
  bc_CreatedAt :: int
  bc_UpdatedAt :: int

definition BillingCustomer0 :: BillingCustomer where
  "BillingCustomer0 = \<lparr>bc_ID = [], bc_WorkspaceID = [], bc_StripeCustomerID = [], bc_StripeSubscriptionID = [],
     bc_Plan = [], bc_Status = [], bc_CurrentPeriodStart = 0, bc_CurrentPeriodEnd = 0,
     bc_CreatedAt = 0, bc_UpdatedAt = 0\<rparr>"

record UsageRecord =
  ur_ID :: string
  ur_WorkspaceID :: string
  ur_Metric :: string
  ur_Quantity :: int
  ur_PeriodStart :: int
  ur_PeriodEnd :: int
  ur_CreatedAt :: int

record PlanLimits =
  pl_MaxMembers :: int
  pl_MaxChannels :: int
  pl_MaxMessages :: int
  pl_MaxFileUpload :: int
  pl_MaxWorkflows :: int
  pl_MaxAgents :: int

record HeldDraft =
  hd_ID :: string
  hd_AgentID :: string
  hd_ChannelID :: string
  hd_Content :: string
  hd_ThreadID :: string
  hd_RoomVersion :: int
  hd_Status :: string
  hd_CreatedAt :: int
  hd_UpdatedAt :: int
  hd_ExpiresAt :: int

definition HeldDraft0 :: HeldDraft where
  "HeldDraft0 = \<lparr>hd_ID = [], hd_AgentID = [], hd_ChannelID = [], hd_Content = [], hd_ThreadID = [],
     hd_RoomVersion = 0, hd_Status = [], hd_CreatedAt = 0, hd_UpdatedAt = 0, hd_ExpiresAt = 0\<rparr>"

record AgentWorkspaceItem =
  wsi_ID :: string
  wsi_AgentID :: string
  wsi_WorkspaceID :: string
  wsi_Name :: string
  wsi_Description :: string
  wsi_Content :: string
  wsi_MimeType :: string
  wsi_Size :: int
  wsi_FileID :: string
  wsi_Namespace :: string
  wsi_Tags :: "string list"
  wsi_CreatedAt :: int
  wsi_UpdatedAt :: int

definition AgentWorkspaceItem0 :: AgentWorkspaceItem where
  "AgentWorkspaceItem0 = \<lparr>wsi_ID = [], wsi_AgentID = [], wsi_WorkspaceID = [], wsi_Name = [], wsi_Description = [],
     wsi_Content = [], wsi_MimeType = [], wsi_Size = 0, wsi_FileID = [], wsi_Namespace = [],
     wsi_Tags = [], wsi_CreatedAt = 0, wsi_UpdatedAt = 0\<rparr>"

record ReviewRequest =
  rr_ID :: string
  rr_WorkspaceID :: string
  rr_ChannelID :: string
  rr_RequesterID :: string
  rr_ReviewerID :: string
  rr_Subject :: string
  rr_Content :: string
  rr_ThreadID :: string
  rr_Status :: string
  rr_ReviewComment :: string
  rr_CreatedAt :: int
  rr_UpdatedAt :: int
  rr_ReviewedAt :: int

definition ReviewRequest0 :: ReviewRequest where
  "ReviewRequest0 = \<lparr>rr_ID = [], rr_WorkspaceID = [], rr_ChannelID = [], rr_RequesterID = [], rr_ReviewerID =
     [], rr_Subject = [], rr_Content = [], rr_ThreadID = [], rr_Status = [], rr_ReviewComment =
     [], rr_CreatedAt = 0, rr_UpdatedAt = 0, rr_ReviewedAt = 0\<rparr>"

record TemplateRole =
  trole_Name :: string
  trole_SystemPrompt :: string
  trole_Capabilities :: "string list"
  trole_Runtime :: string
  trole_Description :: string

record TemplateChannel =
  tch_Name :: string
  tch_Topic :: string
  tch_Members :: "string list"
  tch_IsPrivate :: bool

record TeamTemplate =
  tt_ID :: string
  tt_WorkspaceID :: string
  tt_Name :: string
  tt_Description :: string
  tt_Category :: string
  tt_Roles :: "json option"
  tt_Channels :: "json option"
  tt_IsBuiltin :: bool
  tt_CreatedBy :: string
  tt_CreatedAt :: int
  tt_UpdatedAt :: int

definition GetPlanLimits :: "string \<Rightarrow> PlanLimits" where
  "GetPlanLimits plan =
     (if plan = ''pro'' then
        \<lparr>pl_MaxMembers = 100, pl_MaxChannels = 500, pl_MaxMessages = 100000,
         pl_MaxFileUpload = 100, pl_MaxWorkflows = 50, pl_MaxAgents = 20\<rparr>
      else if plan = ''enterprise'' then
        \<lparr>pl_MaxMembers = 10000, pl_MaxChannels = 50000, pl_MaxMessages = 10000000,
         pl_MaxFileUpload = 1000, pl_MaxWorkflows = 1000, pl_MaxAgents = 500\<rparr>
      else
        \<lparr>pl_MaxMembers = 10, pl_MaxChannels = 20, pl_MaxMessages = 5000,
         pl_MaxFileUpload = 10, pl_MaxWorkflows = 3, pl_MaxAgents = 2\<rparr>)"

section \<open>JSON encodings\<close>

definition omit_raw :: "string \<Rightarrow> json option \<Rightarrow> (string \<times> json) list" where
  "omit_raw k j = (case j of None \<Rightarrow> [] | Some v \<Rightarrow> [(k, v)])"

definition omit_opt :: "string \<Rightarrow> ('a \<Rightarrow> json) \<Rightarrow> 'a option \<Rightarrow> (string \<times> json) list" where
  "omit_opt k f x = (case x of None \<Rightarrow> [] | Some v \<Rightarrow> [(k, f v)])"

definition RoleCard_json :: "RoleCard \<Rightarrow> json" where
  "RoleCard_json x = JObj [(''system_prompt'', JStr (rc_SystemPrompt x)),
     (''capabilities'', JArr (map JStr (rc_Capabilities x)))]"

definition RuntimeInfo_json :: "RuntimeInfo \<Rightarrow> json" where
  "RuntimeInfo_json x = str_obj [(''type'', ri_Type x), (''provider'', ri_Provider x),
     (''model'', ri_Model x)]"

definition Message_json :: "Message \<Rightarrow> json" where
  "Message_json x = JObj (
     [(''id'', JStr (msg_ID x))] @
     [(''channel_id'', JStr (msg_ChannelID x))] @
     [(''sender_id'', JStr (msg_SenderID x))] @
     omit_str ''thread_id'' (msg_ThreadID x) @
     [(''content'', JStr (msg_Content x))] @
     omit_str ''content_type'' (msg_ContentType x) @
     omit_str ''file_id'' (msg_FileID x) @
     [(''type'', JStr (msg_Type x))] @
     omit_raw ''metadata'' (msg_Metadata x) @
     omit_int ''edited_at'' (msg_EditedAt x) @
     omit_int ''edit_count'' (msg_EditCount x) @
     omit_int ''reply_count'' (msg_ReplyCount x) @
     [(''created_at'', JNum (msg_CreatedAt x))] @
     [(''updated_at'', JNum (msg_UpdatedAt x))])"

definition Member_json :: "Member \<Rightarrow> json" where
  "Member_json x = JObj (
     [(''id'', JStr (mb_ID x))] @
     [(''workspace_id'', JStr (mb_WorkspaceID x))] @
     [(''name'', JStr (mb_Name x))] @
     omit_str ''email'' (mb_Email x) @
     [(''type'', JStr (mb_Type x))] @
     [(''role'', JStr (mb_Role x))] @
     omit_str ''avatar_url'' (mb_AvatarURL x) @
     [(''status'', JStr (mb_Status x))] @
     omit_str ''status_text'' (mb_StatusText x) @
     omit_str ''status_emoji'' (mb_StatusEmoji x) @
     omit_str ''api_key'' (mb_APIKey x) @
     omit_opt ''role_card'' RoleCard_json (mb_RoleCard x) @
     omit_strs ''capabilities'' (mb_Capabilities x) @
     omit_opt ''runtime_info'' RuntimeInfo_json (mb_RuntimeInfo x) @
     [(''created_at'', JNum (mb_CreatedAt x))] @
     [(''updated_at'', JNum (mb_UpdatedAt x))])"

definition Notification_json :: "Notification \<Rightarrow> json" where
  "Notification_json x = JObj (
     [(''id'', JStr (nt_ID x))] @
     [(''member_id'', JStr (nt_MemberID x))] @
     [(''type'', JStr (nt_Type x))] @
     [(''title'', JStr (nt_Title x))] @
     omit_str ''body'' (nt_Body x) @
     omit_str ''channel_id'' (nt_ChannelID x) @
     omit_str ''message_id'' (nt_MessageID x) @
     [(''is_read'', JBool (nt_IsRead x))] @
     omit_str ''source_type'' (nt_SourceType x) @
     omit_str ''priority'' (nt_Priority x) @
     omit_bool ''ack_required'' (nt_AckRequired x) @
     omit_int ''acked_at'' (nt_AckedAt x) @
     omit_int ''expires_at'' (nt_ExpiresAt x) @
     omit_str ''payload'' (nt_Payload x) @
     [(''created_at'', JNum (nt_CreatedAt x))])"

definition Reaction_json :: "Reaction \<Rightarrow> json" where
  "Reaction_json x = JObj (
     [(''message_id'', JStr (rx_MessageID x))] @
     [(''member_id'', JStr (rx_MemberID x))] @
     [(''emoji'', JStr (rx_Emoji x))] @
     [(''created_at'', JNum (rx_CreatedAt x))])"

definition Pin_json :: "Pin \<Rightarrow> json" where
  "Pin_json x = JObj (
     [(''id'', JStr (pin_ID x))] @
     [(''message_id'', JStr (pin_MessageID x))] @
     [(''channel_id'', JStr (pin_ChannelID x))] @
     [(''pinned_by'', JStr (pin_PinnedBy x))] @
     [(''created_at'', JNum (pin_CreatedAt x))])"

definition ApprovalRequest_json :: "ApprovalRequest \<Rightarrow> json" where
  "ApprovalRequest_json x = JObj (
     [(''id'', JStr (apr_ID x))] @
     [(''workspace_id'', JStr (apr_WorkspaceID x))] @
     [(''agent_id'', JStr (apr_AgentID x))] @
     omit_str ''channel_id'' (apr_ChannelID x) @
     [(''action'', JStr (apr_Action x))] @
     omit_str ''payload'' (apr_Payload x) @
     [(''status'', JStr (apr_Status x))] @
     omit_str ''reviewer_id'' (apr_ReviewerID x) @
     omit_str ''review_note'' (apr_ReviewNote x) @
     [(''created_at'', JNum (apr_CreatedAt x))] @
     omit_int ''reviewed_at'' (apr_ReviewedAt x))"

definition Task_json :: "Task \<Rightarrow> json" where
  "Task_json x = JObj (
     [(''id'', JStr (task_ID x))] @
     [(''workspace_id'', JStr (task_WorkspaceID x))] @
     omit_str ''channel_id'' (task_ChannelID x) @
     omit_str ''assigned_to'' (task_AssignedTo x) @
     [(''created_by'', JStr (task_CreatedBy x))] @
     [(''title'', JStr (task_Title x))] @
     omit_str ''description'' (task_Description x) @
     [(''status'', JStr (task_Status x))] @
     [(''priority'', JStr (task_Priority x))] @
     omit_int ''due_at'' (task_DueAt x) @
     [(''created_at'', JNum (task_CreatedAt x))] @
     [(''updated_at'', JNum (task_UpdatedAt x))])"

definition AgentWorkspaceItem_json :: "AgentWorkspaceItem \<Rightarrow> json" where
  "AgentWorkspaceItem_json x = JObj (
     [(''id'', JStr (wsi_ID x))] @
     [(''agent_id'', JStr (wsi_AgentID x))] @
     [(''workspace_id'', JStr (wsi_WorkspaceID x))] @
     [(''name'', JStr (wsi_Name x))] @
     omit_str ''description'' (wsi_Description x) @
     omit_str ''content'' (wsi_Content x) @
     [(''mime_type'', JStr (wsi_MimeType x))] @
     [(''size'', JNum (wsi_Size x))] @
     omit_str ''file_id'' (wsi_FileID x) @
     [(''namespace'', JStr (wsi_Namespace x))] @
     omit_strs ''tags'' (wsi_Tags x) @
     [(''created_at'', JNum (wsi_CreatedAt x))] @
     [(''updated_at'', JNum (wsi_UpdatedAt x))])"

end
