(* ===== verification/Db.thy ===== *)
theory Db
  imports Models "HOL-Library.List_Lexorder" "HOL-Library.Char_ord"
begin

text \<open>
  The database as the SQLite store sees it: one list of rows per table (in rowid
  order), the execution of a statement, foreign keys with their actions, and the
  triggers of the schema (store/migrations.go and the migrations of
  store/sqlite.go).  An empty string stands for NULL in the columns the code writes
  through nullStr.  The bookmarks table has no operation and is left out.
\<close>

section \<open>State\<close>

datatype db_error =
    DriverErr string
  | UniqueErr string
  | ForeignKeyErr
  | CheckErr string
  | SqlErr string
  | AppErr string

record store = env +
  t_workspaces :: "Workspace list"
  t_members :: "Member list"
  t_blacklist :: "(string \<times> int) list"
  t_channels :: "Channel list"
  t_channel_members :: "ChannelMember list"
  t_messages :: "Message list"
  t_reactions :: "Reaction list"
  t_tasks :: "Task list"
  t_memory :: "AgentMemory list"
  t_files :: "File list"
  t_pins :: "Pin list"
  t_approvals :: "ApprovalRequest list"
  t_webhooks :: "Webhook list"
  t_edits :: "EditHistory list"
  t_oauth :: "OAuthIdentity list"
  t_notifications :: "Notification list"
  t_integrations :: "Integration list"
  t_ws_integrations :: "WorkspaceIntegration list"
  t_sso :: "SSOProvider list"
  t_calls :: "Call list"
  t_workflows :: "Workflow list"
  t_runs :: "WorkflowRun list"
  t_keys :: "UserKey list"
  t_encrypted :: "EncryptedMessage list"
  t_billing :: "BillingCustomer list"
  t_usage :: "UsageRecord list"
  t_drafts :: "HeldDraft list"
  t_items :: "AgentWorkspaceItem list"
  t_reviews :: "ReviewRequest list"
  t_templates :: "TeamTemplate list"

definition store0 :: "int \<Rightarrow> (nat \<Rightarrow> string) \<Rightarrow> store" where
  "store0 t us = \<lparr>now = t, uuids = us, uuid_ctr = 0, faults = [],
     t_workspaces = [], t_members = [], t_blacklist = [], t_channels = [], t_channel_members = [],
     t_messages = [], t_reactions = [], t_tasks = [], t_memory = [], t_files = [], t_pins = [],
     t_approvals = [], t_webhooks = [], t_edits = [], t_oauth = [], t_notifications = [],
     t_integrations = [], t_ws_integrations = [], t_sso = [], t_calls = [], t_workflows = [],
     t_runs = [], t_keys = [], t_encrypted = [], t_billing = [], t_usage = [], t_drafts = [],
     t_items = [], t_reviews = [], t_templates = []\<rparr>"

section \<open>Statements\<close>

text \<open>
  Each statement may fail in the driver (a lock, a cancelled context, an I/O error):
  it takes the next entry of the fault list.  Otherwise a query returns its result
  and a modification either fails as a whole or takes effect.
\<close>

definition take_fault :: "store \<Rightarrow> string option \<times> store" where
  "take_fault s = (case faults s of [] \<Rightarrow> (None, s) | f # fs \<Rightarrow> (f, s\<lparr>faults := fs\<rparr>))"

definition query :: "(store \<Rightarrow> 'a) \<Rightarrow> store \<Rightarrow> (db_error + 'a) \<times> store" where
  "query f s = (case take_fault s of
     (Some e, s') \<Rightarrow> (Inl (DriverErr e), s')
   | (None, s') \<Rightarrow> (Inr (f s'), s'))"

definition exec :: "(store \<Rightarrow> db_error + store) \<Rightarrow> store \<Rightarrow> (db_error + unit) \<times> store" where
  "exec g s = (case take_fault s of
     (Some e, s') \<Rightarrow> (Inl (DriverErr e), s')
   | (None, s') \<Rightarrow> (case g s' of Inl e \<Rightarrow> (Inl e, s') | Inr s'' \<Rightarrow> (Inr (), s'')))"

text \<open>ORDER BY ... LIMIT n OFFSET k; a negative limit means no limit.\<close>

definition sql_limit :: "int \<Rightarrow> 'a list \<Rightarrow> 'a list" where
  "sql_limit n xs = (if n < 0 then xs else take (nat n) xs)"

definition sql_offset :: "int \<Rightarrow> 'a list \<Rightarrow> 'a list" where
  "sql_offset k xs = drop (nat k) xs"

text \<open>
  ORDER BY key ASC keeps rows with equal keys in rowid order; ORDER BY key DESC is
  the reverse walk, newest row first.  SQL leaves the order of equal keys open; no
  property below depends on it.
\<close>

definition order_asc :: "('r \<Rightarrow> 'k :: linorder) \<Rightarrow> 'r list \<Rightarrow> 'r list" where
  "order_asc key rs = sort_key key rs"

definition order_desc :: "('r \<Rightarrow> 'k :: linorder) \<Rightarrow> 'r list \<Rightarrow> 'r list" where
  "order_desc key rs = rev (sort_key key rs)"

definition nullStr :: "string \<Rightarrow> string option" where
  "nullStr s = (if s = '''' then None else Some s)"

section \<open>Foreign keys\<close>

datatype parent = PWorkspace | PMember | PChannel | PMessage | PFile | PIntegration | PWorkflow

datatype fk_action = Cascade | SetNull | NoAction

type_synonym fk = "parent \<times> fk_action \<times> string option"

definition member_fks :: "Member \<Rightarrow> fk list" where
  "member_fks m = [(PWorkspace, Cascade, Some (mb_WorkspaceID m))]"

definition channel_fks :: "Channel \<Rightarrow> fk list" where
  "channel_fks c = [(PWorkspace, Cascade, Some (ch_WorkspaceID c))]"

definition channel_member_fks :: "ChannelMember \<Rightarrow> fk list" where
  "channel_member_fks c = [(PChannel, Cascade, Some (cm_ChannelID c)),
     (PMember, Cascade, Some (cm_MemberID c))]"

definition message_fks :: "Message \<Rightarrow> fk list" where
  "message_fks m = [(PChannel, Cascade, Some (msg_ChannelID m)),
     (PMember, Cascade, Some (msg_SenderID m)), (PMessage, NoAction, nullStr (msg_ThreadID m))]"

definition reaction_fks :: "Reaction \<Rightarrow> fk list" where
  "reaction_fks r = [(PMessage, Cascade, Some (rx_MessageID r)),
     (PMember, Cascade, Some (rx_MemberID r))]"

definition task_fks :: "Task \<Rightarrow> fk list" where
  "task_fks t = [(PWorkspace, Cascade, Some (task_WorkspaceID t)),
     (PChannel, Cascade, nullStr (task_ChannelID t)), (PMember, Cascade, nullStr (task_AssignedTo t)),
     (PMember, Cascade, Some (task_CreatedBy t))]"

definition memory_fks :: "AgentMemory \<Rightarrow> fk list" where
  "memory_fks a = [(PMember, Cascade, Some (am_AgentID a))]"

definition file_fks :: "File \<Rightarrow> fk list" where
  "file_fks f = [(PWorkspace, Cascade, Some (fl_WorkspaceID f)),
     (PMember, Cascade, Some (fl_UploaderID f))]"

definition pin_fks :: "Pin \<Rightarrow> fk list" where
  "pin_fks p = [(PMessage, Cascade, Some (pin_MessageID p)),
     (PChannel, Cascade, Some (pin_ChannelID p)), (PMember, Cascade, Some (pin_PinnedBy p))]"

definition approval_fks :: "ApprovalRequest \<Rightarrow> fk list" where
  "approval_fks a = [(PWorkspace, Cascade, Some (apr_WorkspaceID a)),
     (PMember, Cascade, Some (apr_AgentID a)), (PChannel, Cascade, nullStr (apr_ChannelID a)),
     (PMember, Cascade, nullStr (apr_ReviewerID a))]"

definition webhook_fks :: "Webhook \<Rightarrow> fk list" where
  "webhook_fks w = [(PWorkspace, Cascade, Some (wh_WorkspaceID w)),
     (PChannel, Cascade, Some (wh_ChannelID w)), (PMember, Cascade, Some (wh_CreatedBy w))]"

definition edit_fks :: "EditHistory \<Rightarrow> fk list" where
  "edit_fks e = [(PMessage, Cascade, Some (eh_MessageID e)), (PMember, Cascade, Some (eh_EditedBy e))]"

definition oauth_fks :: "OAuthIdentity \<Rightarrow> fk list" where
  "oauth_fks a = [(PMember, Cascade, Some (oa_MemberID a))]"

definition notification_fks :: "Notification \<Rightarrow> fk list" where
  "notification_fks n = [(PMember, Cascade, Some (nt_MemberID n)),
     (PChannel, SetNull, nullStr (nt_ChannelID n)), (PMessage, SetNull, nullStr (nt_MessageID n))]"

definition ws_integration_fks :: "WorkspaceIntegration \<Rightarrow> fk list" where
  "ws_integration_fks w = [(PWorkspace, Cascade, Some (wi_WorkspaceID w)),
     (PIntegration, Cascade, Some (wi_IntegrationID w)), (PMember, Cascade, Some (wi_InstalledBy w))]"

definition sso_fks :: "SSOProvider \<Rightarrow> fk list" where
  "sso_fks p = [(PWorkspace, Cascade, Some (sso_WorkspaceID p))]"

definition call_fks :: "Call \<Rightarrow> fk list" where
  "call_fks c = [(PWorkspace, Cascade, Some (call_WorkspaceID c)),
     (PChannel, SetNull, nullStr (call_ChannelID c)), (PMember, Cascade, Some (call_CallerID c)),
     (PMember, Cascade, Some (call_CalleeID c))]"

definition workflow_fks :: "Workflow \<Rightarrow> fk list" where
  "workflow_fks w = [(PWorkspace, Cascade, Some (wf_WorkspaceID w)),
     (PMember, Cascade, Some (wf_CreatedBy w))]"

definition run_fks :: "WorkflowRun \<Rightarrow> fk list" where
  "run_fks r = [(PWorkflow, Cascade, Some (wr_WorkflowID r))]"

definition key_fks :: "UserKey \<Rightarrow> fk list" where
  "key_fks k = [(PMember, Cascade, Some (uk_MemberID k))]"

definition encrypted_fks :: "EncryptedMessage \<Rightarrow> fk list" where
  "encrypted_fks e = [(PMessage, Cascade, Some (em_MessageID e)),
     (PMember, Cascade, Some (em_RecipientID e))]"

definition billing_fks :: "BillingCustomer \<Rightarrow> fk list" where
  "billing_fks b = [(PWorkspace, Cascade, Some (bc_WorkspaceID b))]"

definition usage_fks :: "UsageRecord \<Rightarrow> fk list" where
  "usage_fks u = [(PWorkspace, Cascade, Some (ur_WorkspaceID u))]"

definition draft_fks :: "HeldDraft \<Rightarrow> fk list" where
  "draft_fks d = [(PMember, Cascade, Some (hd_AgentID d)), (PChannel, Cascade, Some (hd_ChannelID d))]"

definition item_fks :: "AgentWorkspaceItem \<Rightarrow> fk list" where
  "item_fks i = [(PMember, Cascade, Some (wsi_AgentID i)),
     (PWorkspace, Cascade, Some (wsi_WorkspaceID i)), (PFile, SetNull, nullStr (wsi_FileID i))]"

definition review_fks :: "ReviewRequest \<Rightarrow> fk list" where
  "review_fks r = [(PWorkspace, Cascade, Some (rr_WorkspaceID r)),
     (PChannel, Cascade, Some (rr_ChannelID r)), (PMember, Cascade, Some (rr_RequesterID r)),
     (PMember, Cascade, Some (rr_ReviewerID r)), (PMessage, NoAction, nullStr (rr_ThreadID r))]"

definition template_fks :: "TeamTemplate \<Rightarrow> fk list" where
  "template_fks t = [(PMember, SetNull, nullStr (tt_CreatedBy t))]"

text \<open>The ids a foreign key may name.\<close>

fun ids :: "store \<Rightarrow> parent \<Rightarrow> string list" where
  "ids s PWorkspace = map ws_ID (t_workspaces s)"
| "ids s PMember = map mb_ID (t_members s)"
| "ids s PChannel = map ch_ID (t_channels s)"
| "ids s PMessage = map msg_ID (t_messages s)"
| "ids s PFile = map fl_ID (t_files s)"
| "ids s PIntegration = map ig_ID (t_integrations s)"
| "ids s PWorkflow = map wf_ID (t_workflows s)"

fun fk_sat :: "(parent \<Rightarrow> string list) \<Rightarrow> fk \<Rightarrow> bool" where
  "fk_sat is (p, a, None) = True"
| "fk_sat is (p, a, Some v) = (v \<in> set (is p))"

text \<open>
  INSERT: chk is the CHECK constraint the row violates, uniq the uniqueness violation
  it would cause, if any; put is the effect, triggers included.  Foreign keys are
  checked at the end of the statement.
\<close>

definition insert_checked ::
  "string option \<Rightarrow> string option \<Rightarrow> fk list \<Rightarrow> (store \<Rightarrow> store) \<Rightarrow> store \<Rightarrow> db_error + store" where
  "insert_checked chk uniq fks put s =
     (case chk of Some c \<Rightarrow> Inl (CheckErr c)
      | None \<Rightarrow> (case uniq of Some u \<Rightarrow> Inl (UniqueErr u)
      | None \<Rightarrow> if list_all (fk_sat (ids (put s))) fks then Inr (put s) else Inl ForeignKeyErr))"

definition dup :: "string \<Rightarrow> bool \<Rightarrow> string option" where
  "dup col b = (if b then Some col else None)"

definition bad :: "string \<Rightarrow> bool \<Rightarrow> string option" where
  "bad col ok = (if ok then None else Some col)"

fun first_some :: "'a option list \<Rightarrow> 'a option" where
  "first_some [] = None"
| "first_some (None # xs) = first_some xs"
| "first_some (Some x # xs) = Some x"

text \<open>if x.ID == "" { x.ID = uuid.New().String() }\<close>

definition fresh_id :: "string \<Rightarrow> store \<Rightarrow> string \<times> store" where
  "fresh_id i s = (if i = '''' then new_uuid s else (i, s))"

section \<open>Deletion\<close>

text \<open>
  The rows of the parent tables a DELETE takes with it, by id: first the rows the
  statement names, then everything that references them ON DELETE CASCADE, in the
  order of the reference graph, which has no cycle apart from messages.thread_id
  (NO ACTION).
\<close>

record doomed =
  d_ws :: "string list"
  d_mb :: "string list"
  d_ch :: "string list"
  d_msg :: "string list"
  d_fl :: "string list"
  d_ig :: "string list"
  d_wf :: "string list"

definition doomed0 :: doomed where
  "doomed0 = \<lparr>d_ws = [], d_mb = [], d_ch = [], d_msg = [], d_fl = [], d_ig = [], d_wf = []\<rparr>"

fun dead :: "doomed \<Rightarrow> parent \<Rightarrow> string list" where
  "dead d PWorkspace = d_ws d"
| "dead d PMember = d_mb d"
| "dead d PChannel = d_ch d"
| "dead d PMessage = d_msg d"
| "dead d PFile = d_fl d"
| "dead d PIntegration = d_ig d"
| "dead d PWorkflow = d_wf d"

fun hits :: "doomed \<Rightarrow> fk_action \<Rightarrow> fk \<Rightarrow> bool" where
  "hits d act (p, a, None) = False"
| "hits d act (p, a, Some v) = (a = act \<and> v \<in> set (dead d p))"

definition hit :: "doomed \<Rightarrow> fk_action \<Rightarrow> fk list \<Rightarrow> bool" where
  "hit d act fks = list_ex (hits d act) fks"

definition doom :: "doomed \<Rightarrow> store \<Rightarrow> doomed" where
  "doom d0 s =
     (let d1 = d0\<lparr>d_mb := d_mb d0 @ map mb_ID (filter (\<lambda>r. hit d0 Cascade (member_fks r)) (t_members s)),
                  d_ch := d_ch d0 @ map ch_ID (filter (\<lambda>r. hit d0 Cascade (channel_fks r)) (t_channels s))\<rparr>;
          d2 = d1\<lparr>d_msg := d_msg d1 @ map msg_ID (filter (\<lambda>r. hit d1 Cascade (message_fks r)) (t_messages s)),
                  d_fl := d_fl d1 @ map fl_ID (filter (\<lambda>r. hit d1 Cascade (file_fks r)) (t_files s)),
                  d_wf := d_wf d1 @ map wf_ID (filter (\<lambda>r. hit d1 Cascade (workflow_fks r)) (t_workflows s))\<rparr>
      in d2)"

definition sweep :: "doomed \<Rightarrow> ('r \<Rightarrow> fk list) \<Rightarrow> 'r list \<Rightarrow> 'r list" where
  "sweep d fks rs = del_where (\<lambda>r. hit d Cascade (fks r)) rs"

definition in_ids :: "string \<Rightarrow> string list \<Rightarrow> bool" where
  "in_ids i is \<longleftrightarrow> i \<in> set is"

definition null_notification :: "doomed \<Rightarrow> Notification \<Rightarrow> Notification" where
  "null_notification d n =
     n\<lparr>nt_ChannelID := if in_ids (nt_ChannelID n) (d_ch d) then '''' else nt_ChannelID n,
       nt_MessageID := if in_ids (nt_MessageID n) (d_msg d) then '''' else nt_MessageID n\<rparr>"

definition null_call :: "doomed \<Rightarrow> Call \<Rightarrow> Call" where
  "null_call d c = c\<lparr>call_ChannelID := if in_ids (call_ChannelID c) (d_ch d) then '''' else call_ChannelID c\<rparr>"

definition null_item :: "doomed \<Rightarrow> AgentWorkspaceItem \<Rightarrow> AgentWorkspaceItem" where
  "null_item d i = i\<lparr>wsi_FileID := if in_ids (wsi_FileID i) (d_fl d) then '''' else wsi_FileID i\<rparr>"

definition null_template :: "doomed \<Rightarrow> TeamTemplate \<Rightarrow> TeamTemplate" where
  "null_template d t = t\<lparr>tt_CreatedBy := if in_ids (tt_CreatedBy t) (d_mb d) then '''' else tt_CreatedBy t\<rparr>"

text \<open>
  trg_reply_count_delete: every deleted reply takes one off its parent's count.
\<close>

definition replies_in :: "string \<Rightarrow> Message list \<Rightarrow> int" where
  "replies_in i ms = int (length (filter (\<lambda>m. nullStr (msg_ThreadID m) = Some i) ms))"

definition uncount_replies :: "doomed \<Rightarrow> Message list \<Rightarrow> Message \<Rightarrow> Message" where
  "uncount_replies d ms m = m\<lparr>msg_ReplyCount :=
     msg_ReplyCount m - replies_in (msg_ID m) (filter (\<lambda>x. in_ids (msg_ID x) (d_msg d)) ms)\<rparr>"

definition sweep_all :: "doomed \<Rightarrow> store \<Rightarrow> store" where
  "sweep_all d s = s\<lparr>
     t_workspaces := del_where (\<lambda>r. in_ids (ws_ID r) (d_ws d)) (t_workspaces s),
     t_members := del_where (\<lambda>r. in_ids (mb_ID r) (d_mb d)) (t_members s),
     t_channels := del_where (\<lambda>r. in_ids (ch_ID r) (d_ch d)) (t_channels s),
     t_messages := map (uncount_replies d (t_messages s))
       (del_where (\<lambda>r. in_ids (msg_ID r) (d_msg d)) (t_messages s)),
     t_files := del_where (\<lambda>r. in_ids (fl_ID r) (d_fl d)) (t_files s),
     t_integrations := del_where (\<lambda>r. in_ids (ig_ID r) (d_ig d)) (t_integrations s),
     t_workflows := del_where (\<lambda>r. in_ids (wf_ID r) (d_wf d)) (t_workflows s),
     t_channel_members := sweep d channel_member_fks (t_channel_members s),
     t_reactions := sweep d reaction_fks (t_reactions s),
     t_tasks := sweep d task_fks (t_tasks s),
     t_memory := sweep d memory_fks (t_memory s),
     t_pins := sweep d pin_fks (t_pins s),
     t_approvals := sweep d approval_fks (t_approvals s),
     t_webhooks := sweep d webhook_fks (t_webhooks s),
     t_edits := sweep d edit_fks (t_edits s),
     t_oauth := sweep d oauth_fks (t_oauth s),
     t_notifications := map (null_notification d) (sweep d notification_fks (t_notifications s)),
     t_ws_integrations := sweep d ws_integration_fks (t_ws_integrations s),
     t_sso := sweep d sso_fks (t_sso s),
     t_calls := map (null_call d) (sweep d call_fks (t_calls s)),
     t_runs := sweep d run_fks (t_runs s),
     t_keys := sweep d key_fks (t_keys s),
     t_encrypted := sweep d encrypted_fks (t_encrypted s),
     t_billing := sweep d billing_fks (t_billing s),
     t_usage := sweep d usage_fks (t_usage s),
     t_drafts := sweep d draft_fks (t_drafts s),
     t_items := map (null_item d) (sweep d item_fks (t_items s)),
     t_reviews := sweep d review_fks (t_reviews s),
     t_templates := map (null_template d) (t_templates s)\<rparr>"

text \<open>DELETE of parent rows: fails as a whole if a NO ACTION reference would dangle.\<close>

definition delete_parents :: "doomed \<Rightarrow> store \<Rightarrow> db_error + store" where
  "delete_parents d0 s =
     (let d = doom d0 s in
      if list_ex (\<lambda>m. \<not> in_ids (msg_ID m) (d_msg d) \<and> hit d NoAction (message_fks m)) (t_messages s)
        \<or> list_ex (\<lambda>r. \<not> hit d Cascade (review_fks r) \<and> hit d NoAction (review_fks r)) (t_reviews s)
      then Inl ForeignKeyErr
      else Inr (sweep_all d s))"

end
