(* ===== verification/Go_Strings.thy ===== *)
theory Go_Strings
  imports Lark_Prelude "HOL-Library.Sublist"
begin

text \<open>
  The functions of Go's strings package the program calls, on strings as byte
  lists.  White space is Unicode white space: the scanners look for the UTF-8
  encoding of a space at each byte position, which is what decoding rune by rune
  does, since the first byte of such an encoding is never a continuation byte.
\<close>

section \<open>Bytes\<close>

abbreviation byte :: "char \<Rightarrow> nat" where
  "byte c \<equiv> of_char c"

definition ascii_space :: "char \<Rightarrow> bool" where
  "ascii_space c \<longleftrightarrow> byte c = 32 \<or> (9 \<le> byte c \<and> byte c \<le> 13)"

text \<open>The length of the space rune a string starts with, 0 if it starts with none.\<close>

fun space_len :: "string \<Rightarrow> nat" where
  "space_len [] = 0"
| "space_len (a # s) =
     (if ascii_space a then 1
      else case s of
        [] \<Rightarrow> 0
      | b # t \<Rightarrow>
          if byte a = 194 \<and> (byte b = 133 \<or> byte b = 160) then 2
          else case t of
            [] \<Rightarrow> 0
          | c # _ \<Rightarrow>
              if byte a = 225 \<and> byte b = 154 \<and> byte c = 128
                \<or> byte a = 226 \<and> byte b = 128
                    \<and> (128 \<le> byte c \<and> byte c \<le> 138 \<or> byte c \<in> {168, 169, 175})
                \<or> byte a = 226 \<and> byte b = 129 \<and> byte c = 159
                \<or> byte a = 227 \<and> byte b = 128 \<and> byte c = 128
              then 3 else 0)"

lemma space_len_le: "space_len s \<le> length s"
  by (cases s rule: space_len.cases) (auto split: list.splits)

text \<open>Bytes at which no space rune starts, whatever follows.\<close>

definition word_char :: "char \<Rightarrow> bool" where
  "word_char c \<longleftrightarrow> \<not> ascii_space c \<and> byte c \<notin> {194, 225, 226, 227}"

lemma space_len_word_char [simp]: "word_char c \<Longrightarrow> space_len (c # s) = 0"
  by (auto simp: word_char_def split: list.splits)

lemma space_len_ascii [simp]: "ascii_space c \<Longrightarrow> space_len (c # s) = 1"
  by simp

declare space_len.simps(2) [simp del]

section \<open>strings.Fields\<close>

definition flush :: "string \<Rightarrow> string list" where
  "flush cur = (if cur = [] then [] else [rev cur])"

function fields_aux :: "string \<Rightarrow> string \<Rightarrow> string list" where
  "fields_aux cur [] = flush cur"
| "fields_aux cur (c # cs) =
     (if space_len (c # cs) = 0 then fields_aux (c # cur) cs
      else flush cur @ fields_aux [] (drop (space_len (c # cs) - 1) cs))"
  by pat_completeness auto
termination by (relation "measure (length \<circ> snd)") auto

definition Fields :: "string \<Rightarrow> string list" where
  "Fields s = fields_aux [] s"

lemma fields_aux_word:
  "\<forall>c\<in>set w. word_char c \<Longrightarrow> fields_aux cur (w @ s) = fields_aux (rev w @ cur) s"
  by (induction w arbitrary: cur) auto

lemma fields_aux_space:
  "ascii_space c \<Longrightarrow> fields_aux cur (c # s) = flush cur @ fields_aux [] s"
  by simp

lemma Fields_Nil [simp]: "Fields [] = []"
  by (simp add: Fields_def flush_def)

lemma Fields_word_space:
  assumes "\<forall>c\<in>set w. word_char c" "w \<noteq> []" "ascii_space c"
  shows "Fields (w @ c # s) = w # Fields s"
  using assms by (simp add: Fields_def fields_aux_word fields_aux_space flush_def)

lemma fields_aux_nonempty: "[] \<notin> set (fields_aux cur s)"
  by (induction cur s rule: fields_aux.induct) (auto simp: flush_def)

lemma Fields_nonempty: "w \<in> set (Fields s) \<Longrightarrow> w \<noteq> []"
  using fields_aux_nonempty [of "[]" s] by (auto simp: Fields_def)

section \<open>Trimming\<close>

definition TrimRight :: "string \<Rightarrow> string \<Rightarrow> string" where
  "TrimRight s cutset = rev (dropWhile (\<lambda>c. c \<in> set cutset) (rev s))"

lemma TrimRight_append:
  "\<exists>p. s = TrimRight s cset @ p \<and> set p \<subseteq> set cset"
proof -
  have "rev s = takeWhile (\<lambda>c. c \<in> set cset) (rev s) @ dropWhile (\<lambda>c. c \<in> set cset) (rev s)" by simp
  then have "s = TrimRight s cset @ rev (takeWhile (\<lambda>c. c \<in> set cset) (rev s))"
    unfolding TrimRight_def by (metis rev_append rev_rev_ident)
  moreover have "set (rev (takeWhile (\<lambda>c. c \<in> set cset) (rev s))) \<subseteq> set cset"
    by (auto dest: set_takeWhileD)
  ultimately show ?thesis by blast
qed

lemma TrimRight_last: "TrimRight s cset \<noteq> [] \<Longrightarrow> last (TrimRight s cset) \<notin> set cset"
  using hd_dropWhile [of "\<lambda>c. c \<in> set cset" "rev s"]
  by (auto simp: TrimRight_def last_rev)

lemma TrimRight_stop:
  assumes "w = [] \<or> last w \<notin> set cset" "set p \<subseteq> set cset"
  shows "TrimRight (w @ p) cset = w"
proof -
  have "dropWhile (\<lambda>c. c \<in> set cset) (rev p @ rev w) = dropWhile (\<lambda>c. c \<in> set cset) (rev w)"
    using assms(2) by (subst dropWhile_append2) auto
  also have "\<dots> = rev w"
    using assms(1) by (cases "rev w") (auto simp: last_rev [symmetric])
  finally show ?thesis by (simp add: TrimRight_def)
qed

function TrimLeftSpace :: "string \<Rightarrow> string" where
  "TrimLeftSpace [] = []"
| "TrimLeftSpace (c # cs) =
     (if space_len (c # cs) = 0 then c # cs
      else TrimLeftSpace (drop (space_len (c # cs) - 1) cs))"
  by pat_completeness auto
termination by (relation "measure length") auto

text \<open>The length of the space rune a string ends with, given the reversed string.\<close>

definition space_suffix :: "string \<Rightarrow> nat" where
  "space_suffix r =
     (if r \<noteq> [] \<and> ascii_space (hd r) then 1
      else if 2 \<le> length r \<and> space_len (rev (take 2 r)) = 2 then 2
      else if 3 \<le> length r \<and> space_len (rev (take 3 r)) = 3 then 3
      else 0)"

function trim_rev :: "string \<Rightarrow> string" where
  "trim_rev [] = []"
| "trim_rev (c # cs) =
     (if space_suffix (c # cs) = 0 then c # cs
      else trim_rev (drop (space_suffix (c # cs) - 1) cs))"
  by pat_completeness auto
termination by (relation "measure length") auto

definition TrimSpace :: "string \<Rightarrow> string" where
  "TrimSpace s = rev (trim_rev (rev (TrimLeftSpace s)))"

lemma trim_rev_Nil_iff_word: "s \<noteq> [] \<Longrightarrow> word_char (hd s) \<Longrightarrow> TrimLeftSpace s = s"
  by (cases s) auto

section \<open>Substrings\<close>

definition HasPrefix :: "string \<Rightarrow> string \<Rightarrow> bool" where
  "HasPrefix s p = prefix p s"

fun Index :: "string \<Rightarrow> string \<Rightarrow> nat option" where
  "Index [] p = (if p = [] then Some 0 else None)"
| "Index (c # cs) p = (if prefix p (c # cs) then Some 0 else map_option Suc (Index cs p))"

definition Contains :: "string \<Rightarrow> string \<Rightarrow> bool" where
  "Contains s p \<longleftrightarrow> Index s p \<noteq> None"

fun last_index_char :: "char \<Rightarrow> string \<Rightarrow> nat option" where
  "last_index_char x [] = None"
| "last_index_char x (c # cs) =
     (case last_index_char x cs of
        Some i \<Rightarrow> Some (Suc i)
      | None \<Rightarrow> if c = x then Some 0 else None)"

lemma Contains_sublist: "Contains s p \<longleftrightarrow> sublist p s"
proof (induction s)
  case Nil
  then show ?case by (simp add: Contains_def)
next
  case (Cons c s)
  then show ?case by (auto simp: Contains_def sublist_Cons_right)
qed

lemma last_index_char_split:
  "last_index_char x s = Some i \<Longrightarrow> s = take i s @ x # drop (Suc i) s \<and> x \<notin> set (drop (Suc i) s)"
proof (induction s arbitrary: i)
  case (Cons c s)
  show ?case
  proof (cases "last_index_char x s")
    case None
    moreover have "last_index_char x t = None \<Longrightarrow> x \<notin> set t" for t
      by (induction t) (auto split: option.splits if_splits)
    ultimately show ?thesis using Cons.prems by (auto split: if_splits)
  next
    case (Some j)
    then show ?thesis using Cons.IH [of j] Cons.prems by auto
  qed
qed simp

text \<open>strings.ReplaceAll with a one-byte pattern.\<close>

definition ReplaceAllChar :: "string \<Rightarrow> char \<Rightarrow> string \<Rightarrow> string" where
  "ReplaceAllChar s x r = concat (map (\<lambda>c. if c = x then r else [c]) s)"

fun Join :: "string list \<Rightarrow> string \<Rightarrow> string" where
  "Join [] sep = []"
| "Join [s] sep = s"
| "Join (s # ss) sep = s @ sep @ Join ss sep"

section \<open>Numbers\<close>

text \<open>strconv.Itoa, and the decimal reader strconv.Atoi on 64-bit integers.\<close>

definition digit_char :: "nat \<Rightarrow> char" where
  "digit_char d = char_of (48 + d)"

fun digits :: "nat \<Rightarrow> string" where
  "digits n = (if n < 10 then [digit_char n] else digits (n div 10) @ [digit_char (n mod 10)])"

declare digits.simps [simp del]

definition Itoa :: "int \<Rightarrow> string" where
  "Itoa i = (if i < 0 then CHR ''-'' # digits (nat (- i)) else digits (nat i))"

definition is_digit :: "char \<Rightarrow> bool" where
  "is_digit c \<longleftrightarrow> 48 \<le> byte c \<and> byte c \<le> 57"

fun value_of :: "int \<Rightarrow> string \<Rightarrow> int" where
  "value_of acc [] = acc"
| "value_of acc (c # cs) = value_of (acc * 10 + int (byte c - 48)) cs"

definition Atoi :: "string \<Rightarrow> int option" where
  "Atoi s =
     (let neg = (s \<noteq> [] \<and> hd s = CHR ''-'');
          ds = (if neg \<or> (s \<noteq> [] \<and> hd s = CHR ''+'') then tl s else s) in
      if ds = [] \<or> \<not> list_all is_digit ds then None
      else let v = (if neg then - value_of 0 ds else value_of 0 ds) in
        if - (2 ^ 63) \<le> v \<and> v < 2 ^ 63 then Some v else None)"

lemma byte_digit_char [simp]: "d < 10 \<Longrightarrow> byte (digit_char d) = 48 + d"
  by (simp add: digit_char_def)

lemma value_of_append: "value_of acc (xs @ ys) = value_of (value_of acc xs) ys"
  by (induction xs arbitrary: acc) auto

lemma digits_props: "digits n \<noteq> [] \<and> list_all is_digit (digits n) \<and> value_of 0 (digits n) = int n"
proof (induction n rule: digits.induct)
  case (1 n)
  show ?case
  proof (cases "n < 10")
    case True
    then show ?thesis by (simp add: digits.simps [of n] is_digit_def)
  next
    case False
    have "n mod 10 < 10" "int (n div 10) * 10 + int (n mod 10) = int n" by presburger+
    then show ?thesis using 1 False
      by (simp add: digits.simps [of n] is_digit_def value_of_append)
  qed
qed

lemma digits_hd: "\<exists>c cs. digits n = c # cs \<and> is_digit c"
  using digits_props [of n] by (cases "digits n") auto

lemma Atoi_Itoa:
  assumes "- (2 ^ 63) \<le> i" "i < 2 ^ 63"
  shows "Atoi (Itoa i) = Some i"
proof (cases "i < 0")
  case True
  then show ?thesis using digits_props [of "nat (- i)"] assms by (simp add: Itoa_def Atoi_def)
next
  case False
  obtain c cs where c: "digits (nat i) = c # cs" "is_digit c" using digits_hd by blast
  then have "c \<noteq> CHR ''-''" "c \<noteq> CHR ''+''" by (auto simp: is_digit_def)
  then show ?thesis using digits_props [of "nat i"] assms False c
    by (simp add: Itoa_def Atoi_def)
qed

end
