(* ===== verification/Text_Utils.thy ===== *)
theory Text_Utils
  imports Go_Strings
begin

text \<open>
  The pure text routines of the server: mention parsing (websocket/agent.go), the
  UUID check and the file-name sanitiser (api/helpers.go) and the full-text query
  quoting (store/sqlite.go).
\<close>

section \<open>Mentions\<close>

definition mention_punct :: string where
  "mention_punct = '',.!?;:''"

fun mention_of :: "string \<Rightarrow> string list" where
  "mention_of word =
     (if HasPrefix word ''@'' then
        let nm = TrimRight (drop 1 word) mention_punct in
        if nm \<noteq> '''' then [nm] else []
      else [])"

declare mention_of.simps [simp del]

definition ParseMentions :: "string \<Rightarrow> string list" where
  "ParseMentions content = concat (map mention_of (Fields content))"

text \<open>A mention as people write it: the name, then punctuation.\<close>

definition mentionable :: "string \<Rightarrow> bool" where
  "mentionable nm \<longleftrightarrow> nm \<noteq> [] \<and> (\<forall>c\<in>set nm. word_char c) \<and> last nm \<notin> set mention_punct"

lemma mention_of_at:
  assumes "mentionable nm" "set p \<subseteq> set mention_punct"
  shows "mention_of (CHR ''@'' # nm @ p) = [nm]"
  using assms TrimRight_stop [of nm mention_punct p]
  by (auto simp: mention_of.simps mentionable_def HasPrefix_def Let_def)

lemma word_char_punct: "c \<in> set mention_punct \<Longrightarrow> word_char c"
  by (auto simp: mention_punct_def word_char_def ascii_space_def)

text \<open>
  C22: writing the names one after the other as at-sign, name, any trailing
  punctuation and a space, parses back to exactly those names in that order,
  repetitions included.
\<close>
theorem mentions_roundtrip:
  assumes "\<forall>(nm, p)\<in>set ms. mentionable nm \<and> set p \<subseteq> set mention_punct"
  shows "ParseMentions (concat (map (\<lambda>(nm, p). ''@'' @ nm @ p @ '' '') ms)) = map fst ms"
  using assms
proof (induction ms)
  case Nil
  then show ?case by (simp add: ParseMentions_def)
next
  case (Cons m ms)
  obtain nm p where m: "m = (nm, p)" by force
  let ?rest = "concat (map (\<lambda>(nm, p). ''@'' @ nm @ p @ '' '') ms)"
  have ok: "mentionable nm" "set p \<subseteq> set mention_punct" using Cons.prems m by auto
  have "Fields ((CHR ''@'' # nm @ p) @ CHR '' '' # ?rest) = (CHR ''@'' # nm @ p) # Fields ?rest"
    using ok word_char_punct
    by (intro Fields_word_space) (auto simp: mentionable_def word_char_def ascii_space_def subset_iff)
  then show ?case
    using Cons mention_of_at [OF ok] m by (simp add: ParseMentions_def)
qed

theorem mentions_roundtrip_witness:
  "ParseMentions ''@ann, @bob! '' = [''ann'', ''bob'']"
  using mentions_roundtrip [of "[(''ann'', '',''), (''bob'', ''!'')]"]
  by (simp add: mentionable_def mention_punct_def word_char_def ascii_space_def)

text \<open>
  A parsed mention is never empty, never ends in the punctuation that was
  stripped, and comes from a word of the text that starts with the at-sign.
\<close>
theorem mentions_sound:
  assumes "nm \<in> set (ParseMentions s)"
  shows "nm \<noteq> [] \<and> last nm \<notin> set mention_punct
    \<and> (\<exists>p. set p \<subseteq> set mention_punct \<and> ''@'' @ nm @ p \<in> set (Fields s))"
proof -
  obtain w where w: "w \<in> set (Fields s)" "HasPrefix w ''@''"
      "nm = TrimRight (drop 1 w) mention_punct" "nm \<noteq> []"
    using assms by (auto simp: ParseMentions_def mention_of.simps Let_def split: if_splits)
  then obtain p where p: "drop 1 w = nm @ p" "set p \<subseteq> set mention_punct"
    using TrimRight_append [of "drop 1 w" mention_punct] by auto
  have "w = ''@'' @ nm @ p" using w(2) p(1) by (cases w) (auto simp: HasPrefix_def)
  then show ?thesis using w p TrimRight_last [of "drop 1 w" mention_punct] by auto
qed

theorem mentions_sound_witness:
  "\<exists>p. ''@'' @ ''bob'' @ p \<in> set (Fields ''hi @bob!'')"
proof -
  have "''bob'' \<in> set (ParseMentions ''hi @bob!'')" by code_simp
  then show ?thesis using mentions_sound by blast
qed

section \<open>UUIDs\<close>

definition hex_digit :: "char \<Rightarrow> bool" where
  "hex_digit c \<longleftrightarrow> (48 \<le> byte c \<and> byte c \<le> 57) \<or> (97 \<le> byte c \<and> byte c \<le> 102)
     \<or> (65 \<le> byte c \<and> byte c \<le> 70)"

fun uuid_chars :: "nat \<Rightarrow> string \<Rightarrow> bool" where
  "uuid_chars i [] = True"
| "uuid_chars i (c # cs) =
     (if i = 8 \<or> i = 13 \<or> i = 18 \<or> i = 23 then
        (if c \<noteq> CHR ''-'' then False else uuid_chars (Suc i) cs)
      else if \<not> hex_digit c then False
      else uuid_chars (Suc i) cs)"

definition isUUID :: "string \<Rightarrow> bool" where
  "isUUID s = (if length s \<noteq> 36 then False else uuid_chars 0 s)"

lemma uuid_chars_append:
  "uuid_chars i (s @ t) \<longleftrightarrow> uuid_chars i s \<and> uuid_chars (i + length s) t"
  by (induction i s rule: uuid_chars.induct) auto

definition hex_group :: "nat \<Rightarrow> string \<Rightarrow> bool" where
  "hex_group n g \<longleftrightarrow> length g = n \<and> list_all hex_digit g"

lemma uuid_chars_group:
  "\<forall>k<length g. i + k \<notin> {8, 13, 18, 23} \<Longrightarrow> uuid_chars i g = list_all hex_digit g"
proof (induction i g rule: uuid_chars.induct)
  case (2 i c cs)
  have "i \<notin> {8, 13, 18, 23}" using 2(3) [rule_format, of 0] by simp
  moreover have "\<forall>k<length cs. Suc i + k \<notin> {8, 13, 18, 23}"
    using 2(3) [rule_format, of "Suc k" for k] by simp
  ultimately show ?case using 2 by simp
qed simp

lemma uuid_chars_takeE:
  assumes "uuid_chars i s" "length s = n + m" "\<forall>k<n. i + k \<notin> {8, 13, 18, 23}"
  obtains g t where "s = g @ t" "hex_group n g" "uuid_chars (i + n) t" "length t = m"
proof
  show "s = take n s @ drop n s" by simp
  have "uuid_chars i (take n s) \<and> uuid_chars (i + n) (drop n s)"
    using assms(1,2) uuid_chars_append [of i "take n s" "drop n s"] by (simp add: min_absorb2)
  then show "hex_group n (take n s)" "uuid_chars (i + n) (drop n s)"
    using assms(2,3) uuid_chars_group [of "take n s" i] by (auto simp: hex_group_def)
qed (use assms(2) in simp)

lemma uuid_chars_dashE:
  assumes "uuid_chars i s" "length s = Suc m" "i \<in> {8, 13, 18, 23}"
  obtains t where "s = ''-'' @ t" "uuid_chars (Suc i) t" "length t = m"
  using assms by (cases s) (auto split: if_splits)

text \<open>
  The index-by-index check accepts exactly the five groups of 8, 4, 4, 4 and 12
  hexadecimal digits separated by dashes.
\<close>
theorem isUUID_groups:
  "isUUID s \<longleftrightarrow> (\<exists>a b c d e. s = a @ ''-'' @ b @ ''-'' @ c @ ''-'' @ d @ ''-'' @ e \<and>
     hex_group 8 a \<and> hex_group 4 b \<and> hex_group 4 c \<and> hex_group 4 d \<and> hex_group 12 e)"
proof
  assume u: "isUUID s"
  then have len: "length s = 36" and ch: "uuid_chars 0 s" by (auto simp: isUUID_def split: if_splits)
  obtain a s1 where a: "s = a @ s1" "hex_group 8 a" "uuid_chars 8 s1" "length s1 = 28"
    by (rule uuid_chars_takeE [OF ch, of 8 "28"]) (use len in auto)
  obtain s2 where s2: "s1 = ''-'' @ s2" "uuid_chars 9 s2" "length s2 = 27"
    by (rule uuid_chars_dashE [OF a(3), of "27"]) (use a(4) in auto)
  obtain b s3 where b: "s2 = b @ s3" "hex_group 4 b" "uuid_chars 13 s3" "length s3 = 23"
    by (rule uuid_chars_takeE [OF s2(2), of 4 "23"]) (use s2(3) in auto)
  obtain s4 where s4: "s3 = ''-'' @ s4" "uuid_chars 14 s4" "length s4 = 22"
    by (rule uuid_chars_dashE [OF b(3), of "22"]) (use b(4) in auto)
  obtain c s5 where c: "s4 = c @ s5" "hex_group 4 c" "uuid_chars 18 s5" "length s5 = 18"
    by (rule uuid_chars_takeE [OF s4(2), of 4 "18"]) (use s4(3) in auto)
  obtain s6 where s6: "s5 = ''-'' @ s6" "uuid_chars 19 s6" "length s6 = 17"
    by (rule uuid_chars_dashE [OF c(3), of "17"]) (use c(4) in auto)
  obtain d s7 where d: "s6 = d @ s7" "hex_group 4 d" "uuid_chars 23 s7" "length s7 = 13"
    by (rule uuid_chars_takeE [OF s6(2), of 4 "13"]) (use s6(3) in auto)
  obtain s8 where s8: "s7 = ''-'' @ s8" "uuid_chars 24 s8" "length s8 = 12"
    by (rule uuid_chars_dashE [OF d(3), of "12"]) (use d(4) in auto)
  have "hex_group 12 s8"
    using s8 uuid_chars_group [of s8 24] by (simp add: hex_group_def)
  then show "\<exists>a b c d e. s = a @ ''-'' @ b @ ''-'' @ c @ ''-'' @ d @ ''-'' @ e \<and>
     hex_group 8 a \<and> hex_group 4 b \<and> hex_group 4 c \<and> hex_group 4 d \<and> hex_group 12 e"
    using a(1,2) s2(1) b(1,2) s4(1) c(1,2) s6(1) d(1,2) s8(1) by blast
next
  assume "\<exists>a b c d e. s = a @ ''-'' @ b @ ''-'' @ c @ ''-'' @ d @ ''-'' @ e \<and>
     hex_group 8 a \<and> hex_group 4 b \<and> hex_group 4 c \<and> hex_group 4 d \<and> hex_group 12 e"
  then show "isUUID s"
    by (auto simp: isUUID_def hex_group_def uuid_chars_append uuid_chars_group)
qed

section \<open>File names\<close>

text \<open>
  filepath.Base on a slash-separated path: trailing slashes are dropped, then
  everything up to the last slash; an empty path is a dot, one of slashes only is
  a slash.
\<close>

definition Base :: "string \<Rightarrow> string" where
  "Base p =
     (if p = [] then ''.''
      else let q = TrimRight p ''/'';
               q = (case last_index_char (CHR ''/'') q of None \<Rightarrow> q | Some i \<Rightarrow> drop (Suc i) q) in
        if q = [] then ''/'' else q)"

definition quote :: char where
  "quote = CHR 0x22"

definition sanitizeFilename :: "string \<Rightarrow> string" where
  "sanitizeFilename nm =
     (let nm = Base nm;
          nm = ReplaceAllChar nm quote '''';
          nm = ReplaceAllChar nm (CHR 0x0A) '''';
          nm = ReplaceAllChar nm (CHR 0x0D) '''' in
      if nm = ''.'' \<or> nm = ''/'' then ''unnamed'' else nm)"

lemma set_ReplaceAllChar: "set (ReplaceAllChar s x []) = set s - {x}"
  by (auto simp: ReplaceAllChar_def)

lemma last_index_char_None: "last_index_char x s = None \<Longrightarrow> x \<notin> set s"
  by (induction s) (auto split: option.splits if_splits)

lemma Base_no_slash: "Base p = ''/'' \<or> CHR ''/'' \<notin> set (Base p)"
  using last_index_char_split [of "CHR ''/''" "TrimRight p ''/''"]
    last_index_char_None [of "CHR ''/''" "TrimRight p ''/''"]
  by (auto simp: Base_def Let_def split: option.splits)

lemma ReplaceAllChar_id: "x \<notin> set s \<Longrightarrow> ReplaceAllChar s x r = s"
  by (induction s) (auto simp: ReplaceAllChar_def)

text \<open>
  C23: a sanitised file name holds no slash, no double quote and no line break, so it
  can neither leave its directory by a path separator nor break out of the quoted
  Content-Disposition header.
\<close>
theorem sanitizeFilename_safe:
  "set (sanitizeFilename s) \<inter> {CHR ''/'', quote, CHR 0x0A, CHR 0x0D} = {}"
proof (cases "Base s = ''/''")
  case True
  then show ?thesis
    by (simp add: sanitizeFilename_def Let_def ReplaceAllChar_id quote_def)
next
  case False
  then have "CHR ''/'' \<notin> set (Base s)" using Base_no_slash by blast
  then show ?thesis
    by (auto simp: sanitizeFilename_def Let_def set_ReplaceAllChar quote_def)
qed

section \<open>Full-text queries\<close>

definition fts_quote :: "string \<Rightarrow> string" where
  "fts_quote w = [quote] @ ReplaceAllChar w quote [quote, quote] @ [quote]"

definition sanitizeFTS5Query :: "string \<Rightarrow> string" where
  "sanitizeFTS5Query query = Join (map fts_quote (Fields query)) '' ''"

text \<open>
  How FTS5 reads such a query, per its documentation: strings in double quotes, a
  doubled quote inside standing for one, separated by spaces, their conjunction.
  The reader returns the strings, or None for anything else.
\<close>

fun read_str :: "string \<Rightarrow> string \<Rightarrow> (string \<times> string) option" where
  "read_str acc [] = None"
| "read_str acc (c # cs) =
     (if c \<noteq> quote then read_str (c # acc) cs
      else case cs of
        [] \<Rightarrow> Some (rev acc, [])
      | d # ds \<Rightarrow> if d = quote then read_str (quote # acc) ds else Some (rev acc, cs))"

lemma read_str_shorter: "read_str acc s = Some (w, r) \<Longrightarrow> length r < length s"
  by (induction acc s rule: read_str.induct) (auto split: if_splits list.splits)

function fts_read :: "string \<Rightarrow> string list option" where
  "fts_read [] = Some []"
| "fts_read (c # cs) =
     (if c = CHR '' '' then fts_read cs
      else if c = quote then
        (case read_str [] cs of
           None \<Rightarrow> None
         | Some (w, r) \<Rightarrow> map_option (Cons w) (fts_read r))
      else None)"
  by pat_completeness auto
termination
  by (relation "measure length") (auto dest: read_str_shorter)

lemma read_str_quoted:
  "r = [] \<or> hd r \<noteq> quote \<Longrightarrow>
   read_str acc (ReplaceAllChar w quote [quote, quote] @ quote # r) = Some (rev acc @ w, r)"
  by (induction w arbitrary: acc) (auto simp: ReplaceAllChar_def neq_Nil_conv split: list.splits)

lemma fts_read_quote:
  "r = [] \<or> hd r \<noteq> quote \<Longrightarrow> fts_read (fts_quote w @ r) = map_option (Cons w) (fts_read r)"
  by (simp add: fts_quote_def read_str_quoted) (simp add: quote_def)

lemma fts_read_Join: "fts_read (Join (map fts_quote ws) '' '') = Some ws"
proof (induction ws)
  case (Cons w ws)
  show ?case
  proof (cases ws)
    case Nil
    then show ?thesis using fts_read_quote [of "[]" w] by simp
  next
    case (Cons w' ws')
    then show ?thesis
      using Cons.IH fts_read_quote [of "CHR '' '' # Join (map fts_quote ws) '' ''" w]
      by (simp add: quote_def)
  qed
qed simp


end
