(* ===== verification/Store_Core.thy ===== *)
theory Store_Core
  imports Db Text_Utils
begin

text \<open>
  store/sqlite.go, first part: workspaces, members, channels, channel membership,
  messages, reactions and search.  An operation that fills in fields of its
  argument returns the filled-in row as well, as the Go code does through its
  pointer.  Columns the INSERT leaves out get their defaults.
\<close>

section \<open>Workspaces\<close>

definition CreateWorkspace :: "Workspace \<Rightarrow> store \<Rightarrow> (db_error + unit) \<times> Workspace \<times> store" where
  "CreateWorkspace w s =
     (let (i, s) = fresh_id (ws_ID w) s;
          w = w\<lparr>ws_ID := i, ws_CreatedAt := now s, ws_UpdatedAt := now s\<rparr>;
          (r, s) = exec (\<lambda>s. insert_checked None
            (first_some [dup ''workspaces.id'' (ws_ID w \<in> set (map ws_ID (t_workspaces s))),
                         dup ''workspaces.slug'' (ws_Slug w \<in> set (map ws_Slug (t_workspaces s)))])
            [] (\<lambda>s. s\<lparr>t_workspaces := t_workspaces s @ [w]\<rparr>) s) s
      in (r, w, s))"

definition GetWorkspace :: "string \<Rightarrow> store \<Rightarrow> (db_error + Workspace option) \<times> store" where
  "GetWorkspace i = query (\<lambda>s. List.find (\<lambda>w. ws_ID w = i) (t_workspaces s))"

definition GetWorkspaceBySlug :: "string \<Rightarrow> store \<Rightarrow> (db_error + Workspace option) \<times> store" where
  "GetWorkspaceBySlug slug = query (\<lambda>s. List.find (\<lambda>w. ws_Slug w = slug) (t_workspaces s))"

definition ListWorkspaces :: "store \<Rightarrow> (db_error + Workspace list) \<times> store" where
  "ListWorkspaces = query (\<lambda>s. sql_limit 200 (order_asc ws_CreatedAt (t_workspaces s)))"

definition UpdateWorkspace :: "Workspace \<Rightarrow> store \<Rightarrow> (db_error + unit) \<times> Workspace \<times> store" where
  "UpdateWorkspace w s =
     (let w = w\<lparr>ws_UpdatedAt := now s\<rparr>;
          (r, s) = exec (\<lambda>s.
            if list_ex (\<lambda>x. ws_ID x = ws_ID w) (t_workspaces s)
              \<and> list_ex (\<lambda>x. ws_ID x \<noteq> ws_ID w \<and> ws_Slug x = ws_Slug w) (t_workspaces s)
            then Inl (UniqueErr ''workspaces.slug'')
            else Inr (s\<lparr>t_workspaces := upd_where (\<lambda>x. ws_ID x = ws_ID w)
              (\<lambda>x. x\<lparr>ws_Name := ws_Name w, ws_Slug := ws_Slug w, ws_IconURL := ws_IconURL w,
                    ws_AgentProvisionToken := ws_AgentProvisionToken w,
                    ws_UpdatedAt := ws_UpdatedAt w\<rparr>) (t_workspaces s)\<rparr>)) s
      in (r, w, s))"

definition DeleteWorkspace :: "string \<Rightarrow> store \<Rightarrow> (db_error + unit) \<times> store" where
  "DeleteWorkspace i = exec (delete_parents (doomed0\<lparr>d_ws := [i]\<rparr>))"

section \<open>Members\<close>

definition CreateMember :: "Member \<Rightarrow> store \<Rightarrow> (db_error + unit) \<times> Member \<times> store" where
  "CreateMember m s =
     (if mb_WorkspaceID m = '''' then (Inl (AppErr ''workspace_id is required''), m, s)
      else if mb_Name m = '''' then (Inl (AppErr ''name is required''), m, s)
      else
        let (i, s) = fresh_id (mb_ID m) s;
            m = m\<lparr>mb_ID := i, mb_CreatedAt := now s, mb_UpdatedAt := now s\<rparr>;
            role = (if mb_Role m = '''' then ''user'' else mb_Role m);
            row = m\<lparr>mb_Role := role, mb_StatusText := '''', mb_StatusEmoji := ''''\<rparr>;
            (r, s) = exec (\<lambda>s. insert_checked
              (first_some [bad ''members.type'' (mb_Type m \<in> {''human'', ''agent''}),
                           bad ''members.role'' (role \<in> {''user'', ''admin'', ''owner''})])
              (first_some [dup ''members.id'' (mb_ID m \<in> set (map mb_ID (t_members s))),
                           dup ''members.api_key'' (mb_APIKey m \<noteq> '''' \<and>
                             mb_APIKey m \<in> set (map mb_APIKey (t_members s)))])
              (member_fks row) (\<lambda>s. s\<lparr>t_members := t_members s @ [row]\<rparr>) s) s
        in (r, m, s))"

definition GetMember :: "string \<Rightarrow> store \<Rightarrow> (db_error + Member option) \<times> store" where
  "GetMember i = query (\<lambda>s. List.find (\<lambda>m. mb_ID m = i) (t_members s))"

text \<open>A NULL column equals nothing: members without a key or an e-mail are never found.\<close>

definition GetMemberByAPIKey :: "string \<Rightarrow> store \<Rightarrow> (db_error + Member option) \<times> store" where
  "GetMemberByAPIKey key =
     query (\<lambda>s. List.find (\<lambda>m. nullStr (mb_APIKey m) = Some key) (t_members s))"

definition GetMemberByEmail :: "string \<Rightarrow> store \<Rightarrow> (db_error + Member option) \<times> store" where
  "GetMemberByEmail email =
     query (\<lambda>s. List.find (\<lambda>m. nullStr (mb_Email m) = Some email) (t_members s))"

definition GetMemberByName :: "string \<Rightarrow> string \<Rightarrow> store \<Rightarrow> (db_error + Member option) \<times> store" where
  "GetMemberByName wid nm =
     query (\<lambda>s. List.find (\<lambda>m. mb_WorkspaceID m = wid \<and> mb_Name m = nm) (t_members s))"

definition UpdateMemberRoleCard ::
  "string \<Rightarrow> RoleCard option \<Rightarrow> RuntimeInfo option \<Rightarrow> store \<Rightarrow> (db_error + unit) \<times> store" where
  "UpdateMemberRoleCard mid rc rt s =
     exec (\<lambda>s. Inr (s\<lparr>t_members := upd_where (\<lambda>x. mb_ID x = mid)
       (\<lambda>x. x\<lparr>mb_RoleCard := rc, mb_RuntimeInfo := rt, mb_UpdatedAt := now s\<rparr>) (t_members s)\<rparr>)) s"

definition ListMembers :: "string \<Rightarrow> store \<Rightarrow> (db_error + Member list) \<times> store" where
  "ListMembers wid =
     query (\<lambda>s. order_asc mb_Name (filter (\<lambda>m. mb_WorkspaceID m = wid) (t_members s)))"

text \<open>The limits the paginated lists fall back to.\<close>

definition page_limit :: "int \<Rightarrow> int" where
  "page_limit l = (if l \<le> 0 \<or> 200 < l then 50 else l)"

definition ListMembersPaginated ::
  "string \<Rightarrow> int \<Rightarrow> int \<Rightarrow> store \<Rightarrow> (db_error + Member list) \<times> store" where
  "ListMembersPaginated wid l off =
     query (\<lambda>s. sql_limit (page_limit l) (sql_offset (if off < 0 then 0 else off)
       (order_asc mb_Name (filter (\<lambda>m. mb_WorkspaceID m = wid) (t_members s)))))"

text \<open>The columns UPDATE sets: not the e-mail, the password, the role or the status text.\<close>

definition UpdateMember :: "Member \<Rightarrow> store \<Rightarrow> (db_error + unit) \<times> Member \<times> store" where
  "UpdateMember m s =
     (let m = m\<lparr>mb_UpdatedAt := now s\<rparr>;
          (r, s) = exec (\<lambda>s. Inr (s\<lparr>t_members := upd_where (\<lambda>x. mb_ID x = mb_ID m)
            (\<lambda>x. x\<lparr>mb_Name := mb_Name m, mb_AvatarURL := mb_AvatarURL m, mb_Status := mb_Status m,
                  mb_RoleCard := mb_RoleCard m, mb_Capabilities := mb_Capabilities m,
                  mb_RuntimeInfo := mb_RuntimeInfo m, mb_UpdatedAt := mb_UpdatedAt m\<rparr>)
            (t_members s)\<rparr>)) s
      in (r, m, s))"

definition DeleteMember :: "string \<Rightarrow> store \<Rightarrow> (db_error + unit) \<times> store" where
  "DeleteMember i = exec (delete_parents (doomed0\<lparr>d_mb := [i]\<rparr>))"

section \<open>Channels\<close>

text \<open>The INSERT has no category; room_version starts at its default 0.\<close>

definition CreateChannel :: "Channel \<Rightarrow> store \<Rightarrow> (db_error + unit) \<times> Channel \<times> store" where
  "CreateChannel c s =
     (if ch_WorkspaceID c = '''' then (Inl (AppErr ''workspace_id is required''), c, s)
      else
        let (i, s) = fresh_id (ch_ID c) s;
            c = c\<lparr>ch_ID := i, ch_CreatedAt := now s, ch_UpdatedAt := now s\<rparr>;
            row = c\<lparr>ch_Category := '''', ch_RoomVersion := 0\<rparr>;
            (r, s) = exec (\<lambda>s. insert_checked
              (bad ''channels.type'' (ch_Type c \<in> {''channel'', ''dm'', ''group_dm''}))
              (dup ''channels.id'' (ch_ID c \<in> set (map ch_ID (t_channels s))))
              (channel_fks row) (\<lambda>s. s\<lparr>t_channels := t_channels s @ [row]\<rparr>) s) s
        in (r, c, s))"

definition GetChannel :: "string \<Rightarrow> store \<Rightarrow> (db_error + Channel option) \<times> store" where
  "GetChannel i = query (\<lambda>s. List.find (\<lambda>c. ch_ID c = i) (t_channels s))"

definition ListChannels :: "string \<Rightarrow> store \<Rightarrow> (db_error + Channel list) \<times> store" where
  "ListChannels wid = query (\<lambda>s. sql_limit 200
     (order_asc ch_Name (filter (\<lambda>c. ch_WorkspaceID c = wid) (t_channels s))))"

definition ListChannelsPaginated ::
  "string \<Rightarrow> int \<Rightarrow> int \<Rightarrow> store \<Rightarrow> (db_error + Channel list) \<times> store" where
  "ListChannelsPaginated wid l off =
     query (\<lambda>s. sql_limit (page_limit l) (sql_offset (if off < 0 then 0 else off)
       (order_asc ch_Name (filter (\<lambda>c. ch_WorkspaceID c = wid) (t_channels s)))))"

definition UpdateChannel :: "Channel \<Rightarrow> store \<Rightarrow> (db_error + unit) \<times> Channel \<times> store" where
  "UpdateChannel c s =
     (let c = c\<lparr>ch_UpdatedAt := now s\<rparr>;
          (r, s) = exec (\<lambda>s. Inr (s\<lparr>t_channels := upd_where (\<lambda>x. ch_ID x = ch_ID c)
            (\<lambda>x. x\<lparr>ch_Name := ch_Name c, ch_Topic := ch_Topic c, ch_IsPrivate := ch_IsPrivate c,
                  ch_IsArchived := ch_IsArchived c, ch_UpdatedAt := ch_UpdatedAt c\<rparr>)
            (t_channels s)\<rparr>)) s
      in (r, c, s))"

definition DeleteChannel :: "string \<Rightarrow> store \<Rightarrow> (db_error + unit) \<times> store" where
  "DeleteChannel i = exec (delete_parents (doomed0\<lparr>d_ch := [i]\<rparr>))"

section \<open>Channel members\<close>

definition is_cm :: "string \<Rightarrow> string \<Rightarrow> ChannelMember \<Rightarrow> bool" where
  "is_cm cid mid r \<longleftrightarrow> cm_ChannelID r = cid \<and> cm_MemberID r = mid"

text \<open>INSERT OR IGNORE skips a duplicate primary key; foreign keys still count.\<close>

definition AddChannelMember :: "string \<Rightarrow> string \<Rightarrow> store \<Rightarrow> (db_error + unit) \<times> store" where
  "AddChannelMember cid mid =
     exec (\<lambda>s.
       if list_ex (is_cm cid mid) (t_channel_members s) then Inr s
       else
         let row = \<lparr>cm_ChannelID = cid, cm_MemberID = mid, cm_LastReadAt = 0,
                    cm_NotificationPreference = ''all''\<rparr> in
         insert_checked None None (channel_member_fks row)
           (\<lambda>s. s\<lparr>t_channel_members := t_channel_members s @ [row]\<rparr>) s)"

definition RemoveChannelMember :: "string \<Rightarrow> string \<Rightarrow> store \<Rightarrow> (db_error + unit) \<times> store" where
  "RemoveChannelMember cid mid =
     exec (\<lambda>s. Inr (s\<lparr>t_channel_members := del_where (is_cm cid mid) (t_channel_members s)\<rparr>))"

definition ListChannelMembers :: "string \<Rightarrow> store \<Rightarrow> (db_error + Member list) \<times> store" where
  "ListChannelMembers cid =
     query (\<lambda>s. order_asc mb_Name
       (filter (\<lambda>m. list_ex (is_cm cid (mb_ID m)) (t_channel_members s)) (t_members s)))"

definition IsChannelMember :: "string \<Rightarrow> string \<Rightarrow> store \<Rightarrow> (db_error + bool) \<times> store" where
  "IsChannelMember cid mid =
     query (\<lambda>s. 0 < length (filter (is_cm cid mid) (t_channel_members s)))"

definition ListMemberChannelIDs :: "string \<Rightarrow> store \<Rightarrow> (db_error + string list) \<times> store" where
  "ListMemberChannelIDs mid =
     query (\<lambda>s. map cm_ChannelID (filter (\<lambda>r. cm_MemberID r = mid) (t_channel_members s)))"

definition UpdateLastRead :: "string \<Rightarrow> string \<Rightarrow> store \<Rightarrow> (db_error + unit) \<times> store" where
  "UpdateLastRead cid mid =
     exec (\<lambda>s. Inr (s\<lparr>t_channel_members := upd_where (is_cm cid mid)
       (\<lambda>r. r\<lparr>cm_LastReadAt := now s\<rparr>) (t_channel_members s)\<rparr>))"

definition UpdateNotificationPreference ::
  "string \<Rightarrow> string \<Rightarrow> string \<Rightarrow> store \<Rightarrow> (db_error + unit) \<times> store" where
  "UpdateNotificationPreference cid mid pref =
     exec (\<lambda>s. Inr (s\<lparr>t_channel_members := upd_where (is_cm cid mid)
       (\<lambda>r. r\<lparr>cm_NotificationPreference := pref\<rparr>) (t_channel_members s)\<rparr>))"

section \<open>Messages\<close>

text \<open>
  The row INSERT stores: content_type and file_id are not among its columns and no
  SELECT reads them, so they come back empty.
\<close>

definition message_row :: "Message \<Rightarrow> Message" where
  "message_row m = m\<lparr>msg_ContentType := '''', msg_FileID := ''''\<rparr>"

text \<open>The effect of the INSERT with trg_reply_count_insert and trg_room_version_insert.\<close>

definition put_message :: "Message \<Rightarrow> store \<Rightarrow> store" where
  "put_message row s =
     s\<lparr>t_messages := upd_where (\<lambda>p. nullStr (msg_ThreadID row) = Some (msg_ID p))
          (\<lambda>p. p\<lparr>msg_ReplyCount := msg_ReplyCount p + 1\<rparr>) (t_messages s @ [row]),
       t_channels := upd_where (\<lambda>c. ch_ID c = msg_ChannelID row)
          (\<lambda>c. c\<lparr>ch_RoomVersion := ch_RoomVersion c + 1\<rparr>) (t_channels s)\<rparr>"

definition CreateMessage :: "Message \<Rightarrow> store \<Rightarrow> (db_error + unit) \<times> Message \<times> store" where
  "CreateMessage m s =
     (if msg_ChannelID m = '''' then (Inl (AppErr ''channel_id is required''), m, s)
      else if msg_SenderID m = '''' then (Inl (AppErr ''sender_id is required''), m, s)
      else
        let (i, s) = fresh_id (msg_ID m) s;
            m = m\<lparr>msg_ID := i, msg_CreatedAt := now s, msg_UpdatedAt := now s,
                   msg_Type := if msg_Type m = '''' then ''text'' else msg_Type m\<rparr>;
            row = message_row m;
            (r, s) = exec (\<lambda>s. insert_checked None
              (dup ''messages.id'' (msg_ID m \<in> set (map msg_ID (t_messages s))))
              (message_fks row) (put_message row) s) s
        in (r, m, s))"

definition GetMessage :: "string \<Rightarrow> store \<Rightarrow> (db_error + Message option) \<times> store" where
  "GetMessage i = query (\<lambda>s. List.find (\<lambda>m. msg_ID m = i) (t_messages s))"

definition ListMessages :: "string \<Rightarrow> int \<Rightarrow> int \<Rightarrow> store \<Rightarrow> (db_error + Message list) \<times> store" where
  "ListMessages cid l off =
     query (\<lambda>s. sql_limit (if l \<le> 0 then 50 else l) (sql_offset off (order_desc msg_CreatedAt
       (filter (\<lambda>m. msg_ChannelID m = cid \<and> msg_ThreadID m = '''') (t_messages s)))))"

definition ListMessagesBySender :: "string \<Rightarrow> store \<Rightarrow> (db_error + Message list) \<times> store" where
  "ListMessagesBySender mid =
     query (\<lambda>s. sql_limit 500 (order_desc msg_CreatedAt
       (filter (\<lambda>m. msg_SenderID m = mid) (t_messages s))))"

definition CountMessagesBySender :: "string \<Rightarrow> store \<Rightarrow> (db_error + int) \<times> store" where
  "CountMessagesBySender mid =
     query (\<lambda>s. int (length (filter (\<lambda>m. msg_SenderID m = mid) (t_messages s))))"

definition ListThreadMessages :: "string \<Rightarrow> store \<Rightarrow> (db_error + Message list) \<times> store" where
  "ListThreadMessages tid =
     query (\<lambda>s. order_asc msg_CreatedAt
       (filter (\<lambda>m. nullStr (msg_ThreadID m) = Some tid \<or> msg_ID m = tid) (t_messages s)))"

definition UpdateMessage :: "Message \<Rightarrow> store \<Rightarrow> (db_error + unit) \<times> Message \<times> store" where
  "UpdateMessage m s =
     (let m = m\<lparr>msg_UpdatedAt := now s\<rparr>;
          (r, s) = exec (\<lambda>s. Inr (s\<lparr>t_messages := upd_where (\<lambda>x. msg_ID x = msg_ID m)
            (\<lambda>x. x\<lparr>msg_Content := msg_Content m, msg_Metadata := msg_Metadata m,
                  msg_EditedAt := msg_EditedAt m, msg_EditCount := msg_EditCount m,
                  msg_UpdatedAt := msg_UpdatedAt m\<rparr>) (t_messages s)\<rparr>)) s
      in (r, m, s))"

definition DeleteMessage :: "string \<Rightarrow> store \<Rightarrow> (db_error + unit) \<times> store" where
  "DeleteMessage i = exec (delete_parents (doomed0\<lparr>d_msg := [i]\<rparr>))"

definition GetRecentMessages :: "string \<Rightarrow> int \<Rightarrow> store \<Rightarrow> (db_error + Message list) \<times> store" where
  "GetRecentMessages cid l =
     query (\<lambda>s. sql_limit (if l \<le> 0 then 20 else l) (order_desc msg_CreatedAt
       (filter (\<lambda>m. msg_ChannelID m = cid) (t_messages s))))"

section \<open>Reactions\<close>

definition same_reaction :: "string \<Rightarrow> string \<Rightarrow> string \<Rightarrow> Reaction \<Rightarrow> bool" where
  "same_reaction msgid mid e x \<longleftrightarrow> rx_MessageID x = msgid \<and> rx_MemberID x = mid \<and> rx_Emoji x = e"

definition AddReaction :: "Reaction \<Rightarrow> store \<Rightarrow> (db_error + unit) \<times> Reaction \<times> store" where
  "AddReaction x s =
     (let x = x\<lparr>rx_CreatedAt := now s\<rparr>;
          (r, s) = exec (\<lambda>s.
            if list_ex (same_reaction (rx_MessageID x) (rx_MemberID x) (rx_Emoji x)) (t_reactions s)
            then Inr s
            else insert_checked None None (reaction_fks x)
              (\<lambda>s. s\<lparr>t_reactions := t_reactions s @ [x]\<rparr>) s) s
      in (r, x, s))"

definition RemoveReaction :: "string \<Rightarrow> string \<Rightarrow> string \<Rightarrow> store \<Rightarrow> (db_error + unit) \<times> store" where
  "RemoveReaction msgid mid e =
     exec (\<lambda>s. Inr (s\<lparr>t_reactions := del_where (same_reaction msgid mid e) (t_reactions s)\<rparr>))"

definition ListReactions :: "string \<Rightarrow> store \<Rightarrow> (db_error + Reaction list) \<times> store" where
  "ListReactions msgid =
     query (\<lambda>s. filter (\<lambda>x. rx_MessageID x = msgid) (t_reactions s))"

section \<open>Search\<close>

text \<open>
  fts_match is the full-text engine's MATCH between a query string and a message's
  content, a library of SQLite.
\<close>

definition SearchMessages ::
  "(string \<Rightarrow> string \<Rightarrow> bool) \<Rightarrow> string \<Rightarrow> string \<Rightarrow> string \<Rightarrow> int \<Rightarrow> store
   \<Rightarrow> (db_error + Message list) \<times> store" where
  "SearchMessages fts_match q cid wid l s =
     (let l = (if l \<le> 0 then 20 else l); q = sanitizeFTS5Query q in
      if q = '''' then (Inr [], s)
      else if cid \<noteq> '''' then
        query (\<lambda>s. sql_limit l (order_desc msg_CreatedAt
          (filter (\<lambda>m. fts_match q (msg_Content m) \<and> msg_ChannelID m = cid) (t_messages s)))) s
      else if wid \<noteq> '''' then
        query (\<lambda>s. sql_limit l (order_desc msg_CreatedAt
          (filter (\<lambda>m. fts_match q (msg_Content m) \<and>
             list_ex (\<lambda>c. ch_ID c = msg_ChannelID m \<and> ch_WorkspaceID c = wid) (t_channels s))
            (t_messages s)))) s
      else
        query (\<lambda>s. sql_limit l (order_desc msg_CreatedAt
          (filter (\<lambda>m. fts_match q (msg_Content m)) (t_messages s)))) s)"

text \<open>SQL LIKE: ASCII letters compare without case, % is any string, _ any one character.\<close>

fun sql_like :: "string \<Rightarrow> string \<Rightarrow> bool" where
  "sql_like [] [] = True"
| "sql_like [] (c # cs) = False"
| "sql_like (p # ps) [] = (p = CHR ''%'' \<and> sql_like ps [])"
| "sql_like (p # ps) (c # cs) =
     (if p = CHR ''%'' then sql_like ps (c # cs) \<or> sql_like (p # ps) cs
      else (p = CHR ''_'' \<or> lower_char p = lower_char c) \<and> sql_like ps cs)"

definition SearchChannels ::
  "string \<Rightarrow> string \<Rightarrow> int \<Rightarrow> store \<Rightarrow> (db_error + Channel list) \<times> store" where
  "SearchChannels wid q l =
     query (\<lambda>s. sql_limit (if l \<le> 0 \<or> 100 < l then 20 else l) (order_asc ch_Name
       (filter (\<lambda>c. ch_WorkspaceID c = wid \<and> sql_like (''%'' @ q @ ''%'') (ch_Name c)) (t_channels s))))"

end
