(* ===== verification/Store_Collab.thy ===== *)
theory Store_Collab
  imports Store_Core
begin

text \<open>
  store/sqlite.go, second part: tasks, agent memory, files, pins, direct-message
  channels, unread counts, approvals, webhooks, the token blacklist, backups, edit
  history, OAuth identities and notifications.
\<close>

section \<open>Tasks\<close>

definition task_status_ok :: "string \<Rightarrow> bool" where
  "task_status_ok st \<longleftrightarrow> st \<in> {''todo'', ''in_progress'', ''review'', ''done''}"

definition task_priority_ok :: "string \<Rightarrow> bool" where
  "task_priority_ok p \<longleftrightarrow> p \<in> {''low'', ''medium'', ''high'', ''urgent''}"

definition CreateTask :: "Task \<Rightarrow> store \<Rightarrow> (db_error + unit) \<times> Task \<times> store" where
  "CreateTask t s =
     (let (i, s) = fresh_id (task_ID t) s;
          t = t\<lparr>task_ID := i, task_CreatedAt := now s, task_UpdatedAt := now s,
                 task_Status := if task_Status t = '''' then ''todo'' else task_Status t,
                 task_Priority := if task_Priority t = '''' then ''medium'' else task_Priority t\<rparr>;
          (r, s) = exec (\<lambda>s. insert_checked
            (first_some [bad ''tasks.status'' (task_status_ok (task_Status t)),
                         bad ''tasks.priority'' (task_priority_ok (task_Priority t))])
            (dup ''tasks.id'' (task_ID t \<in> set (map task_ID (t_tasks s))))
            (task_fks t) (\<lambda>s. s\<lparr>t_tasks := t_tasks s @ [t]\<rparr>) s) s
      in (r, t, s))"

definition GetTask :: "string \<Rightarrow> store \<Rightarrow> (db_error + Task option) \<times> store" where
  "GetTask i = query (\<lambda>s. List.find (\<lambda>t. task_ID t = i) (t_tasks s))"

definition ListTasks :: "string \<Rightarrow> string \<Rightarrow> store \<Rightarrow> (db_error + Task list) \<times> store" where
  "ListTasks wid status =
     query (\<lambda>s. sql_limit 200 (order_desc task_CreatedAt
       (filter (\<lambda>t. task_WorkspaceID t = wid \<and> (status \<noteq> '''' \<longrightarrow> task_Status t = status)) (t_tasks s))))"

definition UpdateTask :: "Task \<Rightarrow> store \<Rightarrow> (db_error + unit) \<times> Task \<times> store" where
  "UpdateTask t s =
     (let t = t\<lparr>task_UpdatedAt := now s\<rparr>;
          (r, s) = exec (\<lambda>s.
            if \<not> list_ex (\<lambda>x. task_ID x = task_ID t) (t_tasks s) then Inr s
            else if \<not> task_status_ok (task_Status t) then Inl (CheckErr ''tasks.status'')
            else if \<not> task_priority_ok (task_Priority t) then Inl (CheckErr ''tasks.priority'')
            else if \<not> fk_sat (ids s) (PMember, Cascade, nullStr (task_AssignedTo t)) then Inl ForeignKeyErr
            else Inr (s\<lparr>t_tasks := upd_where (\<lambda>x. task_ID x = task_ID t)
              (\<lambda>x. x\<lparr>task_AssignedTo := task_AssignedTo t, task_Title := task_Title t,
                    task_Description := task_Description t, task_Status := task_Status t,
                    task_Priority := task_Priority t, task_DueAt := task_DueAt t,
                    task_UpdatedAt := task_UpdatedAt t\<rparr>) (t_tasks s)\<rparr>)) s
      in (r, t, s))"

definition DeleteTask :: "string \<Rightarrow> store \<Rightarrow> (db_error + unit) \<times> store" where
  "DeleteTask i =
     exec (\<lambda>s. Inr (s\<lparr>t_tasks := del_where (\<lambda>t. task_ID t = i) (t_tasks s)\<rparr>))"

text \<open>The rows of the GROUP BY, folded into the completed and the pending count.\<close>

definition CountTasksByAssignee :: "string \<Rightarrow> store \<Rightarrow> (db_error + int \<times> int) \<times> store" where
  "CountTasksByAssignee mid =
     query (\<lambda>s.
       let mine = filter (\<lambda>t. nullStr (task_AssignedTo t) = Some mid) (t_tasks s);
           groups = map (\<lambda>st. (st, int (length (filter (\<lambda>t. task_Status t = st) mine))))
                      (remdups (map task_Status mine)) in
       fold (\<lambda>(st, n) (completed, pending).
         if st = ''done'' then (n, pending) else (completed, pending + n)) groups (0, 0))"

section \<open>Agent memory\<close>

definition is_memory :: "string \<Rightarrow> string \<Rightarrow> string \<Rightarrow> AgentMemory \<Rightarrow> bool" where
  "is_memory a ns k m \<longleftrightarrow> am_AgentID m = a \<and> am_Namespace m = ns \<and> am_Key m = k"

definition upsert_memory :: "AgentMemory \<Rightarrow> AgentMemory list \<Rightarrow> AgentMemory list" where
  "upsert_memory m ms =
     (if list_ex (is_memory (am_AgentID m) (am_Namespace m) (am_Key m)) ms
      then upd_where (is_memory (am_AgentID m) (am_Namespace m) (am_Key m))
             (\<lambda>x. x\<lparr>am_Value := am_Value m, am_UpdatedAt := am_UpdatedAt m\<rparr>) ms
      else ms @ [m])"

definition SetMemory :: "AgentMemory \<Rightarrow> store \<Rightarrow> (db_error + unit) \<times> AgentMemory \<times> store" where
  "SetMemory m s =
     (let (i, s) = fresh_id (am_ID m) s;
          m = m\<lparr>am_ID := i, am_CreatedAt := now s, am_UpdatedAt := now s,
                 am_Namespace := if am_Namespace m = '''' then ''default'' else am_Namespace m\<rparr>;
          (r, s) = exec (\<lambda>s. insert_checked None
            (dup ''agent_memory.id'' (am_ID m \<in> set (map am_ID (t_memory s))))
            (memory_fks m) (\<lambda>s. s\<lparr>t_memory := upsert_memory m (t_memory s)\<rparr>) s) s
      in (r, m, s))"

definition GetMemory ::
  "string \<Rightarrow> string \<Rightarrow> string \<Rightarrow> store \<Rightarrow> (db_error + AgentMemory option) \<times> store" where
  "GetMemory a ns k = query (\<lambda>s. List.find (is_memory a ns k) (t_memory s))"

definition ListMemory :: "string \<Rightarrow> string \<Rightarrow> store \<Rightarrow> (db_error + AgentMemory list) \<times> store" where
  "ListMemory a ns =
     query (\<lambda>s. order_asc am_Key
       (filter (\<lambda>m. am_AgentID m = a \<and> am_Namespace m = ns) (t_memory s)))"

definition DeleteMemory :: "string \<Rightarrow> string \<Rightarrow> string \<Rightarrow> store \<Rightarrow> (db_error + unit) \<times> store" where
  "DeleteMemory a ns k =
     exec (\<lambda>s. Inr (s\<lparr>t_memory := del_where (is_memory a ns k) (t_memory s)\<rparr>))"

section \<open>Files\<close>

definition or_now :: "int \<Rightarrow> store \<Rightarrow> int" where
  "or_now t s = (if t = 0 then now s else t)"

definition CreateFile :: "File \<Rightarrow> store \<Rightarrow> (db_error + unit) \<times> File \<times> store" where
  "CreateFile f s =
     (let (i, s) = fresh_id (fl_ID f) s;
          f = f\<lparr>fl_ID := i, fl_CreatedAt := or_now (fl_CreatedAt f) s\<rparr>;
          (r, s) = exec (\<lambda>s. insert_checked None
            (dup ''files.id'' (fl_ID f \<in> set (map fl_ID (t_files s))))
            (file_fks f) (\<lambda>s. s\<lparr>t_files := t_files s @ [f]\<rparr>) s) s
      in (r, f, s))"

definition GetFile :: "string \<Rightarrow> store \<Rightarrow> (db_error + File option) \<times> store" where
  "GetFile i = query (\<lambda>s. List.find (\<lambda>f. fl_ID f = i) (t_files s))"

definition ListFiles :: "string \<Rightarrow> int \<Rightarrow> int \<Rightarrow> store \<Rightarrow> (db_error + File list) \<times> store" where
  "ListFiles wid l off =
     query (\<lambda>s. sql_limit (if l \<le> 0 then 50 else l) (sql_offset off (order_desc fl_CreatedAt
       (filter (\<lambda>f. fl_WorkspaceID f = wid) (t_files s)))))"

definition DeleteFile :: "string \<Rightarrow> store \<Rightarrow> (db_error + unit) \<times> store" where
  "DeleteFile i = exec (delete_parents (doomed0\<lparr>d_fl := [i]\<rparr>))"

section \<open>Pins\<close>

definition CreatePin :: "Pin \<Rightarrow> store \<Rightarrow> (db_error + unit) \<times> Pin \<times> store" where
  "CreatePin p s =
     (let (i, s) = fresh_id (pin_ID p) s;
          p = p\<lparr>pin_ID := i, pin_CreatedAt := or_now (pin_CreatedAt p) s\<rparr>;
          (r, s) = exec (\<lambda>s. insert_checked None
            (first_some [dup ''pins.id'' (pin_ID p \<in> set (map pin_ID (t_pins s))),
                         dup ''pins.message_id'' (pin_MessageID p \<in> set (map pin_MessageID (t_pins s)))])
            (pin_fks p) (\<lambda>s. s\<lparr>t_pins := t_pins s @ [p]\<rparr>) s) s
      in (r, p, s))"

definition DeletePin :: "string \<Rightarrow> store \<Rightarrow> (db_error + unit) \<times> store" where
  "DeletePin mid =
     exec (\<lambda>s. Inr (s\<lparr>t_pins := del_where (\<lambda>p. pin_MessageID p = mid) (t_pins s)\<rparr>))"

definition ListPins :: "string \<Rightarrow> store \<Rightarrow> (db_error + Pin list) \<times> store" where
  "ListPins cid =
     query (\<lambda>s. order_desc pin_CreatedAt (filter (\<lambda>p. pin_ChannelID p = cid) (t_pins s)))"

definition ListPinsByMessage :: "string \<Rightarrow> store \<Rightarrow> (db_error + Pin list) \<times> store" where
  "ListPinsByMessage mid = query (\<lambda>s. filter (\<lambda>p. pin_MessageID p = mid) (t_pins s))"

section \<open>Direct messages\<close>

definition members_of :: "store \<Rightarrow> string \<Rightarrow> ChannelMember list" where
  "members_of s cid = filter (\<lambda>r. cm_ChannelID r = cid) (t_channel_members s)"

text \<open>
  The self-join: the channels, in the order of the first member's rows, of type dm in
  the workspace, that have both members and two members in all.
\<close>

definition dm_candidates :: "string \<Rightarrow> string \<Rightarrow> string \<Rightarrow> store \<Rightarrow> string list" where
  "dm_candidates wid a b s =
     map cm_ChannelID (filter (\<lambda>r1.
       cm_MemberID r1 = a
       \<and> list_ex (is_cm (cm_ChannelID r1) b) (t_channel_members s)
       \<and> list_ex (\<lambda>c. ch_ID c = cm_ChannelID r1 \<and> ch_WorkspaceID c = wid \<and> ch_Type c = ''dm'') (t_channels s)
       \<and> length (members_of s (cm_ChannelID r1)) = 2) (t_channel_members s))"

definition group_dm_candidates :: "string \<Rightarrow> string list \<Rightarrow> store \<Rightarrow> string list" where
  "group_dm_candidates wid mids s =
     filter (\<lambda>cid.
       list_ex (\<lambda>c. ch_ID c = cid \<and> ch_WorkspaceID c = wid \<and> ch_Type c = ''group_dm'') (t_channels s)
       \<and> length (filter (\<lambda>r. cm_MemberID r \<in> set mids) (members_of s cid)) = length mids
       \<and> length (members_of s cid) = length mids)
       (remdups (map cm_ChannelID (t_channel_members s)))"

definition first_row :: "'a list \<Rightarrow> 'a option" where
  "first_row xs = (case xs of [] \<Rightarrow> None | x # _ \<Rightarrow> Some x)"

definition GetDMChannel :: "string \<Rightarrow> string list \<Rightarrow> store \<Rightarrow> (db_error + Channel option) \<times> store" where
  "GetDMChannel wid mids s =
     (if length mids < 2 then (Inr None, s)
      else
        on_ok (query (\<lambda>s. first_row
            (if length mids = 2 then dm_candidates wid (mids ! 0) (mids ! 1) s
             else group_dm_candidates wid mids s)) s)
          (\<lambda>cid s. case cid of None \<Rightarrow> (Inr None, s) | Some cid \<Rightarrow> GetChannel cid s))"

definition ListDMChannels :: "string \<Rightarrow> store \<Rightarrow> (db_error + Channel list) \<times> store" where
  "ListDMChannels mid =
     query (\<lambda>s. map (\<lambda>c. c\<lparr>ch_IsArchived := False\<rparr>) (sql_limit 200 (order_desc ch_UpdatedAt
       (filter (\<lambda>c. list_ex (is_cm (ch_ID c) mid) (t_channel_members s)
          \<and> ch_Type c \<in> {''dm'', ''group_dm''}) (t_channels s)))))"

text \<open>
  The text of an error, which the retry loop searches.
\<close>

fun err_text :: "db_error \<Rightarrow> string" where
  "err_text (DriverErr e) = e"
| "err_text (UniqueErr c) = ''UNIQUE constraint failed: '' @ c"
| "err_text ForeignKeyErr = ''FOREIGN KEY constraint failed''"
| "err_text (CheckErr c) = ''CHECK constraint failed: '' @ c"
| "err_text (SqlErr e) = e"
| "err_text (AppErr e) = e"

definition isLockedError :: "db_error \<Rightarrow> bool" where
  "isLockedError e = Contains (err_text e) ''database is locked''"

fun retryOnLocked :: "nat \<Rightarrow> ('s \<Rightarrow> (db_error + unit) \<times> 's) \<Rightarrow> 's \<Rightarrow> (db_error + unit) \<times> 's" where
  "retryOnLocked 0 f s = (Inr (), s)"
| "retryOnLocked (Suc n) f s =
     (case f s of
        (Inr u, s') \<Rightarrow> (Inr (), s')
      | (Inl e, s') \<Rightarrow>
          if isLockedError e \<and> n \<noteq> 0 then retryOnLocked n f s' else (Inl e, s'))"

text \<open>
  The transaction: begin, look for an existing DM of two members, insert the channel.
  The INSERT names eight columns and supplies seven values, so SQLite refuses to
  prepare it and the deferred rollback leaves the tables alone; the code after it is
  never reached.  The row under construction is part of the state, as the caller
  sees the fields filled in.
\<close>

definition begin_tx :: "store \<Rightarrow> (db_error + unit) \<times> store" where
  "begin_tx = exec Inr"

definition dm_insert_columns :: "string list" where
  "dm_insert_columns = [''id'', ''workspace_id'', ''name'', ''type'', ''is_private'', ''is_archived'',
     ''created_at'', ''updated_at'']"

definition dm_insert_values :: "string list" where
  "dm_insert_values = [''?'', ''?'', ''?'', ''?'', ''1'', ''?'', ''?'']"

definition prepare_insert :: "string list \<Rightarrow> string list \<Rightarrow> db_error option" where
  "prepare_insert cols vals =
     (if length cols = length vals then None
      else Some (SqlErr (Itoa (int (length vals)) @ '' values for '' @ Itoa (int (length cols)) @ '' columns'')))"

definition dm_insert :: "Channel \<Rightarrow> string list \<Rightarrow> store \<Rightarrow> (db_error + unit) \<times> store" where
  "dm_insert c mids s =
     exec (\<lambda>s. case prepare_insert dm_insert_columns dm_insert_values of
         Some e \<Rightarrow> Inl e
       | None \<Rightarrow> insert_checked
           (bad ''channels.type'' (ch_Type c \<in> {''channel'', ''dm'', ''group_dm''}))
           (dup ''channels.id'' (ch_ID c \<in> set (map ch_ID (t_channels s))))
           (channel_fks c)
           (\<lambda>s. s\<lparr>t_channels := t_channels s @ [c\<lparr>ch_IsPrivate := True, ch_Topic := '''',
                    ch_Category := '''', ch_RoomVersion := 0\<rparr>]\<rparr>) s) s"

fun add_all :: "string \<Rightarrow> string list \<Rightarrow> store \<Rightarrow> (db_error + unit) \<times> store" where
  "add_all cid [] s = (Inr (), s)"
| "add_all cid (m # ms) s = on_ok (AddChannelMember cid m s) (\<lambda>_ s. add_all cid ms s)"

text \<open>A failed transaction keeps nothing but the clock, the UUIDs used and the faults consumed.\<close>

definition rollback :: "store \<Rightarrow> store \<Rightarrow> store" where
  "rollback s0 s = s0\<lparr>faults := faults s, uuid_ctr := uuid_ctr s\<rparr>"

definition createDMChannel ::
  "string list \<Rightarrow> Channel \<times> store \<Rightarrow> (db_error + unit) \<times> (Channel \<times> store)" where
  "createDMChannel mids st =
     (let (c, s0) = st in
      case begin_tx s0 of
        (Inl e, s) \<Rightarrow> (Inl e, c, s)
      | (Inr _, s) \<Rightarrow>
          (case (if length mids = 2
                 then query (\<lambda>s. first_row (dm_candidates (ch_WorkspaceID c) (mids ! 0) (mids ! 1) s)) s
                 else (Inr None, s)) of
             (Inl e, s) \<Rightarrow> (Inl e, c, s)
           | (Inr (Some cid), s) \<Rightarrow> (Inr (), c\<lparr>ch_ID := cid\<rparr>, s)
           | (Inr None, s) \<Rightarrow>
               let (i, s) = fresh_id (ch_ID c) s;
                   c = c\<lparr>ch_ID := i, ch_CreatedAt := or_now (ch_CreatedAt c) s\<rparr>;
                   c = c\<lparr>ch_UpdatedAt := ch_CreatedAt c\<rparr>
               in
               (case on_ok (dm_insert c mids s) (\<lambda>_ s. on_ok (add_all i mids s) (\<lambda>_ s. exec Inr s)) of
                  (Inl e, s') \<Rightarrow> (Inl e, c, rollback s s')
                | (Inr _, s') \<Rightarrow> (Inr (), c, s'))))"

definition maxRetries :: nat where
  "maxRetries = 3"

definition CreateDMChannel ::
  "Channel \<Rightarrow> string list \<Rightarrow> store \<Rightarrow> (db_error + unit) \<times> Channel \<times> store" where
  "CreateDMChannel c mids s = retryOnLocked maxRetries (createDMChannel mids) (c, s)"

section \<open>Unread counts\<close>

definition unread_in :: "string \<Rightarrow> ChannelMember \<Rightarrow> store \<Rightarrow> int" where
  "unread_in mid r s = int (length (filter (\<lambda>m. msg_ChannelID m = cm_ChannelID r
     \<and> cm_LastReadAt r < msg_CreatedAt m \<and> msg_SenderID m \<noteq> mid) (t_messages s)))"

definition GetUnreadCounts :: "string \<Rightarrow> store \<Rightarrow> (db_error + (string, int) go_map) \<times> store" where
  "GetUnreadCounts mid =
     query (\<lambda>s. filter (\<lambda>(cid, n). 0 < n)
       (map (\<lambda>r. (cm_ChannelID r, unread_in mid r s))
         (filter (\<lambda>r. cm_MemberID r = mid) (t_channel_members s))))"

section \<open>Approvals\<close>

definition CreateApproval :: "ApprovalRequest \<Rightarrow> store \<Rightarrow> (db_error + unit) \<times> ApprovalRequest \<times> store" where
  "CreateApproval a s =
     (let (i, s) = fresh_id (apr_ID a) s;
          a = a\<lparr>apr_ID := i, apr_CreatedAt := or_now (apr_CreatedAt a) s, apr_Status := ''pending''\<rparr>;
          row = a\<lparr>apr_ReviewerID := '''', apr_ReviewNote := '''', apr_ReviewedAt := 0\<rparr>;
          (r, s) = exec (\<lambda>s. insert_checked None
            (dup ''approval_requests.id'' (apr_ID a \<in> set (map apr_ID (t_approvals s))))
            (approval_fks row) (\<lambda>s. s\<lparr>t_approvals := t_approvals s @ [row]\<rparr>) s) s
      in (r, a, s))"

definition GetApproval :: "string \<Rightarrow> store \<Rightarrow> (db_error + ApprovalRequest option) \<times> store" where
  "GetApproval i = query (\<lambda>s. List.find (\<lambda>a. apr_ID a = i) (t_approvals s))"

definition ListApprovals :: "string \<Rightarrow> string \<Rightarrow> store \<Rightarrow> (db_error + ApprovalRequest list) \<times> store" where
  "ListApprovals wid status =
     query (\<lambda>s. sql_limit 200 (order_desc apr_CreatedAt
       (filter (\<lambda>a. apr_WorkspaceID a = wid \<and> (status \<noteq> '''' \<longrightarrow> apr_Status a = status)) (t_approvals s))))"

text \<open>The reviewer is written without nullStr: an empty one is no member's id.\<close>

definition UpdateApproval :: "ApprovalRequest \<Rightarrow> store \<Rightarrow> (db_error + unit) \<times> store" where
  "UpdateApproval a =
     exec (\<lambda>s.
       if \<not> list_ex (\<lambda>x. apr_ID x = apr_ID a) (t_approvals s) then Inr s
       else if apr_Status a \<notin> {''pending'', ''approved'', ''denied''} then Inl (CheckErr ''approval_requests.status'')
       else if \<not> fk_sat (ids s) (PMember, Cascade, Some (apr_ReviewerID a)) then Inl ForeignKeyErr
       else Inr (s\<lparr>t_approvals := upd_where (\<lambda>x. apr_ID x = apr_ID a)
         (\<lambda>x. x\<lparr>apr_Status := apr_Status a, apr_ReviewerID := apr_ReviewerID a,
               apr_ReviewNote := apr_ReviewNote a, apr_ReviewedAt := apr_ReviewedAt a\<rparr>) (t_approvals s)\<rparr>))"

section \<open>Webhooks\<close>

definition CreateWebhook :: "Webhook \<Rightarrow> store \<Rightarrow> (db_error + unit) \<times> Webhook \<times> store" where
  "CreateWebhook w s =
     (let (i, s) = fresh_id (wh_ID w) s;
          w = w\<lparr>wh_ID := i, wh_CreatedAt := or_now (wh_CreatedAt w) s\<rparr>;
          (r, s) = exec (\<lambda>s. insert_checked None
            (dup ''webhooks.id'' (wh_ID w \<in> set (map wh_ID (t_webhooks s))))
            (webhook_fks w) (\<lambda>s. s\<lparr>t_webhooks := t_webhooks s @ [w]\<rparr>) s) s
      in (r, w, s))"

definition GetWebhook :: "string \<Rightarrow> store \<Rightarrow> (db_error + Webhook option) \<times> store" where
  "GetWebhook i = query (\<lambda>s. List.find (\<lambda>w. wh_ID w = i) (t_webhooks s))"

definition ListWebhooks :: "string \<Rightarrow> store \<Rightarrow> (db_error + Webhook list) \<times> store" where
  "ListWebhooks wid =
     query (\<lambda>s. order_asc wh_CreatedAt (filter (\<lambda>w. wh_WorkspaceID w = wid) (t_webhooks s)))"

definition DeleteWebhook :: "string \<Rightarrow> store \<Rightarrow> (db_error + unit) \<times> store" where
  "DeleteWebhook i =
     exec (\<lambda>s. Inr (s\<lparr>t_webhooks := del_where (\<lambda>w. wh_ID w = i) (t_webhooks s)\<rparr>))"

section \<open>Token blacklist and backup\<close>

definition BlacklistToken :: "string \<Rightarrow> int \<Rightarrow> store \<Rightarrow> (db_error + unit) \<times> store" where
  "BlacklistToken jti expiresAt =
     exec (\<lambda>s. Inr (if jti \<in> set (map fst (t_blacklist s)) then s
                    else s\<lparr>t_blacklist := t_blacklist s @ [(jti, expiresAt)]\<rparr>))"

definition IsTokenBlacklisted :: "string \<Rightarrow> store \<Rightarrow> (db_error + bool) \<times> store" where
  "IsTokenBlacklisted jti =
     query (\<lambda>s. 0 < length (filter (\<lambda>p. fst p = jti) (t_blacklist s)))"

text \<open>The statement VACUUM INTO gets: the path quoted for SQL.\<close>

definition backup_sql :: "string \<Rightarrow> string" where
  "backup_sql dest = ''VACUUM INTO '' @ [CHR 0x27] @ ReplaceAllChar dest (CHR 0x27) [CHR 0x27, CHR 0x27]
     @ [CHR 0x27]"

definition Backup :: "string \<Rightarrow> store \<Rightarrow> (db_error + unit) \<times> store" where
  "Backup dest s =
     (if \<not> HasPrefix dest ''/'' then (Inl (AppErr ''backup path must be absolute''), s)
      else exec Inr s)"

section \<open>Edit history\<close>

definition CreateEditHistory :: "EditHistory \<Rightarrow> store \<Rightarrow> (db_error + unit) \<times> EditHistory \<times> store" where
  "CreateEditHistory h s =
     (let (i, s) = fresh_id (eh_ID h) s;
          h = h\<lparr>eh_ID := i\<rparr>;
          (r, s) = exec (\<lambda>s. insert_checked None
            (dup ''message_edit_history.id'' (eh_ID h \<in> set (map eh_ID (t_edits s))))
            (edit_fks h) (\<lambda>s. s\<lparr>t_edits := t_edits s @ [h]\<rparr>) s) s
      in (r, h, s))"

definition ListEditHistory :: "string \<Rightarrow> store \<Rightarrow> (db_error + EditHistory list) \<times> store" where
  "ListEditHistory mid =
     query (\<lambda>s. order_asc eh_EditedAt (filter (\<lambda>h. eh_MessageID h = mid) (t_edits s)))"

section \<open>OAuth identities\<close>

text \<open>INSERT OR REPLACE first deletes the rows it conflicts with.\<close>

definition CreateOAuthIdentity :: "OAuthIdentity \<Rightarrow> store \<Rightarrow> (db_error + unit) \<times> OAuthIdentity \<times> store" where
  "CreateOAuthIdentity x s =
     (let (i, s) = fresh_id (oa_ID x) s;
          x = x\<lparr>oa_ID := i, oa_CreatedAt := or_now (oa_CreatedAt x) s\<rparr>;
          (r, s) = exec (\<lambda>s. insert_checked None None (oauth_fks x)
            (\<lambda>s. s\<lparr>t_oauth := del_where (\<lambda>y. oa_ID y = oa_ID x
                  \<or> oa_Provider y = oa_Provider x \<and> oa_ProviderUserID y = oa_ProviderUserID x)
                (t_oauth s) @ [x]\<rparr>) s) s
      in (r, x, s))"

definition GetOAuthIdentity ::
  "string \<Rightarrow> string \<Rightarrow> store \<Rightarrow> (db_error + OAuthIdentity option) \<times> store" where
  "GetOAuthIdentity provider puid =
     query (\<lambda>s. List.find (\<lambda>x. oa_Provider x = provider \<and> oa_ProviderUserID x = puid) (t_oauth s))"

definition GetOAuthIdentityByMember ::
  "string \<Rightarrow> string \<Rightarrow> store \<Rightarrow> (db_error + OAuthIdentity option) \<times> store" where
  "GetOAuthIdentityByMember mid provider =
     query (\<lambda>s. List.find (\<lambda>x. oa_MemberID x = mid \<and> oa_Provider x = provider) (t_oauth s))"

section \<open>Notifications\<close>

definition CreateNotification :: "Notification \<Rightarrow> store \<Rightarrow> (db_error + unit) \<times> Notification \<times> store" where
  "CreateNotification n s =
     (let (i, s) = fresh_id (nt_ID n) s;
          n = n\<lparr>nt_ID := i, nt_CreatedAt := or_now (nt_CreatedAt n) s\<rparr>;
          row = n\<lparr>nt_SourceType := if nt_SourceType n = '''' then ''system'' else nt_SourceType n,
                   nt_Priority := if nt_Priority n = '''' then ''normal'' else nt_Priority n\<rparr>;
          (r, s) = exec (\<lambda>s. insert_checked None
            (dup ''notifications.id'' (nt_ID n \<in> set (map nt_ID (t_notifications s))))
            (notification_fks row) (\<lambda>s. s\<lparr>t_notifications := t_notifications s @ [row]\<rparr>) s) s
      in (r, n, s))"

definition ListNotifications ::
  "string \<Rightarrow> bool \<Rightarrow> int \<Rightarrow> store \<Rightarrow> (db_error + Notification list) \<times> store" where
  "ListNotifications mid unread l =
     query (\<lambda>s. sql_limit (if l \<le> 0 then 50 else l) (order_desc nt_CreatedAt
       (filter (\<lambda>n. nt_MemberID n = mid \<and> (unread \<longrightarrow> \<not> nt_IsRead n)) (t_notifications s))))"

definition MarkNotificationRead :: "string \<Rightarrow> store \<Rightarrow> (db_error + unit) \<times> store" where
  "MarkNotificationRead i =
     exec (\<lambda>s. Inr (s\<lparr>t_notifications := upd_where (\<lambda>n. nt_ID n = i)
       (\<lambda>n. n\<lparr>nt_IsRead := True\<rparr>) (t_notifications s)\<rparr>))"

definition MarkAllNotificationsRead :: "string \<Rightarrow> store \<Rightarrow> (db_error + unit) \<times> store" where
  "MarkAllNotificationsRead mid =
     exec (\<lambda>s. Inr (s\<lparr>t_notifications := upd_where (\<lambda>n. nt_MemberID n = mid \<and> \<not> nt_IsRead n)
       (\<lambda>n. n\<lparr>nt_IsRead := True\<rparr>) (t_notifications s)\<rparr>))"

definition CountUnreadNotifications :: "string \<Rightarrow> store \<Rightarrow> (db_error + int) \<times> store" where
  "CountUnreadNotifications mid =
     query (\<lambda>s. int (length (filter (\<lambda>n. nt_MemberID n = mid \<and> \<not> nt_IsRead n) (t_notifications s))))"

end
