(* ===== verification/Store_Extra.thy ===== *)
theory Store_Extra
  imports Store_Collab
begin

text \<open>
  store/sqlite.go, third part: integrations, single sign-on providers, calls,
  workflows and their runs, end-to-end keys, billing and usage, the agents' inbox,
  held drafts, workspace items, reviews and team templates.
\<close>

section \<open>Integrations\<close>

definition CreateIntegration :: "Integration \<Rightarrow> store \<Rightarrow> (db_error + unit) \<times> Integration \<times> store" where
  "CreateIntegration x s =
     (let (i, s) = fresh_id (ig_ID x) s;
          x = x\<lparr>ig_ID := i, ig_CreatedAt := or_now (ig_CreatedAt x) s\<rparr>;
          (r, s) = exec (\<lambda>s. insert_checked
            (bad ''integrations.type'' (ig_Type x \<in> {''webhook'', ''bot'', ''oauth'', ''custom''}))
            (dup ''integrations.id'' (ig_ID x \<in> set (map ig_ID (t_integrations s))))
            [] (\<lambda>s. s\<lparr>t_integrations := t_integrations s @ [x]\<rparr>) s) s
      in (r, x, s))"

definition GetIntegration :: "string \<Rightarrow> store \<Rightarrow> (db_error + Integration option) \<times> store" where
  "GetIntegration i = query (\<lambda>s. List.find (\<lambda>x. ig_ID x = i) (t_integrations s))"

definition ListIntegrations :: "store \<Rightarrow> (db_error + Integration list) \<times> store" where
  "ListIntegrations = query (\<lambda>s. order_asc ig_Name (t_integrations s))"

definition InstallIntegration ::
  "WorkspaceIntegration \<Rightarrow> store \<Rightarrow> (db_error + unit) \<times> WorkspaceIntegration \<times> store" where
  "InstallIntegration x s =
     (let (i, s) = fresh_id (wi_ID x) s;
          x = x\<lparr>wi_ID := i, wi_CreatedAt := or_now (wi_CreatedAt x) s\<rparr>;
          (r, s) = exec (\<lambda>s. insert_checked None None (ws_integration_fks x)
            (\<lambda>s. s\<lparr>t_ws_integrations := del_where (\<lambda>y. wi_ID y = wi_ID x
                  \<or> wi_WorkspaceID y = wi_WorkspaceID x \<and> wi_IntegrationID y = wi_IntegrationID x)
                (t_ws_integrations s) @ [x]\<rparr>) s) s
      in (r, x, s))"

definition is_install :: "string \<Rightarrow> string \<Rightarrow> WorkspaceIntegration \<Rightarrow> bool" where
  "is_install wid iid x \<longleftrightarrow> wi_WorkspaceID x = wid \<and> wi_IntegrationID x = iid"

definition UninstallIntegration :: "string \<Rightarrow> string \<Rightarrow> store \<Rightarrow> (db_error + unit) \<times> store" where
  "UninstallIntegration wid iid =
     exec (\<lambda>s. Inr (s\<lparr>t_ws_integrations := del_where (is_install wid iid) (t_ws_integrations s)\<rparr>))"

definition ListWorkspaceIntegrations ::
  "string \<Rightarrow> store \<Rightarrow> (db_error + WorkspaceIntegration list) \<times> store" where
  "ListWorkspaceIntegrations wid =
     query (\<lambda>s. order_desc wi_CreatedAt (filter (\<lambda>x. wi_WorkspaceID x = wid) (t_ws_integrations s)))"

definition GetWorkspaceIntegration ::
  "string \<Rightarrow> string \<Rightarrow> store \<Rightarrow> (db_error + WorkspaceIntegration option) \<times> store" where
  "GetWorkspaceIntegration wid iid = query (\<lambda>s. List.find (is_install wid iid) (t_ws_integrations s))"

section \<open>Single sign-on providers\<close>

definition CreateSSOProvider :: "SSOProvider \<Rightarrow> store \<Rightarrow> (db_error + unit) \<times> SSOProvider \<times> store" where
  "CreateSSOProvider x s =
     (let (i, s) = fresh_id (sso_ID x) s;
          x = x\<lparr>sso_ID := i, sso_CreatedAt := or_now (sso_CreatedAt x) s\<rparr>;
          (r, s) = exec (\<lambda>s. insert_checked
            (bad ''sso_providers.type'' (sso_Type x \<in> {''oidc'', ''saml''}))
            (dup ''sso_providers.id'' (sso_ID x \<in> set (map sso_ID (t_sso s))))
            (sso_fks x) (\<lambda>s. s\<lparr>t_sso := t_sso s @ [x]\<rparr>) s) s
      in (r, x, s))"

definition GetSSOProvider :: "string \<Rightarrow> store \<Rightarrow> (db_error + SSOProvider option) \<times> store" where
  "GetSSOProvider i = query (\<lambda>s. List.find (\<lambda>x. sso_ID x = i) (t_sso s))"

definition ListSSOProviders :: "string \<Rightarrow> store \<Rightarrow> (db_error + SSOProvider list) \<times> store" where
  "ListSSOProviders wid =
     query (\<lambda>s. order_asc sso_Name (filter (\<lambda>x. sso_WorkspaceID x = wid) (t_sso s)))"

definition DeleteSSOProvider :: "string \<Rightarrow> store \<Rightarrow> (db_error + unit) \<times> store" where
  "DeleteSSOProvider i =
     exec (\<lambda>s. Inr (s\<lparr>t_sso := del_where (\<lambda>x. sso_ID x = i) (t_sso s)\<rparr>))"

definition GetSSOProviderByDomain :: "string \<Rightarrow> store \<Rightarrow> (db_error + SSOProvider option) \<times> store" where
  "GetSSOProviderByDomain domain =
     query (\<lambda>s. List.find (\<lambda>x. sso_Domain x = domain \<and> sso_Enabled x) (t_sso s))"

section \<open>Calls\<close>

definition call_status_ok :: "string \<Rightarrow> bool" where
  "call_status_ok st \<longleftrightarrow> st \<in> {''ringing'', ''answered'', ''ended'', ''missed''}"

definition CreateCall :: "Call \<Rightarrow> store \<Rightarrow> (db_error + unit) \<times> Call \<times> store" where
  "CreateCall c s =
     (let (i, s) = fresh_id (call_ID c) s;
          c = c\<lparr>call_ID := i, call_CreatedAt := or_now (call_CreatedAt c) s\<rparr>;
          (r, s) = exec (\<lambda>s. insert_checked
            (first_some [bad ''calls.type'' (call_Type c \<in> {''audio'', ''video''}),
                         bad ''calls.status'' (call_status_ok (call_Status c))])
            (dup ''calls.id'' (call_ID c \<in> set (map call_ID (t_calls s))))
            (call_fks c) (\<lambda>s. s\<lparr>t_calls := t_calls s @ [c]\<rparr>) s) s
      in (r, c, s))"

definition GetCall :: "string \<Rightarrow> store \<Rightarrow> (db_error + Call option) \<times> store" where
  "GetCall i = query (\<lambda>s. List.find (\<lambda>c. call_ID c = i) (t_calls s))"

definition UpdateCall :: "Call \<Rightarrow> store \<Rightarrow> (db_error + unit) \<times> store" where
  "UpdateCall c =
     exec (\<lambda>s.
       if list_ex (\<lambda>x. call_ID x = call_ID c) (t_calls s) \<and> \<not> call_status_ok (call_Status c)
       then Inl (CheckErr ''calls.status'')
       else Inr (s\<lparr>t_calls := upd_where (\<lambda>x. call_ID x = call_ID c)
         (\<lambda>x. x\<lparr>call_Status := call_Status c, call_StartedAt := call_StartedAt c,
               call_EndedAt := call_EndedAt c\<rparr>) (t_calls s)\<rparr>))"

definition ListCalls :: "string \<Rightarrow> int \<Rightarrow> store \<Rightarrow> (db_error + Call list) \<times> store" where
  "ListCalls mid l =
     query (\<lambda>s. sql_limit (if l \<le> 0 then 20 else l) (order_desc call_CreatedAt
       (filter (\<lambda>c. call_CallerID c = mid \<or> call_CalleeID c = mid) (t_calls s))))"

section \<open>Workflows\<close>

definition CreateWorkflow :: "Workflow \<Rightarrow> store \<Rightarrow> (db_error + unit) \<times> Workflow \<times> store" where
  "CreateWorkflow w s =
     (let (i, s) = fresh_id (wf_ID w) s;
          w = w\<lparr>wf_ID := i, wf_CreatedAt := or_now (wf_CreatedAt w) s,
                 wf_UpdatedAt := or_now (wf_UpdatedAt w) s\<rparr>;
          (r, s) = exec (\<lambda>s. insert_checked None
            (dup ''workflows.id'' (wf_ID w \<in> set (map wf_ID (t_workflows s))))
            (workflow_fks w) (\<lambda>s. s\<lparr>t_workflows := t_workflows s @ [w]\<rparr>) s) s
      in (r, w, s))"

definition GetWorkflow :: "string \<Rightarrow> store \<Rightarrow> (db_error + Workflow option) \<times> store" where
  "GetWorkflow i = query (\<lambda>s. List.find (\<lambda>w. wf_ID w = i) (t_workflows s))"

definition ListWorkflows :: "string \<Rightarrow> store \<Rightarrow> (db_error + Workflow list) \<times> store" where
  "ListWorkflows wid =
     query (\<lambda>s. order_asc wf_Name (filter (\<lambda>w. wf_WorkspaceID w = wid) (t_workflows s)))"

definition UpdateWorkflow :: "Workflow \<Rightarrow> store \<Rightarrow> (db_error + unit) \<times> Workflow \<times> store" where
  "UpdateWorkflow w s =
     (let w = w\<lparr>wf_UpdatedAt := now s\<rparr>;
          (r, s) = exec (\<lambda>s. Inr (s\<lparr>t_workflows := upd_where (\<lambda>x. wf_ID x = wf_ID w)
            (\<lambda>x. x\<lparr>wf_Name := wf_Name w, wf_Description := wf_Description w,
                  wf_TriggerType := wf_TriggerType w, wf_TriggerConfig := wf_TriggerConfig w,
                  wf_Steps := wf_Steps w, wf_Enabled := wf_Enabled w,
                  wf_UpdatedAt := wf_UpdatedAt w\<rparr>) (t_workflows s)\<rparr>)) s
      in (r, w, s))"

definition DeleteWorkflow :: "string \<Rightarrow> store \<Rightarrow> (db_error + unit) \<times> store" where
  "DeleteWorkflow i = exec (delete_parents (doomed0\<lparr>d_wf := [i]\<rparr>))"

definition run_status_ok :: "string \<Rightarrow> bool" where
  "run_status_ok st \<longleftrightarrow> st \<in> {''running'', ''completed'', ''failed''}"

definition CreateWorkflowRun :: "WorkflowRun \<Rightarrow> store \<Rightarrow> (db_error + unit) \<times> WorkflowRun \<times> store" where
  "CreateWorkflowRun x s =
     (let (i, s) = fresh_id (wr_ID x) s;
          x = x\<lparr>wr_ID := i, wr_StartedAt := or_now (wr_StartedAt x) s\<rparr>;
          (r, s) = exec (\<lambda>s. insert_checked
            (bad ''workflow_runs.status'' (run_status_ok (wr_Status x)))
            (dup ''workflow_runs.id'' (wr_ID x \<in> set (map wr_ID (t_runs s))))
            (run_fks x) (\<lambda>s. s\<lparr>t_runs := t_runs s @ [x]\<rparr>) s) s
      in (r, x, s))"

definition GetWorkflowRun :: "string \<Rightarrow> store \<Rightarrow> (db_error + WorkflowRun option) \<times> store" where
  "GetWorkflowRun i = query (\<lambda>s. List.find (\<lambda>x. wr_ID x = i) (t_runs s))"

definition UpdateWorkflowRun :: "WorkflowRun \<Rightarrow> store \<Rightarrow> (db_error + unit) \<times> store" where
  "UpdateWorkflowRun x =
     exec (\<lambda>s.
       if list_ex (\<lambda>y. wr_ID y = wr_ID x) (t_runs s) \<and> \<not> run_status_ok (wr_Status x)
       then Inl (CheckErr ''workflow_runs.status'')
       else Inr (s\<lparr>t_runs := upd_where (\<lambda>y. wr_ID y = wr_ID x)
         (\<lambda>y. y\<lparr>wr_Status := wr_Status x, wr_Result := wr_Result x, wr_Error := wr_Error x,
               wr_FinishedAt := wr_FinishedAt x\<rparr>) (t_runs s)\<rparr>))"

definition ListWorkflowRuns :: "string \<Rightarrow> int \<Rightarrow> store \<Rightarrow> (db_error + WorkflowRun list) \<times> store" where
  "ListWorkflowRuns wid l =
     query (\<lambda>s. sql_limit (if l \<le> 0 then 20 else l) (order_desc wr_StartedAt
       (filter (\<lambda>x. wr_WorkflowID x = wid) (t_runs s))))"

section \<open>Keys and encrypted messages\<close>

definition RegisterUserKey :: "UserKey \<Rightarrow> store \<Rightarrow> (db_error + unit) \<times> UserKey \<times> store" where
  "RegisterUserKey k s =
     (let (i, s) = fresh_id (uk_ID k) s;
          k = k\<lparr>uk_ID := i, uk_CreatedAt := or_now (uk_CreatedAt k) s\<rparr>;
          (r, s) = exec (\<lambda>s. insert_checked
            (bad ''user_keys.key_type'' (uk_KeyType k \<in> {''identity'', ''signed_pre'', ''one_time''}))
            None (key_fks k)
            (\<lambda>s. s\<lparr>t_keys := del_where (\<lambda>y. uk_ID y = uk_ID k
                  \<or> uk_MemberID y = uk_MemberID k \<and> uk_KeyType y = uk_KeyType k
                    \<and> uk_PublicKey y = uk_PublicKey k) (t_keys s) @ [k]\<rparr>) s) s
      in (r, k, s))"

text \<open>The private key is never selected.\<close>

definition public_part :: "UserKey \<Rightarrow> UserKey" where
  "public_part k = k\<lparr>uk_PrivateKey := ''''\<rparr>"

definition GetUserKeys :: "string \<Rightarrow> string \<Rightarrow> store \<Rightarrow> (db_error + UserKey list) \<times> store" where
  "GetUserKeys mid kt =
     query (\<lambda>s. map public_part (order_desc uk_CreatedAt
       (filter (\<lambda>k. uk_MemberID k = mid \<and> uk_KeyType k = kt) (t_keys s))))"

definition GetUserKey :: "string \<Rightarrow> store \<Rightarrow> (db_error + UserKey option) \<times> store" where
  "GetUserKey i = query (\<lambda>s. map_option public_part (List.find (\<lambda>k. uk_ID k = i) (t_keys s)))"

definition DeleteUserKey :: "string \<Rightarrow> store \<Rightarrow> (db_error + unit) \<times> store" where
  "DeleteUserKey i =
     exec (\<lambda>s. Inr (s\<lparr>t_keys := del_where (\<lambda>k. uk_ID k = i) (t_keys s)\<rparr>))"

definition DeleteUserKeysByMember :: "string \<Rightarrow> store \<Rightarrow> (db_error + unit) \<times> store" where
  "DeleteUserKeysByMember mid =
     exec (\<lambda>s. Inr (s\<lparr>t_keys := del_where (\<lambda>k. uk_MemberID k = mid) (t_keys s)\<rparr>))"

definition CreateEncryptedMessage ::
  "EncryptedMessage \<Rightarrow> store \<Rightarrow> (db_error + unit) \<times> EncryptedMessage \<times> store" where
  "CreateEncryptedMessage m s =
     (let (i, s) = fresh_id (em_ID m) s;
          m = m\<lparr>em_ID := i, em_CreatedAt := or_now (em_CreatedAt m) s\<rparr>;
          (r, s) = exec (\<lambda>s. insert_checked None
            (dup ''encrypted_messages.id'' (em_ID m \<in> set (map em_ID (t_encrypted s))))
            (encrypted_fks m) (\<lambda>s. s\<lparr>t_encrypted := t_encrypted s @ [m]\<rparr>) s) s
      in (r, m, s))"

definition is_envelope_for :: "string \<Rightarrow> string \<Rightarrow> EncryptedMessage \<Rightarrow> bool" where
  "is_envelope_for msgid rid m \<longleftrightarrow> em_MessageID m = msgid \<and> em_RecipientID m = rid"

definition GetEncryptedMessages ::
  "string \<Rightarrow> string \<Rightarrow> store \<Rightarrow> (db_error + EncryptedMessage list) \<times> store" where
  "GetEncryptedMessages msgid rid = query (\<lambda>s. filter (is_envelope_for msgid rid) (t_encrypted s))"

definition GetEncryptedMessageForRecipient ::
  "string \<Rightarrow> string \<Rightarrow> store \<Rightarrow> (db_error + EncryptedMessage option) \<times> store" where
  "GetEncryptedMessageForRecipient msgid rid =
     query (\<lambda>s. List.find (is_envelope_for msgid rid) (t_encrypted s))"

section \<open>Billing and usage\<close>

definition billing_chk :: "BillingCustomer \<Rightarrow> string option" where
  "billing_chk c = first_some
     [bad ''billing_customers.plan'' (bc_Plan c \<in> {''free'', ''pro'', ''enterprise''}),
      bad ''billing_customers.status'' (bc_Status c \<in> {''active'', ''past_due'', ''canceled'', ''trialing''})]"

text \<open>stripe_customer_id is written without nullStr: two rows with an empty one collide.\<close>

definition CreateBillingCustomer ::
  "BillingCustomer \<Rightarrow> store \<Rightarrow> (db_error + unit) \<times> BillingCustomer \<times> store" where
  "CreateBillingCustomer c s =
     (let (i, s) = fresh_id (bc_ID c) s;
          c = c\<lparr>bc_ID := i, bc_CreatedAt := or_now (bc_CreatedAt c) s,
                 bc_UpdatedAt := or_now (bc_UpdatedAt c) s\<rparr>;
          (r, s) = exec (\<lambda>s. insert_checked (billing_chk c)
            (first_some
              [dup ''billing_customers.id'' (bc_ID c \<in> set (map bc_ID (t_billing s))),
               dup ''billing_customers.stripe_customer_id''
                 (bc_StripeCustomerID c \<in> set (map bc_StripeCustomerID (t_billing s))),
               dup ''billing_customers.workspace_id''
                 (bc_WorkspaceID c \<in> set (map bc_WorkspaceID (t_billing s)))])
            (billing_fks c) (\<lambda>s. s\<lparr>t_billing := t_billing s @ [c]\<rparr>) s) s
      in (r, c, s))"

definition GetBillingCustomer :: "string \<Rightarrow> store \<Rightarrow> (db_error + BillingCustomer option) \<times> store" where
  "GetBillingCustomer wid = query (\<lambda>s. List.find (\<lambda>c. bc_WorkspaceID c = wid) (t_billing s))"

definition GetBillingCustomerByStripeID ::
  "string \<Rightarrow> store \<Rightarrow> (db_error + BillingCustomer option) \<times> store" where
  "GetBillingCustomerByStripeID sid =
     query (\<lambda>s. List.find (\<lambda>c. bc_StripeCustomerID c = sid) (t_billing s))"

definition UpdateBillingCustomer ::
  "BillingCustomer \<Rightarrow> store \<Rightarrow> (db_error + unit) \<times> BillingCustomer \<times> store" where
  "UpdateBillingCustomer c s =
     (let c = c\<lparr>bc_UpdatedAt := now s\<rparr>;
          (r, s) = exec (\<lambda>s.
            if \<not> list_ex (\<lambda>x. bc_WorkspaceID x = bc_WorkspaceID c) (t_billing s) then Inr s
            else case billing_chk c of Some e \<Rightarrow> Inl (CheckErr e)
            | None \<Rightarrow>
                if list_ex (\<lambda>x. bc_WorkspaceID x \<noteq> bc_WorkspaceID c
                     \<and> bc_StripeCustomerID x = bc_StripeCustomerID c) (t_billing s)
                then Inl (UniqueErr ''billing_customers.stripe_customer_id'')
                else Inr (s\<lparr>t_billing := upd_where (\<lambda>x. bc_WorkspaceID x = bc_WorkspaceID c)
                  (\<lambda>x. x\<lparr>bc_StripeCustomerID := bc_StripeCustomerID c,
                        bc_StripeSubscriptionID := bc_StripeSubscriptionID c, bc_Plan := bc_Plan c,
                        bc_Status := bc_Status c, bc_CurrentPeriodStart := bc_CurrentPeriodStart c,
                        bc_CurrentPeriodEnd := bc_CurrentPeriodEnd c,
                        bc_UpdatedAt := bc_UpdatedAt c\<rparr>) (t_billing s)\<rparr>)) s
      in (r, c, s))"

definition DeleteBillingCustomer :: "string \<Rightarrow> store \<Rightarrow> (db_error + unit) \<times> store" where
  "DeleteBillingCustomer wid =
     exec (\<lambda>s. Inr (s\<lparr>t_billing := del_where (\<lambda>c. bc_WorkspaceID c = wid) (t_billing s)\<rparr>))"

definition is_usage :: "string \<Rightarrow> string \<Rightarrow> int \<Rightarrow> UsageRecord \<Rightarrow> bool" where
  "is_usage wid m t u \<longleftrightarrow> ur_WorkspaceID u = wid \<and> ur_Metric u = m \<and> ur_PeriodStart u = t"

definition CreateUsageRecord :: "UsageRecord \<Rightarrow> store \<Rightarrow> (db_error + unit) \<times> UsageRecord \<times> store" where
  "CreateUsageRecord u s =
     (let (i, s) = fresh_id (ur_ID u) s;
          u = u\<lparr>ur_ID := i, ur_CreatedAt := or_now (ur_CreatedAt u) s\<rparr>;
          (r, s) = exec (\<lambda>s. insert_checked None None (usage_fks u)
            (\<lambda>s. s\<lparr>t_usage := del_where (\<lambda>y. ur_ID y = ur_ID u
                  \<or> is_usage (ur_WorkspaceID u) (ur_Metric u) (ur_PeriodStart u) y) (t_usage s) @ [u]\<rparr>) s) s
      in (r, u, s))"

definition GetUsageRecord ::
  "string \<Rightarrow> string \<Rightarrow> int \<Rightarrow> store \<Rightarrow> (db_error + UsageRecord option) \<times> store" where
  "GetUsageRecord wid m t = query (\<lambda>s. List.find (is_usage wid m t) (t_usage s))"

definition upsert_usage :: "UsageRecord \<Rightarrow> UsageRecord list \<Rightarrow> UsageRecord list" where
  "upsert_usage u us =
     (if list_ex (is_usage (ur_WorkspaceID u) (ur_Metric u) (ur_PeriodStart u)) us
      then upd_where (is_usage (ur_WorkspaceID u) (ur_Metric u) (ur_PeriodStart u))
             (\<lambda>x. x\<lparr>ur_Quantity := ur_Quantity x + ur_Quantity u\<rparr>) us
      else us @ [u])"

definition IncrementUsage ::
  "string \<Rightarrow> string \<Rightarrow> int \<Rightarrow> int \<Rightarrow> int \<Rightarrow> store \<Rightarrow> (db_error + unit) \<times> store" where
  "IncrementUsage wid m t0 t1 delta s =
     (let (i, s) = new_uuid s;
          u = \<lparr>ur_ID = i, ur_WorkspaceID = wid, ur_Metric = m, ur_Quantity = delta,
               ur_PeriodStart = t0, ur_PeriodEnd = t1, ur_CreatedAt = now s\<rparr>
      in exec (\<lambda>s. insert_checked None
           (dup ''usage_records.id'' (ur_ID u \<in> set (map ur_ID (t_usage s))))
           (usage_fks u) (\<lambda>s. s\<lparr>t_usage := upsert_usage u (t_usage s)\<rparr>) s) s)"

text \<open>ORDER BY period_start DESC, metric.\<close>

definition ListUsageRecords :: "string \<Rightarrow> store \<Rightarrow> (db_error + UsageRecord list) \<times> store" where
  "ListUsageRecords wid =
     query (\<lambda>s. sort_key (\<lambda>u. - ur_PeriodStart u) (sort_key ur_Metric
       (filter (\<lambda>u. ur_WorkspaceID u = wid) (t_usage s))))"

section \<open>Agent inbox\<close>

record InboxOptions =
  io_SourceType :: string
  io_Priority :: string
  io_UnreadOnly :: bool
  io_Since :: int
  io_Limit :: int

definition ListAgentInbox ::
  "string \<Rightarrow> InboxOptions \<Rightarrow> store \<Rightarrow> (db_error + Notification list) \<times> store" where
  "ListAgentInbox aid opts =
     query (\<lambda>s. sql_limit (if io_Limit opts \<le> 0 then 50 else io_Limit opts) (order_desc nt_CreatedAt
       (filter (\<lambda>n. nt_MemberID n = aid
          \<and> (io_UnreadOnly opts \<longrightarrow> \<not> nt_IsRead n)
          \<and> (io_SourceType opts \<noteq> '''' \<longrightarrow> nt_SourceType n = io_SourceType opts)
          \<and> (io_Priority opts \<noteq> '''' \<longrightarrow> nt_Priority n = io_Priority opts)
          \<and> (0 < io_Since opts \<longrightarrow> io_Since opts < nt_CreatedAt n)) (t_notifications s))))"

definition AckInboxItem :: "string \<Rightarrow> store \<Rightarrow> (db_error + unit) \<times> store" where
  "AckInboxItem i =
     exec (\<lambda>s. Inr (s\<lparr>t_notifications := upd_where (\<lambda>n. nt_ID n = i)
       (\<lambda>n. n\<lparr>nt_AckedAt := now s, nt_IsRead := True\<rparr>) (t_notifications s)\<rparr>))"

definition AckAllInbox :: "string \<Rightarrow> store \<Rightarrow> (db_error + unit) \<times> store" where
  "AckAllInbox aid =
     exec (\<lambda>s. Inr (s\<lparr>t_notifications := upd_where (\<lambda>n. nt_MemberID n = aid \<and> \<not> nt_IsRead n)
       (\<lambda>n. n\<lparr>nt_AckedAt := now s, nt_IsRead := True\<rparr>) (t_notifications s)\<rparr>))"

definition CountAgentInbox :: "string \<Rightarrow> store \<Rightarrow> (db_error + int) \<times> store" where
  "CountAgentInbox aid =
     query (\<lambda>s. int (length (filter (\<lambda>n. nt_MemberID n = aid \<and> \<not> nt_IsRead n) (t_notifications s))))"

section \<open>Held drafts\<close>

definition draft_status_ok :: "string \<Rightarrow> bool" where
  "draft_status_ok st \<longleftrightarrow> st \<in> {''held'', ''sent'', ''expired'', ''cancelled''}"

definition CreateDraft :: "HeldDraft \<Rightarrow> store \<Rightarrow> (db_error + unit) \<times> HeldDraft \<times> store" where
  "CreateDraft d s =
     (let (i, s) = fresh_id (hd_ID d) s;
          d = d\<lparr>hd_ID := i, hd_CreatedAt := or_now (hd_CreatedAt d) s,
                 hd_UpdatedAt := or_now (hd_UpdatedAt d) s\<rparr>;
          (r, s) = exec (\<lambda>s. insert_checked
            (bad ''held_drafts.status'' (draft_status_ok (hd_Status d)))
            (dup ''held_drafts.id'' (hd_ID d \<in> set (map hd_ID (t_drafts s))))
            (draft_fks d) (\<lambda>s. s\<lparr>t_drafts := t_drafts s @ [d]\<rparr>) s) s
      in (r, d, s))"

definition GetDraft :: "string \<Rightarrow> store \<Rightarrow> (db_error + HeldDraft option) \<times> store" where
  "GetDraft i = query (\<lambda>s. List.find (\<lambda>d. hd_ID d = i) (t_drafts s))"

definition ListDrafts :: "string \<Rightarrow> string \<Rightarrow> store \<Rightarrow> (db_error + HeldDraft list) \<times> store" where
  "ListDrafts aid status =
     query (\<lambda>s. sql_limit 50 (order_desc hd_CreatedAt
       (filter (\<lambda>d. hd_AgentID d = aid \<and> (status \<noteq> '''' \<longrightarrow> hd_Status d = status)) (t_drafts s))))"

definition UpdateDraftStatus :: "string \<Rightarrow> string \<Rightarrow> store \<Rightarrow> (db_error + unit) \<times> store" where
  "UpdateDraftStatus i st =
     exec (\<lambda>s.
       if list_ex (\<lambda>d. hd_ID d = i) (t_drafts s) \<and> \<not> draft_status_ok st
       then Inl (CheckErr ''held_drafts.status'')
       else Inr (s\<lparr>t_drafts := upd_where (\<lambda>d. hd_ID d = i)
         (\<lambda>d. d\<lparr>hd_Status := st, hd_UpdatedAt := now s\<rparr>) (t_drafts s)\<rparr>))"

definition DeleteDraft :: "string \<Rightarrow> store \<Rightarrow> (db_error + unit) \<times> store" where
  "DeleteDraft i =
     exec (\<lambda>s. Inr (s\<lparr>t_drafts := del_where (\<lambda>d. hd_ID d = i) (t_drafts s)\<rparr>))"

text \<open>QueryRow.Scan without a check for sql.ErrNoRows: a missing channel is an error.\<close>

definition ErrNoRows :: db_error where
  "ErrNoRows = AppErr ''sql: no rows in result set''"

definition GetChannelRoomVersion :: "string \<Rightarrow> store \<Rightarrow> (db_error + int) \<times> store" where
  "GetChannelRoomVersion cid s =
     on_ok (query (\<lambda>s. List.find (\<lambda>c. ch_ID c = cid) (t_channels s)) s)
       (\<lambda>c s. case c of None \<Rightarrow> (Inl ErrNoRows, s) | Some c \<Rightarrow> (Inr (ch_RoomVersion c), s))"

definition ExpireDrafts :: "store \<Rightarrow> (db_error + unit) \<times> store" where
  "ExpireDrafts =
     exec (\<lambda>s. Inr (s\<lparr>t_drafts := upd_where
       (\<lambda>d. hd_Status d = ''held'' \<and> 0 < hd_ExpiresAt d \<and> hd_ExpiresAt d < now s)
       (\<lambda>d. d\<lparr>hd_Status := ''expired'', hd_UpdatedAt := now s\<rparr>) (t_drafts s)\<rparr>))"

section \<open>Agent workspace\<close>

definition is_item :: "string \<Rightarrow> string \<Rightarrow> string \<Rightarrow> AgentWorkspaceItem \<Rightarrow> bool" where
  "is_item a ns nm x \<longleftrightarrow> wsi_AgentID x = a \<and> wsi_Namespace x = ns \<and> wsi_Name x = nm"

definition CreateWorkspaceItem ::
  "AgentWorkspaceItem \<Rightarrow> store \<Rightarrow> (db_error + unit) \<times> AgentWorkspaceItem \<times> store" where
  "CreateWorkspaceItem x s =
     (let (i, s) = fresh_id (wsi_ID x) s;
          x = x\<lparr>wsi_ID := i, wsi_CreatedAt := or_now (wsi_CreatedAt x) s,
                 wsi_UpdatedAt := or_now (wsi_UpdatedAt x) s\<rparr>;
          (r, s) = exec (\<lambda>s. insert_checked None
            (first_some
              [dup ''agent_workspace.id'' (wsi_ID x \<in> set (map wsi_ID (t_items s))),
               dup ''agent_workspace.name''
                 (list_ex (is_item (wsi_AgentID x) (wsi_Namespace x) (wsi_Name x)) (t_items s))])
            (item_fks x) (\<lambda>s. s\<lparr>t_items := t_items s @ [x]\<rparr>) s) s
      in (r, x, s))"

definition GetWorkspaceItem :: "string \<Rightarrow> store \<Rightarrow> (db_error + AgentWorkspaceItem option) \<times> store" where
  "GetWorkspaceItem i = query (\<lambda>s. List.find (\<lambda>x. wsi_ID x = i) (t_items s))"

definition GetWorkspaceItemByName ::
  "string \<Rightarrow> string \<Rightarrow> string \<Rightarrow> store \<Rightarrow> (db_error + AgentWorkspaceItem option) \<times> store" where
  "GetWorkspaceItemByName a ns nm = query (\<lambda>s. List.find (is_item a ns nm) (t_items s))"

definition ListWorkspaceItems ::
  "string \<Rightarrow> string \<Rightarrow> store \<Rightarrow> (db_error + AgentWorkspaceItem list) \<times> store" where
  "ListWorkspaceItems a ns =
     query (\<lambda>s. sql_limit 100 (order_desc wsi_UpdatedAt
       (filter (\<lambda>x. wsi_AgentID x = a \<and> (ns \<noteq> '''' \<longrightarrow> wsi_Namespace x = ns)) (t_items s))))"

text \<open>The UPDATE leaves the namespace as it is.\<close>

definition UpdateWorkspaceItem ::
  "AgentWorkspaceItem \<Rightarrow> store \<Rightarrow> (db_error + unit) \<times> AgentWorkspaceItem \<times> store" where
  "UpdateWorkspaceItem x s =
     (let x = x\<lparr>wsi_UpdatedAt := now s\<rparr>;
          (r, s) = exec (\<lambda>s.
            case List.find (\<lambda>y. wsi_ID y = wsi_ID x) (t_items s) of
              None \<Rightarrow> Inr s
            | Some old \<Rightarrow>
                if list_ex (\<lambda>y. wsi_ID y \<noteq> wsi_ID x
                     \<and> is_item (wsi_AgentID old) (wsi_Namespace old) (wsi_Name x) y) (t_items s)
                then Inl (UniqueErr ''agent_workspace.name'')
                else if \<not> fk_sat (ids s) (PFile, SetNull, nullStr (wsi_FileID x)) then Inl ForeignKeyErr
                else Inr (s\<lparr>t_items := upd_where (\<lambda>y. wsi_ID y = wsi_ID x)
                  (\<lambda>y. y\<lparr>wsi_Name := wsi_Name x, wsi_Description := wsi_Description x,
                        wsi_Content := wsi_Content x, wsi_MimeType := wsi_MimeType x,
                        wsi_Size := wsi_Size x, wsi_FileID := wsi_FileID x, wsi_Tags := wsi_Tags x,
                        wsi_UpdatedAt := wsi_UpdatedAt x\<rparr>) (t_items s)\<rparr>)) s
      in (r, x, s))"

definition DeleteWorkspaceItem :: "string \<Rightarrow> store \<Rightarrow> (db_error + unit) \<times> store" where
  "DeleteWorkspaceItem i =
     exec (\<lambda>s. Inr (s\<lparr>t_items := del_where (\<lambda>x. wsi_ID x = i) (t_items s)\<rparr>))"

definition SearchWorkspaceItems ::
  "string \<Rightarrow> string \<Rightarrow> store \<Rightarrow> (db_error + AgentWorkspaceItem list) \<times> store" where
  "SearchWorkspaceItems a q =
     query (\<lambda>s. let p = ''%'' @ q @ ''%'' in
       sql_limit 50 (order_desc wsi_UpdatedAt (filter (\<lambda>x. wsi_AgentID x = a
         \<and> (sql_like p (wsi_Name x) \<or> sql_like p (wsi_Description x) \<or> sql_like p (wsi_Content x)))
         (t_items s))))"

section \<open>Reviews\<close>

definition review_status_ok :: "string \<Rightarrow> bool" where
  "review_status_ok st \<longleftrightarrow>
     st \<in> {''pending'', ''in_review'', ''approved'', ''changes_requested'', ''cancelled''}"

definition CreateReviewRequest ::
  "ReviewRequest \<Rightarrow> store \<Rightarrow> (db_error + unit) \<times> ReviewRequest \<times> store" where
  "CreateReviewRequest x s =
     (let (i, s) = fresh_id (rr_ID x) s;
          x = x\<lparr>rr_ID := i, rr_CreatedAt := or_now (rr_CreatedAt x) s,
                 rr_UpdatedAt := or_now (rr_UpdatedAt x) s\<rparr>;
          (r, s) = exec (\<lambda>s. insert_checked
            (bad ''review_requests.status'' (review_status_ok (rr_Status x)))
            (dup ''review_requests.id'' (rr_ID x \<in> set (map rr_ID (t_reviews s))))
            (review_fks x) (\<lambda>s. s\<lparr>t_reviews := t_reviews s @ [x]\<rparr>) s) s
      in (r, x, s))"

definition GetReviewRequest :: "string \<Rightarrow> store \<Rightarrow> (db_error + ReviewRequest option) \<times> store" where
  "GetReviewRequest i = query (\<lambda>s. List.find (\<lambda>x. rr_ID x = i) (t_reviews s))"

definition ListReviewRequests ::
  "string \<Rightarrow> string \<Rightarrow> store \<Rightarrow> (db_error + ReviewRequest list) \<times> store" where
  "ListReviewRequests rid status =
     query (\<lambda>s. sql_limit 50 (order_desc rr_CreatedAt
       (filter (\<lambda>x. rr_ReviewerID x = rid \<and> (status \<noteq> '''' \<longrightarrow> rr_Status x = status)) (t_reviews s))))"

definition UpdateReviewRequest ::
  "ReviewRequest \<Rightarrow> store \<Rightarrow> (db_error + unit) \<times> ReviewRequest \<times> store" where
  "UpdateReviewRequest x s =
     (let x = x\<lparr>rr_UpdatedAt := now s\<rparr>;
          (r, s) = exec (\<lambda>s.
            if list_ex (\<lambda>y. rr_ID y = rr_ID x) (t_reviews s) \<and> \<not> review_status_ok (rr_Status x)
            then Inl (CheckErr ''review_requests.status'')
            else Inr (s\<lparr>t_reviews := upd_where (\<lambda>y. rr_ID y = rr_ID x)
              (\<lambda>y. y\<lparr>rr_Status := rr_Status x, rr_ReviewComment := rr_ReviewComment x,
                    rr_UpdatedAt := rr_UpdatedAt x, rr_ReviewedAt := rr_ReviewedAt x\<rparr>) (t_reviews s)\<rparr>)) s
      in (r, x, s))"

section \<open>Team templates\<close>

definition CreateTeamTemplate :: "TeamTemplate \<Rightarrow> store \<Rightarrow> (db_error + unit) \<times> TeamTemplate \<times> store" where
  "CreateTeamTemplate t s =
     (let (i, s) = fresh_id (tt_ID t) s;
          t = t\<lparr>tt_ID := i, tt_CreatedAt := or_now (tt_CreatedAt t) s,
                 tt_UpdatedAt := or_now (tt_UpdatedAt t) s\<rparr>;
          (r, s) = exec (\<lambda>s. insert_checked None
            (dup ''team_templates.id'' (tt_ID t \<in> set (map tt_ID (t_templates s))))
            (template_fks t) (\<lambda>s. s\<lparr>t_templates := t_templates s @ [t]\<rparr>) s) s
      in (r, t, s))"

definition GetTeamTemplate :: "string \<Rightarrow> store \<Rightarrow> (db_error + TeamTemplate option) \<times> store" where
  "GetTeamTemplate i = query (\<lambda>s. List.find (\<lambda>t. tt_ID t = i) (t_templates s))"

definition ListTeamTemplates :: "string \<Rightarrow> store \<Rightarrow> (db_error + TeamTemplate list) \<times> store" where
  "ListTeamTemplates wid =
     query (\<lambda>s. sql_limit 50 (order_asc tt_Name
       (filter (\<lambda>t. tt_IsBuiltin t \<or> wid \<noteq> '''' \<and> tt_WorkspaceID t = wid) (t_templates s))))"

definition DeleteTeamTemplate :: "string \<Rightarrow> store \<Rightarrow> (db_error + unit) \<times> store" where
  "DeleteTeamTemplate i =
     exec (\<lambda>s. Inr (s\<lparr>t_templates := del_where (\<lambda>t. tt_ID t = i \<and> \<not> tt_IsBuiltin t) (t_templates s)\<rparr>))"

text \<open>
  The templates migration 15 seeds with INSERT OR IGNORE (store/sqlite.go, runMigrations).
\<close>

definition builtin_templates :: "TeamTemplate list" where
  "builtin_templates = [
     \<lparr>tt_ID = ''tpl-investment-research'', tt_WorkspaceID = [],
       tt_Name = ''Investment Research Team'',
       tt_Description = ''Multi-agent team for investment research: Librarian gathers data, Devil's Advocate challenges thesis, Portfolio Watcher monitors positions, Scout finds new opportunities.'',
       tt_Category = ''finance'',
       tt_Roles = Some (JArr [
        JObj [(''name'', JStr ''Librarian''),
          (''system_prompt'', JStr ''You are the Librarian agent. Your job is to gather, organize, and synthesize research data from multiple sources. Maintain a structured knowledge base of market data, company fundamentals, and macro trends. When asked, provide well-sourced summaries.''),
          (''capabilities'', JArr [JStr ''web_search'', JStr ''file_read'', JStr ''file_write''])],
        JObj [(''name'', JStr ''Devil's Advocate''),
          (''system_prompt'', JStr ''You are the Devil's Advocate agent. Your job is to challenge investment theses by finding counterarguments, identifying risks, and stress-testing assumptions. Be rigorous but constructive.''),
          (''capabilities'', JArr [JStr ''web_search'', JStr ''file_read''])],
        JObj [(''name'', JStr ''Portfolio Watcher''),
          (''system_prompt'', JStr ''You are the Portfolio Watcher agent. Monitor portfolio positions, track P&L, flag significant price movements, and alert the team when a position needs attention.''),
          (''capabilities'', JArr [JStr ''web_search'', JStr ''file_read'', JStr ''file_write''])],
        JObj [(''name'', JStr ''Scout''),
          (''system_prompt'', JStr ''You are the Scout agent. Proactively search for new investment opportunities, emerging trends, and undervalued assets. Report findings to the team with supporting data.''),
          (''capabilities'', JArr [JStr ''web_search'', JStr ''file_write''])]]),
       tt_Channels = Some (JArr [
        JObj [(''name'', JStr ''research''), (''topic'', JStr ''Research findings and data synthesis''),
          (''members'', JArr [JStr ''Librarian'', JStr ''Scout''])],
        JObj [(''name'', JStr ''debate''), (''topic'', JStr ''Thesis challenges and risk analysis''),
          (''members'', JArr [JStr ''Librarian'', JStr ''Devil's Advocate'', JStr ''Portfolio Watcher''])],
        JObj [(''name'', JStr ''portfolio''), (''topic'', JStr ''Position monitoring and alerts''),
          (''members'', JArr [JStr ''Portfolio Watcher'', JStr ''Scout''])]]),
       tt_IsBuiltin = True, tt_CreatedBy = [], tt_CreatedAt = 0, tt_UpdatedAt = 0\<rparr>,
     \<lparr>tt_ID = ''tpl-code-review'', tt_WorkspaceID = [],
       tt_Name = ''Code Review Team'',
       tt_Description = ''Multi-agent team for code review: Reviewer analyzes code quality, SecurityAuditor checks for vulnerabilities, TestWriter suggests test coverage.'',
       tt_Category = ''engineering'',
       tt_Roles = Some (JArr [
        JObj [(''name'', JStr ''Reviewer''),
          (''system_prompt'', JStr ''You are the Reviewer agent. Analyze code for quality, readability, maintainability, and adherence to best practices. Provide specific, actionable feedback with line references.''),
          (''capabilities'', JArr [JStr ''file_read'', JStr ''file_write''])],
        JObj [(''name'', JStr ''SecurityAuditor''),
          (''system_prompt'', JStr ''You are the SecurityAuditor agent. Review code for security vulnerabilities including injection attacks, authentication flaws, data exposure, and OWASP Top 10 issues. Flag severity levels.''),
          (''capabilities'', JArr [JStr ''file_read'', JStr ''file_write''])],
        JObj [(''name'', JStr ''TestWriter''),
          (''system_prompt'', JStr ''You are the TestWriter agent. Analyze code and suggest comprehensive test cases including unit tests, edge cases, and integration scenarios. Write test code when asked.''),
          (''capabilities'', JArr [JStr ''file_read'', JStr ''file_write''])]]),
       tt_Channels = Some (JArr [
        JObj [(''name'', JStr ''review''), (''topic'', JStr ''Code review and quality feedback''),
          (''members'', JArr [JStr ''Reviewer'', JStr ''SecurityAuditor'', JStr ''TestWriter''])],
        JObj [(''name'', JStr ''security''), (''topic'', JStr ''Security findings and vulnerability reports''),
          (''members'', JArr [JStr ''SecurityAuditor''])]]),
       tt_IsBuiltin = True, tt_CreatedBy = [], tt_CreatedAt = 0, tt_UpdatedAt = 0\<rparr>]"

definition seed_templates :: "store \<Rightarrow> store" where
  "seed_templates s = s\<lparr>t_templates := t_templates s @
     filter (\<lambda>t. tt_ID t \<notin> set (map tt_ID (t_templates s))) builtin_templates\<rparr>"

end
