(* ===== verification/World.thy ===== *)
theory World
  imports Hub_Inv Store_Extra "HOL-Library.Word"
begin

text \<open>
  The running server: the hub and its connections together with the database, as
  server.go wires them, and the pieces the handlers are built from: sending an
  envelope, running a store operation under a connection's context, waking agents
  (websocket/hub.go, metrics/metrics.go) and the agents' life cycle
  (websocket/agent.go).
\<close>

section \<open>State\<close>

text \<open>The claims of a token; expiry and issue time are in seconds (jwt.NumericDate).\<close>

record JWTClaims =
  cl_MemberID :: string
  cl_WorkspaceID :: string
  cl_ID :: string
  cl_ExpiresAt :: int
  cl_IssuedAt :: int
  cl_Issuer :: string

text \<open>
  Beside the hub and the database, what the server takes from outside: the rendering
  of a moment in the server's local time zone and its parser (time.RFC3339); the bytes
  crypto/rand delivers, None where reading fails; the JWT library, as the HS256
  signature of claims under a secret and the check of a token (signature, method and
  expiry against the clock); bcrypt, whose salt is read from the random source.
\<close>

record world = net +
  db :: store
  fmt_time :: "int \<Rightarrow> string"
  parse_time :: "string \<Rightarrow> int option"
  entropy :: "nat \<Rightarrow> 8 word option"
  ent_pos :: nat
  jwt_secret :: string
  jwt_sign :: "string \<Rightarrow> JWTClaims \<Rightarrow> string option"
  jwt_parse :: "string \<Rightarrow> int \<Rightarrow> string \<Rightarrow> JWTClaims option"
  bcrypt_hash :: "8 word list \<Rightarrow> string \<Rightarrow> string option"
  bcrypt_ok :: "string \<Rightarrow> string \<Rightarrow> bool"

definition on_db :: "(store \<Rightarrow> 'a \<times> store) \<Rightarrow> world \<Rightarrow> 'a \<times> world" where
  "on_db op w = (let (x, s) = op (db w) in (x, w\<lparr>db := s\<rparr>))"

text \<open>
  An operation run with a connection's context: once the connection is closed the
  context is cancelled and the statement fails.
\<close>

definition with_ctx :: "nat \<Rightarrow> (store \<Rightarrow> 'a \<times> store) \<Rightarrow> world \<Rightarrow> 'a \<times> world" where
  "with_ctx r op w =
     (if c_cancelled (heap w r)
      then let (x, s) = op ((db w)\<lparr>faults := [Some ''context canceled'']\<rparr>)
           in (x, w\<lparr>db := s\<lparr>faults := faults (db w)\<rparr>\<rparr>)
      else on_db op w)"

text \<open>Operations that fill in their argument return the error, the row and the store.\<close>

definition made :: "(store \<Rightarrow> 'e \<times> 'r \<times> store) \<Rightarrow> store \<Rightarrow> ('e \<times> 'r) \<times> store" where
  "made op s = (let (e, x, s) = op s in ((e, x), s))"

section \<open>Sending\<close>

definition stamp :: "string \<Rightarrow> json \<Rightarrow> world \<Rightarrow> envelope \<times> world" where
  "stamp t data = on_db (NewEnvelope t data)"

definition reply :: "nat \<Rightarrow> string \<Rightarrow> json \<Rightarrow> world \<Rightarrow> world" where
  "reply r t data w = (let (e, w) = stamp t data w in send_ref e r w)"

definition ws_err :: "nat \<Rightarrow> string \<Rightarrow> world \<Rightarrow> world" where
  "ws_err r msg = reply r ''error'' (str_obj [(''error'', msg)])"

definition wsError :: "nat \<Rightarrow> world \<Rightarrow> world" where
  "wsError r = ws_err r ''internal error''"

definition to_channel :: "string \<Rightarrow> string \<Rightarrow> json \<Rightarrow> world \<Rightarrow> world" where
  "to_channel ch t data w = (let (e, w) = stamp t data w in BroadcastToChannel ch e w)"

definition to_all :: "string \<Rightarrow> json \<Rightarrow> world \<Rightarrow> world" where
  "to_all t data w = (let (e, w) = stamp t data w in BroadcastToAll e w)"

text \<open>if c := hub.GetConn(m); c != nil { c.Send(...) }\<close>

definition to_member :: "string \<Rightarrow> string \<Rightarrow> json \<Rightarrow> world \<Rightarrow> world" where
  "to_member m t data w = (case GetConn m w of None \<Rightarrow> w | Some r \<Rightarrow> reply r t data w)"

definition SendTypingIndicator :: "string \<Rightarrow> string \<Rightarrow> world \<Rightarrow> world" where
  "SendTypingIndicator ch m =
     to_channel ch ''typing.start''
       (JObj ([(''channel_id'', JStr ch)] @ omit_str ''member_id'' m))"

definition SendPresenceUpdate :: "string \<Rightarrow> string \<Rightarrow> world \<Rightarrow> world" where
  "SendPresenceUpdate m status = to_all ''presence.update'' (str_obj [(''member_id'', m), (''status'', status)])"

definition SendNewMessage :: "string \<Rightarrow> Message \<Rightarrow> world \<Rightarrow> world" where
  "SendNewMessage ch m = to_channel ch ''message.new'' (JObj [(''message'', Message_json m)])"

definition SetPresence :: "string \<Rightarrow> string \<Rightarrow> world \<Rightarrow> world" where
  "SetPresence m status w = w\<lparr>presence := go_put m status (presence w)\<rparr>"

section \<open>Waking agents\<close>

text \<open>strconv.Atoi with its error ignored: 0 for a malformed number, the bound for one out of range.\<close>

definition Atoi_or :: "string \<Rightarrow> int" where
  "Atoi_or s = (case Atoi s of Some v \<Rightarrow> v
     | None \<Rightarrow>
         let neg = (s \<noteq> [] \<and> hd s = CHR ''-'');
             ds = (if neg \<or> (s \<noteq> [] \<and> hd s = CHR ''+'') then tl s else s) in
         if ds = [] \<or> \<not> list_all is_digit ds then 0 else if neg then - (2 ^ 63) else 2 ^ 63 - 1)"

definition metric_row :: "string \<Rightarrow> string \<Rightarrow> string \<Rightarrow> AgentMemory" where
  "metric_row a k v = AgentMemory0\<lparr>am_AgentID := a, am_Namespace := ''_metrics'', am_Key := k, am_Value := v\<rparr>"

definition RecordWake :: "string \<Rightarrow> world \<Rightarrow> world" where
  "RecordWake a w =
     (let (m, w) = on_db (GetMemory a ''_metrics'' ''wake_count'') w;
          count = (case m of Inr (Some x) \<Rightarrow> Atoi_or (am_Value x) | _ \<Rightarrow> 0);
          (_, w) = on_db (made (SetMemory (metric_row a ''wake_count'' (Itoa (count + 1))))) w;
          (_, w) = on_db (made (SetMemory (metric_row a ''last_active'' (fmt_time w (now (db w)))))) w
      in w)"

definition message_brief :: "Message \<Rightarrow> json" where
  "message_brief m = JObj [(''content'', JStr (msg_Content m)), (''created_at'', JNum (msg_CreatedAt m)),
     (''id'', JStr (msg_ID m)), (''sender_id'', JStr (msg_SenderID m))]"

definition wake_data :: "string \<Rightarrow> json \<Rightarrow> json \<Rightarrow> string \<Rightarrow> json" where
  "wake_data reason chan recent nm = JObj ([(''reason'', JStr reason),
     (''context'', JObj [(''channel'', chan), (''recent_messages'', recent)])] @ omit_str ''agent_name'' nm)"

definition WakeAgentByName :: "string \<Rightarrow> string \<Rightarrow> string \<Rightarrow> world \<Rightarrow> world" where
  "WakeAgentByName nm ch reason w =
     (case wake_target nm w of
        None \<Rightarrow> w
      | Some r \<Rightarrow>
          let (ms, w) = on_db (GetRecentMessages ch 20) w;
              recent = (case ms of Inl e \<Rightarrow> JNull | Inr ms \<Rightarrow> JArr (map message_brief ms));
              w = reply r ''agent.wake'' (wake_data reason (str_obj [(''id'', ch)]) recent nm) w
          in RecordWake (c_id (heap w r)) w)"

definition WakeAgent :: "string \<Rightarrow> json \<Rightarrow> world \<Rightarrow> world" where
  "WakeAgent a data w = (case GetAgent a w of None \<Rightarrow> w | Some r \<Rightarrow> reply r ''agent.wake'' data w)"

section \<open>Agent metrics\<close>

record AgentMetrics =
  mt_AgentID :: string
  mt_MessagesSent :: int
  mt_TasksCompleted :: int
  mt_TasksPending :: int
  mt_WakeCount :: int
  mt_LastActiveAt :: int

definition GetAgentMetrics :: "string \<Rightarrow> world \<Rightarrow> AgentMetrics \<times> world" where
  "GetAgentMetrics a w =
     (let m = \<lparr>mt_AgentID = a, mt_MessagesSent = 0, mt_TasksCompleted = 0, mt_TasksPending = 0,
               mt_WakeCount = 0, mt_LastActiveAt = 0\<rparr>;
          (n, w) = on_db (CountMessagesBySender a) w;
          m = (case n of Inr n \<Rightarrow> m\<lparr>mt_MessagesSent := n\<rparr> | Inl _ \<Rightarrow> m);
          (t, w) = on_db (CountTasksByAssignee a) w;
          m = (case t of Inr (c, p) \<Rightarrow> m\<lparr>mt_TasksCompleted := c, mt_TasksPending := p\<rparr> | Inl _ \<Rightarrow> m);
          (x, w) = on_db (GetMemory a ''_metrics'' ''wake_count'') w;
          m = (case x of Inr (Some x) \<Rightarrow>
                (case Atoi (am_Value x) of Some n \<Rightarrow> m\<lparr>mt_WakeCount := n\<rparr> | None \<Rightarrow> m) | _ \<Rightarrow> m);
          (x, w) = on_db (GetMemory a ''_metrics'' ''last_active'') w;
          m = (case x of Inr (Some x) \<Rightarrow>
                (case parse_time w (am_Value x) of Some t \<Rightarrow> m\<lparr>mt_LastActiveAt := t\<rparr> | None \<Rightarrow> m) | _ \<Rightarrow> m)
      in (m, w))"

section \<open>Agent life cycle\<close>

definition HandleAgentHello :: "nat \<Rightarrow> AgentHelloData \<Rightarrow> world \<Rightarrow> world" where
  "HandleAgentHello r data w =
     (if \<not> c_authenticated (heap w r) then ws_err r ''must authenticate before agent.hello'' w
      else
        let i = c_id (heap w r);
            (_, w) = on_db (UpdateMemberRoleCard i (Some (ah_RoleCard data)) (Some (ah_Runtime data))) w;
            w = reply r ''agent.welcome'' (str_obj [(''agent_id'', i), (''status'', ''awake'')]) w;
            w = SetPresence i ''online'' w
        in RecordWake i w)"

definition HandleAgentSleep :: "nat \<Rightarrow> world \<Rightarrow> world" where
  "HandleAgentSleep r w =
     (if \<not> c_isAgent (heap w r) then w else SetPresence (c_id (heap w r)) ''sleeping'' w)"

definition HandleAgentThinking :: "nat \<Rightarrow> string \<Rightarrow> world \<Rightarrow> world" where
  "HandleAgentThinking r ch w =
     (if \<not> c_isAgent (heap w r) then w else SendTypingIndicator ch (c_id (heap w r)) w)"

section \<open>Random tokens\<close>

definition read_random :: "nat \<Rightarrow> world \<Rightarrow> 8 word list option \<times> world" where
  "read_random n w =
     (let bs = map (entropy w) [ent_pos w..<ent_pos w + n] in
      (if None \<in> set bs then None else Some (map the bs), w\<lparr>ent_pos := ent_pos w + n\<rparr>))"

definition hex_char :: "nat \<Rightarrow> char" where
  "hex_char d = (if d < 10 then char_of (48 + d) else char_of (87 + d))"

definition hex_encode :: "8 word list \<Rightarrow> string" where
  "hex_encode bs = concat (map (\<lambda>b. [hex_char (unat b div 16), hex_char (unat b mod 16)]) bs)"

definition GenerateAPIKey :: "string \<Rightarrow> world \<Rightarrow> string option \<times> world" where
  "GenerateAPIKey pfx w =
     (let (bs, w) = read_random 32 w in (map_option (\<lambda>bs. pfx @ hex_encode bs) bs, w))"

end
