(* ===== verification/Auth.thy ===== *)
theory Auth
  imports World
begin

text \<open>
  websocket/auth.go and the authentication middleware of api/router.go: issuing and
  validating tokens, the blacklist of revoked tokens, and the member a request is
  served as.
\<close>

section \<open>Tokens\<close>

definition GenerateToken :: "string \<Rightarrow> string \<Rightarrow> world \<Rightarrow> (string \<times> string) option \<times> world" where
  "GenerateToken memberID workspaceID w =
     (let (bs, w) = read_random 16 w in
      case bs of
        None \<Rightarrow> (None, w)
      | Some bs \<Rightarrow>
          let jti = hex_encode bs;
              claims = \<lparr>cl_MemberID = memberID, cl_WorkspaceID = workspaceID, cl_ID = jti,
                cl_ExpiresAt = (now (db w) + 24 * 3600 * 1000) div 1000,
                cl_IssuedAt = now (db w) div 1000, cl_Issuer = ''lark''\<rparr>
          in (map_option (\<lambda>tok. (tok, jti)) (jwt_sign w (jwt_secret w) claims), w))"

text \<open>A failed check is Inl; the database error and the revoked token are told apart.\<close>

datatype token_error = TokenInvalid | TokenCheckFailed db_error | TokenRevoked

definition ValidateToken :: "string \<Rightarrow> world \<Rightarrow> (token_error + JWTClaims) \<times> world" where
  "ValidateToken tok w =
     (case jwt_parse w (jwt_secret w) (now (db w)) tok of
        None \<Rightarrow> (Inl TokenInvalid, w)
      | Some claims \<Rightarrow>
          if cl_ID claims = '''' then (Inr claims, w)
          else
            let (b, w) = on_db (IsTokenBlacklisted (cl_ID claims)) w in
            case b of
              Inl e \<Rightarrow> (Inl (TokenCheckFailed e), w)
            | Inr blocked \<Rightarrow> if blocked then (Inl TokenRevoked, w) else (Inr claims, w))"

definition GenerateProvisionToken :: "world \<Rightarrow> string option \<times> world" where
  "GenerateProvisionToken = GenerateAPIKey ''lpt_''"

section \<open>Responses\<close>

text \<open>
  A response is its status, the URL handed to http.Redirect where there is one, and
  its JSON body, None for the empty body of 204 and the link page of a redirect.
\<close>

record response =
  status :: nat
  location :: "string option"
  body :: "json option"

definition writeJSON :: "nat \<Rightarrow> json \<Rightarrow> response" where
  "writeJSON st j = \<lparr>status = st, location = None, body = Some j\<rparr>"

definition writeError :: "nat \<Rightarrow> string \<Rightarrow> response" where
  "writeError st msg = writeJSON st (str_obj [(''error'', msg)])"

definition writeErrorCode :: "nat \<Rightarrow> string \<Rightarrow> string \<Rightarrow> response" where
  "writeErrorCode st code msg = writeJSON st (str_obj [(''code'', code), (''message'', msg)])"

definition serverError :: response where
  "serverError = writeErrorCode 500 ''INTERNAL_ERROR'' ''internal error''"

definition no_content :: response where
  "no_content = \<lparr>status = 204, location = None, body = None\<rparr>"

section \<open>The authentication middleware\<close>

definition TrimPrefix :: "string \<Rightarrow> string \<Rightarrow> string" where
  "TrimPrefix s p = (if HasPrefix s p then drop (length p) s else s)"

text \<open>The member a request is authenticated as, or the response that refuses it.\<close>

definition authenticate :: "string \<Rightarrow> world \<Rightarrow> (response + Member) \<times> world" where
  "authenticate hdr w =
     (if hdr = '''' then (Inl (writeErrorCode 401 ''AUTH_REQUIRED'' ''missing Authorization header''), w)
      else
        let bearer = TrimPrefix hdr ''Bearer '';
            tok = (if bearer = hdr then TrimPrefix hdr ''ApiKey '' else bearer) in
        if tok = hdr then
          (Inl (writeErrorCode 401 ''AUTH_INVALID_TOKEN'' ''invalid Authorization format''), w)
        else
          let (c, w) = ValidateToken tok w in
          case c of
            Inr claims \<Rightarrow>
              (let (m, w) = on_db (GetMember (cl_MemberID claims)) w in
               case m of
                 Inl e \<Rightarrow> (Inl serverError, w)
               | Inr None \<Rightarrow> (Inl (writeErrorCode 401 ''AUTH_INVALID_TOKEN'' ''member not found''), w)
               | Inr (Some m) \<Rightarrow> (Inr m, w))
          | Inl _ \<Rightarrow>
              (let (m, w) = on_db (GetMemberByAPIKey tok) w in
               case m of
                 Inl e \<Rightarrow> (Inl serverError, w)
               | Inr None \<Rightarrow> (Inl (writeErrorCode 401 ''AUTH_INVALID_CREDENTIALS'' ''invalid credentials''), w)
               | Inr (Some m) \<Rightarrow> (Inr m, w)))"

definition requireWorkspaceAuth :: "Member option \<Rightarrow> string \<Rightarrow> response + Member" where
  "requireWorkspaceAuth member workspaceID =
     (case member of
        None \<Rightarrow> Inl (writeErrorCode 401 ''AUTH_REQUIRED'' ''not authenticated'')
      | Some m \<Rightarrow>
          if workspaceID \<noteq> '''' \<and> mb_WorkspaceID m \<noteq> workspaceID
          then Inl (writeErrorCode 403 ''FORBIDDEN'' ''access denied'')
          else Inr m)"

definition requireAdmin :: "Member option \<Rightarrow> response + Member" where
  "requireAdmin member =
     (case member of
        None \<Rightarrow> Inl (writeErrorCode 401 ''AUTH_REQUIRED'' ''not authenticated'')
      | Some m \<Rightarrow>
          if mb_Role m \<noteq> ''admin'' \<and> mb_Role m \<noteq> ''owner''
          then Inl (writeErrorCode 403 ''FORBIDDEN'' ''admin access required'')
          else Inr m)"

end
