(* ===== verification/Ws_Chat.thy ===== *)
theory Ws_Chat
  imports Auth Text_Utils
begin

text \<open>
  api/handlers_ws.go, the conversation half: logging in, joining and leaving
  channels, sending, editing and deleting messages, mentions, typing and thread
  replies, and the broadcasts the REST handlers share.  A handler takes the
  connection, the envelope's data and the running server.
\<close>

section \<open>Logging in\<close>

definition subscribeMemberChannels :: "nat \<Rightarrow> string \<Rightarrow> world \<Rightarrow> world" where
  "subscribeMemberChannels r memberID w =
     (let (chs, w) = with_ctx r (ListMemberChannelIDs memberID) w in
      case chs of
        Inl e \<Rightarrow> w
      | Inr chs \<Rightarrow> fold (\<lambda>ch w. snd (join ch r w)) chs w)"

text \<open>The end of both branches of the login: the connection takes the member's identity.\<close>

definition ws_admit :: "nat \<Rightarrow> Member \<Rightarrow> world \<Rightarrow> world" where
  "ws_admit r m w =
     (let w = login (mb_ID m) (mb_Name m) (mb_Type m = ''agent'') r w;
          w = subscribeMemberChannels r (mb_ID m) w;
          w = reply r ''auth.success'' (str_obj [(''member_id'', mb_ID m), (''name'', mb_Name m),
                (''type'', mb_Type m), (''workspace_id'', mb_WorkspaceID m)]) w
      in SendPresenceUpdate (mb_ID m) ''online'' w)"

definition auth_fail :: "nat \<Rightarrow> string \<Rightarrow> world \<Rightarrow> world" where
  "auth_fail r msg = reply r ''auth.fail'' (str_obj [(''error'', msg)])"

definition handleWSAuthLogin :: "nat \<Rightarrow> json option \<Rightarrow> world \<Rightarrow> world" where
  "handleWSAuthLogin r data w =
     (case ParseAuthLogin data of
        None \<Rightarrow> ws_err r ''invalid auth data'' w
      | Some d \<Rightarrow>
          let (claims, w) = ValidateToken (al_Token d) w in
          case claims of
            Inl _ \<Rightarrow>
              (let (m, w) = with_ctx r (GetMemberByAPIKey (al_Token d)) w in
               case m of
                 Inl e \<Rightarrow> auth_fail r ''auth error'' w
               | Inr None \<Rightarrow> auth_fail r ''invalid credentials'' w
               | Inr (Some m) \<Rightarrow> ws_admit r m w)
          | Inr c \<Rightarrow>
              (let (m, w) = with_ctx r (GetMember (cl_MemberID c)) w in
               case m of
                 Inl e \<Rightarrow> auth_fail r ''auth error'' w
               | Inr None \<Rightarrow> auth_fail r ''member not found'' w
               | Inr (Some m) \<Rightarrow> ws_admit r m w))"

text \<open>A connection still unauthenticated after thirty seconds is told so and closed.\<close>

definition auth_timeout :: "nat \<Rightarrow> world \<Rightarrow> world" where
  "auth_timeout r w =
     (if c_authenticated (heap w r) then w else upd_conn Close r (ws_err r ''auth timeout'' w))"

section \<open>Guards\<close>

definition if_authed :: "nat \<Rightarrow> (world \<Rightarrow> world) \<Rightarrow> world \<Rightarrow> world" where
  "if_authed r k w = (if \<not> c_authenticated (heap w r) then ws_err r ''not authenticated'' w else k w)"

definition if_agent :: "nat \<Rightarrow> string \<Rightarrow> (world \<Rightarrow> world) \<Rightarrow> world \<Rightarrow> world" where
  "if_agent r msg k w =
     (if \<not> c_authenticated (heap w r) \<or> \<not> c_isAgent (heap w r) then ws_err r msg w else k w)"

section \<open>Channels\<close>

definition handleWSChannelJoin :: "nat \<Rightarrow> json option \<Rightarrow> world \<Rightarrow> world" where
  "handleWSChannelJoin r data = if_authed r (\<lambda>w.
     case unmarshal_strs [''channel_id''] data of
       Some [ch] \<Rightarrow>
         (let (isMember, w) = with_ctx r (IsChannelMember ch (c_id (heap w r))) w in
          if isMember \<noteq> Inr True then ws_err r ''not a channel member'' w
          else let (ok, w) = join ch r w in
            if \<not> ok then ws_err r ''subscription limit reached'' w
            else reply r ''channel.join'' (str_obj [(''channel_id'', ch)]) w)
     | _ \<Rightarrow> ws_err r ''invalid data'' w)"

definition handleWSChannelLeave :: "nat \<Rightarrow> json option \<Rightarrow> world \<Rightarrow> world" where
  "handleWSChannelLeave r data = if_authed r (\<lambda>w.
     case unmarshal_strs [''channel_id''] data of
       Some [ch] \<Rightarrow> reply r ''channel.leave'' (str_obj [(''channel_id'', ch)]) (leave ch r w)
     | _ \<Rightarrow> ws_err r ''invalid data'' w)"

section \<open>Mentions\<close>

definition mention_note :: "Message \<Rightarrow> Member \<Rightarrow> Notification" where
  "mention_note msg m = Notification0\<lparr>nt_MemberID := mb_ID m, nt_Type := ''mention'',
     nt_Title := ''You were mentioned'', nt_Body := msg_Content msg,
     nt_ChannelID := msg_ChannelID msg, nt_MessageID := msg_ID msg,
     nt_SourceType := ''mention'', nt_Priority := ''normal'', nt_AckRequired := False\<rparr>"

definition mention_one :: "Message \<Rightarrow> Channel option \<Rightarrow> string \<Rightarrow> world \<Rightarrow> world" where
  "mention_one msg ch nm w =
     (let w = WakeAgentByName nm (msg_ChannelID msg) ''mention'' w in
      case ch of
        None \<Rightarrow> w
      | Some c \<Rightarrow>
          let (m, w) = on_db (GetMemberByName (ch_WorkspaceID c) nm) w in
          case m of
            Inr (Some m) \<Rightarrow>
              if mb_ID m = msg_SenderID msg then w
              else
                let ((_, n), w) = on_db (made (CreateNotification (mention_note msg m))) w
                in to_member (mb_ID m) ''notification.new'' (Notification_json n) w
          | _ \<Rightarrow> w)"

definition handleMentions :: "Message \<Rightarrow> world \<Rightarrow> world" where
  "handleMentions msg w =
     (let names = ParseMentions (msg_Content msg) in
      if names = [] then w
      else
        let (ch, w) = on_db (GetChannel (msg_ChannelID msg)) w;
            c = (case ch of Inr (Some c) \<Rightarrow> Some c | _ \<Rightarrow> None)
        in fold (mention_one msg c) names w)"

section \<open>Messages\<close>

definition maxContent :: nat where
  "maxContent = 10000"

definition send_request :: "string \<Rightarrow> MessageSendData \<Rightarrow> Message" where
  "send_request sender d = Message0\<lparr>msg_ChannelID := ms_ChannelID d, msg_SenderID := sender,
     msg_Content := ms_Content d, msg_ThreadID := ms_ThreadID d,
     msg_ContentType := (if ms_ContentType d = '''' then ''text'' else ms_ContentType d),
     msg_Type := ms_Type d\<rparr>"

definition handleWSMessageSend :: "nat \<Rightarrow> json option \<Rightarrow> world \<Rightarrow> world" where
  "handleWSMessageSend r data = if_authed r (\<lambda>w.
     case ParseMessageSend data of
       None \<Rightarrow> ws_err r ''invalid message data'' w
     | Some d \<Rightarrow>
         if TrimSpace (ms_Content d) = '''' then ws_err r ''content is required'' w
         else if maxContent < length (ms_Content d)
           then ws_err r ''content too long (max 10000 characters)'' w
         else if \<not> IsSubscribed (ms_ChannelID d) (heap w r)
           then ws_err r ''not subscribed to channel'' w
         else
           let ((err, msg), w) = with_ctx r (made (CreateMessage (send_request (c_id (heap w r)) d))) w
           in case err of
                Inl e \<Rightarrow> wsError r w
              | Inr _ \<Rightarrow>
                  let w = SendNewMessage (msg_ChannelID msg) msg w;
                      w = reply r ''message.ack'' (str_obj [(''message_id'', msg_ID msg)]) w
                  in handleMentions msg w)"

definition trackMessageEdit :: "int \<Rightarrow> Message \<Rightarrow> Message" where
  "trackMessageEdit t msg = msg\<lparr>msg_EditedAt := t, msg_EditCount := msg_EditCount msg + 1\<rparr>"

definition handleWSMessageEdit :: "nat \<Rightarrow> json option \<Rightarrow> world \<Rightarrow> world" where
  "handleWSMessageEdit r data = if_authed r (\<lambda>w.
     case unmarshal_strs [''message_id'', ''content''] data of
       Some [i, content] \<Rightarrow>
         if TrimSpace content = '''' then ws_err r ''content is required'' w
         else if maxContent < length content
           then ws_err r ''content too long (max 10000 characters)'' w
         else
           (let (m, w) = with_ctx r (GetMessage i) w in
            case m of
              Inl e \<Rightarrow> wsError r w
            | Inr None \<Rightarrow> ws_err r ''message not found'' w
            | Inr (Some msg) \<Rightarrow>
                if msg_SenderID msg \<noteq> c_id (heap w r) then ws_err r ''not message author'' w
                else
                  let msg = trackMessageEdit (now (db w)) (msg\<lparr>msg_Content := content\<rparr>);
                      ((err, msg), w) = with_ctx r (made (UpdateMessage msg)) w
                  in case err of
                       Inl e \<Rightarrow> wsError r w
                     | Inr _ \<Rightarrow> to_channel (msg_ChannelID msg) ''message.edit'' (Message_json msg) w)
     | _ \<Rightarrow> ws_err r ''invalid data'' w)"

definition handleWSMessageDelete :: "nat \<Rightarrow> json option \<Rightarrow> world \<Rightarrow> world" where
  "handleWSMessageDelete r data = if_authed r (\<lambda>w.
     case unmarshal_strs [''message_id''] data of
       Some [i] \<Rightarrow>
         (let (m, w) = with_ctx r (GetMessage i) w in
          case m of
            Inl e \<Rightarrow> wsError r w
          | Inr None \<Rightarrow> ws_err r ''message not found'' w
          | Inr (Some msg) \<Rightarrow>
              if msg_SenderID msg \<noteq> c_id (heap w r) then ws_err r ''not message author'' w
              else
                let (err, w) = with_ctx r (DeleteMessage i) w in
                case err of
                  Inl e \<Rightarrow> wsError r w
                | Inr _ \<Rightarrow> to_channel (msg_ChannelID msg) ''message.delete'' (str_obj [(''id'', i)]) w)
     | _ \<Rightarrow> ws_err r ''invalid data'' w)"

section \<open>Typing and threads\<close>

definition if_member :: "nat \<Rightarrow> string \<Rightarrow> (world \<Rightarrow> world) \<Rightarrow> world \<Rightarrow> world" where
  "if_member r ch k w =
     (let (isMember, w) = with_ctx r (IsChannelMember ch (c_id (heap w r))) w in
      case isMember of
        Inl e \<Rightarrow> ws_err r ''internal error'' w
      | Inr b \<Rightarrow> if \<not> b then ws_err r ''not a channel member'' w else k w)"

definition handleWSTypingStart :: "nat \<Rightarrow> json option \<Rightarrow> world \<Rightarrow> world" where
  "handleWSTypingStart r data = if_authed r (\<lambda>w.
     case unmarshal_strs [''channel_id''] data of
       Some [ch] \<Rightarrow>
         if ch = '''' then ws_err r ''invalid data'' w
         else if_member r ch (\<lambda>w. to_channel ch ''typing.start'' (str_obj [(''channel_id'', ch),
                (''member_id'', c_id (heap w r)), (''name'', c_name (heap w r))]) w) w
     | _ \<Rightarrow> ws_err r ''invalid data'' w)"

definition handleWSTypingStop :: "nat \<Rightarrow> json option \<Rightarrow> world \<Rightarrow> world" where
  "handleWSTypingStop r data = if_authed r (\<lambda>w.
     case unmarshal_strs [''channel_id''] data of
       Some [ch] \<Rightarrow>
         if ch = '''' then ws_err r ''invalid data'' w
         else if_member r ch (\<lambda>w. to_channel ch ''typing.stop'' (str_obj [(''channel_id'', ch),
                (''member_id'', c_id (heap w r))]) w) w
     | _ \<Rightarrow> ws_err r ''invalid data'' w)"

definition handleWSThreadReply :: "nat \<Rightarrow> json option \<Rightarrow> world \<Rightarrow> world" where
  "handleWSThreadReply r data = if_authed r (\<lambda>w.
     case unmarshal_strs [''channel_id'', ''parent_id'', ''content''] data of
       Some [ch, parent, content] \<Rightarrow>
         if parent = '''' \<or> content = '''' then ws_err r ''parent_id and content required'' w
         else if maxContent < length content
           then ws_err r ''content too long (max 10000 characters)'' w
         else if_member r ch (\<lambda>w.
           let msg = Message0\<lparr>msg_ChannelID := ch, msg_SenderID := c_id (heap w r),
                 msg_Content := content, msg_ThreadID := parent\<rparr>;
               ((err, msg), w) = with_ctx r (made (CreateMessage msg)) w
           in case err of
                Inl e \<Rightarrow> wsError r w
              | Inr _ \<Rightarrow>
                  let w = to_channel ch ''message.new'' (Message_json msg) w;
                      w = reply r ''message.ack'' (str_obj [(''id'', msg_ID msg)]) w
                  in handleMentions msg w) w
     | _ \<Rightarrow> ws_err r ''invalid data'' w)"

section \<open>Broadcasts of the REST handlers\<close>

definition broadcastReactionEvent :: "string \<Rightarrow> Reaction \<Rightarrow> world \<Rightarrow> world" where
  "broadcastReactionEvent msgID rx w =
     (let (m, w) = on_db (GetMessage msgID) w in
      case m of
        Inr (Some m) \<Rightarrow> to_channel (msg_ChannelID m) ''reaction.add'' (Reaction_json rx) w
      | _ \<Rightarrow> w)"

definition broadcastPinEvent :: "string \<Rightarrow> Pin \<Rightarrow> world \<Rightarrow> world" where
  "broadcastPinEvent ch p = to_channel ch ''pin.add'' (Pin_json p)"

definition broadcastTaskEvent :: "Task \<Rightarrow> world \<Rightarrow> world" where
  "broadcastTaskEvent t = to_all ''task.update'' (Task_json t)"

definition notifyAssignee :: "Task \<Rightarrow> world \<Rightarrow> world" where
  "notifyAssignee t w =
     (if task_AssignedTo t = '''' then w
      else
        let w = to_member (task_AssignedTo t) ''task.assigned''
              (JObj [(''message'', JStr (''You have been assigned a task: '' @ task_Title t)),
                     (''task'', Task_json t)]) w
        in WakeAgent (task_AssignedTo t)
             (wake_data ''task_assigned'' (str_obj [(''id'', task_ChannelID t)]) JNull '''') w)"

end
