(* ===== verification/Ws_Agent.thy ===== *)
theory Ws_Agent
  imports Ws_Chat
begin

text \<open>
  api/handlers_ws.go, the other half: approvals, call signalling, the agents' inbox,
  held drafts, reviews, workspace items and daemons, and the dispatch of events
  (handleWSEvent).
\<close>

section \<open>Approvals\<close>

definition handleWSApprovalRequest :: "nat \<Rightarrow> json option \<Rightarrow> world \<Rightarrow> world" where
  "handleWSApprovalRequest r data = if_agent r ''not authenticated agent'' (\<lambda>w.
     case unmarshal_strs [''channel_id'', ''action'', ''payload''] data of
       Some [ch, action, payload] \<Rightarrow>
         (let i = c_id (heap w r);
              a = ApprovalRequest0\<lparr>apr_AgentID := i, apr_ChannelID := ch, apr_Action := action,
                    apr_Payload := payload\<rparr>;
              (m, w) = with_ctx r (GetMember i) w in
          case m of
            Inl e \<Rightarrow> wsError r w
          | Inr None \<Rightarrow> ws_err r ''agent not found'' w
          | Inr (Some m) \<Rightarrow>
              let ((err, a), w) =
                    with_ctx r (made (CreateApproval (a\<lparr>apr_WorkspaceID := mb_WorkspaceID m\<rparr>))) w
              in case err of
                   Inl e \<Rightarrow> wsError r w
                 | Inr _ \<Rightarrow>
                     let w = to_all ''approval.request'' (ApprovalRequest_json a) w
                     in reply r ''approval.request''
                          (str_obj [(''id'', apr_ID a), (''status'', ''pending'')]) w)
     | _ \<Rightarrow> ws_err r ''invalid data'' w)"

section \<open>Calls\<close>

definition handleWSCallOffer :: "nat \<Rightarrow> json option \<Rightarrow> world \<Rightarrow> world" where
  "handleWSCallOffer r data = if_authed r (\<lambda>w.
     case unmarshal_strs [''callee_id'', ''type'', ''sdp''] data of
       Some [callee, callType, sdp] \<Rightarrow>
         if callee = '''' \<or> sdp = '''' then ws_err r ''callee_id and sdp required'' w
         else
           let callType = (if callType = '''' then ''audio'' else callType);
               i = c_id (heap w r);
               (m, w) = with_ctx r (GetMember i) w
           in (case m of
                 Inr (Some m) \<Rightarrow>
                   let call = Call0\<lparr>call_WorkspaceID := mb_WorkspaceID m, call_CallerID := i,
                         call_CalleeID := callee, call_Type := callType, call_Status := ''ringing''\<rparr>;
                       ((err, call), w) = with_ctx r (made (CreateCall call)) w
                   in (case err of
                         Inl e \<Rightarrow> wsError r w
                       | Inr _ \<Rightarrow>
                           let w = (case GetConn callee w of
                                 None \<Rightarrow> w
                               | Some c \<Rightarrow>
                                   let w = reply c ''call.ring'' (str_obj [(''call_id'', call_ID call),
                                         (''caller_id'', i), (''caller_name'', mb_Name m),
                                         (''type'', callType)]) w
                                   in reply c ''call.offer'' (str_obj [(''call_id'', call_ID call),
                                        (''caller_id'', i), (''sdp'', sdp), (''type'', callType)]) w)
                           in reply r ''call.offer''
                                (str_obj [(''call_id'', call_ID call), (''status'', ''ringing'')]) w)
               | _ \<Rightarrow> ws_err r ''member not found'' w)
     | _ \<Rightarrow> ws_err r ''callee_id and sdp required'' w)"

definition handleWSCallAnswer :: "nat \<Rightarrow> json option \<Rightarrow> world \<Rightarrow> world" where
  "handleWSCallAnswer r data = if_authed r (\<lambda>w.
     case unmarshal_strs [''call_id'', ''sdp''] data of
       Some [i, sdp] \<Rightarrow>
         if i = '''' \<or> sdp = '''' then ws_err r ''call_id and sdp required'' w
         else
           (let (c, w) = with_ctx r (GetCall i) w in
            case c of
              Inr (Some call) \<Rightarrow>
                if call_CalleeID call \<noteq> c_id (heap w r) then ws_err r ''not the callee'' w
                else
                  let call = call\<lparr>call_Status := ''answered'', call_StartedAt := now (db w)\<rparr>;
                      (_, w) = with_ctx r (UpdateCall call) w
                  in to_member (call_CallerID call) ''call.answer''
                       (str_obj [(''call_id'', call_ID call), (''sdp'', sdp)]) w
            | _ \<Rightarrow> ws_err r ''call not found'' w)
     | _ \<Rightarrow> ws_err r ''call_id and sdp required'' w)"

definition handleWSCallICE :: "nat \<Rightarrow> json option \<Rightarrow> world \<Rightarrow> world" where
  "handleWSCallICE r data = if_authed r (\<lambda>w.
     case unmarshal_strs [''call_id'', ''target_id'', ''candidate''] data of
       Some [i, target, cand] \<Rightarrow>
         if i = '''' \<or> target = '''' then ws_err r ''invalid data'' w
         else to_member target ''call.ice'' (str_obj [(''call_id'', i), (''candidate'', cand),
                (''from_id'', c_id (heap w r))]) w
     | _ \<Rightarrow> ws_err r ''invalid data'' w)"

definition handleWSCallEnd :: "nat \<Rightarrow> json option \<Rightarrow> world \<Rightarrow> world" where
  "handleWSCallEnd r data = if_authed r (\<lambda>w.
     case unmarshal_strs [''call_id''] data of
       Some [i] \<Rightarrow>
         if i = '''' then ws_err r ''call_id required'' w
         else
           (let (c, w) = with_ctx r (GetCall i) w; me = c_id (heap w r) in
            case c of
              Inr (Some call) \<Rightarrow>
                if call_CallerID call \<noteq> me \<and> call_CalleeID call \<noteq> me
                then ws_err r ''not a participant'' w
                else
                  let call = call\<lparr>call_Status := ''ended'', call_EndedAt := now (db w)\<rparr>;
                      (_, w) = with_ctx r (UpdateCall call) w;
                      other = (if me = call_CallerID call then call_CalleeID call
                               else call_CallerID call)
                  in to_member other ''call.end''
                       (str_obj [(''call_id'', call_ID call), (''reason'', ''ended'')]) w
            | _ \<Rightarrow> ws_err r ''call not found'' w)
     | _ \<Rightarrow> ws_err r ''call_id required'' w)"

section \<open>Inbox\<close>

text \<open>A slice encodes as an array, the nil slice of an empty result as null.\<close>

definition slice_json :: "('a \<Rightarrow> json) \<Rightarrow> 'a list \<Rightarrow> json" where
  "slice_json f xs = (if xs = [] then JNull else JArr (map f xs))"

definition handleWSInboxPoll :: "nat \<Rightarrow> json option \<Rightarrow> world \<Rightarrow> world" where
  "handleWSInboxPoll r data = if_agent r ''not authorized'' (\<lambda>w.
     case unmarshal InboxPollData_member data
            \<lparr>ip_SourceType = '''', ip_UnreadOnly = False, ip_Since = 0, ip_Limit = 0\<rparr> of
       None \<Rightarrow> ws_err r ''invalid inbox poll data'' w
     | Some d \<Rightarrow>
         let opts = \<lparr>io_SourceType = ip_SourceType d, io_Priority = '''', io_UnreadOnly = ip_UnreadOnly d,
               io_Since = ip_Since d, io_Limit = (if ip_Limit d = 0 then 50 else ip_Limit d)\<rparr>;
             (items, w) = with_ctx r (ListAgentInbox (c_id (heap w r)) opts) w
         in case items of
              Inl e \<Rightarrow> ws_err r ''failed to list inbox'' w
            | Inr ns \<Rightarrow> reply r ''inbox.items'' (slice_json Notification_json ns) w)"

definition handleWSInboxAck :: "nat \<Rightarrow> json option \<Rightarrow> world \<Rightarrow> world" where
  "handleWSInboxAck r data = if_agent r ''not authorized'' (\<lambda>w.
     case unmarshal_strs [''item_id''] data of
       Some [i] \<Rightarrow>
         if i = '''' then ws_err r ''invalid inbox ack data'' w
         else
           (let (err, w) = with_ctx r (AckInboxItem i) w in
            case err of
              Inl e \<Rightarrow> ws_err r ''failed to ack inbox item'' w
            | Inr _ \<Rightarrow> reply r ''inbox.ack'' (str_obj [(''item_id'', i), (''status'', ''acked'')]) w)
     | _ \<Rightarrow> ws_err r ''invalid inbox ack data'' w)"

section \<open>Held drafts\<close>

definition handleWSDraftCreate :: "nat \<Rightarrow> json option \<Rightarrow> world \<Rightarrow> world" where
  "handleWSDraftCreate r data = if_agent r ''not authorized'' (\<lambda>w.
     case unmarshal_strs [''channel_id'', ''content'', ''thread_id''] data of
       Some [ch, content, thread] \<Rightarrow>
         if ch = '''' \<or> content = '''' then ws_err r ''channel_id and content required'' w
         else
           (let (v, w) = with_ctx r (GetChannelRoomVersion ch) w in
            case v of
              Inl e \<Rightarrow> ws_err r ''failed to get room version'' w
            | Inr v \<Rightarrow>
                let d = HeldDraft0\<lparr>hd_AgentID := c_id (heap w r), hd_ChannelID := ch,
                      hd_Content := content, hd_ThreadID := thread, hd_RoomVersion := v,
                      hd_Status := ''held'', hd_ExpiresAt := now (db w) + 600000\<rparr>;
                    ((err, d), w) = with_ctx r (made (CreateDraft d)) w
                in case err of
                     Inl e \<Rightarrow> ws_err r ''failed to create draft'' w
                   | Inr _ \<Rightarrow> reply r ''draft.ack'' (JObj [(''draft_id'', JStr (hd_ID d)),
                        (''room_version'', JNum (hd_RoomVersion d))]) w)
     | _ \<Rightarrow> ws_err r ''channel_id and content required'' w)"

text \<open>A draft is stale once the channel has moved on by more than five messages.\<close>

definition staleAfter :: int where
  "staleAfter = 5"

definition draft_result :: "HeldDraft \<Rightarrow> int \<Rightarrow> Message list \<Rightarrow> json" where
  "draft_result d cur ms = JObj ([(''draft_id'', JStr (hd_ID d)),
     (''valid'', JBool (cur - hd_RoomVersion d \<le> staleAfter)), (''current_version'', JNum cur),
     (''draft_version'', JNum (hd_RoomVersion d)), (''version_delta'', JNum (cur - hd_RoomVersion d))]
     @ (if ms = [] then [] else [(''recent_messages'', JArr (map Message_json ms))]))"

definition handleWSDraftValidate :: "nat \<Rightarrow> json option \<Rightarrow> world \<Rightarrow> world" where
  "handleWSDraftValidate r data = if_agent r ''not authorized'' (\<lambda>w.
     case unmarshal_strs [''draft_id''] data of
       Some [i] \<Rightarrow>
         if i = '''' then ws_err r ''invalid draft validate data'' w
         else
           (let (d, w) = with_ctx r (GetDraft i) w in
            case d of
              Inr (Some d) \<Rightarrow>
                if hd_AgentID d \<noteq> c_id (heap w r) then ws_err r ''not your draft'' w
                else
                  (let (cur, w) = with_ctx r (GetChannelRoomVersion (hd_ChannelID d)) w in
                   case cur of
                     Inl e \<Rightarrow> ws_err r ''failed to get room version'' w
                   | Inr cur \<Rightarrow>
                       if staleAfter < cur - hd_RoomVersion d then
                         let (ms, w) = with_ctx r (GetRecentMessages (hd_ChannelID d) 5) w
                         in reply r ''draft.result''
                              (draft_result d cur (case ms of Inl e \<Rightarrow> [] | Inr ms \<Rightarrow> ms)) w
                       else reply r ''draft.result'' (draft_result d cur []) w)
            | _ \<Rightarrow> ws_err r ''draft not found'' w)
     | _ \<Rightarrow> ws_err r ''invalid draft validate data'' w)"

definition draft_message :: "HeldDraft \<Rightarrow> Message" where
  "draft_message d = Message0\<lparr>msg_ChannelID := hd_ChannelID d, msg_SenderID := hd_AgentID d,
     msg_ThreadID := hd_ThreadID d, msg_Content := hd_Content d, msg_ContentType := ''text'',
     msg_Type := ''text''\<rparr>"

definition handleWSDraftSend :: "nat \<Rightarrow> json option \<Rightarrow> world \<Rightarrow> world" where
  "handleWSDraftSend r data = if_agent r ''not authorized'' (\<lambda>w.
     case unmarshal DraftSendData_member data \<lparr>ds_DraftID = '''', ds_ForceVersion = False\<rparr> of
       None \<Rightarrow> ws_err r ''invalid draft send data'' w
     | Some a \<Rightarrow>
         if ds_DraftID a = '''' then ws_err r ''invalid draft send data'' w
         else
           (let (d, w) = with_ctx r (GetDraft (ds_DraftID a)) w in
            case d of
              Inr (Some d) \<Rightarrow>
                if hd_AgentID d \<noteq> c_id (heap w r) then ws_err r ''not your draft'' w
                else if hd_Status d \<noteq> ''held'' then ws_err r ''draft is not in held status'' w
                else
                  (let (cur, w) = with_ctx r (GetChannelRoomVersion (hd_ChannelID d)) w;
                       cur = (case cur of Inl e \<Rightarrow> 0 | Inr v \<Rightarrow> v) in
                   if staleAfter < cur - hd_RoomVersion d \<and> \<not> ds_ForceVersion a
                   then ws_err r ''draft is stale, use force_version to override'' w
                   else
                     let ((err, msg), w) = with_ctx r (made (CreateMessage (draft_message d))) w
                     in case err of
                          Inl e \<Rightarrow> ws_err r ''failed to create message'' w
                        | Inr _ \<Rightarrow>
                            let (_, w) = with_ctx r (UpdateDraftStatus (ds_DraftID a) ''sent'') w;
                                w = SendNewMessage (hd_ChannelID d) msg w
                            in reply r ''draft.send''
                                 (str_obj [(''message_id'', msg_ID msg), (''status'', ''sent'')]) w)
            | _ \<Rightarrow> ws_err r ''draft not found'' w))"

section \<open>Reviews\<close>

definition quoted :: "string \<Rightarrow> string" where
  "quoted s = [CHR 0x22] @ s @ [CHR 0x22]"

text \<open>The notification's payload is JSON text, written by format string.\<close>

definition review_payload :: "string \<Rightarrow> string \<Rightarrow> string" where
  "review_payload i ch = ''{'' @ quoted ''review_id'' @ '':'' @ quoted i @ '','' @ quoted ''channel_id''
     @ '':'' @ quoted ch @ ''}''"

definition handleWSReviewRequest :: "nat \<Rightarrow> json option \<Rightarrow> world \<Rightarrow> world" where
  "handleWSReviewRequest r data = if_agent r ''not authorized'' (\<lambda>w.
     case unmarshal_strs [''reviewer_id'', ''subject'', ''content'', ''channel_id''] data of
       Some [reviewer, subject, content, ch] \<Rightarrow>
         if reviewer = '''' \<or> subject = '''' \<or> content = '''' \<or> ch = ''''
         then ws_err r ''reviewer_id, subject, content, and channel_id required'' w
         else
           let i = c_id (heap w r);
               (m, w) = with_ctx r (GetMember i) w
           in (case m of
                 Inr (Some m) \<Rightarrow>
                   let rr = ReviewRequest0\<lparr>rr_WorkspaceID := mb_WorkspaceID m, rr_ChannelID := ch,
                         rr_RequesterID := i, rr_ReviewerID := reviewer, rr_Subject := subject,
                         rr_Content := content, rr_Status := ''pending''\<rparr>;
                       ((err, rr), w) = with_ctx r (made (CreateReviewRequest rr)) w
                   in (case err of
                         Inl e \<Rightarrow> ws_err r ''failed to create review'' w
                       | Inr _ \<Rightarrow>
                           let msg = Message0\<lparr>msg_ChannelID := ch, msg_SenderID := i,
                                 msg_Content := ''Review requested: '' @ subject, msg_Type := ''text'',
                                 msg_Metadata := Some (str_obj [(''type'', ''review_request''),
                                   (''review_id'', rr_ID rr)])\<rparr>;
                               ((_, msg), w) = with_ctx r (made (CreateMessage msg)) w;
                               w = SendNewMessage ch msg w;
                               n = Notification0\<lparr>nt_MemberID := reviewer,
                                 nt_Type := ''review_request'', nt_Title := ''Review requested'',
                                 nt_Body := mb_Name m @ '' requested your review: '' @ subject,
                                 nt_ChannelID := ch, nt_MessageID := msg_ID msg,
                                 nt_SourceType := ''review_request'', nt_Priority := ''high'',
                                 nt_AckRequired := True, nt_Payload := review_payload (rr_ID rr) ch\<rparr>;
                               ((_, n), w) = with_ctx r (made (CreateNotification n)) w;
                               w = to_member reviewer ''notification.new'' (Notification_json n) w
                           in reply r ''review.request''
                                (str_obj [(''review_id'', rr_ID rr), (''status'', ''pending'')]) w)
               | _ \<Rightarrow> ws_err r ''agent not found'' w)
     | _ \<Rightarrow> ws_err r ''invalid review request data'' w)"

definition handleWSReviewResult :: "nat \<Rightarrow> json option \<Rightarrow> world \<Rightarrow> world" where
  "handleWSReviewResult r data = if_agent r ''not authorized'' (\<lambda>w.
     case unmarshal_strs [''review_id'', ''status'', ''comment''] data of
       Some [i, st, comment] \<Rightarrow>
         if i = '''' \<or> st = '''' then ws_err r ''review_id and status required'' w
         else
           (let (x, w) = with_ctx r (GetReviewRequest i) w; me = c_id (heap w r) in
            case x of
              Inr (Some rr) \<Rightarrow>
                if rr_ReviewerID rr \<noteq> me then ws_err r ''not the reviewer'' w
                else
                  (let rr = rr\<lparr>rr_Status := st, rr_ReviewComment := comment,
                         rr_ReviewedAt := if st = ''approved'' \<or> st = ''changes_requested''
                           then now (db w) else rr_ReviewedAt rr\<rparr>;
                       ((err, rr), w) = with_ctx r (made (UpdateReviewRequest rr)) w in
                   case err of
                     Inl e \<Rightarrow> ws_err r ''failed to update review'' w
                   | Inr _ \<Rightarrow>
                       let msg = Message0\<lparr>msg_ChannelID := rr_ChannelID rr, msg_SenderID := me,
                             msg_Content := ''Review '' @ st @ '': '' @ comment, msg_Type := ''text''\<rparr>;
                           ((_, msg), w) = with_ctx r (made (CreateMessage msg)) w;
                           w = SendNewMessage (rr_ChannelID rr) msg w;
                           n = Notification0\<lparr>nt_MemberID := rr_RequesterID rr,
                             nt_Type := ''review_result'', nt_Title := ''Review completed'',
                             nt_Body := ''Your review was '' @ st, nt_ChannelID := rr_ChannelID rr,
                             nt_SourceType := ''review_result'', nt_Priority := ''high''\<rparr>;
                           ((_, n), w) = with_ctx r (made (CreateNotification n)) w;
                           w = to_member (rr_RequesterID rr) ''notification.new'' (Notification_json n) w
                       in reply r ''review.result''
                            (str_obj [(''review_id'', rr_ID rr), (''status'', rr_Status rr)]) w)
            | _ \<Rightarrow> ws_err r ''review not found'' w)
     | _ \<Rightarrow> ws_err r ''invalid review result data'' w)"

section \<open>Agent workspace\<close>

definition keep_unless :: "string \<Rightarrow> string \<Rightarrow> string" where
  "keep_unless new old = (if new \<noteq> '''' then new else old)"

definition handleWSWorkspaceUpdate :: "nat \<Rightarrow> json option \<Rightarrow> world \<Rightarrow> world" where
  "handleWSWorkspaceUpdate r data = if_agent r ''not authorized'' (\<lambda>w.
     case unmarshal WorkspaceUpdateData_member data
            \<lparr>wu_ItemID = '''', wu_Name = '''', wu_Content = '''', wu_Namespace = '''',
             wu_Description = '''', wu_Tags = []\<rparr> of
       None \<Rightarrow> ws_err r ''invalid workspace update data'' w
     | Some d \<Rightarrow>
         if wu_Name d = '''' then ws_err r ''name is required'' w
         else if wu_ItemID d \<noteq> '''' then
           (let (x, w) = with_ctx r (GetWorkspaceItem (wu_ItemID d)) w in
            case x of
              Inr (Some x) \<Rightarrow>
                if wsi_AgentID x \<noteq> c_id (heap w r) then ws_err r ''not your workspace item'' w
                else
                  (let x = x\<lparr>wsi_Name := wu_Name d,
                         wsi_Content := keep_unless (wu_Content d) (wsi_Content x),
                         wsi_Namespace := keep_unless (wu_Namespace d) (wsi_Namespace x),
                         wsi_Description := keep_unless (wu_Description d) (wsi_Description x),
                         wsi_Tags := if 0 < length (wu_Tags d) then wu_Tags d else wsi_Tags x\<rparr>;
                       ((err, x), w) = with_ctx r (made (UpdateWorkspaceItem x)) w in
                   case err of
                     Inl e \<Rightarrow> ws_err r ''failed to update item'' w
                   | Inr _ \<Rightarrow> reply r ''workspace.update'' (AgentWorkspaceItem_json x) w)
            | _ \<Rightarrow> ws_err r ''item not found'' w)
         else
           let i = c_id (heap w r); (m, w) = with_ctx r (GetMember i) w
           in (case m of
                 Inr (Some m) \<Rightarrow>
                   (let x = AgentWorkspaceItem0\<lparr>wsi_AgentID := i,
                          wsi_WorkspaceID := mb_WorkspaceID m, wsi_Name := wu_Name d,
                          wsi_Content := wu_Content d,
                          wsi_Namespace := keep_unless (wu_Namespace d) ''default'',
                          wsi_Description := wu_Description d, wsi_Tags := wu_Tags d,
                          wsi_MimeType := ''text/plain''\<rparr>;
                        ((err, x), w) = with_ctx r (made (CreateWorkspaceItem x)) w in
                    case err of
                      Inl e \<Rightarrow> ws_err r ''failed to create item'' w
                    | Inr _ \<Rightarrow> reply r ''workspace.update'' (AgentWorkspaceItem_json x) w)
               | _ \<Rightarrow> ws_err r ''agent not found'' w))"

section \<open>Daemons\<close>

definition handleWSDaemonRegister :: "nat \<Rightarrow> json option \<Rightarrow> world \<Rightarrow> world" where
  "handleWSDaemonRegister r data = if_authed r (\<lambda>w.
     case unmarshal DaemonRegisterData_member data [] of
       None \<Rightarrow> ws_err r ''invalid daemon register data'' w
     | Some ags \<Rightarrow>
         if ags = [] then ws_err r ''no agents provided'' w
         else
           let d = ''daemon_'' @ c_id (heap w r) @ ''_'' @ Itoa (now (db w));
               m = fold (\<lambda>a. go_put (da_Name a) (da_AgentID a)) ags [];
               w = RegisterDaemon d r m w
           in reply r ''daemon.registered'' (JObj [(''daemon_id'', JStr d),
                (''agents'', JArr (map DaemonAgent_json ags))]) w)"

section \<open>Dispatch\<close>

definition handle_hello :: "nat \<Rightarrow> json option \<Rightarrow> world \<Rightarrow> world" where
  "handle_hello r data w =
     (case ParseAgentHello data of
        None \<Rightarrow> ws_err r ''invalid agent hello data'' w
      | Some d \<Rightarrow> HandleAgentHello r d w)"

definition handle_thinking :: "nat \<Rightarrow> json option \<Rightarrow> world \<Rightarrow> world" where
  "handle_thinking r data = if_agent r ''not authorized'' (\<lambda>w.
     case unmarshal_strs [''channel_id''] data of
       Some [ch] \<Rightarrow>
         if ch = '''' then ws_err r ''invalid thinking data'' w else HandleAgentThinking r ch w
     | _ \<Rightarrow> ws_err r ''invalid thinking data'' w)"

definition ws_handlers :: "(string \<times> (nat \<Rightarrow> json option \<Rightarrow> world \<Rightarrow> world)) list" where
  "ws_handlers =
     [(''auth.login'', handleWSAuthLogin),
      (''agent.hello'', handle_hello),
      (''daemon.register'', handleWSDaemonRegister),
      (''agent.sleep'', \<lambda>r data. HandleAgentSleep r),
      (''agent.thinking'', handle_thinking),
      (''channel.join'', handleWSChannelJoin),
      (''channel.leave'', handleWSChannelLeave),
      (''message.send'', handleWSMessageSend),
      (''typing.start'', handleWSTypingStart),
      (''typing.stop'', handleWSTypingStop),
      (''thread.reply'', handleWSThreadReply),
      (''message.edit'', handleWSMessageEdit),
      (''message.delete'', handleWSMessageDelete),
      (''approval.request'', handleWSApprovalRequest),
      (''call.offer'', handleWSCallOffer),
      (''call.answer'', handleWSCallAnswer),
      (''call.ice'', handleWSCallICE),
      (''call.end'', handleWSCallEnd),
      (''inbox.poll'', handleWSInboxPoll),
      (''inbox.ack'', handleWSInboxAck),
      (''draft.create'', handleWSDraftCreate),
      (''draft.validate'', handleWSDraftValidate),
      (''draft.send'', handleWSDraftSend),
      (''review.request'', handleWSReviewRequest),
      (''review.result'', handleWSReviewResult),
      (''workspace.update'', handleWSWorkspaceUpdate)]"

definition handleWSEvent :: "nat \<Rightarrow> envelope \<Rightarrow> world \<Rightarrow> world" where
  "handleWSEvent r e w =
     (case map_of ws_handlers (env_Type e) of Some h \<Rightarrow> h r (env_Data e) w | None \<Rightarrow> w)"

end
