(* ===== verification/Db_Inv.thy ===== *)
theory Db_Inv
  imports Store_Extra
begin

text \<open>
  The integrity of the database: every foreign key names an existing row, primary and
  unique keys are unique, each message's reply count is the number of its replies,
  and a channel's room version is at least the number of its messages.  All hold
  initially and are kept by every operation of the store, whatever the driver does.
\<close>

section \<open>Foreign keys\<close>

definition fkl :: "('r \<Rightarrow> fk list) \<Rightarrow> 'r list \<Rightarrow> fk set" where
  "fkl fks rs = set (concat (map fks rs))"

definition fkset :: "store \<Rightarrow> fk set" where
  "fkset s = fkl member_fks (t_members s) \<union> fkl channel_fks (t_channels s)
     \<union> fkl channel_member_fks (t_channel_members s) \<union> fkl message_fks (t_messages s)
     \<union> fkl reaction_fks (t_reactions s) \<union> fkl task_fks (t_tasks s) \<union> fkl memory_fks (t_memory s)
     \<union> fkl file_fks (t_files s) \<union> fkl pin_fks (t_pins s) \<union> fkl approval_fks (t_approvals s)
     \<union> fkl webhook_fks (t_webhooks s) \<union> fkl edit_fks (t_edits s) \<union> fkl oauth_fks (t_oauth s)
     \<union> fkl notification_fks (t_notifications s) \<union> fkl ws_integration_fks (t_ws_integrations s)
     \<union> fkl sso_fks (t_sso s) \<union> fkl call_fks (t_calls s) \<union> fkl workflow_fks (t_workflows s)
     \<union> fkl run_fks (t_runs s) \<union> fkl key_fks (t_keys s) \<union> fkl encrypted_fks (t_encrypted s)
     \<union> fkl billing_fks (t_billing s) \<union> fkl usage_fks (t_usage s) \<union> fkl draft_fks (t_drafts s)
     \<union> fkl item_fks (t_items s) \<union> fkl review_fks (t_reviews s) \<union> fkl template_fks (t_templates s)"

definition ref_ok :: "store \<Rightarrow> bool" where
  "ref_ok s \<longleftrightarrow> (\<forall>f\<in>fkset s. fk_sat (ids s) f)"

lemmas fks_defs = member_fks_def channel_fks_def channel_member_fks_def message_fks_def
  reaction_fks_def task_fks_def memory_fks_def file_fks_def pin_fks_def approval_fks_def
  webhook_fks_def edit_fks_def oauth_fks_def notification_fks_def ws_integration_fks_def
  sso_fks_def call_fks_def workflow_fks_def run_fks_def key_fks_def encrypted_fks_def
  billing_fks_def usage_fks_def draft_fks_def item_fks_def review_fks_def template_fks_def

lemma fkl_Nil [simp]: "fkl fks [] = {}"
  by (simp add: fkl_def)

lemma fkl_append [simp]: "fkl fks (xs @ ys) = fkl fks xs \<union> fkl fks ys"
  by (simp add: fkl_def)

lemma fkl_single [simp]: "fkl fks [x] = set (fks x)"
  by (simp add: fkl_def)

lemma fkl_iff: "f \<in> fkl fks rs \<longleftrightarrow> (\<exists>r\<in>set rs. f \<in> set (fks r))"
  by (auto simp: fkl_def)

lemma fkl_upd_where: "(\<And>r. fks (f r) = fks r) \<Longrightarrow> fkl fks (upd_where p f rs) = fkl fks rs"
  by (simp add: fkl_def map_upd_where_id)

lemma fkl_upd_where_le:
  "(\<And>r. set (fks (f r)) \<subseteq> set (fks r) \<union> N) \<Longrightarrow> fkl fks (upd_where p f rs) \<subseteq> fkl fks rs \<union> N"
  by (fastforce simp: fkl_iff set_upd_where split: if_splits)

lemma fkl_del_where: "fkl fks (del_where p rs) \<subseteq> fkl fks rs"
  by (auto simp: fkl_iff)

lemma fkl_sweep: "f \<in> fkl fks (sweep d fks rs) \<Longrightarrow> f \<in> fkl fks rs \<and> \<not> hits d Cascade f"
  by (auto simp: fkl_iff sweep_def hit_def list_ex_iff)

section \<open>Keys\<close>

definition memory_key :: "AgentMemory \<Rightarrow> string \<times> string \<times> string" where
  "memory_key m = (am_AgentID m, am_Namespace m, am_Key m)"

definition usage_key :: "UsageRecord \<Rightarrow> string \<times> string \<times> int" where
  "usage_key u = (ur_WorkspaceID u, ur_Metric u, ur_PeriodStart u)"

definition item_key :: "AgentWorkspaceItem \<Rightarrow> string \<times> string \<times> string" where
  "item_key x = (wsi_AgentID x, wsi_Namespace x, wsi_Name x)"

definition cm_key :: "ChannelMember \<Rightarrow> string \<times> string" where
  "cm_key r = (cm_ChannelID r, cm_MemberID r)"

definition rx_key :: "Reaction \<Rightarrow> string \<times> string \<times> string" where
  "rx_key r = (rx_MessageID r, rx_MemberID r, rx_Emoji r)"

definition keys_ok :: "store \<Rightarrow> bool" where
  "keys_ok s \<longleftrightarrow>
     distinct (map ws_ID (t_workspaces s)) \<and> distinct (map ws_Slug (t_workspaces s)) \<and>
     distinct (map mb_ID (t_members s)) \<and>
     distinct (filter (\<lambda>k. k \<noteq> '''') (map mb_APIKey (t_members s))) \<and>
     distinct (map fst (t_blacklist s)) \<and> distinct (map ch_ID (t_channels s)) \<and>
     distinct (map cm_key (t_channel_members s)) \<and> distinct (map msg_ID (t_messages s)) \<and>
     distinct (map rx_key (t_reactions s)) \<and> distinct (map task_ID (t_tasks s)) \<and>
     distinct (map am_ID (t_memory s)) \<and> distinct (map memory_key (t_memory s)) \<and>
     distinct (map fl_ID (t_files s)) \<and> distinct (map pin_ID (t_pins s)) \<and>
     distinct (map pin_MessageID (t_pins s)) \<and> distinct (map apr_ID (t_approvals s)) \<and>
     distinct (map wh_ID (t_webhooks s)) \<and> distinct (map eh_ID (t_edits s)) \<and>
     distinct (map nt_ID (t_notifications s)) \<and> distinct (map call_ID (t_calls s)) \<and>
     distinct (map wf_ID (t_workflows s)) \<and> distinct (map wr_ID (t_runs s)) \<and>
     distinct (map bc_ID (t_billing s)) \<and> distinct (map bc_WorkspaceID (t_billing s)) \<and>
     distinct (map bc_StripeCustomerID (t_billing s)) \<and>
     distinct (map ur_ID (t_usage s)) \<and> distinct (map usage_key (t_usage s)) \<and>
     distinct (map hd_ID (t_drafts s)) \<and>
     distinct (map wsi_ID (t_items s)) \<and> distinct (map item_key (t_items s)) \<and>
     distinct (map rr_ID (t_reviews s))"

section \<open>Counters\<close>

definition replies_ok :: "store \<Rightarrow> bool" where
  "replies_ok s \<longleftrightarrow>
     (\<forall>m\<in>set (t_messages s). msg_ReplyCount m = replies_in (msg_ID m) (t_messages s))"

definition messages_in :: "string \<Rightarrow> Message list \<Rightarrow> int" where
  "messages_in cid ms = int (length (filter (\<lambda>m. msg_ChannelID m = cid) ms))"

definition versions_ok :: "store \<Rightarrow> bool" where
  "versions_ok s \<longleftrightarrow> (\<forall>c\<in>set (t_channels s). messages_in (ch_ID c) (t_messages s) \<le> ch_RoomVersion c)"

definition counts_ok :: "store \<Rightarrow> bool" where
  "counts_ok s \<longleftrightarrow> replies_ok s \<and> versions_ok s"

definition db_ok :: "store \<Rightarrow> bool" where
  "db_ok s \<longleftrightarrow> ref_ok s \<and> keys_ok s \<and> counts_ok s"

lemma db_ok_store0: "db_ok (store0 t us)"
  by (simp add: db_ok_def ref_ok_def fkset_def keys_ok_def counts_ok_def replies_ok_def
      versions_ok_def store0_def)

section \<open>Environment changes\<close>

lemma fkset_env [simp]:
  "fkset (s\<lparr>faults := f\<rparr>) = fkset s" "fkset (s\<lparr>uuid_ctr := n\<rparr>) = fkset s"
  "fkset (s\<lparr>now := t\<rparr>) = fkset s"
  by (simp_all add: fkset_def)

lemma ids_env [simp]:
  "ids (s\<lparr>faults := f\<rparr>) = ids s" "ids (s\<lparr>uuid_ctr := n\<rparr>) = ids s" "ids (s\<lparr>now := t\<rparr>) = ids s"
proof -
  show "ids (s\<lparr>faults := f\<rparr>) = ids s" by (rule ext, case_tac x) simp_all
  show "ids (s\<lparr>uuid_ctr := n\<rparr>) = ids s" by (rule ext, case_tac x) simp_all
  show "ids (s\<lparr>now := t\<rparr>) = ids s" by (rule ext, case_tac x) simp_all
qed

lemma db_ok_env [simp]:
  "db_ok (s\<lparr>faults := f\<rparr>) = db_ok s" "db_ok (s\<lparr>uuid_ctr := n\<rparr>) = db_ok s"
  "db_ok (s\<lparr>now := t\<rparr>) = db_ok s"
  by (simp_all add: db_ok_def ref_ok_def keys_ok_def counts_ok_def replies_ok_def versions_ok_def)

lemma db_ok_fault [simp]: "db_ok (snd (take_fault s)) = db_ok s"
  by (auto simp: take_fault_def split: list.splits)

lemma db_ok_new_uuid [simp]: "db_ok (snd (new_uuid s)) = db_ok s"
  by (simp add: new_uuid_def)

lemma db_ok_fresh_id [simp]: "db_ok (snd (fresh_id i s)) = db_ok s"
  by (simp add: fresh_id_def)

lemma query_snd [simp]: "snd (query f s) = snd (take_fault s)"
  by (simp add: query_def split: prod.splits option.splits)

lemma db_ok_query: "db_ok (snd (query f s)) = db_ok s"
  by simp

lemma exec_ok:
  assumes "db_ok s" "\<And>s s'. db_ok s \<Longrightarrow> g s = Inr s' \<Longrightarrow> db_ok s'"
  shows "db_ok (snd (exec g s))"
proof (cases "take_fault s")
  case (Pair f s1)
  then have "db_ok s1" using assms(1) db_ok_fault [of s] by simp
  then show ?thesis using Pair assms(2) [of s1]
    by (auto simp: exec_def split: option.splits sum.splits)
qed

section \<open>Insertion\<close>

lemma fk_sat_mono: "fk_sat is f \<Longrightarrow> (\<And>p. set (is p) \<subseteq> set (is' p)) \<Longrightarrow> fk_sat is' f"
  by (cases "(is, f)" rule: fk_sat.cases) auto

lemma first_some_None: "first_some xs = None \<longleftrightarrow> (\<forall>x\<in>set xs. x = None)"
  by (induction xs rule: first_some.induct) auto

lemma dup_None [simp]: "dup c b = None \<longleftrightarrow> \<not> b"
  by (simp add: dup_def)

definition grows :: "store \<Rightarrow> store \<Rightarrow> bool" where
  "grows s s' \<longleftrightarrow> ws_ID ` set (t_workspaces s) \<subseteq> ws_ID ` set (t_workspaces s')
     \<and> mb_ID ` set (t_members s) \<subseteq> mb_ID ` set (t_members s')
     \<and> ch_ID ` set (t_channels s) \<subseteq> ch_ID ` set (t_channels s')
     \<and> msg_ID ` set (t_messages s) \<subseteq> msg_ID ` set (t_messages s')
     \<and> fl_ID ` set (t_files s) \<subseteq> fl_ID ` set (t_files s')
     \<and> ig_ID ` set (t_integrations s) \<subseteq> ig_ID ` set (t_integrations s')
     \<and> wf_ID ` set (t_workflows s) \<subseteq> wf_ID ` set (t_workflows s')"

lemma grows_ids: "grows s s' \<Longrightarrow> set (ids s p) \<subseteq> set (ids s' p)"
  by (cases p) (auto simp: grows_def)

lemma insert_ok:
  assumes "insert_checked chk uniq fks put s = Inr s'" and "db_ok s"
    and "fkset (put s) \<subseteq> fkset s \<union> set fks"
    and "grows s (put s)"
    and "uniq = None \<Longrightarrow> keys_ok s \<Longrightarrow> keys_ok (put s)"
    and "uniq = None \<Longrightarrow> counts_ok s \<Longrightarrow> counts_ok (put s)"
  shows "db_ok s'"
proof -
  have s': "s' = put s" and u: "uniq = None" and f: "list_all (fk_sat (ids (put s))) fks"
    using assms(1) by (auto simp: insert_checked_def split: option.splits if_splits)
  have "ref_ok (put s)"
    unfolding ref_ok_def
  proof
    fix x assume "x \<in> fkset (put s)"
    then consider "x \<in> fkset s" | "x \<in> set fks" using assms(3) by blast
    then show "fk_sat (ids (put s)) x"
    proof cases
      case 1
      then have "fk_sat (ids s) x" using assms(2) by (simp add: db_ok_def ref_ok_def)
      then show ?thesis using grows_ids [OF assms(4)] by (rule fk_sat_mono)
    next
      case 2
      then show ?thesis using f by (simp add: list_all_iff)
    qed
  qed
  then show ?thesis using assms(2,5,6) u s' by (simp add: db_ok_def)
qed

text \<open>Updates of rows that touch neither keys nor foreign keys nor counters.\<close>

lemma counts_ok_cong:
  "t_messages s' = t_messages s \<Longrightarrow> t_channels s' = t_channels s \<Longrightarrow> counts_ok s' = counts_ok s"
  by (simp add: counts_ok_def replies_ok_def versions_ok_def)

lemma ref_ok_shrink:
  assumes "ref_ok s" "fkset s' \<subseteq> fkset s" "\<And>p. set (ids s p) \<subseteq> set (ids s' p)"
  shows "ref_ok s'"
  using assms fk_sat_mono unfolding ref_ok_def by blast

lemma distinct_upd_one:
  assumes "distinct (map k rs)" "distinct (map g rs)"
    and "\<And>x. p x \<longleftrightarrow> k x = i" and "\<And>x. g (f x) = h"
    and "\<And>x y. x \<in> set rs \<Longrightarrow> y \<in> set rs \<Longrightarrow> k y = i \<Longrightarrow> k x \<noteq> i \<Longrightarrow> g x \<noteq> h"
  shows "distinct (map g (upd_where p f rs))"
  using assms
proof (induction rs)
  case (Cons r rs)
  have none: "k r = i \<Longrightarrow> upd_where p f rs = rs"
    using Cons.prems(1,3) by (intro upd_where_none) (auto simp: image_iff)
  have IH: "distinct (map g (upd_where p f rs))"
  proof (rule Cons.IH)
    show "distinct (map k rs)" "distinct (map g rs)" using Cons.prems(1,2) by auto
    show "p x \<longleftrightarrow> k x = i" "g (f x) = h" for x using Cons.prems(3,4) by auto
    show "g x \<noteq> h" if "x \<in> set rs" "y \<in> set rs" "k y = i" "k x \<noteq> i" for x y
      by (rule Cons.prems(5) [of x y]) (use that in simp_all)
  qed
  show ?case
  proof (cases "k r = i")
    case True
    then have "h \<notin> g ` set rs"
      using Cons.prems(1,5) by (auto simp: image_iff) metis
    then show ?thesis using True none Cons.prems(2,3,4) by (simp add: upd_where_def)
  next
    case False
    have "g r \<noteq> g (if p y then f y else y)" if "y \<in> set rs" for y
      using that False Cons.prems(2,3,4) Cons.prems(5) [of r y] by (auto simp: image_iff)
    then have "g r \<notin> g ` set (upd_where p f rs)" unfolding set_upd_where by blast
    moreover have "upd_where p f (r # rs) = r # upd_where p f rs"
      using False Cons.prems(3) by (simp add: upd_where_def)
    ultimately show ?thesis using IH by simp
  qed
qed (simp add: upd_where_def)

lemma change_ok:
  assumes "db_ok s" "fkset s' \<subseteq> fkset s" "grows s s'" "keys_ok s \<Longrightarrow> keys_ok s'"
    "counts_ok s \<Longrightarrow> counts_ok s'"
  shows "db_ok s'"
  using assms ref_ok_shrink [of s s'] grows_ids [OF assms(3)] by (auto simp: db_ok_def)

lemma image_upd_where: "(\<And>r. g (f r) = g r) \<Longrightarrow> g ` set (upd_where p f rs) = g ` set rs"
  by (metis image_set map_upd_where_id)

lemmas op_simps = Let_def split_beta fkset_def keys_ok_def grows_def counts_ok_def replies_ok_def
  versions_ok_def first_some_None

lemma ball_upd_where:
  "(\<And>r. P (f r) = P r) \<Longrightarrow> (\<forall>x\<in>set (upd_where p f rs). P x) \<longleftrightarrow> (\<forall>x\<in>set rs. P x)"
  by (induction rs) (auto simp: upd_where_def)

lemma length_filter_upd_where:
  "(\<And>r. P (f r) = P r) \<Longrightarrow> length (filter P (upd_where p f rs)) = length (filter P rs)"
  by (induction rs) (auto simp: upd_where_def)

lemma replies_in_upd:
  "(\<And>m. msg_ThreadID (f m) = msg_ThreadID m) \<Longrightarrow> replies_in i (upd_where p f ms) = replies_in i ms"
  by (simp add: replies_in_def length_filter_upd_where)

lemma messages_in_upd:
  "(\<And>m. msg_ChannelID (f m) = msg_ChannelID m) \<Longrightarrow> messages_in i (upd_where p f ms) = messages_in i ms"
  by (simp add: messages_in_def length_filter_upd_where)

lemma exec_upd_ok:
  assumes "db_ok s" "\<And>s. fkset (g s) \<subseteq> fkset s" "\<And>s. grows s (g s)" "\<And>s. keys_ok s \<Longrightarrow> keys_ok (g s)"
    "\<And>s. counts_ok s \<Longrightarrow> counts_ok (g s)"
  shows "db_ok (snd (exec (\<lambda>s. Inr (g s)) s))"
proof (rule exec_ok [OF assms(1)])
  fix s s' assume "db_ok s" "Inr (g s) = Inr s'"
  then show "db_ok s'" using change_ok [OF _ assms(2,3,4,5), of s] by simp
qed

lemma exec_change_ok:
  assumes "db_ok s"
    and "\<And>s s'. h s = Inr s' \<Longrightarrow> fkset s' \<subseteq> fkset s \<union> {f. fk_sat (ids s) f}"
    and "\<And>s s'. h s = Inr s' \<Longrightarrow> grows s s'"
    and "\<And>s s'. h s = Inr s' \<Longrightarrow> keys_ok s \<Longrightarrow> keys_ok s'"
    and "\<And>s s'. h s = Inr s' \<Longrightarrow> counts_ok s \<Longrightarrow> counts_ok s'"
  shows "db_ok (snd (exec h s))"
proof (rule exec_ok [OF assms(1)])
  fix s s' assume ok: "db_ok s" and h: "h s = Inr s'"
  have "fk_sat (ids s) f" if "f \<in> fkset s'" for f
    using that assms(2) [OF h] ok by (auto simp: db_ok_def ref_ok_def)
  then have "ref_ok s'"
    using grows_ids [OF assms(3) [OF h]] fk_sat_mono unfolding ref_ok_def by blast
  then show "db_ok s'" using ok assms(4,5) [OF h] by (simp add: db_ok_def)
qed

lemma fkl_upd_whereD:
  "f \<in> fkl fks (upd_where p g rs) \<Longrightarrow> f \<in> fkl fks rs \<or> (\<exists>r\<in>set rs. f \<in> set (fks (g r)))"
  by (auto simp: fkl_iff set_upd_where split: if_splits)

lemma item_key_iff: "list_ex (is_item a ns nm) xs \<longleftrightarrow> (a, ns, nm) \<in> item_key ` set xs"
  by (auto simp: list_ex_iff is_item_def item_key_def)

lemma memory_key_iff: "list_ex (is_memory a ns k) xs \<longleftrightarrow> (a, ns, k) \<in> memory_key ` set xs"
  by (auto simp: list_ex_iff is_memory_def memory_key_def)

lemma usage_key_iff: "list_ex (is_usage w m t) xs \<longleftrightarrow> (w, m, t) \<in> usage_key ` set xs"
  by (auto simp: list_ex_iff is_usage_def usage_key_def)

lemma cm_key_iff: "list_ex (is_cm c m) xs \<longleftrightarrow> (c, m) \<in> cm_key ` set xs"
  by (auto simp: list_ex_iff is_cm_def cm_key_def)

lemma rx_key_iff: "list_ex (same_reaction a b c) xs \<longleftrightarrow> (a, b, c) \<in> rx_key ` set xs"
  by (auto simp: list_ex_iff same_reaction_def rx_key_def)

lemmas key_defs = memory_key_def usage_key_def item_key_def cm_key_def rx_key_def
lemmas key_iffs = item_key_iff memory_key_iff usage_key_iff cm_key_iff rx_key_iff

lemmas upd_simps = ball_upd_where replies_in_upd messages_in_upd op_simps fkl_upd_where map_upd_where_id image_upd_where distinct_del_where

section \<open>Every operation keeps the database consistent\<close>

text \<open>Insertions into tables whose keys are checked one by one.\<close>

lemma CreateWorkspace_ok [preserve]: "db_ok s \<Longrightarrow> db_ok (snd (snd (CreateWorkspace x s)))"
  by (auto simp: CreateWorkspace_def op_simps intro!: exec_ok elim!: insert_ok)

lemma CreateMember_ok [preserve]: "db_ok s \<Longrightarrow> db_ok (snd (snd (CreateMember x s)))"
  by (auto simp: CreateMember_def op_simps intro!: exec_ok elim!: insert_ok)

lemma CreateTask_ok [preserve]: "db_ok s \<Longrightarrow> db_ok (snd (snd (CreateTask x s)))"
  by (auto simp: CreateTask_def op_simps intro!: exec_ok elim!: insert_ok)

lemma CreateFile_ok [preserve]: "db_ok s \<Longrightarrow> db_ok (snd (snd (CreateFile x s)))"
  by (auto simp: CreateFile_def op_simps intro!: exec_ok elim!: insert_ok)

lemma CreatePin_ok [preserve]: "db_ok s \<Longrightarrow> db_ok (snd (snd (CreatePin x s)))"
  by (auto simp: CreatePin_def op_simps intro!: exec_ok elim!: insert_ok)

lemma CreateApproval_ok [preserve]: "db_ok s \<Longrightarrow> db_ok (snd (snd (CreateApproval x s)))"
  by (auto simp: CreateApproval_def op_simps intro!: exec_ok elim!: insert_ok)

lemma CreateWebhook_ok [preserve]: "db_ok s \<Longrightarrow> db_ok (snd (snd (CreateWebhook x s)))"
  by (auto simp: CreateWebhook_def op_simps intro!: exec_ok elim!: insert_ok)

lemma CreateEditHistory_ok [preserve]: "db_ok s \<Longrightarrow> db_ok (snd (snd (CreateEditHistory x s)))"
  by (auto simp: CreateEditHistory_def op_simps intro!: exec_ok elim!: insert_ok)

lemma CreateNotification_ok [preserve]: "db_ok s \<Longrightarrow> db_ok (snd (snd (CreateNotification x s)))"
  by (auto simp: CreateNotification_def op_simps intro!: exec_ok elim!: insert_ok)

lemma CreateIntegration_ok [preserve]: "db_ok s \<Longrightarrow> db_ok (snd (snd (CreateIntegration x s)))"
  by (auto simp: CreateIntegration_def op_simps intro!: exec_ok elim!: insert_ok)

lemma CreateSSOProvider_ok [preserve]: "db_ok s \<Longrightarrow> db_ok (snd (snd (CreateSSOProvider x s)))"
  by (auto simp: CreateSSOProvider_def op_simps intro!: exec_ok elim!: insert_ok)

lemma CreateCall_ok [preserve]: "db_ok s \<Longrightarrow> db_ok (snd (snd (CreateCall x s)))"
  by (auto simp: CreateCall_def op_simps intro!: exec_ok elim!: insert_ok)

lemma CreateWorkflow_ok [preserve]: "db_ok s \<Longrightarrow> db_ok (snd (snd (CreateWorkflow x s)))"
  by (auto simp: CreateWorkflow_def op_simps intro!: exec_ok elim!: insert_ok)

lemma CreateWorkflowRun_ok [preserve]: "db_ok s \<Longrightarrow> db_ok (snd (snd (CreateWorkflowRun x s)))"
  by (auto simp: CreateWorkflowRun_def op_simps intro!: exec_ok elim!: insert_ok)

lemma CreateEncryptedMessage_ok [preserve]: "db_ok s \<Longrightarrow> db_ok (snd (snd (CreateEncryptedMessage x s)))"
  by (auto simp: CreateEncryptedMessage_def op_simps intro!: exec_ok elim!: insert_ok)

lemma CreateBillingCustomer_ok [preserve]: "db_ok s \<Longrightarrow> db_ok (snd (snd (CreateBillingCustomer x s)))"
  by (auto simp: CreateBillingCustomer_def op_simps intro!: exec_ok elim!: insert_ok)

lemma CreateDraft_ok [preserve]: "db_ok s \<Longrightarrow> db_ok (snd (snd (CreateDraft x s)))"
  by (auto simp: CreateDraft_def op_simps intro!: exec_ok elim!: insert_ok)

lemma CreateWorkspaceItem_ok [preserve]: "db_ok s \<Longrightarrow> db_ok (snd (snd (CreateWorkspaceItem x s)))"
  by (auto simp: CreateWorkspaceItem_def op_simps item_key_iff item_key_def intro!: exec_ok elim!: insert_ok)

lemma CreateReviewRequest_ok [preserve]: "db_ok s \<Longrightarrow> db_ok (snd (snd (CreateReviewRequest x s)))"
  by (auto simp: CreateReviewRequest_def op_simps intro!: exec_ok elim!: insert_ok)

lemma CreateTeamTemplate_ok [preserve]: "db_ok s \<Longrightarrow> db_ok (snd (snd (CreateTeamTemplate x s)))"
  by (auto simp: CreateTeamTemplate_def op_simps intro!: exec_ok elim!: insert_ok)

text \<open>Updates that keep keys and references.\<close>

lemma UpdateMemberRoleCard_ok [preserve]: "db_ok s \<Longrightarrow> db_ok (snd (UpdateMemberRoleCard a b c s))"
  by (auto simp: UpdateMemberRoleCard_def upd_simps fks_defs key_defs intro!: exec_upd_ok)

lemma UpdateMember_ok [preserve]: "db_ok s \<Longrightarrow> db_ok (snd (snd (UpdateMember x s)))"
  by (auto simp: UpdateMember_def upd_simps fks_defs key_defs intro!: exec_upd_ok)

lemma UpdateChannel_ok [preserve]: "db_ok s \<Longrightarrow> db_ok (snd (snd (UpdateChannel x s)))"
  by (auto simp: UpdateChannel_def upd_simps fks_defs key_defs intro!: exec_upd_ok)

lemma UpdateLastRead_ok [preserve]: "db_ok s \<Longrightarrow> db_ok (snd (UpdateLastRead a b s))"
  by (auto simp: UpdateLastRead_def upd_simps fks_defs key_defs intro!: exec_upd_ok)

lemma UpdateNotificationPreference_ok [preserve]: "db_ok s \<Longrightarrow> db_ok (snd (UpdateNotificationPreference a b c s))"
  by (auto simp: UpdateNotificationPreference_def upd_simps fks_defs key_defs intro!: exec_upd_ok)

lemma UpdateMessage_ok [preserve]: "db_ok s \<Longrightarrow> db_ok (snd (snd (UpdateMessage x s)))"
  by (auto simp: UpdateMessage_def upd_simps fks_defs key_defs intro!: exec_upd_ok)

lemma MarkNotificationRead_ok [preserve]: "db_ok s \<Longrightarrow> db_ok (snd (MarkNotificationRead a s))"
  by (auto simp: MarkNotificationRead_def upd_simps fks_defs key_defs intro!: exec_upd_ok)

lemma MarkAllNotificationsRead_ok [preserve]: "db_ok s \<Longrightarrow> db_ok (snd (MarkAllNotificationsRead a s))"
  by (auto simp: MarkAllNotificationsRead_def upd_simps fks_defs key_defs intro!: exec_upd_ok)

lemma UpdateWorkflow_ok [preserve]: "db_ok s \<Longrightarrow> db_ok (snd (snd (UpdateWorkflow x s)))"
  by (auto simp: UpdateWorkflow_def upd_simps fks_defs key_defs intro!: exec_upd_ok)

lemma AckInboxItem_ok [preserve]: "db_ok s \<Longrightarrow> db_ok (snd (AckInboxItem a s))"
  by (auto simp: AckInboxItem_def upd_simps fks_defs key_defs intro!: exec_upd_ok)

lemma AckAllInbox_ok [preserve]: "db_ok s \<Longrightarrow> db_ok (snd (AckAllInbox a s))"
  by (auto simp: AckAllInbox_def upd_simps fks_defs key_defs intro!: exec_upd_ok)

lemma ExpireDrafts_ok [preserve]: "db_ok s \<Longrightarrow> db_ok (snd (ExpireDrafts s))"
  by (auto simp: ExpireDrafts_def upd_simps fks_defs key_defs intro!: exec_upd_ok)

text \<open>Deletions of rows nothing references.\<close>

lemma RemoveChannelMember_ok [preserve]: "db_ok s \<Longrightarrow> db_ok (snd (RemoveChannelMember a b s))"
  by (auto simp: RemoveChannelMember_def upd_simps intro!: exec_upd_ok dest: fkl_del_where [THEN subsetD])

lemma RemoveReaction_ok [preserve]: "db_ok s \<Longrightarrow> db_ok (snd (RemoveReaction a b c s))"
  by (auto simp: RemoveReaction_def upd_simps intro!: exec_upd_ok dest: fkl_del_where [THEN subsetD])

lemma DeleteTask_ok [preserve]: "db_ok s \<Longrightarrow> db_ok (snd (DeleteTask a s))"
  by (auto simp: DeleteTask_def upd_simps intro!: exec_upd_ok dest: fkl_del_where [THEN subsetD])

lemma DeleteMemory_ok [preserve]: "db_ok s \<Longrightarrow> db_ok (snd (DeleteMemory a b c s))"
  by (auto simp: DeleteMemory_def upd_simps intro!: exec_upd_ok dest: fkl_del_where [THEN subsetD])

lemma DeletePin_ok [preserve]: "db_ok s \<Longrightarrow> db_ok (snd (DeletePin a s))"
  by (auto simp: DeletePin_def upd_simps intro!: exec_upd_ok dest: fkl_del_where [THEN subsetD])

lemma DeleteWebhook_ok [preserve]: "db_ok s \<Longrightarrow> db_ok (snd (DeleteWebhook a s))"
  by (auto simp: DeleteWebhook_def upd_simps intro!: exec_upd_ok dest: fkl_del_where [THEN subsetD])

lemma UninstallIntegration_ok [preserve]: "db_ok s \<Longrightarrow> db_ok (snd (UninstallIntegration a b s))"
  by (auto simp: UninstallIntegration_def upd_simps intro!: exec_upd_ok dest: fkl_del_where [THEN subsetD])

lemma DeleteSSOProvider_ok [preserve]: "db_ok s \<Longrightarrow> db_ok (snd (DeleteSSOProvider a s))"
  by (auto simp: DeleteSSOProvider_def upd_simps intro!: exec_upd_ok dest: fkl_del_where [THEN subsetD])

lemma DeleteUserKey_ok [preserve]: "db_ok s \<Longrightarrow> db_ok (snd (DeleteUserKey a s))"
  by (auto simp: DeleteUserKey_def upd_simps intro!: exec_upd_ok dest: fkl_del_where [THEN subsetD])

lemma DeleteUserKeysByMember_ok [preserve]: "db_ok s \<Longrightarrow> db_ok (snd (DeleteUserKeysByMember a s))"
  by (auto simp: DeleteUserKeysByMember_def upd_simps intro!: exec_upd_ok dest: fkl_del_where [THEN subsetD])

lemma DeleteBillingCustomer_ok [preserve]: "db_ok s \<Longrightarrow> db_ok (snd (DeleteBillingCustomer a s))"
  by (auto simp: DeleteBillingCustomer_def upd_simps intro!: exec_upd_ok dest: fkl_del_where [THEN subsetD])

lemma DeleteDraft_ok [preserve]: "db_ok s \<Longrightarrow> db_ok (snd (DeleteDraft a s))"
  by (auto simp: DeleteDraft_def upd_simps intro!: exec_upd_ok dest: fkl_del_where [THEN subsetD])

lemma DeleteWorkspaceItem_ok [preserve]: "db_ok s \<Longrightarrow> db_ok (snd (DeleteWorkspaceItem a s))"
  by (auto simp: DeleteWorkspaceItem_def upd_simps intro!: exec_upd_ok dest: fkl_del_where [THEN subsetD])

lemma DeleteTeamTemplate_ok [preserve]: "db_ok s \<Longrightarrow> db_ok (snd (DeleteTeamTemplate a s))"
  by (auto simp: DeleteTeamTemplate_def upd_simps intro!: exec_upd_ok dest: fkl_del_where [THEN subsetD])

text \<open>Updates the database checks.\<close>

lemma exec_checked_ok:
  assumes "db_ok s" "\<And>s. fkset (g s) \<subseteq> fkset s" "\<And>s. grows s (g s)" "\<And>s. keys_ok s \<Longrightarrow> keys_ok (g s)"
    "\<And>s. counts_ok s \<Longrightarrow> counts_ok (g s)"
  shows "db_ok (snd (exec (\<lambda>s. if b s then Inl e else Inr (g s)) s))"
proof (rule exec_ok [OF assms(1)])
  fix s s' assume "db_ok s" "(if b s then Inl e else Inr (g s)) = Inr s'"
  then show "db_ok s'" using change_ok [OF _ assms(2,3,4,5), of s] by (simp split: if_splits)
qed

lemma UpdateCall_ok [preserve]: "db_ok s \<Longrightarrow> db_ok (snd (UpdateCall a s))"
  by (auto simp: UpdateCall_def upd_simps fks_defs intro!: exec_checked_ok)

lemma UpdateWorkflowRun_ok [preserve]: "db_ok s \<Longrightarrow> db_ok (snd (UpdateWorkflowRun a s))"
  by (auto simp: UpdateWorkflowRun_def upd_simps fks_defs intro!: exec_checked_ok)

lemma UpdateDraftStatus_ok [preserve]: "db_ok s \<Longrightarrow> db_ok (snd (UpdateDraftStatus a b s))"
  by (auto simp: UpdateDraftStatus_def upd_simps fks_defs intro!: exec_checked_ok)

lemma UpdateReviewRequest_ok [preserve]: "db_ok s \<Longrightarrow> db_ok (snd (snd (UpdateReviewRequest x s)))"
  by (auto simp: UpdateReviewRequest_def upd_simps fks_defs intro!: exec_checked_ok)

end
