(* ===== verification/Db_Ops.thy ===== *)
theory Db_Ops
  imports Db_Inv
begin

text \<open>
  The remaining single-table operations keep the database consistent: updates that
  write a foreign key or a unique column, upserts, replacements, and the insertions
  that leave duplicates alone.
\<close>

section \<open>Updates that write a foreign key or a unique column\<close>

text \<open>Replacing the rows of one table, when its keys stay as they were.\<close>

lemma task_rows:
  assumes "map task_ID xs = map task_ID (t_tasks s)"
  shows "grows s (s\<lparr>t_tasks := xs\<rparr>)" "keys_ok (s\<lparr>t_tasks := xs\<rparr>) = keys_ok s"
    "counts_ok (s\<lparr>t_tasks := xs\<rparr>) = counts_ok s"
  using assms by (simp_all add: grows_def keys_ok_def counts_ok_def replies_ok_def versions_ok_def)

lemma approval_rows:
  assumes "map apr_ID xs = map apr_ID (t_approvals s)"
  shows "grows s (s\<lparr>t_approvals := xs\<rparr>)" "keys_ok (s\<lparr>t_approvals := xs\<rparr>) = keys_ok s"
    "counts_ok (s\<lparr>t_approvals := xs\<rparr>) = counts_ok s"
  using assms by (simp_all add: grows_def keys_ok_def counts_ok_def replies_ok_def versions_ok_def)

lemma grows_refl: "grows s s"
  by (simp add: grows_def)

lemma item_rows:
  "grows s (s\<lparr>t_items := xs\<rparr>)" "counts_ok (s\<lparr>t_items := xs\<rparr>) = counts_ok s"
  by (simp_all add: grows_def counts_ok_def replies_ok_def versions_ok_def)

lemma item_keys: "keys_ok s \<Longrightarrow> distinct (map wsi_ID xs) \<Longrightarrow> distinct (map item_key xs) \<Longrightarrow> keys_ok (s\<lparr>t_items := xs\<rparr>)"
  by (simp add: keys_ok_def)

lemma billing_rows:
  "grows s (s\<lparr>t_billing := xs\<rparr>)" "counts_ok (s\<lparr>t_billing := xs\<rparr>) = counts_ok s"
  by (simp_all add: grows_def counts_ok_def replies_ok_def versions_ok_def)

lemma billing_keys: "keys_ok s \<Longrightarrow> distinct (map bc_ID xs) \<Longrightarrow> distinct (map bc_WorkspaceID xs) \<Longrightarrow>
    distinct (map bc_StripeCustomerID xs) \<Longrightarrow> keys_ok (s\<lparr>t_billing := xs\<rparr>)"
  by (simp add: keys_ok_def)

lemma keys_columns:
  "keys_ok s \<Longrightarrow> distinct (map ws_ID (t_workspaces s))" "keys_ok s \<Longrightarrow> distinct (map ws_Slug (t_workspaces s))"
  "keys_ok s \<Longrightarrow> distinct (map bc_ID (t_billing s))" "keys_ok s \<Longrightarrow> distinct (map bc_WorkspaceID (t_billing s))"
  "keys_ok s \<Longrightarrow> distinct (map bc_StripeCustomerID (t_billing s))"
  "keys_ok s \<Longrightarrow> distinct (map wsi_ID (t_items s))" "keys_ok s \<Longrightarrow> distinct (map item_key (t_items s))"
  by (simp_all add: keys_ok_def)

lemma workspace_rows:
  assumes "map ws_ID xs = map ws_ID (t_workspaces s)"
  shows "grows s (s\<lparr>t_workspaces := xs\<rparr>)" "counts_ok (s\<lparr>t_workspaces := xs\<rparr>) = counts_ok s"
    "keys_ok s \<Longrightarrow> distinct (map ws_Slug xs) \<Longrightarrow> keys_ok (s\<lparr>t_workspaces := xs\<rparr>)"
proof -
  have "ws_ID ` set xs = ws_ID ` set (t_workspaces s)" by (metis assms list.set_map)
  then show "grows s (s\<lparr>t_workspaces := xs\<rparr>)" "counts_ok (s\<lparr>t_workspaces := xs\<rparr>) = counts_ok s"
    "keys_ok s \<Longrightarrow> distinct (map ws_Slug xs) \<Longrightarrow> keys_ok (s\<lparr>t_workspaces := xs\<rparr>)"
    by (simp_all add: assms grows_def keys_ok_def counts_ok_def replies_ok_def versions_ok_def)
qed

lemma found_id: "List.find P xs = Some y \<Longrightarrow> P y"
  by (auto simp: find_Some_iff)

lemma UpdateWorkspace_ok [preserve]: "db_ok s \<Longrightarrow> db_ok (snd (snd (UpdateWorkspace x s)))"
  unfolding UpdateWorkspace_def Let_def split_beta snd_conv
proof (erule exec_change_ok, goal_cases)
  case (1 s s') then show ?case by (auto simp: fkset_def split: if_splits)
next
  case (3 s s')
  then show ?case
    by (auto simp: workspace_rows map_upd_where_id list_ex_iff keys_columns split: if_splits
      intro!: workspace_rows(3) distinct_upd_one [where k = ws_ID and i = "ws_ID x" and h = "ws_Slug x"])
qed (auto simp: workspace_rows map_upd_where_id split: if_splits)

lemma fk_sat_nullStr: "fk_sat is (p, a, Some v) \<Longrightarrow> fk_sat is (p, b, nullStr v)"
  by (simp add: nullStr_def)

lemma tasks_changed:
  assumes "s\<lparr>t_tasks := upd_where p f (t_tasks s)\<rparr> = s'"
    and "\<And>r. set (task_fks (f r)) \<subseteq> set (task_fks r) \<union> {g}" "fk_sat (ids s) g"
  shows "fkset s' \<subseteq> fkset s \<union> {g. fk_sat (ids s) g}"
  using fkl_upd_where_le [of task_fks f "{g}" p "t_tasks s", OF assms(2)] assms(3)
  unfolding assms(1) [symmetric] by (auto simp: fkset_def)

lemma approvals_changed:
  assumes "s\<lparr>t_approvals := upd_where p f (t_approvals s)\<rparr> = s'"
    and "\<And>r. set (approval_fks (f r)) \<subseteq> set (approval_fks r) \<union> {g}" "fk_sat (ids s) g"
  shows "fkset s' \<subseteq> fkset s \<union> {g. fk_sat (ids s) g}"
  using fkl_upd_where_le [of approval_fks f "{g}" p "t_approvals s", OF assms(2)] assms(3)
  unfolding assms(1) [symmetric] by (auto simp: fkset_def)

lemma items_changed:
  assumes "s\<lparr>t_items := upd_where p f (t_items s)\<rparr> = s'"
    and "\<And>r. set (item_fks (f r)) \<subseteq> set (item_fks r) \<union> {g}" "fk_sat (ids s) g"
  shows "fkset s' \<subseteq> fkset s \<union> {g. fk_sat (ids s) g}"
  using fkl_upd_where_le [of item_fks f "{g}" p "t_items s", OF assms(2)] assms(3)
  unfolding assms(1) [symmetric] by (auto simp: fkset_def)

lemma UpdateTask_ok [preserve]: "db_ok s \<Longrightarrow> db_ok (snd (snd (UpdateTask x s)))"
  unfolding UpdateTask_def Let_def split_beta snd_conv
proof (erule exec_change_ok, goal_cases)
  case (1 s s')
  then show ?case
    by (simp split: if_splits) (erule tasks_changed, auto simp: task_fks_def)
qed (auto simp: task_rows map_upd_where_id grows_refl split: if_splits)

lemma UpdateApproval_ok [preserve]: "db_ok s \<Longrightarrow> db_ok (snd (UpdateApproval x s))"
  unfolding UpdateApproval_def
proof (erule exec_change_ok, goal_cases)
  case (1 s s')
  then show ?case
    by (simp split: if_splits)
      (erule approvals_changed [where g = "(PMember, Cascade, nullStr (apr_ReviewerID x))"],
        auto simp: approval_fks_def nullStr_def)
qed (auto simp: approval_rows map_upd_where_id grows_refl split: if_splits)

lemma UpdateBillingCustomer_ok [preserve]: "db_ok s \<Longrightarrow> db_ok (snd (snd (UpdateBillingCustomer x s)))"
  unfolding UpdateBillingCustomer_def Let_def split_beta snd_conv
proof (erule exec_change_ok, goal_cases)
  case (3 s s')
  then show ?case
    by (auto simp: map_upd_where_id list_ex_iff keys_columns split: if_splits option.splits
      intro!: billing_keys distinct_upd_one [where g = bc_StripeCustomerID and k = bc_WorkspaceID and i = "bc_WorkspaceID x" and h = "bc_StripeCustomerID x"])
next
  case (1 s s') then show ?case by (auto simp: fkset_def fkl_upd_where billing_fks_def split: if_splits option.splits)
qed (auto simp: billing_rows grows_refl split: if_splits option.splits)

lemma distinct_upd_found:
  assumes d: "distinct (map k rs)" "distinct (map g rs)" and f: "List.find (\<lambda>y. k y = i) rs = Some old"
    and new: "\<And>x. x \<in> set rs \<Longrightarrow> k x \<noteq> i \<Longrightarrow> g x \<noteq> g (f old)"
  shows "distinct (map g (upd_where (\<lambda>y. k y = i) f rs))"
proof -
  have "y = old" if "y \<in> set rs" "k y = i" for y
    using that d(1) find_Some_iff [OF f] by (metis (mono_tags, lifting) distinct_map inj_onD)
  then have "upd_where (\<lambda>y. k y = i) f rs = upd_where (\<lambda>y. k y = i) (\<lambda>_. f old) rs"
    by (auto simp: upd_where_def)
  then show ?thesis using d new by (simp add: distinct_upd_one [where k = k and i = i and h = "g (f old)"])
qed

lemma UpdateWorkspaceItem_ok [preserve]: "db_ok s \<Longrightarrow> db_ok (snd (snd (UpdateWorkspaceItem x s)))"
  unfolding UpdateWorkspaceItem_def Let_def split_beta snd_conv
proof (erule exec_change_ok, goal_cases)
  case (1 s s')
  then show ?case
    by (simp split: if_splits option.splits) (erule items_changed, auto simp: item_fks_def)
next
  case (3 s s')
  then show ?case
    by (auto simp: map_upd_where_id list_ex_iff is_item_def keys_columns split: if_splits option.splits
      intro!: item_keys distinct_upd_found dest: found_id) (auto simp: item_key_def dest: found_id)
qed (auto simp: item_rows grows_refl split: if_splits option.splits)

section \<open>Upserts\<close>

lemma map_upsert_memory:
  "map memory_key (upsert_memory m ms) =
     (if memory_key m \<in> memory_key ` set ms then map memory_key ms else map memory_key ms @ [memory_key m])"
  "map am_ID (upsert_memory m ms) =
     (if memory_key m \<in> memory_key ` set ms then map am_ID ms else map am_ID ms @ [am_ID m])"
  by (simp_all add: upsert_memory_def memory_key_iff memory_key_def map_upd_where_id)

lemma fkl_upsert_memory: "fkl memory_fks (upsert_memory m ms) \<subseteq> fkl memory_fks ms \<union> set (memory_fks m)"
  by (auto simp: upsert_memory_def fkl_upd_where memory_fks_def)

lemma map_upsert_usage:
  "map usage_key (upsert_usage m ms) =
     (if usage_key m \<in> usage_key ` set ms then map usage_key ms else map usage_key ms @ [usage_key m])"
  "map ur_ID (upsert_usage m ms) =
     (if usage_key m \<in> usage_key ` set ms then map ur_ID ms else map ur_ID ms @ [ur_ID m])"
  by (simp_all add: upsert_usage_def usage_key_iff usage_key_def map_upd_where_id)

lemma fkl_upsert_usage: "fkl usage_fks (upsert_usage m ms) \<subseteq> fkl usage_fks ms \<union> set (usage_fks m)"
  by (auto simp: upsert_usage_def fkl_upd_where usage_fks_def)

lemma SetMemory_ok [preserve]: "db_ok s \<Longrightarrow> db_ok (snd (snd (SetMemory x s)))"
  by (auto simp: SetMemory_def op_simps map_upsert_memory intro!: exec_ok elim!: insert_ok
      dest: fkl_upsert_memory [THEN subsetD])

lemma IncrementUsage_ok [preserve]: "db_ok s \<Longrightarrow> db_ok (snd (IncrementUsage a b c d e s))"
  by (auto simp: IncrementUsage_def op_simps map_upsert_usage intro!: exec_ok elim!: insert_ok
      dest: fkl_upsert_usage [THEN subsetD])

section \<open>Replacements\<close>

lemma CreateOAuthIdentity_ok [preserve]: "db_ok s \<Longrightarrow> db_ok (snd (snd (CreateOAuthIdentity x s)))"
  by (auto simp: CreateOAuthIdentity_def op_simps intro!: exec_ok elim!: insert_ok
      dest: fkl_del_where [THEN subsetD])

lemma InstallIntegration_ok [preserve]: "db_ok s \<Longrightarrow> db_ok (snd (snd (InstallIntegration x s)))"
  by (auto simp: InstallIntegration_def op_simps intro!: exec_ok elim!: insert_ok
      dest: fkl_del_where [THEN subsetD])

lemma RegisterUserKey_ok [preserve]: "db_ok s \<Longrightarrow> db_ok (snd (snd (RegisterUserKey x s)))"
  by (auto simp: RegisterUserKey_def op_simps intro!: exec_ok elim!: insert_ok
      dest: fkl_del_where [THEN subsetD])

lemma CreateUsageRecord_ok [preserve]: "db_ok s \<Longrightarrow> db_ok (snd (snd (CreateUsageRecord x s)))"
  by (auto simp: CreateUsageRecord_def op_simps distinct_del_where usage_key_def is_usage_def
      intro!: exec_ok elim!: insert_ok dest: fkl_del_where [THEN subsetD])

section \<open>Insertions that leave duplicates alone\<close>

lemma AddChannelMember_ok [preserve]: "db_ok s \<Longrightarrow> db_ok (snd (AddChannelMember a b s))"
  by (auto simp: AddChannelMember_def op_simps cm_key_iff cm_key_def intro!: exec_ok elim!: insert_ok
      split: if_splits)

lemma AddReaction_ok [preserve]: "db_ok s \<Longrightarrow> db_ok (snd (snd (AddReaction x s)))"
  by (auto simp: AddReaction_def op_simps rx_key_iff rx_key_def intro!: exec_ok elim!: insert_ok
      split: if_splits)

lemma BlacklistToken_ok [preserve]: "db_ok s \<Longrightarrow> db_ok (snd (BlacklistToken a b s))"
  unfolding BlacklistToken_def by (erule exec_change_ok) (auto simp: op_simps split: if_splits)

section \<open>Channels and messages\<close>

lemma fresh_channel_no_messages:
  assumes "ref_ok s" "i \<notin> ch_ID ` set (t_channels s)"
  shows "messages_in i (t_messages s) = 0"
proof -
  have "msg_ChannelID m \<noteq> i" if "m \<in> set (t_messages s)" for m
  proof -
    have "(PChannel, Cascade, Some (msg_ChannelID m)) \<in> fkset s"
      using that by (auto simp: fkset_def fkl_iff message_fks_def)
    then have "fk_sat (ids s) (PChannel, Cascade, Some (msg_ChannelID m))"
      using assms(1) unfolding ref_ok_def by blast
    then have "msg_ChannelID m \<in> ch_ID ` set (t_channels s)" by simp
    then show ?thesis using assms(2) by blast
  qed
  then show ?thesis by (simp add: messages_in_def filter_empty_conv)
qed

lemma fresh_message_no_replies:
  assumes "ref_ok s" "i \<notin> msg_ID ` set (t_messages s)"
  shows "replies_in i (t_messages s) = 0"
proof -
  have "nullStr (msg_ThreadID m) \<noteq> Some i" if "m \<in> set (t_messages s)" for m
  proof -
    have "(PMessage, NoAction, nullStr (msg_ThreadID m)) \<in> fkset s"
      using that by (auto simp: fkset_def fkl_iff message_fks_def)
    then have "fk_sat (ids s) (PMessage, NoAction, nullStr (msg_ThreadID m))"
      using assms(1) unfolding ref_ok_def by blast
    then show ?thesis using assms(2) by (cases "nullStr (msg_ThreadID m)") auto
  qed
  then show ?thesis by (simp add: replies_in_def filter_empty_conv)
qed

lemma versions_add_channel:
  assumes "ref_ok s" "ch_ID c \<notin> ch_ID ` set (t_channels s)" "ch_RoomVersion c = 0" "counts_ok s"
  shows "counts_ok (s\<lparr>t_channels := t_channels s @ [c]\<rparr>)"
  using assms fresh_channel_no_messages [OF assms(1,2)]
  by (simp add: counts_ok_def replies_ok_def versions_ok_def)

lemma CreateChannel_ok [preserve]: "db_ok s \<Longrightarrow> db_ok (snd (snd (CreateChannel x s)))"
  by (auto simp: CreateChannel_def Let_def split_beta fkset_def keys_ok_def grows_def
      intro!: exec_ok versions_add_channel elim!: insert_ok) (simp_all add: db_ok_def)

lemma replies_in_append: "replies_in i (ms @ [m]) = replies_in i ms + (if nullStr (msg_ThreadID m) = Some i then 1 else 0)"
  by (simp add: replies_in_def)

lemma messages_in_append: "messages_in i (ms @ [m]) = messages_in i ms + (if msg_ChannelID m = i then 1 else 0)"
  by (simp add: messages_in_def)

lemma counts_put_message:
  assumes "ref_ok s" "msg_ID m \<notin> msg_ID ` set (t_messages s)" "msg_ReplyCount m = 0" "counts_ok s"
  shows "counts_ok (put_message m s)"
proof -
  have "replies_in (msg_ID m) (t_messages s) = 0" by (rule fresh_message_no_replies) fact+
  then have "\<forall>p\<in>set (t_messages s @ [m]). msg_ReplyCount p = replies_in (msg_ID p) (t_messages s)"
    using assms(3,4) by (simp add: counts_ok_def replies_ok_def)
  then have count: "msg_ReplyCount p = replies_in (msg_ID p) (t_messages s)"
    if "p \<in> set (t_messages s @ [m])" for p
    using that by blast
  have "replies_ok (put_message m s)"
    unfolding replies_ok_def
  proof
    fix p' assume "p' \<in> set (t_messages (put_message m s))"
    then obtain p where "p \<in> set (t_messages s @ [m])"
      and "p' = (if nullStr (msg_ThreadID m) = Some (msg_ID p)
                 then p\<lparr>msg_ReplyCount := msg_ReplyCount p + 1\<rparr> else p)"
      unfolding put_message_def by (auto simp: set_upd_where)
    then show "msg_ReplyCount p' = replies_in (msg_ID p') (t_messages (put_message m s))"
      by (simp add: count put_message_def replies_in_upd replies_in_append)
  qed
  moreover have "versions_ok (put_message m s)"
    unfolding versions_ok_def
  proof
    fix c' assume "c' \<in> set (t_channels (put_message m s))"
    then obtain c where c: "c \<in> set (t_channels s)"
      and c': "c' = (if ch_ID c = msg_ChannelID m then c\<lparr>ch_RoomVersion := ch_RoomVersion c + 1\<rparr> else c)"
      unfolding put_message_def by (auto simp: set_upd_where)
    have "messages_in (ch_ID c) (t_messages s) \<le> ch_RoomVersion c"
      using assms(4) c by (simp add: counts_ok_def versions_ok_def)
    then show "messages_in (ch_ID c') (t_messages (put_message m s)) \<le> ch_RoomVersion c'"
      by (auto simp: c' put_message_def messages_in_upd messages_in_append)
  qed
  ultimately show ?thesis by (simp add: counts_ok_def)
qed

lemma fkset_put_message: "fkset (put_message m s) \<subseteq> fkset s \<union> set (message_fks m)"
  by (auto simp: fkset_def put_message_def fkl_upd_where message_fks_def channel_fks_def)

lemma grows_put_message: "grows s (put_message m s)"
  by (auto simp: grows_def put_message_def image_upd_where)

lemma keys_put_message:
  "msg_ID m \<notin> msg_ID ` set (t_messages s) \<Longrightarrow> keys_ok s \<Longrightarrow> keys_ok (put_message m s)"
  by (simp add: keys_ok_def put_message_def map_upd_where_id)

lemma insert_message_ok:
  assumes "insert_checked None (dup c (i \<in> msg_ID ` set (t_messages s))) (message_fks m) (put_message m) s = Inr s'"
    and "db_ok s" "msg_ID m = i" "msg_ReplyCount m = 0"
  shows "db_ok s'"
  using assms(1,2)
proof (rule insert_ok)
  show "fkset (put_message m s) \<subseteq> fkset s \<union> set (message_fks m)" by (rule fkset_put_message)
  show "grows s (put_message m s)" by (rule grows_put_message)
  assume u: "dup c (i \<in> msg_ID ` set (t_messages s)) = None"
  then show "keys_ok (put_message m s)" if "keys_ok s" using that assms(3) by (intro keys_put_message) auto
  show "counts_ok (put_message m s)" if "counts_ok s"
    using that u assms by (intro counts_put_message) (auto simp: db_ok_def)
qed

text \<open>The one condition on the argument: a new message has no replies to count yet.\<close>

lemma CreateMessage_ok [preserve]:
  "db_ok s \<Longrightarrow> msg_ReplyCount x = 0 \<Longrightarrow> db_ok (snd (snd (CreateMessage x s)))"
  by (auto simp: CreateMessage_def Let_def split_beta message_row_def intro!: exec_ok elim!: insert_message_ok)

end
