(* ===== verification/Db_Cascade.thy ===== *)
theory Db_Cascade
  imports Db_Ops
begin

text \<open>
  Deleting workspaces, members, channels, messages, files, integrations and workflows:
  the cascade takes every row that references a deleted one, sets the weak references
  to NULL, and keeps the counters right, so that the database stays consistent.  The
  last section puts all operations of the store together as a step relation.
\<close>

section \<open>What the cascade takes\<close>

fun spared :: "doomed \<Rightarrow> fk \<Rightarrow> bool" where
  "spared d (p, a, None) = True"
| "spared d (p, a, Some v) = (v \<notin> set (dead d p))"

definition holds_after :: "doomed \<Rightarrow> store \<Rightarrow> fk \<Rightarrow> bool" where
  "holds_after d s f \<longleftrightarrow> fk_sat (ids s) f \<and> spared d f"

lemma ids_sweep: "set (ids (sweep_all d s) p) = set (ids s p) - set (dead d p)"
  by (cases p) (auto simp: sweep_all_def in_ids_def uncount_replies_def image_iff)

lemma holds_after_sweep: "holds_after d s f \<Longrightarrow> fk_sat (ids (sweep_all d s)) f"
  by (cases "(ids s, f)" rule: fk_sat.cases) (auto simp: holds_after_def ids_sweep)

lemma spared_cascade: "\<not> hits d Cascade (p, Cascade, v) \<Longrightarrow> spared d (p, Cascade, v)"
  by (cases v) auto

lemma spared_no_action: "\<not> hits d NoAction (p, NoAction, v) \<Longrightarrow> spared d (p, NoAction, v)"
  by (cases v) auto

lemma row_holds:
  assumes "f \<in> set (fks r)" "\<not> hit d Cascade (fks r)" "fst (snd f) = Cascade \<or> spared d f" "fk_sat (ids s) f"
  shows "holds_after d s f"
proof -
  have "\<not> hits d Cascade f" using assms(1,2) by (auto simp: hit_def list_ex_iff)
  then show ?thesis using assms(3,4) spared_cascade by (cases f) (auto simp: holds_after_def)
qed

text \<open>A table all of whose references cascade.\<close>

lemma swept_holds:
  assumes "f \<in> fkl fks (sweep d fks rs)" "\<And>r f. f \<in> set (fks r) \<Longrightarrow> fst (snd f) = Cascade"
    and "\<And>f. f \<in> fkl fks rs \<Longrightarrow> fk_sat (ids s) f"
  shows "holds_after d s f"
proof -
  obtain r where "r \<in> set rs" "f \<in> set (fks r)" "\<not> hit d Cascade (fks r)"
    using assms(1) by (auto simp: fkl_iff sweep_def)
  then show ?thesis using assms(2) [of f r] assms(3) [of f]
    by (intro row_holds [where r = r]) (auto simp: fkl_iff)
qed

text \<open>A parent table: the survivors are the rows that are not doomed.\<close>

lemma parent_holds:
  assumes "f \<in> fkl fks (del_where (\<lambda>r. in_ids (g r) D) rs)"
    and "\<And>r. r \<in> set rs \<Longrightarrow> hit d Cascade (fks r) \<Longrightarrow> g r \<in> set D"
    and "\<And>r f. r \<in> set rs \<Longrightarrow> f \<in> set (fks r) \<Longrightarrow> g r \<notin> set D \<Longrightarrow> fst (snd f) = Cascade \<or> spared d f"
    and "\<And>f. f \<in> fkl fks rs \<Longrightarrow> fk_sat (ids s) f"
  shows "holds_after d s f"
proof -
  obtain r where "r \<in> set rs" "f \<in> set (fks r)" "g r \<notin> set D"
    using assms(1) by (auto simp: fkl_iff in_ids_def)
  then show ?thesis using assms(2) [of r] assms(3) [of r f] assms(4) [of f]
    by (intro row_holds [where r = r]) (auto simp: fkl_iff)
qed

text \<open>A table with weak references, set to NULL where they name a doomed row.\<close>

lemma nulled_holds:
  assumes "f \<in> fkl fks (map g (sweep d fks rs))"
    and "\<And>r f. f \<in> set (fks (g r)) \<Longrightarrow>
      snd (snd f) = None \<or> f \<in> set (fks r) \<and> (fst (snd f) = Cascade \<or> spared d f)"
    and "\<And>f. f \<in> fkl fks rs \<Longrightarrow> fk_sat (ids s) f"
  shows "holds_after d s f"
proof -
  obtain r where r: "r \<in> set rs" "f \<in> set (fks (g r))" "\<not> hit d Cascade (fks r)"
    using assms(1) by (auto simp: fkl_iff sweep_def)
  show ?thesis
  proof (cases "snd (snd f) = None")
    case True
    then show ?thesis by (cases f) (simp add: holds_after_def)
  next
    case False
    then show ?thesis using r assms(2) [OF r(2)] assms(3) [of f]
      by (intro row_holds [where r = r]) (auto simp: fkl_iff)
  qed
qed

text \<open>The doomed rows are closed under the cascading references of the parent tables.\<close>

lemma doom_closed:
  "r \<in> set (t_members s) \<Longrightarrow> hit (doom d s) Cascade (member_fks r) \<Longrightarrow> mb_ID r \<in> set (d_mb (doom d s))"
  "c \<in> set (t_channels s) \<Longrightarrow> hit (doom d s) Cascade (channel_fks c) \<Longrightarrow> ch_ID c \<in> set (d_ch (doom d s))"
  "m \<in> set (t_messages s) \<Longrightarrow> hit (doom d s) Cascade (message_fks m) \<Longrightarrow> msg_ID m \<in> set (d_msg (doom d s))"
  "x \<in> set (t_files s) \<Longrightarrow> hit (doom d s) Cascade (file_fks x) \<Longrightarrow> fl_ID x \<in> set (d_fl (doom d s))"
  "w \<in> set (t_workflows s) \<Longrightarrow> hit (doom d s) Cascade (workflow_fks w) \<Longrightarrow> wf_ID w \<in> set (d_wf (doom d s))"
  by (auto simp: doom_def Let_def hit_def member_fks_def channel_fks_def message_fks_def file_fks_def
      workflow_fks_def nullStr_def split: if_splits)

lemma fkl_map_id: "(\<And>r. fks (g r) = fks r) \<Longrightarrow> fkl fks (map g rs) = fkl fks rs"
  by (simp add: fkl_def comp_def)

lemma uncount_fks: "message_fks (uncount_replies d ms m) = message_fks m"
  by (simp add: message_fks_def uncount_replies_def)

definition no_dangling :: "doomed \<Rightarrow> store \<Rightarrow> bool" where
  "no_dangling d s \<longleftrightarrow>
     (\<forall>m\<in>set (t_messages s). msg_ID m \<in> set (d_msg d) \<or> \<not> hit d NoAction (message_fks m)) \<and>
     (\<forall>r\<in>set (t_reviews s). hit d Cascade (review_fks r) \<or> \<not> hit d NoAction (review_fks r))"

lemma messages_hold:
  assumes "f \<in> fkl message_fks (map (uncount_replies (doom d s) ms)
      (del_where (\<lambda>r. in_ids (msg_ID r) (d_msg (doom d s))) (t_messages s)))"
    and "no_dangling (doom d s) s" "\<And>f. f \<in> fkl message_fks (t_messages s) \<Longrightarrow> fk_sat (ids s) f"
  shows "holds_after (doom d s) s f"
proof (rule parent_holds [where g = msg_ID and D = "d_msg (doom d s)" and fks = message_fks])
  show "f \<in> fkl message_fks (del_where (\<lambda>r. in_ids (msg_ID r) (d_msg (doom d s))) (t_messages s))"
    using assms(1) by (simp add: fkl_map_id uncount_fks)
  show "fst (snd g) = Cascade \<or> spared (doom d s) g"
    if "r \<in> set (t_messages s)" "g \<in> set (message_fks r)" "msg_ID r \<notin> set (d_msg (doom d s))" for r g
    using that assms(2) spared_no_action [of "doom d s" PMessage "nullStr (msg_ThreadID r)"]
    by (auto simp: no_dangling_def hit_def message_fks_def)
qed (auto intro: doom_closed(3) assms(3))

lemma reviews_hold:
  assumes "f \<in> fkl review_fks (sweep d review_fks (t_reviews s))"
    and "no_dangling d s" "\<And>f. f \<in> fkl review_fks (t_reviews s) \<Longrightarrow> fk_sat (ids s) f"
  shows "holds_after d s f"
proof -
  obtain r where r: "r \<in> set (t_reviews s)" "f \<in> set (review_fks r)" "\<not> hit d Cascade (review_fks r)"
    using assms(1) by (auto simp: fkl_iff sweep_def)
  then have "fst (snd f) = Cascade \<or> spared d f"
    using assms(2) spared_no_action [of d PMessage "nullStr (rr_ThreadID r)"]
    by (auto simp: no_dangling_def hit_def review_fks_def)
  then show ?thesis using r assms(3) [of f]
    by (intro row_holds [where r = r]) (auto simp: fkl_iff)
qed

lemma nulled_notification:
  "f \<in> set (notification_fks (null_notification d r)) \<Longrightarrow>
     snd (snd f) = None \<or> f \<in> set (notification_fks r) \<and> (fst (snd f) = Cascade \<or> spared d f)"
  by (auto simp: notification_fks_def null_notification_def nullStr_def in_ids_def split: if_splits)

lemma nulled_call:
  "f \<in> set (call_fks (null_call d r)) \<Longrightarrow>
     snd (snd f) = None \<or> f \<in> set (call_fks r) \<and> (fst (snd f) = Cascade \<or> spared d f)"
  by (auto simp: call_fks_def null_call_def nullStr_def in_ids_def split: if_splits)

lemma nulled_item:
  "f \<in> set (item_fks (null_item d r)) \<Longrightarrow>
     snd (snd f) = None \<or> f \<in> set (item_fks r) \<and> (fst (snd f) = Cascade \<or> spared d f)"
  by (auto simp: item_fks_def null_item_def nullStr_def in_ids_def split: if_splits)

lemma templates_hold:
  assumes "f \<in> fkl template_fks (map (null_template d) rs)"
    and "\<And>f. f \<in> fkl template_fks rs \<Longrightarrow> fk_sat (ids s) f"
  shows "holds_after d s f"
proof -
  obtain r where r: "r \<in> set rs" "f \<in> set (template_fks (null_template d r))"
    using assms(1) by (auto simp: fkl_iff)
  then have "snd (snd f) = None \<or> f \<in> set (template_fks r) \<and> spared d f"
    by (auto simp: template_fks_def null_template_def nullStr_def in_ids_def split: if_splits)
  then show ?thesis using r assms(2) [of f] by (cases f) (auto simp: holds_after_def fkl_iff)
qed

section \<open>The database after a cascade\<close>

lemma fkset_sat: "ref_ok s \<Longrightarrow> f \<in> fkl fks rs \<Longrightarrow> fkl fks rs \<subseteq> fkset s \<Longrightarrow> fk_sat (ids s) f"
  by (auto simp: ref_ok_def)

lemma fkset_tables:
  "fkl member_fks (t_members s) \<subseteq> fkset s" "fkl channel_fks (t_channels s) \<subseteq> fkset s"
  "fkl channel_member_fks (t_channel_members s) \<subseteq> fkset s" "fkl message_fks (t_messages s) \<subseteq> fkset s"
  "fkl reaction_fks (t_reactions s) \<subseteq> fkset s" "fkl task_fks (t_tasks s) \<subseteq> fkset s"
  "fkl memory_fks (t_memory s) \<subseteq> fkset s" "fkl file_fks (t_files s) \<subseteq> fkset s"
  "fkl pin_fks (t_pins s) \<subseteq> fkset s" "fkl approval_fks (t_approvals s) \<subseteq> fkset s"
  "fkl webhook_fks (t_webhooks s) \<subseteq> fkset s" "fkl edit_fks (t_edits s) \<subseteq> fkset s"
  "fkl oauth_fks (t_oauth s) \<subseteq> fkset s" "fkl notification_fks (t_notifications s) \<subseteq> fkset s"
  "fkl ws_integration_fks (t_ws_integrations s) \<subseteq> fkset s" "fkl sso_fks (t_sso s) \<subseteq> fkset s"
  "fkl call_fks (t_calls s) \<subseteq> fkset s" "fkl workflow_fks (t_workflows s) \<subseteq> fkset s"
  "fkl run_fks (t_runs s) \<subseteq> fkset s" "fkl key_fks (t_keys s) \<subseteq> fkset s"
  "fkl encrypted_fks (t_encrypted s) \<subseteq> fkset s" "fkl billing_fks (t_billing s) \<subseteq> fkset s"
  "fkl usage_fks (t_usage s) \<subseteq> fkset s" "fkl draft_fks (t_drafts s) \<subseteq> fkset s"
  "fkl item_fks (t_items s) \<subseteq> fkset s" "fkl review_fks (t_reviews s) \<subseteq> fkset s"
  "fkl template_fks (t_templates s) \<subseteq> fkset s"
  unfolding fkset_def by blast+

lemma leaf_holds:
  "f \<in> fkl fks (sweep d fks rs) \<Longrightarrow> ref_ok s \<Longrightarrow> fkl fks rs \<subseteq> fkset s \<Longrightarrow>
   (\<And>r f. f \<in> set (fks r) \<Longrightarrow> fst (snd f) = Cascade) \<Longrightarrow> holds_after d s f"
  by (rule swept_holds) (auto intro: fkset_sat)

lemma parents_hold:
  assumes "ref_ok s"
  shows "f \<in> fkl member_fks (t_members (sweep_all (doom d s) s)) \<Longrightarrow> holds_after (doom d s) s f"
    and "f \<in> fkl channel_fks (t_channels (sweep_all (doom d s) s)) \<Longrightarrow> holds_after (doom d s) s f"
    and "f \<in> fkl file_fks (t_files (sweep_all (doom d s) s)) \<Longrightarrow> holds_after (doom d s) s f"
    and "f \<in> fkl workflow_fks (t_workflows (sweep_all (doom d s) s)) \<Longrightarrow> holds_after (doom d s) s f"
proof -
  show "f \<in> fkl member_fks (t_members (sweep_all (doom d s) s)) \<Longrightarrow> holds_after (doom d s) s f"
    by (rule parent_holds [where g = mb_ID and D = "d_mb (doom d s)" and fks = member_fks and rs = "t_members s"],
        simp add: sweep_all_def, erule (1) doom_closed(1))
      (auto simp: member_fks_def dest: fkset_sat [OF assms _ fkset_tables(1)])
  show "f \<in> fkl channel_fks (t_channels (sweep_all (doom d s) s)) \<Longrightarrow> holds_after (doom d s) s f"
    by (rule parent_holds [where g = ch_ID and D = "d_ch (doom d s)" and fks = channel_fks and rs = "t_channels s"],
        simp add: sweep_all_def, erule (1) doom_closed(2))
      (auto simp: channel_fks_def dest: fkset_sat [OF assms _ fkset_tables(2)])
  show "f \<in> fkl file_fks (t_files (sweep_all (doom d s) s)) \<Longrightarrow> holds_after (doom d s) s f"
    by (rule parent_holds [where g = fl_ID and D = "d_fl (doom d s)" and fks = file_fks and rs = "t_files s"],
        simp add: sweep_all_def, erule (1) doom_closed(4))
      (auto simp: file_fks_def dest: fkset_sat [OF assms _ fkset_tables(8)])
  show "f \<in> fkl workflow_fks (t_workflows (sweep_all (doom d s) s)) \<Longrightarrow> holds_after (doom d s) s f"
    by (rule parent_holds [where g = wf_ID and D = "d_wf (doom d s)" and fks = workflow_fks and rs = "t_workflows s"],
        simp add: sweep_all_def, erule (1) doom_closed(5))
      (auto simp: workflow_fks_def dest: fkset_sat [OF assms _ fkset_tables(18)])
qed

lemma nulled_hold:
  assumes "ref_ok s"
  shows "f \<in> fkl notification_fks (t_notifications (sweep_all d s)) \<Longrightarrow> holds_after d s f"
    and "f \<in> fkl call_fks (t_calls (sweep_all d s)) \<Longrightarrow> holds_after d s f"
    and "f \<in> fkl item_fks (t_items (sweep_all d s)) \<Longrightarrow> holds_after d s f"
    and "f \<in> fkl template_fks (t_templates (sweep_all d s)) \<Longrightarrow> holds_after d s f"
proof -
  show "f \<in> fkl notification_fks (t_notifications (sweep_all d s)) \<Longrightarrow> holds_after d s f"
    by (rule nulled_holds [where g = "null_notification d"], simp add: sweep_all_def, erule nulled_notification)
      (rule fkset_sat [OF assms _ fkset_tables(14)])
  show "f \<in> fkl call_fks (t_calls (sweep_all d s)) \<Longrightarrow> holds_after d s f"
    by (rule nulled_holds [where g = "null_call d"], simp add: sweep_all_def, erule nulled_call)
      (rule fkset_sat [OF assms _ fkset_tables(17)])
  show "f \<in> fkl item_fks (t_items (sweep_all d s)) \<Longrightarrow> holds_after d s f"
    by (rule nulled_holds [where g = "null_item d"], simp add: sweep_all_def, erule nulled_item)
      (rule fkset_sat [OF assms _ fkset_tables(25)])
  show "f \<in> fkl template_fks (t_templates (sweep_all d s)) \<Longrightarrow> holds_after d s f"
    by (rule templates_hold [where rs = "t_templates s"], simp add: sweep_all_def)
      (rule fkset_sat [OF assms _ fkset_tables(27)])
qed

text \<open>The tables nothing references.\<close>

lemma leaves_hold:
  assumes "ref_ok s"
  shows "f \<in> fkl channel_member_fks (t_channel_members (sweep_all d s)) \<Longrightarrow> holds_after d s f"
    and "f \<in> fkl reaction_fks (t_reactions (sweep_all d s)) \<Longrightarrow> holds_after d s f"
    and "f \<in> fkl task_fks (t_tasks (sweep_all d s)) \<Longrightarrow> holds_after d s f"
    and "f \<in> fkl memory_fks (t_memory (sweep_all d s)) \<Longrightarrow> holds_after d s f"
    and "f \<in> fkl pin_fks (t_pins (sweep_all d s)) \<Longrightarrow> holds_after d s f"
    and "f \<in> fkl approval_fks (t_approvals (sweep_all d s)) \<Longrightarrow> holds_after d s f"
    and "f \<in> fkl webhook_fks (t_webhooks (sweep_all d s)) \<Longrightarrow> holds_after d s f"
    and "f \<in> fkl edit_fks (t_edits (sweep_all d s)) \<Longrightarrow> holds_after d s f"
    and "f \<in> fkl oauth_fks (t_oauth (sweep_all d s)) \<Longrightarrow> holds_after d s f"
    and "f \<in> fkl ws_integration_fks (t_ws_integrations (sweep_all d s)) \<Longrightarrow> holds_after d s f"
    and "f \<in> fkl sso_fks (t_sso (sweep_all d s)) \<Longrightarrow> holds_after d s f"
    and "f \<in> fkl run_fks (t_runs (sweep_all d s)) \<Longrightarrow> holds_after d s f"
    and "f \<in> fkl key_fks (t_keys (sweep_all d s)) \<Longrightarrow> holds_after d s f"
    and "f \<in> fkl encrypted_fks (t_encrypted (sweep_all d s)) \<Longrightarrow> holds_after d s f"
    and "f \<in> fkl billing_fks (t_billing (sweep_all d s)) \<Longrightarrow> holds_after d s f"
    and "f \<in> fkl usage_fks (t_usage (sweep_all d s)) \<Longrightarrow> holds_after d s f"
    and "f \<in> fkl draft_fks (t_drafts (sweep_all d s)) \<Longrightarrow> holds_after d s f"
proof -
  show "f \<in> fkl channel_member_fks (t_channel_members (sweep_all d s)) \<Longrightarrow> holds_after d s f"
    by (rule leaf_holds [OF _ assms fkset_tables(3)]) (auto simp: sweep_all_def channel_member_fks_def)
  show "f \<in> fkl reaction_fks (t_reactions (sweep_all d s)) \<Longrightarrow> holds_after d s f"
    by (rule leaf_holds [OF _ assms fkset_tables(5)]) (auto simp: sweep_all_def reaction_fks_def)
  show "f \<in> fkl task_fks (t_tasks (sweep_all d s)) \<Longrightarrow> holds_after d s f"
    by (rule leaf_holds [OF _ assms fkset_tables(6)]) (auto simp: sweep_all_def task_fks_def)
  show "f \<in> fkl memory_fks (t_memory (sweep_all d s)) \<Longrightarrow> holds_after d s f"
    by (rule leaf_holds [OF _ assms fkset_tables(7)]) (auto simp: sweep_all_def memory_fks_def)
  show "f \<in> fkl pin_fks (t_pins (sweep_all d s)) \<Longrightarrow> holds_after d s f"
    by (rule leaf_holds [OF _ assms fkset_tables(9)]) (auto simp: sweep_all_def pin_fks_def)
  show "f \<in> fkl approval_fks (t_approvals (sweep_all d s)) \<Longrightarrow> holds_after d s f"
    by (rule leaf_holds [OF _ assms fkset_tables(10)]) (auto simp: sweep_all_def approval_fks_def)
  show "f \<in> fkl webhook_fks (t_webhooks (sweep_all d s)) \<Longrightarrow> holds_after d s f"
    by (rule leaf_holds [OF _ assms fkset_tables(11)]) (auto simp: sweep_all_def webhook_fks_def)
  show "f \<in> fkl edit_fks (t_edits (sweep_all d s)) \<Longrightarrow> holds_after d s f"
    by (rule leaf_holds [OF _ assms fkset_tables(12)]) (auto simp: sweep_all_def edit_fks_def)
  show "f \<in> fkl oauth_fks (t_oauth (sweep_all d s)) \<Longrightarrow> holds_after d s f"
    by (rule leaf_holds [OF _ assms fkset_tables(13)]) (auto simp: sweep_all_def oauth_fks_def)
  show "f \<in> fkl ws_integration_fks (t_ws_integrations (sweep_all d s)) \<Longrightarrow> holds_after d s f"
    by (rule leaf_holds [OF _ assms fkset_tables(15)]) (auto simp: sweep_all_def ws_integration_fks_def)
  show "f \<in> fkl sso_fks (t_sso (sweep_all d s)) \<Longrightarrow> holds_after d s f"
    by (rule leaf_holds [OF _ assms fkset_tables(16)]) (auto simp: sweep_all_def sso_fks_def)
  show "f \<in> fkl run_fks (t_runs (sweep_all d s)) \<Longrightarrow> holds_after d s f"
    by (rule leaf_holds [OF _ assms fkset_tables(19)]) (auto simp: sweep_all_def run_fks_def)
  show "f \<in> fkl key_fks (t_keys (sweep_all d s)) \<Longrightarrow> holds_after d s f"
    by (rule leaf_holds [OF _ assms fkset_tables(20)]) (auto simp: sweep_all_def key_fks_def)
  show "f \<in> fkl encrypted_fks (t_encrypted (sweep_all d s)) \<Longrightarrow> holds_after d s f"
    by (rule leaf_holds [OF _ assms fkset_tables(21)]) (auto simp: sweep_all_def encrypted_fks_def)
  show "f \<in> fkl billing_fks (t_billing (sweep_all d s)) \<Longrightarrow> holds_after d s f"
    by (rule leaf_holds [OF _ assms fkset_tables(22)]) (auto simp: sweep_all_def billing_fks_def)
  show "f \<in> fkl usage_fks (t_usage (sweep_all d s)) \<Longrightarrow> holds_after d s f"
    by (rule leaf_holds [OF _ assms fkset_tables(23)]) (auto simp: sweep_all_def usage_fks_def)
  show "f \<in> fkl draft_fks (t_drafts (sweep_all d s)) \<Longrightarrow> holds_after d s f"
    by (rule leaf_holds [OF _ assms fkset_tables(24)]) (auto simp: sweep_all_def draft_fks_def)
qed

lemma sweep_holds:
  assumes "ref_ok s" "no_dangling (doom d s) s" "f \<in> fkset (sweep_all (doom d s) s)"
  shows "holds_after (doom d s) s f"
proof -
  have "holds_after (doom d s) s f" if "f \<in> fkl message_fks (t_messages (sweep_all (doom d s) s))"
    by (rule messages_hold [OF _ assms(2)]) (use that in \<open>simp add: sweep_all_def\<close>,
      rule fkset_sat [OF assms(1) _ fkset_tables(4)])
  moreover have "holds_after (doom d s) s f" if "f \<in> fkl review_fks (t_reviews (sweep_all (doom d s) s))"
    by (rule reviews_hold [OF _ assms(2)]) (use that in \<open>simp add: sweep_all_def\<close>,
      rule fkset_sat [OF assms(1) _ fkset_tables(26)])
  ultimately show ?thesis
    using assms(3) parents_hold [OF assms(1)] leaves_hold [OF assms(1)] nulled_hold [OF assms(1)]
    unfolding fkset_def Un_iff by (elim disjE) blast+
qed

lemma ref_ok_sweep: "ref_ok s \<Longrightarrow> no_dangling (doom d s) s \<Longrightarrow> ref_ok (sweep_all (doom d s) s)"
  unfolding ref_ok_def [of "sweep_all (doom d s) s"] by (blast intro: holds_after_sweep sweep_holds)

lemma distinct_sweep: "distinct (map g rs) \<Longrightarrow> distinct (map g (sweep d fks rs))"
  by (simp add: sweep_def distinct_del_where)

lemma distinct_filter_del: "distinct (filter P (map g rs)) \<Longrightarrow> distinct (filter P (map g (del_where q rs)))"
  by (induction rs) (auto simp: del_where_def)

lemma null_keys:
  "nt_ID (null_notification d n) = nt_ID n" "call_ID (null_call d c) = call_ID c"
  "wsi_ID (null_item d i) = wsi_ID i" "item_key (null_item d i) = item_key i"
  "msg_ID (uncount_replies d ms m) = msg_ID m" "msg_ThreadID (uncount_replies d ms m) = msg_ThreadID m"
  "msg_ChannelID (uncount_replies d ms m) = msg_ChannelID m"
  by (simp_all add: null_notification_def null_call_def null_item_def item_key_def uncount_replies_def)

lemma keys_ok_sweep: "keys_ok s \<Longrightarrow> keys_ok (sweep_all d s)"
  unfolding keys_ok_def sweep_all_def
  by (simp add: distinct_sweep distinct_del_where distinct_filter_del comp_def null_keys)

lemma replies_in_del:
  "replies_in i (filter P ms) + replies_in i (del_where P ms) = replies_in i ms"
  by (induction ms) (auto simp: replies_in_def del_where_def)

lemma replies_in_uncount: "replies_in i (map (uncount_replies d ms') ms) = replies_in i ms"
  by (induction ms) (auto simp: replies_in_def null_keys)

lemma messages_in_del: "messages_in c (del_where P ms) \<le> messages_in c ms"
  by (induction ms) (auto simp: messages_in_def del_where_def)

lemma messages_in_uncount: "messages_in i (map (uncount_replies d ms') ms) = messages_in i ms"
  by (induction ms) (auto simp: messages_in_def null_keys)

lemma counts_ok_sweep:
  assumes "counts_ok s"
  shows "counts_ok (sweep_all d s)"
proof -
  let ?P = "\<lambda>r. in_ids (msg_ID r) (d_msg d)"
  have "msg_ReplyCount m - replies_in (msg_ID m) (filter ?P (t_messages s))
      = replies_in (msg_ID m) (del_where ?P (t_messages s))" if "m \<in> set (t_messages s)" for m
    using assms that replies_in_del [of "msg_ID m" ?P "t_messages s"]
    by (simp add: counts_ok_def replies_ok_def)
  then have "replies_ok (sweep_all d s)"
    by (auto simp: replies_ok_def sweep_all_def replies_in_uncount null_keys) (simp add: uncount_replies_def)
  moreover have "versions_ok (sweep_all d s)"
    using assms messages_in_del [of _ ?P "t_messages s"]
    by (auto simp: counts_ok_def versions_ok_def sweep_all_def messages_in_uncount intro: order_trans)
  ultimately show ?thesis by (simp add: counts_ok_def)
qed

lemma delete_parents_ok:
  assumes "db_ok s" "delete_parents d s = Inr s'"
  shows "db_ok s'"
proof -
  have "no_dangling (doom d s) s" and "s' = sweep_all (doom d s) s"
    using assms(2) by (auto simp: delete_parents_def no_dangling_def Let_def list_ex_iff in_ids_def
      split: if_splits)
  then show ?thesis using assms(1) ref_ok_sweep keys_ok_sweep counts_ok_sweep by (simp add: db_ok_def)
qed

lemma exec_delete_ok [preserve]: "db_ok s \<Longrightarrow> db_ok (snd (exec (delete_parents d) s))"
  by (rule exec_ok) (auto intro: delete_parents_ok)

end
