(* ===== verification/Db_Reach.thy ===== *)
theory Db_Reach
  imports Db_Cascade
begin

text \<open>
  The operations of the store put together: a step is any operation with any
  arguments, a query, the passing of time or a change of what the driver will do; and
  every reachable database is consistent.
\<close>

section \<open>Transactions and backups\<close>

lemma take_fault_ok: "take_fault s = (r, s') \<Longrightarrow> db_ok s' = db_ok s"
  by (metis db_ok_fault snd_conv)

lemma query_ok: "query f s = (r, s') \<Longrightarrow> db_ok s' = db_ok s"
  by (metis db_ok_query snd_conv)

lemma dm_insert_fails: "fst (dm_insert c mids s) \<noteq> Inr u \<and> db_ok (snd (dm_insert c mids s)) = db_ok s"
proof -
  have "prepare_insert dm_insert_columns dm_insert_values \<noteq> None"
    by (simp add: prepare_insert_def dm_insert_columns_def dm_insert_values_def)
  then show ?thesis
    by (auto simp: dm_insert_def exec_def split: prod.splits option.splits dest: take_fault_ok)
qed

lemma rollback_ok [simp]: "db_ok (rollback s0 s) = db_ok s0"
  by (simp add: rollback_def)

lemma begin_tx_ok: "db_ok (snd (begin_tx s)) = db_ok s"
  by (auto simp: begin_tx_def exec_def split: prod.splits option.splits dest: take_fault_ok)

lemma dm_insert_on_ok: "\<exists>e. on_ok (dm_insert c mids s) k = (Inl e, snd (dm_insert c mids s))"
  using dm_insert_fails [of c mids s] by (cases "dm_insert c mids s"; cases "fst (dm_insert c mids s)") auto

lemma createDMChannel_ok: "db_ok (snd (snd (createDMChannel mids (c, s)))) = db_ok s"
proof -
  obtain r s1 where b: "begin_tx s = (r, s1)" by (cases "begin_tx s")
  have ok1: "db_ok s1 = db_ok s" using begin_tx_ok [of s] b by simp
  show ?thesis
  proof (cases r)
    case (Inl e)
    then show ?thesis using b ok1 by (simp add: createDMChannel_def)
  next
    case (Inr u)
    obtain q s2 where q: "(if length mids = 2
        then query (\<lambda>s. first_row (dm_candidates (ch_WorkspaceID c) (mids ! 0) (mids ! 1) s)) s1
        else (Inr None, s1)) = (q, s2)"
      by (cases "if length mids = 2
        then query (\<lambda>s. first_row (dm_candidates (ch_WorkspaceID c) (mids ! 0) (mids ! 1) s)) s1
        else (Inr None, s1)")
    have ok2: "db_ok s2 = db_ok s1"
      using q by (auto split: if_splits dest: query_ok)
    obtain i s3 where f: "fresh_id (ch_ID c) s2 = (i, s3)" by (cases "fresh_id (ch_ID c) s2")
    have ok3: "db_ok s3 = db_ok s2" using f db_ok_fresh_id [of "ch_ID c" s2] by simp
    let ?c = "c\<lparr>ch_ID := i, ch_CreatedAt := or_now (ch_CreatedAt c) s3,
      ch_UpdatedAt := or_now (ch_CreatedAt c) s3\<rparr>"
    obtain e where e: "on_ok (dm_insert ?c mids s3) (\<lambda>_ s. on_ok (add_all i mids s) (\<lambda>_ s. exec Inr s))
        = (Inl e, snd (dm_insert ?c mids s3))"
      using dm_insert_on_ok by blast
    show ?thesis
      using b Inr q f e ok1 ok2 ok3
      by (auto simp: createDMChannel_def Let_def split: sum.splits option.splits)
  qed
qed

lemma retryOnLocked_ok:
  assumes "\<And>st. P (snd (f st)) = P st"
  shows "P (snd (retryOnLocked n f st)) = P st"
proof (induction n arbitrary: st)
  case (Suc n)
  obtain r st' where f: "f st = (r, st')" by (cases "f st")
  then have "P st' = P st" using assms [of st] by simp
  then show ?case using f Suc [of st'] by (auto split: sum.split)
qed simp

lemma CreateDMChannel_ok [preserve]: "db_ok s \<Longrightarrow> db_ok (snd (snd (CreateDMChannel c mids s)))"
  using retryOnLocked_ok [where P = "\<lambda>st. db_ok (snd st)" and f = "createDMChannel mids" and st = "(c, s)"]
    createDMChannel_ok
  by (auto simp: CreateDMChannel_def)

lemma Backup_ok [preserve]: "db_ok s \<Longrightarrow> db_ok (snd (Backup a s))"
  by (auto simp: Backup_def intro!: exec_ok)

lemma deletes_ok [preserve]:
  "db_ok s \<Longrightarrow> db_ok (snd (DeleteWorkspace i s))" "db_ok s \<Longrightarrow> db_ok (snd (DeleteMember i s))"
  "db_ok s \<Longrightarrow> db_ok (snd (DeleteChannel i s))" "db_ok s \<Longrightarrow> db_ok (snd (DeleteMessage i s))"
  "db_ok s \<Longrightarrow> db_ok (snd (DeleteFile i s))" "db_ok s \<Longrightarrow> db_ok (snd (DeleteWorkflow i s))"
  by (simp_all add: DeleteWorkspace_def DeleteMember_def DeleteChannel_def DeleteMessage_def
      DeleteFile_def DeleteWorkflow_def preserve)

section \<open>Steps\<close>

lemma builtin_fks: "t \<in> set builtin_templates \<Longrightarrow> template_fks t = [(PMember, SetNull, None)]"
  by (auto simp: builtin_templates_def template_fks_def nullStr_def)

lemma seed_templates_ok [preserve]:
  assumes "db_ok s"
  shows "db_ok (seed_templates s)"
proof -
  have sub: "f \<in> fkset s \<or> snd (snd f) = None" if "f \<in> fkset (seed_templates s)" for f
  proof (cases "f \<in> fkset s")
    case False
    then have "f \<in> fkl template_fks
        (filter (\<lambda>t. tt_ID t \<notin> set (map tt_ID (t_templates s))) builtin_templates)"
      using that unfolding fkset_def seed_templates_def by simp
    then show ?thesis by (auto simp: fkl_iff dest!: builtin_fks)
  qed simp
  have ids: "ids (seed_templates s) = ids s"
    by (rule ext, case_tac x) (simp_all add: seed_templates_def)
  have "ref_ok (seed_templates s)"
    unfolding ref_ok_def
  proof
    fix f assume "f \<in> fkset (seed_templates s)"
    then show "fk_sat (ids (seed_templates s)) f"
      using sub [of f] assms ids by (cases f) (auto simp: db_ok_def ref_ok_def)
  qed
  moreover have "keys_ok (seed_templates s)" "counts_ok (seed_templates s)"
    using assms by (simp_all add: db_ok_def seed_templates_def keys_ok_def counts_ok_def replies_ok_def versions_ok_def)
  ultimately show ?thesis by (simp add: db_ok_def)
qed

inductive db_step :: "store \<Rightarrow> store \<Rightarrow> bool" where
  query_step: "db_step s (snd (take_fault s))"
| time_step: "db_step s (s\<lparr>now := t\<rparr>)"
| driver_step: "db_step s (s\<lparr>faults := fs\<rparr>)"
| seed_step: "db_step s (seed_templates s)"
| uuid_step: "db_step s (snd (new_uuid s))"
| CreateWorkspace_step: "db_step s (snd (snd (CreateWorkspace x s)))"
| CreateMember_step: "db_step s (snd (snd (CreateMember x s)))"
| CreateTask_step: "db_step s (snd (snd (CreateTask x s)))"
| CreateFile_step: "db_step s (snd (snd (CreateFile x s)))"
| CreatePin_step: "db_step s (snd (snd (CreatePin x s)))"
| CreateApproval_step: "db_step s (snd (snd (CreateApproval x s)))"
| CreateWebhook_step: "db_step s (snd (snd (CreateWebhook x s)))"
| CreateEditHistory_step: "db_step s (snd (snd (CreateEditHistory x s)))"
| CreateNotification_step: "db_step s (snd (snd (CreateNotification x s)))"
| CreateIntegration_step: "db_step s (snd (snd (CreateIntegration x s)))"
| CreateSSOProvider_step: "db_step s (snd (snd (CreateSSOProvider x s)))"
| CreateCall_step: "db_step s (snd (snd (CreateCall x s)))"
| CreateWorkflow_step: "db_step s (snd (snd (CreateWorkflow x s)))"
| CreateWorkflowRun_step: "db_step s (snd (snd (CreateWorkflowRun x s)))"
| CreateEncryptedMessage_step: "db_step s (snd (snd (CreateEncryptedMessage x s)))"
| CreateBillingCustomer_step: "db_step s (snd (snd (CreateBillingCustomer x s)))"
| CreateDraft_step: "db_step s (snd (snd (CreateDraft x s)))"
| CreateWorkspaceItem_step: "db_step s (snd (snd (CreateWorkspaceItem x s)))"
| CreateReviewRequest_step: "db_step s (snd (snd (CreateReviewRequest x s)))"
| CreateTeamTemplate_step: "db_step s (snd (snd (CreateTeamTemplate x s)))"
| UpdateMemberRoleCard_step: "db_step s (snd (UpdateMemberRoleCard a b c s))"
| UpdateMember_step: "db_step s (snd (snd (UpdateMember x s)))"
| UpdateChannel_step: "db_step s (snd (snd (UpdateChannel x s)))"
| UpdateLastRead_step: "db_step s (snd (UpdateLastRead a b s))"
| UpdateNotificationPreference_step: "db_step s (snd (UpdateNotificationPreference a b c s))"
| UpdateMessage_step: "db_step s (snd (snd (UpdateMessage x s)))"
| MarkNotificationRead_step: "db_step s (snd (MarkNotificationRead a s))"
| MarkAllNotificationsRead_step: "db_step s (snd (MarkAllNotificationsRead a s))"
| UpdateWorkflow_step: "db_step s (snd (snd (UpdateWorkflow x s)))"
| AckInboxItem_step: "db_step s (snd (AckInboxItem a s))"
| AckAllInbox_step: "db_step s (snd (AckAllInbox a s))"
| ExpireDrafts_step: "db_step s (snd (ExpireDrafts s))"
| RemoveChannelMember_step: "db_step s (snd (RemoveChannelMember a b s))"
| RemoveReaction_step: "db_step s (snd (RemoveReaction a b c s))"
| DeleteTask_step: "db_step s (snd (DeleteTask a s))"
| DeleteMemory_step: "db_step s (snd (DeleteMemory a b c s))"
| DeletePin_step: "db_step s (snd (DeletePin a s))"
| DeleteWebhook_step: "db_step s (snd (DeleteWebhook a s))"
| UninstallIntegration_step: "db_step s (snd (UninstallIntegration a b s))"
| DeleteSSOProvider_step: "db_step s (snd (DeleteSSOProvider a s))"
| DeleteUserKey_step: "db_step s (snd (DeleteUserKey a s))"
| DeleteUserKeysByMember_step: "db_step s (snd (DeleteUserKeysByMember a s))"
| DeleteBillingCustomer_step: "db_step s (snd (DeleteBillingCustomer a s))"
| DeleteDraft_step: "db_step s (snd (DeleteDraft a s))"
| DeleteWorkspaceItem_step: "db_step s (snd (DeleteWorkspaceItem a s))"
| DeleteTeamTemplate_step: "db_step s (snd (DeleteTeamTemplate a s))"
| UpdateCall_step: "db_step s (snd (UpdateCall a s))"
| UpdateWorkflowRun_step: "db_step s (snd (UpdateWorkflowRun a s))"
| UpdateDraftStatus_step: "db_step s (snd (UpdateDraftStatus a b s))"
| UpdateReviewRequest_step: "db_step s (snd (snd (UpdateReviewRequest x s)))"
| UpdateWorkspace_step: "db_step s (snd (snd (UpdateWorkspace x s)))"
| UpdateTask_step: "db_step s (snd (snd (UpdateTask x s)))"
| UpdateApproval_step: "db_step s (snd (UpdateApproval x s))"
| UpdateBillingCustomer_step: "db_step s (snd (snd (UpdateBillingCustomer x s)))"
| UpdateWorkspaceItem_step: "db_step s (snd (snd (UpdateWorkspaceItem x s)))"
| SetMemory_step: "db_step s (snd (snd (SetMemory x s)))"
| IncrementUsage_step: "db_step s (snd (IncrementUsage a b c d e s))"
| CreateOAuthIdentity_step: "db_step s (snd (snd (CreateOAuthIdentity x s)))"
| InstallIntegration_step: "db_step s (snd (snd (InstallIntegration x s)))"
| RegisterUserKey_step: "db_step s (snd (snd (RegisterUserKey x s)))"
| CreateUsageRecord_step: "db_step s (snd (snd (CreateUsageRecord x s)))"
| AddChannelMember_step: "db_step s (snd (AddChannelMember a b s))"
| AddReaction_step: "db_step s (snd (snd (AddReaction x s)))"
| BlacklistToken_step: "db_step s (snd (BlacklistToken a b s))"
| CreateChannel_step: "db_step s (snd (snd (CreateChannel x s)))"
| CreateMessage_step: "msg_ReplyCount x = 0 \<Longrightarrow> db_step s (snd (snd (CreateMessage x s)))"
| DeleteWorkspace_step: "db_step s (snd (DeleteWorkspace a s))"
| DeleteMember_step: "db_step s (snd (DeleteMember a s))"
| DeleteChannel_step: "db_step s (snd (DeleteChannel a s))"
| DeleteMessage_step: "db_step s (snd (DeleteMessage a s))"
| DeleteFile_step: "db_step s (snd (DeleteFile a s))"
| DeleteWorkflow_step: "db_step s (snd (DeleteWorkflow a s))"
| Backup_step: "db_step s (snd (Backup a s))"
| CreateDMChannel_step: "db_step s (snd (snd (CreateDMChannel x l s)))"

inductive db_reach :: "store \<Rightarrow> bool" where
  start: "db_reach (store0 t us)"
| step: "db_reach s \<Longrightarrow> db_step s s' \<Longrightarrow> db_reach s'"

lemma db_step_ok: "db_step s s' \<Longrightarrow> db_ok s \<Longrightarrow> db_ok s'"
  by (induction rule: db_step.induct) (simp_all add: preserve)

lemma db_reach_ok: "db_reach s \<Longrightarrow> db_ok s"
  by (induction rule: db_reach.induct) (auto intro: db_step_ok db_ok_store0)

section \<open>The invariant\<close>

text \<open>
  A database with a workspace, a member, a channel and a thread of two messages, used
  as the concrete input of the witnesses.
\<close>

definition sample_db :: store where
  "sample_db =
     (let s = store0 7 (\<lambda>n. ''u'');
          s = snd (snd (CreateWorkspace \<lparr>ws_ID = ''w'', ws_Name = ''W'', ws_Slug = ''w'', ws_IconURL = '''',
                ws_AgentProvisionToken = '''', ws_CreatedAt = 0, ws_UpdatedAt = 0\<rparr> s));
          s = snd (snd (CreateMember (Member0\<lparr>mb_ID := ''m'', mb_WorkspaceID := ''w'', mb_Name := ''ann'',
                mb_Type := ''human''\<rparr>) s));
          s = snd (snd (CreateMember (Member0\<lparr>mb_ID := ''n'', mb_WorkspaceID := ''w'', mb_Name := ''bot'',
                mb_Type := ''agent''\<rparr>) s));
          s = snd (snd (CreateChannel (Channel0\<lparr>ch_ID := ''c'', ch_WorkspaceID := ''w'', ch_Name := ''general'',
                ch_Type := ''channel''\<rparr>) s));
          s = snd (snd (CreateMessage (Message0\<lparr>msg_ID := ''a'', msg_ChannelID := ''c'', msg_SenderID := ''m'',
                msg_Content := ''hi''\<rparr>) s));
          s = snd (snd (CreateMessage (Message0\<lparr>msg_ID := ''b'', msg_ChannelID := ''c'', msg_SenderID := ''n'',
                msg_Content := ''yo'', msg_ThreadID := ''a''\<rparr>) s))
      in s)"

lemmas reach_steps = db_step.intros [THEN db_reach.step [rotated]]

lemma sample_reach: "db_reach sample_db"
  unfolding sample_db_def Let_def
  by (intro db_reach.start reach_steps) (simp_all add: Message0_def)

lemma sample_db_eval:
  "t_messages sample_db =
     [Message0\<lparr>msg_ID := ''a'', msg_ChannelID := ''c'', msg_SenderID := ''m'', msg_Type := ''text'',
        msg_Content := ''hi'', msg_CreatedAt := 7, msg_UpdatedAt := 7, msg_ReplyCount := 1\<rparr>,
      Message0\<lparr>msg_ID := ''b'', msg_ChannelID := ''c'', msg_SenderID := ''n'', msg_Type := ''text'',
        msg_Content := ''yo'', msg_ThreadID := ''a'', msg_CreatedAt := 7, msg_UpdatedAt := 7\<rparr>]"
  "map ch_RoomVersion (t_channels sample_db) = [2]"
  "map mb_ID (t_members sample_db) = [''m'', ''n'']" "map ch_ID (t_channels sample_db) = [''c'']"
  "faults sample_db = []" "t_reviews sample_db = []"
  by code_simp+



end
