(* ===== verification/Step_Logic.thy ===== *)
theory Step_Logic
  imports Ws_Agent Db_Reach
begin

text \<open>
  A logic of what a handler may do.  A handler runs against the hub and the database;
  its effect on the hub is a sequence of the hub's steps (Hub_Inv), its effect on the
  database a sequence of steps of a relation R, the parameter of the locales step_look
  (lookups) and step_logic (everything a handler shares with others).  The rules follow
  the shape of a handler's code, so that each handler is checked by walking through it
  once.
\<close>

section \<open>Runs\<close>

definition kept :: "world \<Rightarrow> world \<Rightarrow> bool" where
  "kept w w' \<longleftrightarrow> next_ref w' = next_ref w \<and> (\<forall>q. c_id (heap w' q) = c_id (heap w q)
     \<and> c_authenticated (heap w' q) = c_authenticated (heap w q)
     \<and> c_isAgent (heap w' q) = c_isAgent (heap w q)
     \<and> c_closed (heap w' q) = c_closed (heap w q)
     \<and> prefix (c_send (heap w q)) (c_send (heap w' q)))"

definition runs :: "(store \<Rightarrow> store \<Rightarrow> bool) \<Rightarrow> (string \<Rightarrow> bool) \<Rightarrow> world \<Rightarrow> world \<Rightarrow> bool" where
  "runs R A w w' \<longleftrightarrow> R\<^sup>*\<^sup>* (db w) (db w') \<and> (hub_step A)\<^sup>*\<^sup>* (net.truncate w) (net.truncate w') \<and> kept w w'"

text \<open>A store operation whose effect is made of steps of R, whatever the driver does.\<close>

definition can :: "(store \<Rightarrow> store \<Rightarrow> bool) \<Rightarrow> (store \<Rightarrow> 'a \<times> store) \<Rightarrow> world \<Rightarrow> bool" where
  "can R op w \<longleftrightarrow> (\<forall>fs. R\<^sup>*\<^sup>* ((db w)\<lparr>faults := fs\<rparr>) (snd (op ((db w)\<lparr>faults := fs\<rparr>))))"

lemma kept_refl [simp]: "kept w w"
  by (simp add: kept_def)

lemma kept_trans: "kept w v \<Longrightarrow> kept v u \<Longrightarrow> kept w u"
  by (auto simp: kept_def intro: prefix_order.trans)

lemma runs_refl [simp]: "runs R A w w"
  by (simp add: runs_def)

lemma runs_trans: "runs R A w v \<Longrightarrow> runs R A v u \<Longrightarrow> runs R A w u"
  by (auto simp: runs_def intro: kept_trans)

lemma runs_keptD: "runs R A w w' \<Longrightarrow> next_ref w' = next_ref w \<and> (\<forall>q. c_id (heap w' q) = c_id (heap w q)
     \<and> c_authenticated (heap w' q) = c_authenticated (heap w q)
     \<and> c_isAgent (heap w' q) = c_isAgent (heap w q)
     \<and> c_closed (heap w' q) = c_closed (heap w q))"
  by (simp add: runs_def kept_def)

lemma runs_queueD: "runs R A w w' \<Longrightarrow> prefix (c_send (heap w q)) (c_send (heap w' q))"
  by (simp add: runs_def kept_def)

lemma runs_hub:
  assumes "runs R A w v" "hub_step A (net.truncate v) (net.truncate v')" "db v' = db v" "kept v v'"
  shows "runs R A w v'"
  using assms by (auto simp: runs_def intro: rtranclp.rtrancl_into_rtrancl kept_trans)

lemma runs_db:
  assumes "runs R A w v" "R\<^sup>*\<^sup>* (db v) s"
  shows "runs R A w (v\<lparr>db := s\<rparr>)"
  using assms by (auto simp: runs_def kept_def net.truncate_def)

lemma can_mono: "(\<And>s t. R s t \<Longrightarrow> S s t) \<Longrightarrow> can R op w \<Longrightarrow> can S op w"
  unfolding can_def by (metis mono_rtranclp)

lemma runs_mono: "(\<And>s t. R s t \<Longrightarrow> S s t) \<Longrightarrow> runs R A w v \<Longrightarrow> runs S A w v"
  unfolding runs_def by (metis mono_rtranclp)

section \<open>The hub's operations on the server\<close>

lemma truncate_send_ref: "net.truncate (send_ref e r w) = send_ref e r (net.truncate w)"
  by (simp add: send_ref_def upd_conn_def net.truncate_def)

lemma truncate_fold_send: "net.truncate (fold (send_ref e) rs w) = fold (send_ref e) rs (net.truncate w)"
  by (induction rs arbitrary: w) (simp_all add: truncate_send_ref)

lemma truncate_fields:
  "heap (net.truncate w) = heap w" "next_ref (net.truncate w) = next_ref w"
  "connections (net.truncate w) = connections w" "agents (net.truncate w) = agents w"
  "agentNames (net.truncate w) = agentNames w" "channels (net.truncate w) = channels w"
  "presence (net.truncate w) = presence w" "daemons (net.truncate w) = daemons w"
  "daemonAgents (net.truncate w) = daemonAgents w" "allowedOrigin (net.truncate w) = allowedOrigin w"
  by (simp_all add: net.truncate_def)

lemma truncate_broadcast:
  "net.truncate (BroadcastToChannel ch e w) = BroadcastToChannel ch e (net.truncate w)"
  "net.truncate (BroadcastToAll e w) = BroadcastToAll e (net.truncate w)"
  by (simp_all add: BroadcastToChannel_def BroadcastToAll_def truncate_fold_send truncate_fields)

lemma truncate_upd_conn: "net.truncate (upd_conn f r w) = upd_conn f r (net.truncate w)"
  by (simp add: upd_conn_def net.truncate_def)

lemma truncate_register: "net.truncate (RegisterDaemon d r m w) = RegisterDaemon d r m (net.truncate w)"
  by (simp add: RegisterDaemon_def net.truncate_def)

lemma truncate_presence:
  "net.truncate (w\<lparr>presence := p\<rparr>) = (net.truncate w)\<lparr>presence := p\<rparr>"
  by (simp add: net.truncate_def)

lemma truncate_SubscribeChannel:
  "net.truncate (SubscribeChannel ch r w) = SubscribeChannel ch r (net.truncate w)"
  by (simp add: SubscribeChannel_def net.truncate_def Let_def)

lemma truncate_heap: "net.truncate (w\<lparr>heap := h\<rparr>) = (net.truncate w)\<lparr>heap := h\<rparr>"
  by (simp add: net.truncate_def)

lemma truncate_join: "net.truncate (snd (join ch r w)) = snd (join ch r (net.truncate w))"
  by (simp add: join_def Let_def split_beta truncate_SubscribeChannel truncate_heap truncate_fields)

lemma truncate_UnsubscribeChannel:
  "net.truncate (UnsubscribeChannel ch m w) = UnsubscribeChannel ch m (net.truncate w)"
  by (simp add: UnsubscribeChannel_def net.truncate_def Let_def split: option.split)

lemma truncate_leave: "net.truncate (leave ch r w) = leave ch r (net.truncate w)"
  by (simp add: leave_def Let_def truncate_UnsubscribeChannel truncate_upd_conn truncate_fields)

lemma truncate_kick: "net.truncate (kick ch m w) = kick ch m (net.truncate w)"
  by (simp add: kick_def GetConn_def truncate_UnsubscribeChannel truncate_upd_conn truncate_fields
      split: option.split)

lemma truncate_Add: "net.truncate (Add r w) = Add r (net.truncate w)"
  by (simp add: Add_def Let_def net.truncate_def upd_conn_def split: option.split)

lemma truncate_login: "net.truncate (login i nm a r w) = login i nm a r (net.truncate w)"
  by (simp add: login_def truncate_Add truncate_upd_conn)

lemma db_frame [simp, frame]:
  "db (send_ref e r w) = db w" "db (upd_conn f r w) = db w"
  "db (BroadcastToChannel ch e w) = db w" "db (BroadcastToAll e w) = db w"
  "db (RegisterDaemon d r m w) = db w"
  "db (SubscribeChannel ch r w) = db w" "db (UnsubscribeChannel ch i w) = db w"
  "db (snd (join ch r w)) = db w" "db (leave ch r w) = db w" "db (Add r w) = db w"
  "db (login i nm a r w) = db w" "db (kick ch i w) = db w"
proof -
  show s: "db (send_ref e r w) = db w" for e r w by (simp add: send_ref_def upd_conn_def)
  have f: "db (fold (send_ref e) rs w) = db w" for e rs w
    by (induction rs arbitrary: w) (simp_all add: s)
  show u: "db (upd_conn f r w) = db w" for f r w by (simp add: upd_conn_def)
  show "db (BroadcastToChannel ch e w) = db w" "db (BroadcastToAll e w) = db w"
    by (simp_all add: BroadcastToChannel_def BroadcastToAll_def f)
  show "db (RegisterDaemon d r m w) = db w" by (simp add: RegisterDaemon_def)
  show c: "db (SubscribeChannel ch r w) = db w" for ch r w by (simp add: SubscribeChannel_def Let_def)
  show d: "db (UnsubscribeChannel ch i w) = db w" for ch i w
    by (simp add: UnsubscribeChannel_def Let_def split: option.split)
  show "db (snd (join ch r w)) = db w" by (simp add: join_def Let_def split_beta c)
  show "db (leave ch r w) = db w" by (simp add: leave_def Let_def u d)
  show a: "db (Add r w) = db w" for r w
    by (simp add: Add_def Let_def u split: option.split)
  show "db (login i nm a r w) = db w" by (simp add: login_def a u)
  show "db (kick ch i w) = db w" by (simp add: kick_def u d split: option.split)
qed

lemma Send_ids [simp]:
  "c_id (Send e c) = c_id c" "c_authenticated (Send e c) = c_authenticated c"
  "c_isAgent (Send e c) = c_isAgent c" "c_closed (Send e c) = c_closed c"
  "c_name (Send e c) = c_name c" "c_channels (Send e c) = c_channels c" "c_cancelled (Send e c) = c_cancelled c"
  by (simp_all add: Send_def)

lemma kept_send: "kept w (send_ref e r w)"
  by (simp add: kept_def) (simp add: Send_def)

lemma kept_fold_send: "kept w (fold (send_ref e) rs w)"
proof (induction rs arbitrary: w)
  case (Cons r rs)
  show ?case using kept_trans [OF kept_send Cons] by simp
qed simp

lemma kept_hub:
  "kept w (BroadcastToChannel ch e w)" "kept w (BroadcastToAll e w)"
  "kept w (w\<lparr>presence := p\<rparr>)" "kept w (RegisterDaemon d r m w)"
  "kept w (snd (join ch r w))" "kept w (leave ch r w)" "kept w (kick ch i w)"
proof -
  show "kept w (BroadcastToChannel ch e w)" "kept w (BroadcastToAll e w)"
    by (simp_all add: BroadcastToChannel_def BroadcastToAll_def kept_fold_send)
  show "kept w (w\<lparr>presence := p\<rparr>)" "kept w (RegisterDaemon d r m w)"
    by (simp_all add: kept_def RegisterDaemon_def)
  show "kept w (snd (join ch r w))" "kept w (leave ch r w)" "kept w (kick ch i w)"
    by (auto simp: kept_def join_def leave_def kick_def SubscribeChannel_def UnsubscribeChannel_def
        Subscribe_def Unsubscribe_def Let_def split: option.split)
qed

section \<open>The rules\<close>

text \<open>
  Looking things up: a query runs one statement, which may use up one of the driver's
  faults.
\<close>

locale step_look =
  fixes R :: "store \<Rightarrow> store \<Rightarrow> bool"
  assumes R_take: "R s (snd (take_fault s))"
begin

lemma can_query: "can R (query f) w"
proof -
  have "snd (query f s) = snd (take_fault s)" for s
    by (simp add: query_def split: option.split prod.split)
  then show ?thesis using R_take by (simp add: can_def r_into_rtranclp)
qed

lemma can_one: "(\<And>fs. R ((db w)\<lparr>faults := fs\<rparr>) (snd (op ((db w)\<lparr>faults := fs\<rparr>)))) \<Longrightarrow> can R op w"
  by (simp add: can_def r_into_rtranclp)

lemma can_made:
  "(\<And>fs. R ((db w)\<lparr>faults := fs\<rparr>) (snd (snd (op ((db w)\<lparr>faults := fs\<rparr>))))) \<Longrightarrow> can R (made op) w"
  by (rule can_one) (simp add: made_def split_beta)

lemma can_version: "can R (GetChannelRoomVersion ch) w"
proof -
  have "snd (GetChannelRoomVersion ch s) = snd (take_fault s)" for s
    by (simp add: GetChannelRoomVersion_def query_def split: option.split prod.split sum.split)
  then show ?thesis using R_take by (simp add: can_def r_into_rtranclp)
qed

lemma can_get:
  "can R (GetMember i) w" "can R (GetMemberByAPIKey i) w" "can R (GetMemberByName a i) w"
  "can R (GetChannel i) w" "can R (GetMessage i) w" "can R (GetCall i) w" "can R (GetDraft i) w"
  "can R (GetReviewRequest i) w" "can R (GetWorkspaceItem i) w" "can R (GetRecentMessages i n) w"
  "can R (IsChannelMember a i) w" "can R (ListMemberChannelIDs i) w" "can R (ListAgentInbox i opts) w"
  "can R (IsTokenBlacklisted i) w" "can R (GetMemory a ns k) w"
  unfolding GetMember_def GetMemberByAPIKey_def GetMemberByName_def GetChannel_def GetMessage_def
    GetCall_def GetDraft_def GetReviewRequest_def GetWorkspaceItem_def GetRecentMessages_def
    IsChannelMember_def ListMemberChannelIDs_def ListAgentInbox_def IsTokenBlacklisted_def GetMemory_def
  by (rule can_query)+

end

text \<open>
  What a handler that writes needs besides: a driver whose faults change with the
  context, a fresh UUID, the wake metrics, and the notification a mention creates.
\<close>

locale step_logic = step_look +
  assumes R_faults: "R s (s\<lparr>faults := fs\<rparr>)"
    and R_uuid: "R s (snd (new_uuid s))"
    and R_wake: "R s (snd (snd (SetMemory (metric_row a k v) s)))"
    and R_notify: "R s (snd (snd (CreateNotification n s)))"
begin

lemma can_metric: "can R (made (SetMemory (metric_row a k v))) w"
  by (rule can_made) (rule R_wake)

lemma can_notify: "can R (made (CreateNotification n)) w"
  by (rule can_made) (rule R_notify)

lemma can_stamp: "can R (NewEnvelope t d) w"
  by (rule can_one) (simp add: NewEnvelope_def split_beta R_uuid)

lemma runs_on_db:
  assumes "runs R A w0 w" "can R op w" "\<And>x v. runs R A w0 v \<Longrightarrow> on_db op w = (x, v) \<Longrightarrow> runs R A w0 (k x v)"
  shows "runs R A w0 (case on_db op w of (x, v) \<Rightarrow> k x v)"
proof -
  obtain x s where op: "op (db w) = (x, s)" by force
  have "R\<^sup>*\<^sup>* (db w) s"
    using spec [OF assms(2) [unfolded can_def], of "faults (db w)"] op by simp
  then have "runs R A w0 (w\<lparr>db := s\<rparr>)" using assms(1) by (rule runs_db [rotated])
  then show ?thesis using assms(3) op by (simp add: on_db_def)
qed

lemma runs_with_ctx:
  assumes "runs R A w0 w" "can R op w"
    and "\<And>x v. runs R A w0 v \<Longrightarrow> with_ctx r op w = (x, v) \<Longrightarrow> runs R A w0 (k x v)"
  shows "runs R A w0 (case with_ctx r op w of (x, v) \<Rightarrow> k x v)"
proof (cases "c_cancelled (heap w r)")
  case True
  let ?s = "(db w)\<lparr>faults := [Some ''context canceled'']\<rparr>"
  obtain x s where op: "op ?s = (x, s)" by force
  have "R\<^sup>*\<^sup>* ?s s"
    using assms(2) op unfolding can_def by (metis snd_conv)
  then have "R\<^sup>*\<^sup>* (db w) (s\<lparr>faults := faults (db w)\<rparr>)"
    using R_faults by (meson converse_rtranclp_into_rtranclp rtranclp.rtrancl_into_rtrancl)
  then have "runs R A w0 (w\<lparr>db := s\<lparr>faults := faults (db w)\<rparr>\<rparr>)" using assms(1) by (rule runs_db [rotated])
  then show ?thesis using assms(3) op True by (simp add: with_ctx_def)
next
  case False
  then show ?thesis using runs_on_db [OF assms(1,2)] assms(3) by (simp add: with_ctx_def)
qed

lemma runs_stamped:
  assumes "runs R A w0 w" "\<And>e v. runs R A w0 v \<Longrightarrow> runs R A w0 (f e v)"
  shows "runs R A w0 (let (e, v) = stamp t d w in f e v)"
  unfolding stamp_def Let_def by (rule runs_on_db [OF assms(1) can_stamp assms(2)])

lemma runs_send: "runs R A w0 w \<Longrightarrow> runs R A w0 (send_ref e r w)"
  by (erule runs_hub) (simp_all add: truncate_send_ref step_send kept_send)

lemma runs_reply: "runs R A w0 w \<Longrightarrow> runs R A w0 (reply r t d w)"
  unfolding reply_def by (rule runs_stamped) (auto intro: runs_send)

lemma runs_ws_err: "runs R A w0 w \<Longrightarrow> runs R A w0 (ws_err r msg w)"
  unfolding ws_err_def by (rule runs_reply)

lemma runs_wsError: "runs R A w0 w \<Longrightarrow> runs R A w0 (wsError r w)"
  unfolding wsError_def by (rule runs_ws_err)

lemma runs_auth_fail: "runs R A w0 w \<Longrightarrow> runs R A w0 (auth_fail r msg w)"
  unfolding auth_fail_def by (rule runs_reply)

lemma runs_to_channel: "runs R A w0 w \<Longrightarrow> runs R A w0 (to_channel ch t d w)"
  unfolding to_channel_def
  by (rule runs_stamped, assumption, erule runs_hub)
     (simp_all add: truncate_broadcast step_broadcast kept_hub)

lemma runs_to_all: "runs R A w0 w \<Longrightarrow> runs R A w0 (to_all t d w)"
  unfolding to_all_def
  by (rule runs_stamped, assumption, erule runs_hub)
     (simp_all add: truncate_broadcast step_broadcast_all kept_hub)

lemma runs_to_member: "runs R A w0 w \<Longrightarrow> runs R A w0 (to_member m t d w)"
  by (simp add: to_member_def runs_reply split: option.split)

lemma runs_typing: "runs R A w0 w \<Longrightarrow> runs R A w0 (SendTypingIndicator ch m w)"
  unfolding SendTypingIndicator_def by (rule runs_to_channel)

lemma runs_presence_update: "runs R A w0 w \<Longrightarrow> runs R A w0 (SendPresenceUpdate m st w)"
  unfolding SendPresenceUpdate_def by (rule runs_to_all)

lemma runs_new_message: "runs R A w0 w \<Longrightarrow> runs R A w0 (SendNewMessage ch m w)"
  unfolding SendNewMessage_def by (rule runs_to_channel)

lemma runs_set_presence: "runs R A w0 w \<Longrightarrow> runs R A w0 (SetPresence m st w)"
  unfolding SetPresence_def
  using step_presence [of A "net.truncate w" m st]
  by (elim runs_hub) (simp_all add: truncate_presence truncate_fields kept_hub)

lemma runs_join:
  assumes "runs R A w0 w" "r < next_ref w" "c_authenticated (heap w r)"
  shows "runs R A w0 (snd (join ch r w))"
  using assms by (elim runs_hub) (auto simp: truncate_join kept_hub truncate_fields intro!: step_join)

lemma runs_leave:
  assumes "runs R A w0 w" "r < next_ref w" "c_authenticated (heap w r)"
  shows "runs R A w0 (leave ch r w)"
  using assms by (elim runs_hub) (auto simp: truncate_leave kept_hub truncate_fields intro!: step_leave)

lemma runs_kick: "runs R A w0 w \<Longrightarrow> runs R A w0 (kick ch m w)"
  by (elim runs_hub) (auto simp: truncate_kick kept_hub intro!: step_kick)

lemma runs_register:
  assumes "runs R A w0 w" "r < next_ref w"
  shows "runs R A w0 (RegisterDaemon d r m w)"
  using assms by (elim runs_hub) (auto simp: truncate_register kept_hub truncate_fields intro!: step_register)

lemma runs_if: "(b \<Longrightarrow> runs R A w0 x) \<Longrightarrow> (\<not> b \<Longrightarrow> runs R A w0 y) \<Longrightarrow> runs R A w0 (if b then x else y)"
  by simp

lemma runs_option:
  "(x = None \<Longrightarrow> runs R A w0 f) \<Longrightarrow> (\<And>y. x = Some y \<Longrightarrow> runs R A w0 (g y)) \<Longrightarrow>
   runs R A w0 (case x of None \<Rightarrow> f | Some y \<Rightarrow> g y)"
  by (cases x) auto

lemma runs_sum:
  "(\<And>y. x = Inl y \<Longrightarrow> runs R A w0 (f y)) \<Longrightarrow> (\<And>y. x = Inr y \<Longrightarrow> runs R A w0 (g y)) \<Longrightarrow>
   runs R A w0 (case x of Inl y \<Rightarrow> f y | Inr y \<Rightarrow> g y)"
  by (cases x) auto

lemma runs_list:
  "(x = [] \<Longrightarrow> runs R A w0 f) \<Longrightarrow> (\<And>y ys. x = y # ys \<Longrightarrow> runs R A w0 (g y ys)) \<Longrightarrow>
   runs R A w0 (case x of [] \<Rightarrow> f | y # ys \<Rightarrow> g y ys)"
  by (cases x) auto

lemma runs_pair: "(\<And>a b. x = (a, b) \<Longrightarrow> runs R A w0 (f a b v)) \<Longrightarrow> runs R A w0 (case_prod f x v)"
  by (cases x) auto

lemma runs_fold: "(\<And>x v. runs R A w0 v \<Longrightarrow> runs R A w0 (f x v)) \<Longrightarrow> runs R A w0 w \<Longrightarrow> runs R A w0 (fold f xs w)"
  by (induction xs arbitrary: w) auto

lemmas runs_rules = runs_on_db runs_with_ctx runs_reply runs_ws_err runs_wsError runs_auth_fail
  runs_to_channel runs_to_all runs_to_member runs_typing runs_presence_update runs_new_message
  runs_set_presence runs_if runs_option runs_sum runs_list runs_pair runs_refl
  can_get can_version can_metric can_notify

lemma runs_authed: "runs R A w0 w \<Longrightarrow> (c_authenticated (heap w r) \<Longrightarrow> runs R A w0 (k w)) \<Longrightarrow>
   runs R A w0 (if_authed r k w)"
  unfolding if_authed_def by (auto intro: runs_ws_err)

lemma runs_agent: "runs R A w0 w \<Longrightarrow>
   (c_authenticated (heap w r) \<Longrightarrow> c_isAgent (heap w r) \<Longrightarrow> runs R A w0 (k w)) \<Longrightarrow>
   runs R A w0 (if_agent r msg k w)"
  unfolding if_agent_def by (auto intro: runs_ws_err)

lemma runs_member: "runs R A w0 w \<Longrightarrow>
   (\<And>v. runs R A w0 v \<Longrightarrow> runs R A w0 (k v)) \<Longrightarrow> runs R A w0 (if_member r ch k w)"
  unfolding if_member_def Let_def by (intro runs_rules) auto

lemma runs_RecordWake: "runs R A w0 w \<Longrightarrow> runs R A w0 (RecordWake a w)"
  unfolding RecordWake_def Let_def by (intro runs_rules)

lemma runs_WakeAgentByName: "runs R A w0 w \<Longrightarrow> runs R A w0 (WakeAgentByName nm ch why w)"
  unfolding WakeAgentByName_def Let_def by (intro runs_rules runs_RecordWake)

lemma runs_WakeAgent: "runs R A w0 w \<Longrightarrow> runs R A w0 (WakeAgent a d w)"
  unfolding WakeAgent_def by (intro runs_rules)

lemma runs_mention_one: "runs R A w0 w \<Longrightarrow> runs R A w0 (mention_one msg ch nm w)"
  unfolding mention_one_def Let_def by (intro runs_rules runs_WakeAgentByName)

lemma runs_handleMentions: "runs R A w0 w \<Longrightarrow> runs R A w0 (handleMentions msg w)"
  unfolding handleMentions_def Let_def by (intro runs_rules runs_fold runs_mention_one)

end

interpretation db_logic: step_logic db_step
  by unfold_locales (rule db_step.intros)+

end
