(* ===== verification/Model_Json.thy ===== *)
theory Model_Json
  imports Models
begin

text \<open>
  The JSON forms of proto/models.go that the REST handlers write, and the decoders of
  the structs they read a request body into.  Struct tags give the member names and
  the omitempty members; members tagged "-" are neither written nor read.
\<close>

section \<open>Encoders\<close>

text \<open>Without omitempty a nil slice and a nil raw message are null.\<close>

definition strs_json :: "string list \<Rightarrow> json" where
  "strs_json ss = (if ss = [] then JNull else JArr (map JStr ss))"

definition raw_json :: "json option \<Rightarrow> json" where
  "raw_json j = (case j of None \<Rightarrow> JNull | Some v \<Rightarrow> v)"

definition Workspace_json :: "Workspace \<Rightarrow> json" where
  "Workspace_json x = JObj (
     [(''id'', JStr (ws_ID x))] @
     [(''name'', JStr (ws_Name x))] @
     [(''slug'', JStr (ws_Slug x))] @
     omit_str ''icon_url'' (ws_IconURL x) @
     omit_str ''agent_provision_token'' (ws_AgentProvisionToken x) @
     [(''created_at'', JNum (ws_CreatedAt x))] @
     [(''updated_at'', JNum (ws_UpdatedAt x))])"

definition Channel_json :: "Channel \<Rightarrow> json" where
  "Channel_json x = JObj (
     [(''id'', JStr (ch_ID x))] @
     [(''workspace_id'', JStr (ch_WorkspaceID x))] @
     [(''name'', JStr (ch_Name x))] @
     omit_str ''category'' (ch_Category x) @
     [(''type'', JStr (ch_Type x))] @
     omit_str ''topic'' (ch_Topic x) @
     [(''is_private'', JBool (ch_IsPrivate x))] @
     omit_bool ''is_archived'' (ch_IsArchived x) @
     [(''room_version'', JNum (ch_RoomVersion x))] @
     [(''created_at'', JNum (ch_CreatedAt x))] @
     [(''updated_at'', JNum (ch_UpdatedAt x))])"

definition EditHistory_json :: "EditHistory \<Rightarrow> json" where
  "EditHistory_json x = JObj (
     [(''id'', JStr (eh_ID x))] @
     [(''message_id'', JStr (eh_MessageID x))] @
     [(''content'', JStr (eh_Content x))] @
     [(''edited_at'', JNum (eh_EditedAt x))] @
     [(''edited_by'', JStr (eh_EditedBy x))])"

definition AgentMemory_json :: "AgentMemory \<Rightarrow> json" where
  "AgentMemory_json x = JObj (
     [(''id'', JStr (am_ID x))] @
     [(''agent_id'', JStr (am_AgentID x))] @
     [(''namespace'', JStr (am_Namespace x))] @
     [(''key'', JStr (am_Key x))] @
     [(''value'', JStr (am_Value x))] @
     [(''created_at'', JNum (am_CreatedAt x))] @
     [(''updated_at'', JNum (am_UpdatedAt x))])"

definition File_json :: "File \<Rightarrow> json" where
  "File_json x = JObj (
     [(''id'', JStr (fl_ID x))] @
     [(''workspace_id'', JStr (fl_WorkspaceID x))] @
     [(''uploader_id'', JStr (fl_UploaderID x))] @
     [(''filename'', JStr (fl_Filename x))] @
     [(''mime_type'', JStr (fl_MimeType x))] @
     [(''size'', JNum (fl_Size x))] @
     [(''path'', JStr (fl_Path x))] @
     [(''created_at'', JNum (fl_CreatedAt x))])"

definition Webhook_json :: "Webhook \<Rightarrow> json" where
  "Webhook_json x = JObj (
     [(''id'', JStr (wh_ID x))] @
     [(''workspace_id'', JStr (wh_WorkspaceID x))] @
     [(''channel_id'', JStr (wh_ChannelID x))] @
     [(''name'', JStr (wh_Name x))] @
     omit_str ''secret'' (wh_Secret x) @
     [(''created_by'', JStr (wh_CreatedBy x))] @
     [(''created_at'', JNum (wh_CreatedAt x))])"

text \<open>
  A RawMessage that holds unchecked text: it is left out when empty, and Encode
  refuses it when parse says it is not JSON.
\<close>

definition omit_text :: "(string \<Rightarrow> json option) \<Rightarrow> string \<Rightarrow> string \<Rightarrow> (string \<times> json) list option" where
  "omit_text parse k t = (if t = '''' then Some [] else map_option (\<lambda>j. [(k, j)]) (parse t))"

definition Integration_json :: "(string \<Rightarrow> json option) \<Rightarrow> Integration \<Rightarrow> json option" where
  "Integration_json parse x = map_option (\<lambda>schema. JObj (
     [(''id'', JStr (ig_ID x))] @
     [(''name'', JStr (ig_Name x))] @
     omit_str ''description'' (ig_Description x) @
     omit_str ''icon_url'' (ig_IconURL x) @
     [(''type'', JStr (ig_Type x))] @
     schema @
     [(''created_at'', JNum (ig_CreatedAt x))])) (omit_text parse ''config_schema'' (ig_ConfigSchema x))"

definition WorkspaceIntegration_json ::
  "(string \<Rightarrow> json option) \<Rightarrow> WorkspaceIntegration \<Rightarrow> json option" where
  "WorkspaceIntegration_json parse x = map_option (\<lambda>conf. JObj (
     [(''id'', JStr (wi_ID x))] @
     [(''workspace_id'', JStr (wi_WorkspaceID x))] @
     [(''integration_id'', JStr (wi_IntegrationID x))] @
     [(''installed_by'', JStr (wi_InstalledBy x))] @
     conf @
     [(''enabled'', JBool (wi_Enabled x))] @
     [(''created_at'', JNum (wi_CreatedAt x))])) (omit_text parse ''config'' (wi_Config x))"

definition SSOProvider_json :: "SSOProvider \<Rightarrow> json" where
  "SSOProvider_json x = JObj (
     [(''id'', JStr (sso_ID x))] @
     [(''workspace_id'', JStr (sso_WorkspaceID x))] @
     [(''name'', JStr (sso_Name x))] @
     [(''type'', JStr (sso_Type x))] @
     omit_str ''issuer'' (sso_Issuer x) @
     omit_str ''client_id'' (sso_ClientID x) @
     omit_str ''discovery_url'' (sso_DiscoveryURL x) @
     omit_str ''domain'' (sso_Domain x) @
     [(''enabled'', JBool (sso_Enabled x))] @
     [(''created_at'', JNum (sso_CreatedAt x))])"

definition Call_json :: "Call \<Rightarrow> json" where
  "Call_json x = JObj (
     [(''id'', JStr (call_ID x))] @
     [(''workspace_id'', JStr (call_WorkspaceID x))] @
     omit_str ''channel_id'' (call_ChannelID x) @
     [(''caller_id'', JStr (call_CallerID x))] @
     [(''callee_id'', JStr (call_CalleeID x))] @
     [(''type'', JStr (call_Type x))] @
     [(''status'', JStr (call_Status x))] @
     omit_int ''started_at'' (call_StartedAt x) @
     omit_int ''ended_at'' (call_EndedAt x) @
     [(''created_at'', JNum (call_CreatedAt x))])"

definition Workflow_json :: "Workflow \<Rightarrow> json" where
  "Workflow_json x = JObj (
     [(''id'', JStr (wf_ID x))] @
     [(''workspace_id'', JStr (wf_WorkspaceID x))] @
     [(''name'', JStr (wf_Name x))] @
     omit_str ''description'' (wf_Description x) @
     [(''trigger_type'', JStr (wf_TriggerType x))] @
     omit_raw ''trigger_config'' (wf_TriggerConfig x) @
     [(''steps'', raw_json (wf_Steps x))] @
     [(''enabled'', JBool (wf_Enabled x))] @
     [(''created_by'', JStr (wf_CreatedBy x))] @
     [(''created_at'', JNum (wf_CreatedAt x))] @
     [(''updated_at'', JNum (wf_UpdatedAt x))])"

definition WorkflowRun_json :: "WorkflowRun \<Rightarrow> json" where
  "WorkflowRun_json x = JObj (
     [(''id'', JStr (wr_ID x))] @
     [(''workflow_id'', JStr (wr_WorkflowID x))] @
     [(''status'', JStr (wr_Status x))] @
     omit_raw ''trigger_data'' (wr_TriggerData x) @
     omit_raw ''result'' (wr_Result x) @
     omit_str ''error'' (wr_Error x) @
     [(''started_at'', JNum (wr_StartedAt x))] @
     omit_int ''finished_at'' (wr_FinishedAt x))"

definition UserKey_json :: "UserKey \<Rightarrow> json" where
  "UserKey_json x = JObj (
     [(''id'', JStr (uk_ID x))] @
     [(''member_id'', JStr (uk_MemberID x))] @
     [(''key_type'', JStr (uk_KeyType x))] @
     [(''public_key'', JStr (uk_PublicKey x))] @
     [(''created_at'', JNum (uk_CreatedAt x))])"

definition EncryptedMessage_json :: "EncryptedMessage \<Rightarrow> json" where
  "EncryptedMessage_json x = JObj (
     [(''id'', JStr (em_ID x))] @
     [(''message_id'', JStr (em_MessageID x))] @
     [(''recipient_id'', JStr (em_RecipientID x))] @
     [(''encrypted_content'', JStr (em_EncryptedContent x))] @
     [(''sender_identity_key'', JStr (em_SenderIdentityKey x))] @
     omit_str ''ephemeral_key'' (em_EphemeralKey x) @
     [(''created_at'', JNum (em_CreatedAt x))])"

definition BillingCustomer_json :: "BillingCustomer \<Rightarrow> json" where
  "BillingCustomer_json x = JObj (
     [(''id'', JStr (bc_ID x))] @
     [(''workspace_id'', JStr (bc_WorkspaceID x))] @
     omit_str ''stripe_customer_id'' (bc_StripeCustomerID x) @
     omit_str ''stripe_subscription_id'' (bc_StripeSubscriptionID x) @
     [(''plan'', JStr (bc_Plan x))] @
     [(''status'', JStr (bc_Status x))] @
     omit_int ''current_period_start'' (bc_CurrentPeriodStart x) @
     omit_int ''current_period_end'' (bc_CurrentPeriodEnd x) @
     [(''created_at'', JNum (bc_CreatedAt x))] @
     [(''updated_at'', JNum (bc_UpdatedAt x))])"

definition UsageRecord_json :: "UsageRecord \<Rightarrow> json" where
  "UsageRecord_json x = JObj (
     [(''id'', JStr (ur_ID x))] @
     [(''workspace_id'', JStr (ur_WorkspaceID x))] @
     [(''metric'', JStr (ur_Metric x))] @
     [(''quantity'', JNum (ur_Quantity x))] @
     [(''period_start'', JNum (ur_PeriodStart x))] @
     [(''period_end'', JNum (ur_PeriodEnd x))] @
     [(''created_at'', JNum (ur_CreatedAt x))])"

definition PlanLimits_json :: "PlanLimits \<Rightarrow> json" where
  "PlanLimits_json x = JObj (
     [(''max_members'', JNum (pl_MaxMembers x))] @
     [(''max_channels'', JNum (pl_MaxChannels x))] @
     [(''max_messages_per_month'', JNum (pl_MaxMessages x))] @
     [(''max_file_upload_mb'', JNum (pl_MaxFileUpload x))] @
     [(''max_workflows'', JNum (pl_MaxWorkflows x))] @
     [(''max_agents'', JNum (pl_MaxAgents x))])"

definition HeldDraft_json :: "HeldDraft \<Rightarrow> json" where
  "HeldDraft_json x = JObj (
     [(''id'', JStr (hd_ID x))] @
     [(''agent_id'', JStr (hd_AgentID x))] @
     [(''channel_id'', JStr (hd_ChannelID x))] @
     [(''content'', JStr (hd_Content x))] @
     omit_str ''thread_id'' (hd_ThreadID x) @
     [(''room_version'', JNum (hd_RoomVersion x))] @
     [(''status'', JStr (hd_Status x))] @
     [(''created_at'', JNum (hd_CreatedAt x))] @
     [(''updated_at'', JNum (hd_UpdatedAt x))] @
     omit_int ''expires_at'' (hd_ExpiresAt x))"

definition ReviewRequest_json :: "ReviewRequest \<Rightarrow> json" where
  "ReviewRequest_json x = JObj (
     [(''id'', JStr (rr_ID x))] @
     [(''workspace_id'', JStr (rr_WorkspaceID x))] @
     [(''channel_id'', JStr (rr_ChannelID x))] @
     [(''requester_id'', JStr (rr_RequesterID x))] @
     [(''reviewer_id'', JStr (rr_ReviewerID x))] @
     [(''subject'', JStr (rr_Subject x))] @
     [(''content'', JStr (rr_Content x))] @
     omit_str ''thread_id'' (rr_ThreadID x) @
     [(''status'', JStr (rr_Status x))] @
     omit_str ''review_comment'' (rr_ReviewComment x) @
     [(''created_at'', JNum (rr_CreatedAt x))] @
     [(''updated_at'', JNum (rr_UpdatedAt x))] @
     omit_int ''reviewed_at'' (rr_ReviewedAt x))"

definition TeamTemplate_json :: "TeamTemplate \<Rightarrow> json" where
  "TeamTemplate_json x = JObj (
     [(''id'', JStr (tt_ID x))] @
     omit_str ''workspace_id'' (tt_WorkspaceID x) @
     [(''name'', JStr (tt_Name x))] @
     omit_str ''description'' (tt_Description x) @
     omit_str ''category'' (tt_Category x) @
     [(''roles'', raw_json (tt_Roles x))] @
     omit_raw ''channels'' (tt_Channels x) @
     [(''is_builtin'', JBool (tt_IsBuiltin x))] @
     omit_str ''created_by'' (tt_CreatedBy x) @
     [(''created_at'', JNum (tt_CreatedAt x))] @
     [(''updated_at'', JNum (tt_UpdatedAt x))])"

section \<open>Decoders\<close>

text \<open>A pointer to a struct: null resets it, an object decodes into the old or a fresh one.\<close>

definition set_ptr ::
  "(string \<Rightarrow> json \<Rightarrow> 'b \<Rightarrow> 'b option) \<Rightarrow> 'b \<Rightarrow> ('a \<Rightarrow> 'b option) \<Rightarrow> ('b option \<Rightarrow> 'a \<Rightarrow> 'a) \<Rightarrow> json \<Rightarrow> 'a
   \<Rightarrow> 'a option" where
  "set_ptr f zero g u j a =
     (if j = JNull then Some (u None a)
      else map_option (\<lambda>b. u (Some b) a)
        (unmarshal f (Some j) (case g a of None \<Rightarrow> zero | Some b \<Rightarrow> b)))"

definition Workspace_member :: "string \<Rightarrow> json \<Rightarrow> Workspace \<Rightarrow> Workspace option" where
  "Workspace_member k j d =
     (if key_eq k ''id'' then set_str (\<lambda>v d. d\<lparr>ws_ID := v\<rparr>) j d
      else if key_eq k ''name'' then set_str (\<lambda>v d. d\<lparr>ws_Name := v\<rparr>) j d
      else if key_eq k ''slug'' then set_str (\<lambda>v d. d\<lparr>ws_Slug := v\<rparr>) j d
      else if key_eq k ''icon_url'' then set_str (\<lambda>v d. d\<lparr>ws_IconURL := v\<rparr>) j d
      else if key_eq k ''agent_provision_token'' then set_str (\<lambda>v d. d\<lparr>ws_AgentProvisionToken := v\<rparr>) j d
      else if key_eq k ''created_at'' then set_int (\<lambda>v d. d\<lparr>ws_CreatedAt := v\<rparr>) j d
      else if key_eq k ''updated_at'' then set_int (\<lambda>v d. d\<lparr>ws_UpdatedAt := v\<rparr>) j d
      else Some d)"

definition Member_member :: "string \<Rightarrow> json \<Rightarrow> Member \<Rightarrow> Member option" where
  "Member_member k j d =
     (if key_eq k ''id'' then set_str (\<lambda>v d. d\<lparr>mb_ID := v\<rparr>) j d
      else if key_eq k ''workspace_id'' then set_str (\<lambda>v d. d\<lparr>mb_WorkspaceID := v\<rparr>) j d
      else if key_eq k ''name'' then set_str (\<lambda>v d. d\<lparr>mb_Name := v\<rparr>) j d
      else if key_eq k ''email'' then set_str (\<lambda>v d. d\<lparr>mb_Email := v\<rparr>) j d
      else if key_eq k ''type'' then set_str (\<lambda>v d. d\<lparr>mb_Type := v\<rparr>) j d
      else if key_eq k ''role'' then set_str (\<lambda>v d. d\<lparr>mb_Role := v\<rparr>) j d
      else if key_eq k ''avatar_url'' then set_str (\<lambda>v d. d\<lparr>mb_AvatarURL := v\<rparr>) j d
      else if key_eq k ''status'' then set_str (\<lambda>v d. d\<lparr>mb_Status := v\<rparr>) j d
      else if key_eq k ''status_text'' then set_str (\<lambda>v d. d\<lparr>mb_StatusText := v\<rparr>) j d
      else if key_eq k ''status_emoji'' then set_str (\<lambda>v d. d\<lparr>mb_StatusEmoji := v\<rparr>) j d
      else if key_eq k ''api_key'' then set_str (\<lambda>v d. d\<lparr>mb_APIKey := v\<rparr>) j d
      else if key_eq k ''role_card'' then set_ptr RoleCard_member \<lparr>rc_SystemPrompt = [], rc_Capabilities = []\<rparr>
             mb_RoleCard (\<lambda>v d. d\<lparr>mb_RoleCard := v\<rparr>) j d
      else if key_eq k ''capabilities'' then set_strs (\<lambda>v d. d\<lparr>mb_Capabilities := v\<rparr>) j d
      else if key_eq k ''runtime_info'' then set_ptr RuntimeInfo_member \<lparr>ri_Type = [], ri_Provider = [], ri_Model = []\<rparr>
             mb_RuntimeInfo (\<lambda>v d. d\<lparr>mb_RuntimeInfo := v\<rparr>) j d
      else if key_eq k ''created_at'' then set_int (\<lambda>v d. d\<lparr>mb_CreatedAt := v\<rparr>) j d
      else if key_eq k ''updated_at'' then set_int (\<lambda>v d. d\<lparr>mb_UpdatedAt := v\<rparr>) j d
      else Some d)"

definition Channel_member :: "string \<Rightarrow> json \<Rightarrow> Channel \<Rightarrow> Channel option" where
  "Channel_member k j d =
     (if key_eq k ''id'' then set_str (\<lambda>v d. d\<lparr>ch_ID := v\<rparr>) j d
      else if key_eq k ''workspace_id'' then set_str (\<lambda>v d. d\<lparr>ch_WorkspaceID := v\<rparr>) j d
      else if key_eq k ''name'' then set_str (\<lambda>v d. d\<lparr>ch_Name := v\<rparr>) j d
      else if key_eq k ''category'' then set_str (\<lambda>v d. d\<lparr>ch_Category := v\<rparr>) j d
      else if key_eq k ''type'' then set_str (\<lambda>v d. d\<lparr>ch_Type := v\<rparr>) j d
      else if key_eq k ''topic'' then set_str (\<lambda>v d. d\<lparr>ch_Topic := v\<rparr>) j d
      else if key_eq k ''is_private'' then set_bool (\<lambda>v d. d\<lparr>ch_IsPrivate := v\<rparr>) j d
      else if key_eq k ''is_archived'' then set_bool (\<lambda>v d. d\<lparr>ch_IsArchived := v\<rparr>) j d
      else if key_eq k ''room_version'' then set_int (\<lambda>v d. d\<lparr>ch_RoomVersion := v\<rparr>) j d
      else if key_eq k ''created_at'' then set_int (\<lambda>v d. d\<lparr>ch_CreatedAt := v\<rparr>) j d
      else if key_eq k ''updated_at'' then set_int (\<lambda>v d. d\<lparr>ch_UpdatedAt := v\<rparr>) j d
      else Some d)"

definition Message_member :: "string \<Rightarrow> json \<Rightarrow> Message \<Rightarrow> Message option" where
  "Message_member k j d =
     (if key_eq k ''id'' then set_str (\<lambda>v d. d\<lparr>msg_ID := v\<rparr>) j d
      else if key_eq k ''channel_id'' then set_str (\<lambda>v d. d\<lparr>msg_ChannelID := v\<rparr>) j d
      else if key_eq k ''sender_id'' then set_str (\<lambda>v d. d\<lparr>msg_SenderID := v\<rparr>) j d
      else if key_eq k ''thread_id'' then set_str (\<lambda>v d. d\<lparr>msg_ThreadID := v\<rparr>) j d
      else if key_eq k ''content'' then set_str (\<lambda>v d. d\<lparr>msg_Content := v\<rparr>) j d
      else if key_eq k ''content_type'' then set_str (\<lambda>v d. d\<lparr>msg_ContentType := v\<rparr>) j d
      else if key_eq k ''file_id'' then set_str (\<lambda>v d. d\<lparr>msg_FileID := v\<rparr>) j d
      else if key_eq k ''type'' then set_str (\<lambda>v d. d\<lparr>msg_Type := v\<rparr>) j d
      else if key_eq k ''metadata'' then Some (d\<lparr>msg_Metadata := Some j\<rparr>)
      else if key_eq k ''edited_at'' then set_int (\<lambda>v d. d\<lparr>msg_EditedAt := v\<rparr>) j d
      else if key_eq k ''edit_count'' then set_int (\<lambda>v d. d\<lparr>msg_EditCount := v\<rparr>) j d
      else if key_eq k ''reply_count'' then set_int (\<lambda>v d. d\<lparr>msg_ReplyCount := v\<rparr>) j d
      else if key_eq k ''created_at'' then set_int (\<lambda>v d. d\<lparr>msg_CreatedAt := v\<rparr>) j d
      else if key_eq k ''updated_at'' then set_int (\<lambda>v d. d\<lparr>msg_UpdatedAt := v\<rparr>) j d
      else Some d)"

definition Task_member :: "string \<Rightarrow> json \<Rightarrow> Task \<Rightarrow> Task option" where
  "Task_member k j d =
     (if key_eq k ''id'' then set_str (\<lambda>v d. d\<lparr>task_ID := v\<rparr>) j d
      else if key_eq k ''workspace_id'' then set_str (\<lambda>v d. d\<lparr>task_WorkspaceID := v\<rparr>) j d
      else if key_eq k ''channel_id'' then set_str (\<lambda>v d. d\<lparr>task_ChannelID := v\<rparr>) j d
      else if key_eq k ''assigned_to'' then set_str (\<lambda>v d. d\<lparr>task_AssignedTo := v\<rparr>) j d
      else if key_eq k ''created_by'' then set_str (\<lambda>v d. d\<lparr>task_CreatedBy := v\<rparr>) j d
      else if key_eq k ''title'' then set_str (\<lambda>v d. d\<lparr>task_Title := v\<rparr>) j d
      else if key_eq k ''description'' then set_str (\<lambda>v d. d\<lparr>task_Description := v\<rparr>) j d
      else if key_eq k ''status'' then set_str (\<lambda>v d. d\<lparr>task_Status := v\<rparr>) j d
      else if key_eq k ''priority'' then set_str (\<lambda>v d. d\<lparr>task_Priority := v\<rparr>) j d
      else if key_eq k ''due_at'' then set_int (\<lambda>v d. d\<lparr>task_DueAt := v\<rparr>) j d
      else if key_eq k ''created_at'' then set_int (\<lambda>v d. d\<lparr>task_CreatedAt := v\<rparr>) j d
      else if key_eq k ''updated_at'' then set_int (\<lambda>v d. d\<lparr>task_UpdatedAt := v\<rparr>) j d
      else Some d)"

definition AgentWorkspaceItem_member :: "string \<Rightarrow> json \<Rightarrow> AgentWorkspaceItem \<Rightarrow> AgentWorkspaceItem option" where
  "AgentWorkspaceItem_member k j d =
     (if key_eq k ''id'' then set_str (\<lambda>v d. d\<lparr>wsi_ID := v\<rparr>) j d
      else if key_eq k ''agent_id'' then set_str (\<lambda>v d. d\<lparr>wsi_AgentID := v\<rparr>) j d
      else if key_eq k ''workspace_id'' then set_str (\<lambda>v d. d\<lparr>wsi_WorkspaceID := v\<rparr>) j d
      else if key_eq k ''name'' then set_str (\<lambda>v d. d\<lparr>wsi_Name := v\<rparr>) j d
      else if key_eq k ''description'' then set_str (\<lambda>v d. d\<lparr>wsi_Description := v\<rparr>) j d
      else if key_eq k ''content'' then set_str (\<lambda>v d. d\<lparr>wsi_Content := v\<rparr>) j d
      else if key_eq k ''mime_type'' then set_str (\<lambda>v d. d\<lparr>wsi_MimeType := v\<rparr>) j d
      else if key_eq k ''size'' then set_int (\<lambda>v d. d\<lparr>wsi_Size := v\<rparr>) j d
      else if key_eq k ''file_id'' then set_str (\<lambda>v d. d\<lparr>wsi_FileID := v\<rparr>) j d
      else if key_eq k ''namespace'' then set_str (\<lambda>v d. d\<lparr>wsi_Namespace := v\<rparr>) j d
      else if key_eq k ''tags'' then set_strs (\<lambda>v d. d\<lparr>wsi_Tags := v\<rparr>) j d
      else if key_eq k ''created_at'' then set_int (\<lambda>v d. d\<lparr>wsi_CreatedAt := v\<rparr>) j d
      else if key_eq k ''updated_at'' then set_int (\<lambda>v d. d\<lparr>wsi_UpdatedAt := v\<rparr>) j d
      else Some d)"

end
