(* ===== verification/Rest_Core.thy ===== *)
theory Rest_Core
  imports Auth Ws_Agent Model_Json
begin

text \<open>
  What the REST handlers of server/api share: the request, the guards they open with,
  a store call whose failure becomes the 500 answer, the decoding of a body, and the
  few services of service/service.go that do more than call the store.
\<close>

section \<open>Requests\<close>

text \<open>
  URL parameters (chi), query parameters, the decoded JSON body (None when it is empty
  or malformed), the Authorization header, and the member the authentication
  middleware put into the request's context.  Cancellation of the request's context is
  one of the failures the SQL driver may report.
\<close>

record request =
  rq_params :: "(string \<times> string) list"
  rq_query :: "(string \<times> string) list"
  rq_body :: "json option"
  rq_auth :: string
  rq_member :: "Member option"

definition URLParam :: "request \<Rightarrow> string \<Rightarrow> string" where
  "URLParam q k = (case map_of (rq_params q) k of None \<Rightarrow> '''' | Some v \<Rightarrow> v)"

definition Query :: "request \<Rightarrow> string \<Rightarrow> string" where
  "Query q k = (case map_of (rq_query q) k of None \<Rightarrow> '''' | Some v \<Rightarrow> v)"

type_synonym answer = "response \<times> world"

definition respond :: "nat \<Rightarrow> json \<Rightarrow> world \<Rightarrow> answer" where
  "respond st j w = (writeJSON st j, w)"

definition refuse :: "nat \<Rightarrow> string \<Rightarrow> world \<Rightarrow> answer" where
  "refuse st msg w = (writeError st msg, w)"

definition refuse_code :: "nat \<Rightarrow> string \<Rightarrow> string \<Rightarrow> world \<Rightarrow> answer" where
  "refuse_code st code msg w = (writeErrorCode st code msg, w)"

text \<open>writeJSON of a value that may not encode: the status is sent, with no body.\<close>

definition encoded :: "nat \<Rightarrow> json option \<Rightarrow> world \<Rightarrow> answer" where
  "encoded st j w = (\<lparr>status = st, location = None, body = j\<rparr>, w)"

definition empty_answer :: "world \<Rightarrow> answer" where
  "empty_answer w = (no_content, w)"

section \<open>Guards\<close>

definition authed :: "request \<Rightarrow> (Member \<Rightarrow> world \<Rightarrow> answer) \<Rightarrow> world \<Rightarrow> answer" where
  "authed q k w = (case rq_member q of None \<Rightarrow> refuse 401 ''not authenticated'' w | Some me \<Rightarrow> k me w)"

definition in_workspace :: "request \<Rightarrow> string \<Rightarrow> (Member \<Rightarrow> world \<Rightarrow> answer) \<Rightarrow> world \<Rightarrow> answer" where
  "in_workspace q wid k w = (case requireWorkspaceAuth (rq_member q) wid of Inl e \<Rightarrow> (e, w) | Inr me \<Rightarrow> k me w)"

definition as_admin :: "request \<Rightarrow> (Member \<Rightarrow> world \<Rightarrow> answer) \<Rightarrow> world \<Rightarrow> answer" where
  "as_admin q k w = (case requireAdmin (rq_member q) of Inl e \<Rightarrow> (e, w) | Inr me \<Rightarrow> k me w)"

section \<open>Store calls\<close>

text \<open>if err := op; err != nil { serverError(...); return }\<close>

definition try_svc ::
  "(world \<Rightarrow> (db_error + 'a) \<times> world) \<Rightarrow> ('a \<Rightarrow> world \<Rightarrow> answer) \<Rightarrow> world \<Rightarrow> answer" where
  "try_svc op k w = (let (x, w) = op w in case x of Inl e \<Rightarrow> (serverError, w) | Inr a \<Rightarrow> k a w)"

definition try_db ::
  "(store \<Rightarrow> (db_error + 'a) \<times> store) \<Rightarrow> ('a \<Rightarrow> world \<Rightarrow> answer) \<Rightarrow> world \<Rightarrow> answer" where
  "try_db op = try_svc (on_db op)"

text \<open>An operation that fills in its argument: the row, or the error.\<close>

definition stored :: "(store \<Rightarrow> (db_error + unit) \<times> 'r \<times> store) \<Rightarrow> world \<Rightarrow> (db_error + 'r) \<times> world" where
  "stored op w = (let ((x, r), w) = on_db (made op) w in (case x of Inl e \<Rightarrow> Inl e | Inr _ \<Rightarrow> Inr r, w))"

definition try_made ::
  "(store \<Rightarrow> (db_error + unit) \<times> 'r \<times> store) \<Rightarrow> ('r \<Rightarrow> world \<Rightarrow> answer) \<Rightarrow> world \<Rightarrow> answer" where
  "try_made op = try_svc (stored op)"

text \<open>The lookup whose miss, or whose row of the wrong kind, is answered 404.\<close>

definition found :: "('a \<Rightarrow> bool) \<Rightarrow> string \<Rightarrow> 'a option \<Rightarrow> ('a \<Rightarrow> world \<Rightarrow> answer) \<Rightarrow> world \<Rightarrow> answer" where
  "found ok msg x k w =
     (case x of None \<Rightarrow> refuse 404 msg w | Some a \<Rightarrow> if ok a then k a w else refuse 404 msg w)"

text \<open>The same where an error of the lookup is answered 404 too.\<close>

definition found_code ::
  "(store \<Rightarrow> (db_error + 'a option) \<times> store) \<Rightarrow> string \<Rightarrow> ('a \<Rightarrow> world \<Rightarrow> answer) \<Rightarrow> world \<Rightarrow> answer" where
  "found_code op msg k w =
     (let (x, w) = on_db op w in
      case x of Inr (Some a) \<Rightarrow> k a w | _ \<Rightarrow> refuse_code 404 ''NOT_FOUND'' msg w)"

definition in_channel :: "string \<Rightarrow> Member \<Rightarrow> (world \<Rightarrow> answer) \<Rightarrow> world \<Rightarrow> answer" where
  "in_channel ch me k = try_db (IsChannelMember ch (mb_ID me)) (\<lambda>b w.
     if b then k w else refuse 403 ''not a member of this channel'' w)"

section \<open>Bodies\<close>

definition decoded :: "'a option \<Rightarrow> ('a \<Rightarrow> world \<Rightarrow> answer) \<Rightarrow> world \<Rightarrow> answer" where
  "decoded x k w = (case x of None \<Rightarrow> refuse 400 ''invalid json'' w | Some a \<Rightarrow> k a w)"

text \<open>A body whose members are all strings.\<close>

definition strs_body :: "request \<Rightarrow> string list \<Rightarrow> (string list \<Rightarrow> world \<Rightarrow> answer) \<Rightarrow> world \<Rightarrow> answer" where
  "strs_body q fs = decoded (unmarshal_strs fs (rq_body q))"

text \<open>The body decoded over a stored row, its protected members restored.\<close>

definition decodeAndProtect ::
  "(string \<Rightarrow> json \<Rightarrow> 'a \<Rightarrow> 'a option) \<Rightarrow> request \<Rightarrow> 'a \<Rightarrow> ('a \<Rightarrow> 'a) \<Rightarrow> ('a \<Rightarrow> world \<Rightarrow> answer) \<Rightarrow> world \<Rightarrow> answer" where
  "decodeAndProtect f q x restore k = decoded (map_option restore (unmarshal f (rq_body q) x)) k"

text \<open>A map is written with its keys in order.\<close>

definition map_json :: "('v \<Rightarrow> json) \<Rightarrow> (string, 'v) go_map \<Rightarrow> json" where
  "map_json f m = JObj (sort_key fst (map (\<lambda>(k, v). (k, f v)) m))"

section \<open>Services\<close>

text \<open>
  A service fails before the store is reached, or returns the store's error or row.
\<close>

definition keyed :: "string \<Rightarrow> string \<Rightarrow> (string \<Rightarrow> world \<Rightarrow> (db_error + 'r) \<times> world) \<Rightarrow> world \<Rightarrow> (db_error + 'r) \<times> world" where
  "keyed pfx what k w =
     (let (key, w) = GenerateAPIKey pfx w in
      case key of None \<Rightarrow> (Inl (AppErr (''generate '' @ what)), w) | Some t \<Rightarrow> k t w)"

definition svc_CreateWorkspace :: "Workspace \<Rightarrow> world \<Rightarrow> (db_error + Workspace) \<times> world" where
  "svc_CreateWorkspace ws w =
     (if ws_Slug ws = '''' then (Inl (AppErr ''slug is required''), w)
      else
        let (tok, w) = GenerateProvisionToken w in
        case tok of
          None \<Rightarrow> (Inl (AppErr ''generate provision token''), w)
        | Some t \<Rightarrow> stored (CreateWorkspace (ws\<lparr>ws_AgentProvisionToken := t\<rparr>)) w)"

definition svc_CreateMember :: "Member \<Rightarrow> world \<Rightarrow> (db_error + Member) \<times> world" where
  "svc_CreateMember m =
     (if mb_Type m = ''agent'' \<and> mb_APIKey m = ''''
      then keyed ''lr_'' ''api key'' (\<lambda>t. stored (CreateMember (m\<lparr>mb_APIKey := t\<rparr>)))
      else stored (CreateMember m))"

definition svc_CreateWebhook :: "Webhook \<Rightarrow> world \<Rightarrow> (db_error + Webhook) \<times> world" where
  "svc_CreateWebhook x =
     keyed ''wh_'' ''webhook secret'' (\<lambda>t. stored (CreateWebhook (x\<lparr>wh_Secret := t\<rparr>)))"

text \<open>
  The usage counter of the month a moment falls in; month gives the first instants of
  that month and of the next in the server's time zone.  The code counts in the
  background, under a context of its own; the model counts at once.
\<close>

definition recordUsage :: "(int \<Rightarrow> int \<times> int) \<Rightarrow> string \<Rightarrow> string \<Rightarrow> int \<Rightarrow> world \<Rightarrow> world" where
  "recordUsage month wid metric n w =
     (let (a, b) = month (now (db w)) in snd (on_db (IncrementUsage wid metric a b n) w))"

end
