(* ===== verification/Rest_Chat.thy ===== *)
theory Rest_Chat
  imports Rest_Core
begin

text \<open>
  api/handlers_message.go, handlers_channel.go, handlers_dm.go, handlers_reaction.go
  and handlers_pin.go: messages, channels, direct messages, read state, reactions and
  pins over HTTP.
\<close>

section \<open>Messages\<close>

definition dm_note :: "string \<Rightarrow> Message \<Rightarrow> Member \<Rightarrow> Notification" where
  "dm_note sender msg m = Notification0\<lparr>nt_MemberID := mb_ID m, nt_Type := ''dm'',
     nt_Title := ''New message from '' @ sender, nt_Body := msg_Content msg,
     nt_ChannelID := msg_ChannelID msg, nt_MessageID := msg_ID msg\<rparr>"

definition notify_dm :: "string \<Rightarrow> Message \<Rightarrow> Member \<Rightarrow> world \<Rightarrow> world" where
  "notify_dm sender msg m w =
     (if mb_ID m = msg_SenderID msg then w
      else
        let ((_, n), w) = on_db (made (CreateNotification (dm_note sender msg m))) w
        in to_member (mb_ID m) ''notification.new'' (Notification_json n) w)"

definition notifyDMRecipients :: "Message \<Rightarrow> world \<Rightarrow> world" where
  "notifyDMRecipients msg w =
     (let (ch, w) = on_db (GetChannel (msg_ChannelID msg)) w in
      case ch of
        Inl e \<Rightarrow> w
      | Inr None \<Rightarrow> w
      | Inr (Some ch) \<Rightarrow>
          if ch_Type ch \<noteq> ''dm'' \<and> ch_Type ch \<noteq> ''group_dm'' then w
          else
            let (ms, w) = on_db (ListChannelMembers (msg_ChannelID msg)) w in
            case ms of
              Inl e \<Rightarrow> w
            | Inr ms \<Rightarrow>
                let (sender, w) = on_db (GetMember (msg_SenderID msg)) w;
                    nm = (case sender of Inr (Some s) \<Rightarrow> mb_Name s | _ \<Rightarrow> ''Someone'')
                in fold (notify_dm nm msg) ms w)"

definition posted_message :: "string \<Rightarrow> Member \<Rightarrow> string list \<Rightarrow> Message" where
  "posted_message ch me fs = Message0\<lparr>msg_ChannelID := ch, msg_SenderID := mb_ID me,
     msg_Content := fs ! 0, msg_ThreadID := fs ! 1,
     msg_ContentType := (if fs ! 2 = '''' then ''text'' else fs ! 2), msg_FileID := fs ! 3\<rparr>"

definition handleCreateMessage :: "(int \<Rightarrow> int \<times> int) \<Rightarrow> request \<Rightarrow> world \<Rightarrow> answer" where
  "handleCreateMessage month q = authed q (\<lambda>me.
     let ch = URLParam q ''id'' in
     in_channel ch me (strs_body q [''content'', ''thread_id'', ''content_type'', ''file_id'']
       (\<lambda>fs w. let content = TrimSpace (fs ! 0) in
          if content = '''' then refuse 400 ''content required'' w
          else if maxContent < length content
            then refuse 400 ''content too long (max 10000 characters)'' w
          else try_made (CreateMessage (posted_message ch me (fs[0 := content]))) (\<lambda>msg w.
            let w = notifyDMRecipients msg (handleMentions msg (SendNewMessage (msg_ChannelID msg) msg w));
                (c, w) = on_db (GetChannel ch) w;
                w = (case c of Inr (Some c) \<Rightarrow> recordUsage month (ch_WorkspaceID c) ''messages'' 1 w | _ \<Rightarrow> w)
            in respond 201 (Message_json msg) w) w)))"

definition handleListMessages :: "request \<Rightarrow> world \<Rightarrow> answer" where
  "handleListMessages q = authed q (\<lambda>me.
     let ch = URLParam q ''id'' in
     in_channel ch me (
       let limit = Atoi_or (Query q ''limit''); offset = Atoi_or (Query q ''offset'');
           limit = (if limit \<le> 0 \<or> 200 < limit then 50 else limit);
           offset = (if offset < 0 then 0 else offset)
       in try_db (ListMessages ch limit offset) (\<lambda>ms. respond 200 (slice_json Message_json ms))))"

definition edit_entry :: "Member \<Rightarrow> int \<Rightarrow> Message \<Rightarrow> EditHistory" where
  "edit_entry me t msg = \<lparr>eh_ID = '''', eh_MessageID = msg_ID msg, eh_Content = msg_Content msg,
     eh_EditedAt = t, eh_EditedBy = mb_ID me\<rparr>"

definition handleUpdateMessage :: "request \<Rightarrow> world \<Rightarrow> answer" where
  "handleUpdateMessage q = authed q (\<lambda>me.
     try_db (GetMessage (URLParam q ''id'')) (\<lambda>m. found (\<lambda>_. True) ''message not found'' m (\<lambda>old w.
       if msg_SenderID old \<noteq> mb_ID me then refuse 403 ''not message author'' w
       else decodeAndProtect Message_member q old
         (\<lambda>m. m\<lparr>msg_ID := msg_ID old, msg_ChannelID := msg_ChannelID old,
              msg_SenderID := msg_SenderID old, msg_CreatedAt := msg_CreatedAt old\<rparr>)
         (\<lambda>m w.
            let w = (if msg_Content m \<noteq> ''''
                     then snd (on_db (made (CreateEditHistory (edit_entry me (now (db w)) m))) w) else w)
            in try_made (UpdateMessage (trackMessageEdit (now (db w)) m))
                 (\<lambda>m w. respond 200 (Message_json m)
                    (to_channel (msg_ChannelID m) ''message.edit'' (Message_json m) w)) w) w)))"

definition handleDeleteMessage :: "request \<Rightarrow> world \<Rightarrow> answer" where
  "handleDeleteMessage q = authed q (\<lambda>me.
     try_db (GetMessage (URLParam q ''id'')) (\<lambda>m. found (\<lambda>_. True) ''message not found'' m (\<lambda>m w.
       let (ch, w) = on_db (GetChannel (msg_ChannelID m)) w in
       case ch of
         Inr (Some ch) \<Rightarrow>
           if ch_WorkspaceID ch \<noteq> mb_WorkspaceID me then refuse 404 ''message not found'' w
           else if msg_SenderID m \<noteq> mb_ID me then refuse 403 ''not message author'' w
           else try_db (DeleteMessage (URLParam q ''id'')) (\<lambda>_. empty_answer) w
       | _ \<Rightarrow> refuse 404 ''message not found'' w)))"

definition handleGetThread :: "request \<Rightarrow> world \<Rightarrow> answer" where
  "handleGetThread q = authed q (\<lambda>me.
     let i = URLParam q ''id'' in
     try_db (GetMessage i) (\<lambda>m. found (\<lambda>_. True) ''thread not found'' m (\<lambda>m.
       in_channel (msg_ChannelID m) me
         (try_db (ListThreadMessages i) (\<lambda>ms. respond 200 (slice_json Message_json ms))))))"

definition handleSearch :: "(string \<Rightarrow> string \<Rightarrow> bool) \<Rightarrow> request \<Rightarrow> world \<Rightarrow> answer" where
  "handleSearch fts q = authed q (\<lambda>me w.
     if Query q ''q'' = '''' then refuse 400 ''q is required'' w
     else
       let limit = Atoi_or (Query q ''limit'');
           limit = (if limit \<le> 0 \<or> 100 < limit then 50 else limit)
       in try_db (SearchMessages fts (Query q ''q'') (Query q ''channel'') (mb_WorkspaceID me) limit)
            (\<lambda>ms. respond 200 (slice_json Message_json ms)) w)"

definition handleGetEditHistory :: "request \<Rightarrow> world \<Rightarrow> answer" where
  "handleGetEditHistory q = authed q (\<lambda>me.
     let i = URLParam q ''id'' in
     try_db (GetMessage i) (\<lambda>m. found (\<lambda>_. True) ''message not found'' m (\<lambda>m.
       in_channel (msg_ChannelID m) me
         (try_db (ListEditHistory i) (\<lambda>hs. respond 200 (slice_json EditHistory_json hs))))))"

section \<open>Channels\<close>

text \<open>The request's own struct has five of the channel's members.\<close>

definition NewChannel_member :: "string \<Rightarrow> json \<Rightarrow> Channel \<Rightarrow> Channel option" where
  "NewChannel_member k j d =
     (if key_eq k ''name'' then set_str (\<lambda>v d. d\<lparr>ch_Name := v\<rparr>) j d
      else if key_eq k ''type'' then set_str (\<lambda>v d. d\<lparr>ch_Type := v\<rparr>) j d
      else if key_eq k ''topic'' then set_str (\<lambda>v d. d\<lparr>ch_Topic := v\<rparr>) j d
      else if key_eq k ''category'' then set_str (\<lambda>v d. d\<lparr>ch_Category := v\<rparr>) j d
      else if key_eq k ''is_private'' then set_bool (\<lambda>v d. d\<lparr>ch_IsPrivate := v\<rparr>) j d
      else Some d)"

definition handleCreateChannel :: "request \<Rightarrow> world \<Rightarrow> answer" where
  "handleCreateChannel q = in_workspace q (URLParam q ''id'') (\<lambda>me.
     decoded (unmarshal NewChannel_member (rq_body q) (Channel0\<lparr>ch_WorkspaceID := URLParam q ''id''\<rparr>)) (\<lambda>c w.
       if ch_Name c = '''' then refuse 400 ''name required'' w
       else
         let c = (if ch_Type c = '''' then c\<lparr>ch_Type := ''channel''\<rparr> else c) in
         if ch_Type c \<noteq> ''channel'' \<and> ch_Type c \<noteq> ''dm'' \<and> ch_Type c \<noteq> ''group_dm''
           then refuse 400 ''invalid channel type (must be channel, dm, or group_dm)'' w
         else try_made (CreateChannel c) (\<lambda>c. respond 201 (Channel_json c)) w))"

definition handleListChannels :: "request \<Rightarrow> world \<Rightarrow> answer" where
  "handleListChannels q = in_workspace q (URLParam q ''id'') (\<lambda>me.
     let wid = URLParam q ''id''; limit = Atoi_or (Query q ''limit''); offset = Atoi_or (Query q ''offset'')
     in try_db (if 0 < limit then ListChannelsPaginated wid limit offset else ListChannels wid)
          (\<lambda>cs. respond 200 (slice_json Channel_json cs)))"

text \<open>A channel of the caller's workspace, as every handler on one channel looks it up.\<close>

definition own_channel :: "request \<Rightarrow> Member \<Rightarrow> (Channel \<Rightarrow> world \<Rightarrow> answer) \<Rightarrow> world \<Rightarrow> answer" where
  "own_channel q me k = try_db (GetChannel (URLParam q ''channelID'')) (\<lambda>c.
     found (\<lambda>c. ch_WorkspaceID c = mb_WorkspaceID me) ''channel not found'' c k)"

definition handleGetChannel :: "request \<Rightarrow> world \<Rightarrow> answer" where
  "handleGetChannel q = authed q (\<lambda>me. own_channel q me (\<lambda>c. respond 200 (Channel_json c)))"

definition handleUpdateChannel :: "request \<Rightarrow> world \<Rightarrow> answer" where
  "handleUpdateChannel q = authed q (\<lambda>me. own_channel q me (\<lambda>old.
     decodeAndProtect Channel_member q old
       (\<lambda>c. c\<lparr>ch_ID := ch_ID old, ch_WorkspaceID := ch_WorkspaceID old, ch_Type := ch_Type old\<rparr>)
       (\<lambda>c. try_made (UpdateChannel c) (\<lambda>c. respond 200 (Channel_json c)))))"

definition handleDeleteChannel :: "request \<Rightarrow> world \<Rightarrow> answer" where
  "handleDeleteChannel q = authed q (\<lambda>me. own_channel q me (\<lambda>c.
     try_db (DeleteChannel (URLParam q ''channelID'')) (\<lambda>_. empty_answer)))"

definition handleAddChannelMember :: "request \<Rightarrow> world \<Rightarrow> answer" where
  "handleAddChannelMember q = in_workspace q (URLParam q ''id'') (\<lambda>me.
     strs_body q [''member_id''] (\<lambda>fs.
       try_db (AddChannelMember (URLParam q ''channelID'') (fs ! 0)) (\<lambda>_. empty_answer)))"

definition handleRemoveChannelMember :: "request \<Rightarrow> world \<Rightarrow> answer" where
  "handleRemoveChannelMember q = in_workspace q (URLParam q ''id'') (\<lambda>me.
     try_db (RemoveChannelMember (URLParam q ''channelID'') (URLParam q ''memberID'')) (\<lambda>_ w.
       empty_answer (kick (URLParam q ''channelID'') (URLParam q ''memberID'') w)))"

definition handleSearchChannels :: "request \<Rightarrow> world \<Rightarrow> answer" where
  "handleSearchChannels q = in_workspace q (URLParam q ''id'') (\<lambda>me w.
     if Query q ''q'' = '''' then refuse 400 ''q is required'' w
     else try_db (SearchChannels (URLParam q ''id'') (Query q ''q'') (Atoi_or (Query q ''limit'')))
            (\<lambda>cs. respond 200 (slice_json Channel_json cs)) w)"

definition set_archived :: "bool \<Rightarrow> request \<Rightarrow> world \<Rightarrow> answer" where
  "set_archived b q = authed q (\<lambda>me. own_channel q me (\<lambda>c.
     try_made (UpdateChannel (c\<lparr>ch_IsArchived := b\<rparr>)) (\<lambda>c. respond 200 (Channel_json c))))"

definition handleArchiveChannel :: "request \<Rightarrow> world \<Rightarrow> answer" where
  "handleArchiveChannel = set_archived True"

definition handleUnarchiveChannel :: "request \<Rightarrow> world \<Rightarrow> answer" where
  "handleUnarchiveChannel = set_archived False"

section \<open>Direct messages and read state\<close>

definition NewDM_member :: "string \<Rightarrow> json \<Rightarrow> string list \<times> string \<Rightarrow> (string list \<times> string) option" where
  "NewDM_member k j d =
     (if key_eq k ''member_ids'' then set_strs (\<lambda>v (_, n). (v, n)) j d
      else if key_eq k ''name'' then set_str (\<lambda>v (ids, _). (ids, v)) j d
      else Some d)"

definition handleCreateDM :: "request \<Rightarrow> world \<Rightarrow> answer" where
  "handleCreateDM q = authed q (\<lambda>me.
     decoded (unmarshal NewDM_member (rq_body q) ([], '''')) (\<lambda>(ids, nm) w.
       if mb_ID me \<notin> set ids
         then refuse 403 ''authenticated member must be included in member_ids'' w
       else if length ids < 2 then refuse 400 ''at least 2 member_ids required'' w
       else
         let wid = URLParam q ''id''; (ex, w) = on_db (GetDMChannel wid ids) w in
         case ex of
           Inr (Some c) \<Rightarrow> respond 200 (Channel_json c) w
         | _ \<Rightarrow>
             let c = Channel0\<lparr>ch_WorkspaceID := wid, ch_Name := nm,
                   ch_Type := (if 2 < length ids then ''group_dm'' else ''dm'')\<rparr>
             in try_made (\<lambda>s. CreateDMChannel c ids s) (\<lambda>c. respond 201 (Channel_json c)) w))"

definition handleListDMs :: "request \<Rightarrow> world \<Rightarrow> answer" where
  "handleListDMs q = authed q (\<lambda>me w.
     if mb_ID me \<noteq> URLParam q ''id'' then refuse 403 ''cannot list another member's DMs'' w
     else try_db (ListDMChannels (URLParam q ''id'')) (\<lambda>cs. respond 200 (slice_json Channel_json cs)) w)"

definition handleGetUnread :: "request \<Rightarrow> world \<Rightarrow> answer" where
  "handleGetUnread q = authed q (\<lambda>me w.
     if mb_ID me \<noteq> URLParam q ''id'' then refuse 403 ''cannot view another member's unread counts'' w
     else try_db (GetUnreadCounts (URLParam q ''id''))
            (\<lambda>m. respond 200 (map_json JNum m)) w)"

definition handleMarkRead :: "request \<Rightarrow> world \<Rightarrow> answer" where
  "handleMarkRead q = authed q (\<lambda>me.
     try_db (UpdateLastRead (URLParam q ''id'') (mb_ID me)) (\<lambda>_. empty_answer))"

definition handleNotificationPreference :: "request \<Rightarrow> world \<Rightarrow> answer" where
  "handleNotificationPreference q = authed q (\<lambda>me. strs_body q [''preference''] (\<lambda>fs w.
     if fs ! 0 \<noteq> ''all'' \<and> fs ! 0 \<noteq> ''mentions'' \<and> fs ! 0 \<noteq> ''none''
       then refuse 400 ''preference must be all, mentions, or none'' w
     else try_db (UpdateNotificationPreference (URLParam q ''id'') (mb_ID me) (fs ! 0)) (\<lambda>_. empty_answer) w))"

section \<open>Reactions and pins\<close>

definition handleAddReaction :: "request \<Rightarrow> world \<Rightarrow> answer" where
  "handleAddReaction q = authed q (\<lambda>me. strs_body q [''emoji''] (\<lambda>fs.
     try_made (AddReaction \<lparr>rx_MessageID = URLParam q ''id'', rx_MemberID = mb_ID me,
         rx_Emoji = fs ! 0, rx_CreatedAt = 0\<rparr>)
       (\<lambda>rx w. respond 201 (Reaction_json rx) (broadcastReactionEvent (rx_MessageID rx) rx w))))"

definition handleListReactions :: "request \<Rightarrow> world \<Rightarrow> answer" where
  "handleListReactions q = authed q (\<lambda>me.
     try_db (ListReactions (URLParam q ''id'')) (\<lambda>rs. respond 200 (slice_json Reaction_json rs)))"

definition handleRemoveReaction :: "request \<Rightarrow> world \<Rightarrow> answer" where
  "handleRemoveReaction q = authed q (\<lambda>me.
     let i = URLParam q ''id''; emoji = URLParam q ''emoji'' in
     try_db (RemoveReaction i (mb_ID me) emoji) (\<lambda>_ w.
       let (m, w) = on_db (GetMessage i) w;
           w = (case m of
                  Inr (Some m) \<Rightarrow> to_channel (msg_ChannelID m) ''reaction.remove''
                    (str_obj [(''emoji'', emoji), (''member_id'', mb_ID me), (''message_id'', i)]) w
                | _ \<Rightarrow> w)
       in empty_answer w))"

definition handlePinMessage :: "request \<Rightarrow> world \<Rightarrow> answer" where
  "handlePinMessage q = authed q (\<lambda>me.
     let ch = URLParam q ''id'' in
     in_channel ch me (strs_body q [''message_id''] (\<lambda>fs w.
       if fs ! 0 = '''' then refuse 400 ''message_id required'' w
       else try_made (CreatePin \<lparr>pin_ID = '''', pin_MessageID = fs ! 0, pin_ChannelID = ch,
                pin_PinnedBy = mb_ID me, pin_CreatedAt = 0\<rparr>)
              (\<lambda>p w. respond 201 (Pin_json p) (broadcastPinEvent ch p w)) w)))"

definition handleListPins :: "request \<Rightarrow> world \<Rightarrow> answer" where
  "handleListPins q = authed q (\<lambda>me.
     in_channel (URLParam q ''id'') me
       (try_db (ListPins (URLParam q ''id'')) (\<lambda>ps. respond 200 (slice_json Pin_json ps))))"

definition handleUnpinMessage :: "request \<Rightarrow> world \<Rightarrow> answer" where
  "handleUnpinMessage q = authed q (\<lambda>me.
     let i = URLParam q ''id'' in
     try_db (ListPinsByMessage i) (\<lambda>ps w.
       case ps of
         [] \<Rightarrow> refuse 404 ''pin not found'' w
       | p # _ \<Rightarrow> in_channel (pin_ChannelID p) me (try_db (DeletePin i) (\<lambda>_. empty_answer)) w))"

end
