(* ===== verification/Rest_Work.thy ===== *)
theory Rest_Work
  imports Rest_Core
begin

text \<open>
  api/handlers_task.go, handlers_approval.go, handlers_webhook.go, handlers_draft.go,
  handlers_agent_inbox.go, handlers_notification.go, handlers_agent_workspace.go,
  handlers_review.go and handlers_call.go: the work items of a workspace and its
  agents over HTTP.
\<close>

section \<open>Tasks\<close>

definition posted_task :: "string \<Rightarrow> Member \<Rightarrow> string list \<Rightarrow> Task" where
  "posted_task wid me fs = Task0\<lparr>task_WorkspaceID := wid, task_Title := fs ! 0,
     task_Description := fs ! 1, task_AssignedTo := fs ! 2, task_CreatedBy := mb_ID me,
     task_ChannelID := fs ! 3, task_Priority := (if fs ! 4 = '''' then ''medium'' else fs ! 4)\<rparr>"

definition announce_task :: "nat \<Rightarrow> Task \<Rightarrow> world \<Rightarrow> answer" where
  "announce_task st t w = respond st (Task_json t) (notifyAssignee t (broadcastTaskEvent t w))"

definition handleCreateTask :: "request \<Rightarrow> world \<Rightarrow> answer" where
  "handleCreateTask q = in_workspace q (URLParam q ''id'') (\<lambda>me.
     strs_body q [''title'', ''description'', ''assigned_to'', ''channel_id'', ''priority''] (\<lambda>fs w.
       if fs ! 0 = '''' then refuse 400 ''title required'' w
       else
         let t = posted_task (URLParam q ''id'') me fs in
         if task_Priority t \<noteq> ''low'' \<and> task_Priority t \<noteq> ''medium'' \<and> task_Priority t \<noteq> ''high''
             \<and> task_Priority t \<noteq> ''urgent''
           then refuse 400 ''invalid priority (must be low, medium, high, or urgent)'' w
         else try_made (CreateTask t) (announce_task 201) w))"

definition handleListTasks :: "request \<Rightarrow> world \<Rightarrow> answer" where
  "handleListTasks q = in_workspace q (URLParam q ''id'') (\<lambda>me.
     try_db (ListTasks (URLParam q ''id'') (Query q ''status'')) (\<lambda>ts. respond 200 (slice_json Task_json ts)))"

definition own_task :: "request \<Rightarrow> Member \<Rightarrow> (Task \<Rightarrow> world \<Rightarrow> answer) \<Rightarrow> world \<Rightarrow> answer" where
  "own_task q me k = try_db (GetTask (URLParam q ''id'')) (\<lambda>t.
     found (\<lambda>t. task_WorkspaceID t = mb_WorkspaceID me) ''task not found'' t k)"

definition handleUpdateTask :: "request \<Rightarrow> world \<Rightarrow> answer" where
  "handleUpdateTask q = authed q (\<lambda>me. own_task q me (\<lambda>old.
     decodeAndProtect Task_member q old
       (\<lambda>t. t\<lparr>task_ID := task_ID old, task_WorkspaceID := task_WorkspaceID old,
            task_CreatedBy := task_CreatedBy old, task_CreatedAt := task_CreatedAt old\<rparr>)
       (\<lambda>t. try_made (UpdateTask t) (announce_task 200))))"

definition handleDeleteTask :: "request \<Rightarrow> world \<Rightarrow> answer" where
  "handleDeleteTask q = authed q (\<lambda>me. own_task q me (\<lambda>t. try_db (DeleteTask (task_ID t)) (\<lambda>_. empty_answer)))"

section \<open>Approvals\<close>

definition handleCreateApproval :: "request \<Rightarrow> world \<Rightarrow> answer" where
  "handleCreateApproval q = in_workspace q (URLParam q ''id'') (\<lambda>me.
     strs_body q [''channel_id'', ''action'', ''payload''] (\<lambda>fs w.
       if fs ! 1 = '''' then refuse 400 ''action required'' w
       else try_made (CreateApproval (ApprovalRequest0\<lparr>apr_WorkspaceID := URLParam q ''id'',
                apr_AgentID := mb_ID me, apr_ChannelID := fs ! 0, apr_Action := fs ! 1,
                apr_Payload := fs ! 2\<rparr>))
              (\<lambda>a w. respond 201 (ApprovalRequest_json a)
                 (to_all ''approval.request'' (ApprovalRequest_json a) w)) w))"

definition handleGetApproval :: "request \<Rightarrow> world \<Rightarrow> answer" where
  "handleGetApproval q = authed q (\<lambda>me. try_db (GetApproval (URLParam q ''id'')) (\<lambda>a.
     found (\<lambda>a. apr_WorkspaceID a = mb_WorkspaceID me) ''approval not found'' a
       (\<lambda>a. respond 200 (ApprovalRequest_json a))))"

definition handleListApprovals :: "request \<Rightarrow> world \<Rightarrow> answer" where
  "handleListApprovals q = in_workspace q (URLParam q ''id'') (\<lambda>me.
     try_db (ListApprovals (URLParam q ''id'') (Query q ''status''))
       (\<lambda>as. respond 200 (slice_json ApprovalRequest_json as)))"

definition Verdict_member :: "string \<Rightarrow> json \<Rightarrow> bool \<times> string \<Rightarrow> (bool \<times> string) option" where
  "Verdict_member k j d =
     (if key_eq k ''approved'' then set_bool (\<lambda>v (_, n). (v, n)) j d
      else if key_eq k ''note'' then set_str (\<lambda>v (b, _). (b, v)) j d
      else Some d)"

definition handleReviewApproval :: "request \<Rightarrow> world \<Rightarrow> answer" where
  "handleReviewApproval q = authed q (\<lambda>me. try_db (GetApproval (URLParam q ''id'')) (\<lambda>a.
     found (\<lambda>_. True) ''approval not found'' a (\<lambda>a w.
       if apr_Status a \<noteq> ''pending'' then refuse 400 ''already reviewed'' w
       else decoded (unmarshal Verdict_member (rq_body q) (False, '''')) (\<lambda>(ok, note) w.
         let a = a\<lparr>apr_Status := (if ok then ''approved'' else ''denied''), apr_ReviewerID := mb_ID me,
               apr_ReviewNote := note, apr_ReviewedAt := now (db w)\<rparr>
         in try_db (UpdateApproval a) (\<lambda>_ w. respond 200 (ApprovalRequest_json a)
              (to_all ''approval.result'' (ApprovalRequest_json a) w)) w) w)))"

section \<open>Webhooks\<close>

definition handleCreateWebhook :: "request \<Rightarrow> world \<Rightarrow> answer" where
  "handleCreateWebhook q = in_workspace q (URLParam q ''id'') (\<lambda>me.
     strs_body q [''channel_id'', ''name''] (\<lambda>fs w.
       if fs ! 0 = '''' \<or> fs ! 1 = '''' then refuse 400 ''channel_id and name required'' w
       else try_svc (svc_CreateWebhook (Webhook0\<lparr>wh_WorkspaceID := URLParam q ''id'', wh_ChannelID := fs ! 0,
                wh_Name := fs ! 1, wh_CreatedBy := mb_ID me\<rparr>))
              (\<lambda>h. respond 201 (Webhook_json h)) w))"

definition masked :: "Webhook \<Rightarrow> Webhook" where
  "masked h = (if 8 < length (wh_Secret h) then h\<lparr>wh_Secret := take 8 (wh_Secret h) @ ''...''\<rparr> else h)"

definition handleListWebhooks :: "request \<Rightarrow> world \<Rightarrow> answer" where
  "handleListWebhooks q = in_workspace q (URLParam q ''id'') (\<lambda>me.
     try_db (ListWebhooks (URLParam q ''id'')) (\<lambda>hs. respond 200 (slice_json (\<lambda>h. Webhook_json (masked h)) hs)))"

definition handleDeleteWebhook :: "request \<Rightarrow> world \<Rightarrow> answer" where
  "handleDeleteWebhook q = authed q (\<lambda>me. try_db (GetWebhook (URLParam q ''id'')) (\<lambda>h.
     found (\<lambda>h. wh_WorkspaceID h = mb_WorkspaceID me) ''webhook not found'' h (\<lambda>h.
       try_db (DeleteWebhook (URLParam q ''id'')) (\<lambda>_. empty_answer))))"

definition handleWebhookExecute :: "request \<Rightarrow> world \<Rightarrow> answer" where
  "handleWebhookExecute q = try_db (GetWebhook (URLParam q ''id'')) (\<lambda>h w.
     case h of
       None \<Rightarrow> refuse 401 ''invalid webhook'' w
     | Some h \<Rightarrow>
         if wh_Secret h \<noteq> URLParam q ''secret'' then refuse 401 ''invalid webhook'' w
         else strs_body q [''content'', ''text''] (\<lambda>fs w.
           let content = (if fs ! 0 = '''' then fs ! 1 else fs ! 0) in
           if content = '''' then refuse 400 ''content or text required'' w
           else try_made (CreateMessage (Message0\<lparr>msg_ChannelID := wh_ChannelID h,
                    msg_SenderID := wh_CreatedBy h, msg_Content := content\<rparr>))
                  (\<lambda>m w. respond 201 (str_obj [(''message_id'', msg_ID m), (''status'', ''ok'')])
                     (SendNewMessage (msg_ChannelID m) m w)) w) w)"

section \<open>Held drafts\<close>

definition bad_body :: "world \<Rightarrow> answer" where
  "bad_body = refuse_code 400 ''BAD_REQUEST'' ''invalid request body''"

definition posted_draft :: "string \<Rightarrow> string list \<Rightarrow> int \<Rightarrow> int \<Rightarrow> HeldDraft" where
  "posted_draft a fs v t = HeldDraft0\<lparr>hd_AgentID := a, hd_ChannelID := fs ! 0, hd_Content := fs ! 1,
     hd_ThreadID := fs ! 2, hd_RoomVersion := v, hd_Status := ''held'', hd_ExpiresAt := t + 600000\<rparr>"

definition handleCreateDraft :: "request \<Rightarrow> world \<Rightarrow> answer" where
  "handleCreateDraft q w =
     (case unmarshal_strs [''channel_id'', ''content'', ''thread_id''] (rq_body q) of
        None \<Rightarrow> bad_body w
      | Some fs \<Rightarrow>
          if fs ! 0 = '''' \<or> fs ! 1 = ''''
            then refuse_code 400 ''BAD_REQUEST'' ''channel_id and content are required'' w
          else try_db (GetChannelRoomVersion (fs ! 0)) (\<lambda>v w.
            try_made (CreateDraft (posted_draft (URLParam q ''id'') fs v (now (db w))))
              (\<lambda>d. respond 201 (HeldDraft_json d)) w) w)"

definition handleListDrafts :: "request \<Rightarrow> world \<Rightarrow> answer" where
  "handleListDrafts q = try_db (ListDrafts (URLParam q ''id'') (Query q ''status''))
     (\<lambda>ds. respond 200 (slice_json HeldDraft_json ds))"

definition draft_verdict :: "HeldDraft \<Rightarrow> int \<Rightarrow> json option \<Rightarrow> json" where
  "draft_verdict d cur recent = JObj ([(''current_version'', JNum cur), (''draft_id'', JStr (hd_ID d)),
     (''draft_version'', JNum (hd_RoomVersion d))]
     @ (case recent of None \<Rightarrow> [] | Some j \<Rightarrow> [(''recent_messages'', j)])
     @ [(''valid'', JBool (cur - hd_RoomVersion d \<le> staleAfter)),
        (''version_delta'', JNum (cur - hd_RoomVersion d))])"

definition handleValidateDraft :: "request \<Rightarrow> world \<Rightarrow> answer" where
  "handleValidateDraft q = found_code (GetDraft (URLParam q ''id'')) ''draft not found'' (\<lambda>d.
     try_db (GetChannelRoomVersion (hd_ChannelID d)) (\<lambda>cur w.
       if staleAfter < cur - hd_RoomVersion d then
         let (ms, w) = on_db (GetRecentMessages (hd_ChannelID d) 5) w in
         respond 200 (draft_verdict d cur (Some (case ms of Inl e \<Rightarrow> JNull
           | Inr ms \<Rightarrow> slice_json Message_json ms))) w
       else respond 200 (draft_verdict d cur None) w))"

definition Force_member :: "string \<Rightarrow> json \<Rightarrow> bool \<Rightarrow> bool option" where
  "Force_member k j d = (if key_eq k ''force_version'' then set_bool (\<lambda>v _. v) j d else Some d)"

text \<open>
  A body that does not decode is ignored.  Decoding sets the members that fit even
  when another does not; the one member of this body is then left alone.
\<close>

definition force_flag :: "request \<Rightarrow> bool" where
  "force_flag q = (case rq_body q of
     Some (JObj kvs) \<Rightarrow> fold (\<lambda>(k, j) b. case Force_member k j b of None \<Rightarrow> b | Some b' \<Rightarrow> b') kvs False
   | _ \<Rightarrow> False)"

definition handleSendDraft :: "request \<Rightarrow> world \<Rightarrow> answer" where
  "handleSendDraft q = found_code (GetDraft (URLParam q ''id'')) ''draft not found'' (\<lambda>d w.
     if hd_Status d \<noteq> ''held'' then refuse_code 400 ''BAD_REQUEST'' ''draft is not in held status'' w
     else
       let (v, w) = on_db (GetChannelRoomVersion (hd_ChannelID d)) w;
           cur = (case v of Inl e \<Rightarrow> 0 | Inr v \<Rightarrow> v) in
       if staleAfter < cur - hd_RoomVersion d \<and> \<not> force_flag q
         then refuse_code 409 ''BAD_REQUEST'' ''draft is stale, use force_version to override'' w
       else try_made (CreateMessage (draft_message d)) (\<lambda>m w.
         let (_, w) = on_db (UpdateDraftStatus (URLParam q ''id'') ''sent'') w;
             w = SendNewMessage (hd_ChannelID d) m w
         in respond 200 (str_obj [(''message_id'', msg_ID m), (''status'', ''sent'')]) w) w)"

definition handleCancelDraft :: "request \<Rightarrow> world \<Rightarrow> answer" where
  "handleCancelDraft q = try_db (UpdateDraftStatus (URLParam q ''id'') ''cancelled'')
     (\<lambda>_. respond 200 (str_obj [(''status'', ''cancelled'')]))"

section \<open>Agent inbox and notifications\<close>

definition inbox_query :: "request \<Rightarrow> InboxOptions" where
  "inbox_query q = \<lparr>io_SourceType = Query q ''source_type'', io_Priority = Query q ''priority'',
     io_UnreadOnly = (Query q ''unread_only'' = ''true''),
     io_Since = (if Query q ''since'' = '''' then 0 else Atoi_or (Query q ''since'')),
     io_Limit = (if Query q ''limit'' = '''' then 0 else Atoi_or (Query q ''limit''))\<rparr>"

definition handleListAgentInbox :: "request \<Rightarrow> world \<Rightarrow> answer" where
  "handleListAgentInbox q = try_db (ListAgentInbox (URLParam q ''id'') (inbox_query q))
     (\<lambda>ns. respond 200 (slice_json Notification_json ns))"

definition handleCountAgentInbox :: "request \<Rightarrow> world \<Rightarrow> answer" where
  "handleCountAgentInbox q = try_db (CountAgentInbox (URLParam q ''id''))
     (\<lambda>n. respond 200 (JObj [(''count'', JNum n)]))"

definition handleAckInboxItem :: "request \<Rightarrow> world \<Rightarrow> answer" where
  "handleAckInboxItem q = try_db (AckInboxItem (URLParam q ''itemID''))
     (\<lambda>_. respond 200 (str_obj [(''status'', ''ok'')]))"

definition handleAckAllInbox :: "request \<Rightarrow> world \<Rightarrow> answer" where
  "handleAckAllInbox q = try_db (AckAllInbox (URLParam q ''id''))
     (\<lambda>_. respond 200 (str_obj [(''status'', ''ok'')]))"

text \<open>A positive number in the query, else the default.\<close>

definition limit_param :: "int \<Rightarrow> request \<Rightarrow> int" where
  "limit_param dflt q = (case Atoi (Query q ''limit'') of None \<Rightarrow> dflt | Some n \<Rightarrow> if 0 < n then n else dflt)"

definition handleListNotifications :: "request \<Rightarrow> world \<Rightarrow> answer" where
  "handleListNotifications q = authed q (\<lambda>me.
     try_db (ListNotifications (mb_ID me) (Query q ''unread'' = ''true'') (limit_param 50 q))
       (\<lambda>ns. respond 200 (slice_json Notification_json ns)))"

definition handleMarkNotificationRead :: "request \<Rightarrow> world \<Rightarrow> answer" where
  "handleMarkNotificationRead q = authed q (\<lambda>me.
     try_db (MarkNotificationRead (URLParam q ''id'')) (\<lambda>_. empty_answer))"

definition handleMarkAllNotificationsRead :: "request \<Rightarrow> world \<Rightarrow> answer" where
  "handleMarkAllNotificationsRead q = authed q (\<lambda>me.
     try_db (MarkAllNotificationsRead (mb_ID me)) (\<lambda>_. empty_answer))"

definition handleCountUnreadNotifications :: "request \<Rightarrow> world \<Rightarrow> answer" where
  "handleCountUnreadNotifications q = authed q (\<lambda>me.
     try_db (CountUnreadNotifications (mb_ID me)) (\<lambda>n. respond 200 (JObj [(''count'', JNum n)])))"

section \<open>Calls\<close>

definition handleListCalls :: "request \<Rightarrow> world \<Rightarrow> answer" where
  "handleListCalls q = authed q (\<lambda>me.
     try_db (ListCalls (mb_ID me) (limit_param 20 q)) (\<lambda>cs. respond 200 (slice_json Call_json cs)))"

definition handleGetCall :: "request \<Rightarrow> world \<Rightarrow> answer" where
  "handleGetCall q = try_db (GetCall (URLParam q ''id'')) (\<lambda>c.
     found (\<lambda>_. True) ''call not found'' c (\<lambda>c. respond 200 (Call_json c)))"

section \<open>Agent workspace\<close>

definition with_defaults :: "string \<Rightarrow> AgentWorkspaceItem \<Rightarrow> AgentWorkspaceItem" where
  "with_defaults a x = x\<lparr>wsi_AgentID := a,
     wsi_Namespace := (if wsi_Namespace x = '''' then ''default'' else wsi_Namespace x),
     wsi_MimeType := (if wsi_MimeType x = '''' then ''text/plain'' else wsi_MimeType x)\<rparr>"

definition handleCreateWorkspaceItem :: "request \<Rightarrow> world \<Rightarrow> answer" where
  "handleCreateWorkspaceItem q w =
     (case unmarshal AgentWorkspaceItem_member (rq_body q) AgentWorkspaceItem0 of
        None \<Rightarrow> bad_body w
      | Some x \<Rightarrow>
          if wsi_Name x = '''' then refuse_code 400 ''BAD_REQUEST'' ''name is required'' w
          else found_code (GetMember (URLParam q ''id'')) ''agent not found'' (\<lambda>m.
            try_made (CreateWorkspaceItem ((with_defaults (URLParam q ''id'') x)\<lparr>wsi_WorkspaceID := mb_WorkspaceID m\<rparr>))
              (\<lambda>x. respond 201 (AgentWorkspaceItem_json x))) w)"

definition handleListWorkspaceItems :: "request \<Rightarrow> world \<Rightarrow> answer" where
  "handleListWorkspaceItems q = try_db (ListWorkspaceItems (URLParam q ''id'') (Query q ''namespace''))
     (\<lambda>xs. respond 200 (slice_json AgentWorkspaceItem_json xs))"

definition handleGetWorkspaceItem :: "request \<Rightarrow> world \<Rightarrow> answer" where
  "handleGetWorkspaceItem q = found_code (GetWorkspaceItem (URLParam q ''itemID'')) ''item not found''
     (\<lambda>x. respond 200 (AgentWorkspaceItem_json x))"

definition handleUpdateWorkspaceItem :: "request \<Rightarrow> world \<Rightarrow> answer" where
  "handleUpdateWorkspaceItem q = found_code (GetWorkspaceItem (URLParam q ''itemID'')) ''item not found'' (\<lambda>old w.
     case unmarshal AgentWorkspaceItem_member (rq_body q) AgentWorkspaceItem0 of
       None \<Rightarrow> bad_body w
     | Some x \<Rightarrow>
         let x = x\<lparr>wsi_ID := URLParam q ''itemID'', wsi_AgentID := wsi_AgentID old,
               wsi_WorkspaceID := wsi_WorkspaceID old,
               wsi_Namespace := (if wsi_Namespace x = '''' then wsi_Namespace old else wsi_Namespace x)\<rparr>
         in try_made (UpdateWorkspaceItem x) (\<lambda>x. respond 200 (AgentWorkspaceItem_json x)) w)"

definition handleDeleteWorkspaceItem :: "request \<Rightarrow> world \<Rightarrow> answer" where
  "handleDeleteWorkspaceItem q = try_db (DeleteWorkspaceItem (URLParam q ''itemID''))
     (\<lambda>_. respond 200 (str_obj [(''status'', ''deleted'')]))"

definition handleSearchWorkspaceItems :: "request \<Rightarrow> world \<Rightarrow> answer" where
  "handleSearchWorkspaceItems q w =
     (if Query q ''q'' = '''' then refuse_code 400 ''BAD_REQUEST'' ''q parameter is required'' w
      else try_db (SearchWorkspaceItems (URLParam q ''id'') (Query q ''q''))
             (\<lambda>xs. respond 200 (slice_json AgentWorkspaceItem_json xs)) w)"

section \<open>Reviews\<close>

definition posted_review :: "string \<Rightarrow> Member \<Rightarrow> string list \<Rightarrow> ReviewRequest" where
  "posted_review wid me fs = ReviewRequest0\<lparr>rr_WorkspaceID := wid, rr_ChannelID := fs ! 3,
     rr_RequesterID := mb_ID me, rr_ReviewerID := fs ! 0, rr_Subject := fs ! 1,
     rr_Content := fs ! 2, rr_Status := ''pending''\<rparr>"

text \<open>The message and the notification are written whatever becomes of them.\<close>

definition post_and_notify :: "Message \<Rightarrow> (Message \<Rightarrow> Notification) \<Rightarrow> world \<Rightarrow> world" where
  "post_and_notify msg note w =
     (let ((_, msg), w) = on_db (made (CreateMessage msg)) w;
          w = SendNewMessage (msg_ChannelID msg) msg w;
          ((_, n), w) = on_db (made (CreateNotification (note msg))) w
      in to_member (nt_MemberID n) ''notification.new'' (Notification_json n) w)"

definition review_message :: "ReviewRequest \<Rightarrow> Message" where
  "review_message rr = Message0\<lparr>msg_ChannelID := rr_ChannelID rr, msg_SenderID := rr_RequesterID rr,
     msg_Content := ''Review requested: '' @ rr_Subject rr, msg_Type := ''text'',
     msg_Metadata := Some (str_obj [(''type'', ''review_request''), (''review_id'', rr_ID rr)])\<rparr>"

definition review_note :: "string \<Rightarrow> ReviewRequest \<Rightarrow> Message \<Rightarrow> Notification" where
  "review_note nm rr msg = Notification0\<lparr>nt_MemberID := rr_ReviewerID rr, nt_Type := ''review_request'',
     nt_Title := ''Review requested'', nt_Body := nm @ '' requested your review: '' @ rr_Subject rr,
     nt_ChannelID := rr_ChannelID rr, nt_MessageID := msg_ID msg, nt_SourceType := ''review_request'',
     nt_Priority := ''high'', nt_AckRequired := True,
     nt_Payload := review_payload (rr_ID rr) (rr_ChannelID rr)\<rparr>"

definition handleCreateReview :: "request \<Rightarrow> world \<Rightarrow> answer" where
  "handleCreateReview q = in_workspace q (URLParam q ''id'') (\<lambda>me w.
     case unmarshal_strs [''reviewer_id'', ''subject'', ''content'', ''channel_id''] (rq_body q) of
       None \<Rightarrow> bad_body w
     | Some fs \<Rightarrow>
         if '''' \<in> set fs
           then refuse_code 400 ''BAD_REQUEST'' ''reviewer_id, subject, content, and channel_id are required'' w
         else try_made (CreateReviewRequest (posted_review (URLParam q ''id'') me fs)) (\<lambda>rr w.
           respond 201 (ReviewRequest_json rr)
             (post_and_notify (review_message rr) (review_note (mb_Name me) rr) w)) w)"

definition handleListReviews :: "request \<Rightarrow> world \<Rightarrow> answer" where
  "handleListReviews q =
     (let who = (if Query q ''reviewer_id'' = '''' then
                   (case rq_member q of None \<Rightarrow> '''' | Some me \<Rightarrow> mb_ID me)
                 else Query q ''reviewer_id'')
      in try_db (ListReviewRequests who (Query q ''status''))
           (\<lambda>rs. respond 200 (slice_json ReviewRequest_json rs)))"

definition handleGetReview :: "request \<Rightarrow> world \<Rightarrow> answer" where
  "handleGetReview q = found_code (GetReviewRequest (URLParam q ''id'')) ''review not found''
     (\<lambda>rr. respond 200 (ReviewRequest_json rr))"

definition verdict_message :: "ReviewRequest \<Rightarrow> Message" where
  "verdict_message rr = Message0\<lparr>msg_ChannelID := rr_ChannelID rr, msg_SenderID := rr_ReviewerID rr,
     msg_Content := ''Review '' @ rr_Status rr @ '': '' @ rr_ReviewComment rr, msg_Type := ''text''\<rparr>"

definition verdict_note :: "ReviewRequest \<Rightarrow> Message \<Rightarrow> Notification" where
  "verdict_note rr msg = Notification0\<lparr>nt_MemberID := rr_RequesterID rr, nt_Type := ''review_result'',
     nt_Title := ''Review completed'', nt_Body := ''Your review was '' @ rr_Status rr,
     nt_ChannelID := rr_ChannelID rr, nt_SourceType := ''review_result'', nt_Priority := ''high''\<rparr>"

definition handleUpdateReview :: "request \<Rightarrow> world \<Rightarrow> answer" where
  "handleUpdateReview q = found_code (GetReviewRequest (URLParam q ''id'')) ''review not found'' (\<lambda>rr w.
     case unmarshal_strs [''status'', ''comment''] (rq_body q) of
       None \<Rightarrow> bad_body w
     | Some fs \<Rightarrow>
         let rr = rr\<lparr>rr_Status := fs ! 0, rr_ReviewComment := fs ! 1, rr_ReviewedAt :=
               (if fs ! 0 = ''approved'' \<or> fs ! 0 = ''changes_requested'' then now (db w) else rr_ReviewedAt rr)\<rparr>
         in try_made (UpdateReviewRequest rr) (\<lambda>rr w. respond 200 (ReviewRequest_json rr)
              (post_and_notify (verdict_message rr) (verdict_note rr) w)) w)"

end
