(* ===== verification/Rest_Files.thy ===== *)
theory Rest_Files
  imports Rest_Core Text_Utils
begin

text \<open>
  storage/storage.go (the local store), api/handlers_file.go and the avatar upload of
  handlers_member.go: path joining, where an upload is stored, and what a member may
  download or delete.
\<close>

section \<open>path/filepath\<close>

fun split_path :: "string \<Rightarrow> string list" where
  "split_path [] = ['''']"
| "split_path (c # cs) =
     (if c = CHR ''/'' then '''' # split_path cs
      else case split_path cs of [] \<Rightarrow> [[c]] | p # ps \<Rightarrow> (c # p) # ps)"

fun clean_parts :: "bool \<Rightarrow> string list \<Rightarrow> string list \<Rightarrow> string list" where
  "clean_parts rooted acc [] = rev acc"
| "clean_parts rooted acc (p # ps) =
     (if p = '''' \<or> p = ''.'' then clean_parts rooted acc ps
      else if p = ''..'' then
        (case acc of
           [] \<Rightarrow> clean_parts rooted (if rooted then [] else [''..'']) ps
         | a # as \<Rightarrow> clean_parts rooted (if a = ''..'' then ''..'' # acc else as) ps)
      else clean_parts rooted (p # acc) ps)"

definition is_rooted :: "string \<Rightarrow> bool" where
  "is_rooted p \<longleftrightarrow> HasPrefix p ''/''"

definition path_Clean :: "string \<Rightarrow> string" where
  "path_Clean p =
     (let parts = clean_parts (is_rooted p) [] (split_path p) in
      if is_rooted p then ''/'' @ Join parts ''/''
      else if parts = [] then ''.'' else Join parts ''/'')"

fun path_Join :: "string list \<Rightarrow> string" where
  "path_Join [] = ''''"
| "path_Join (e # es) = (if e = '''' then path_Join es else path_Clean (Join (e # es) ''/''))"

text \<open>The suffix from the last dot of the last element.\<close>

fun ext_rev :: "string \<Rightarrow> string \<Rightarrow> string" where
  "ext_rev [] acc = ''''"
| "ext_rev (c # cs) acc =
     (if c = CHR ''/'' then '''' else if c = CHR ''.'' then c # acc else ext_rev cs (c # acc))"

definition path_Ext :: "string \<Rightarrow> string" where
  "path_Ext p = ext_rev (rev p) ''''"

section \<open>The local store\<close>

text \<open>
  The files under their full paths, and the operating system's error on a path, if
  any (a failure leaves the files as they were).
\<close>

datatype os_error = NotExist | OSError string

record disk =
  baseDir :: string
  files :: "(string, string) go_map"
  os_fails :: "string \<Rightarrow> string option"

definition newLocalStore :: "string \<Rightarrow> (string \<Rightarrow> string option) \<Rightarrow> string + disk" where
  "newLocalStore dir os =
     (let dir = (if dir = '''' then ''data/files'' else dir) in
      case os dir of Some e \<Rightarrow> Inl (''create storage dir: '' @ e)
      | None \<Rightarrow> Inr \<lparr>baseDir = dir, files = [], os_fails = os\<rparr>)"

definition fullPath :: "disk \<Rightarrow> string \<Rightarrow> string" where
  "fullPath d p = path_Join [baseDir d, p]"

definition Save :: "string \<Rightarrow> string \<Rightarrow> disk \<Rightarrow> (os_error + unit) \<times> disk" where
  "Save p data d =
     (let full = fullPath d p in
      case os_fails d full of
        Some e \<Rightarrow> (Inl (OSError e), d)
      | None \<Rightarrow> (Inr (), d\<lparr>files := go_put full data (files d)\<rparr>))"

definition Open :: "string \<Rightarrow> disk \<Rightarrow> os_error + string" where
  "Open p d =
     (let full = fullPath d p in
      case os_fails d full of
        Some e \<Rightarrow> Inl (OSError e)
      | None \<Rightarrow> (case go_get (files d) full of None \<Rightarrow> Inl NotExist | Some x \<Rightarrow> Inr x))"

definition storage_Delete :: "string \<Rightarrow> disk \<Rightarrow> (os_error + unit) \<times> disk" where
  "storage_Delete p d =
     (let full = fullPath d p in
      case os_fails d full of
        Some e \<Rightarrow> (Inl (OSError e), d)
      | None \<Rightarrow>
          if go_get (files d) full = None then (Inl NotExist, d)
          else (Inr (), d\<lparr>files := go_del full (files d)\<rparr>))"

section \<open>Uploads\<close>

text \<open>The multipart form: unreadable, without the file's field, or with the file.\<close>

record upload =
  up_Filename :: string
  up_ContentType :: string
  up_Data :: string
  up_Size :: int

datatype form = BadForm | NoFile | FormFile upload

type_synonym disk_answer = "response \<times> world \<times> disk"

definition and_disk :: "disk \<Rightarrow> answer \<Rightarrow> disk_answer" where
  "and_disk d a = (case a of (r, w) \<Rightarrow> (r, w, d))"

definition allowedTypes :: "string list" where
  "allowedTypes = [''image/'', ''text/'', ''application/pdf'', ''application/json'',
     ''application/zip'', ''application/gzip'', ''application/x-tar'']"

definition new_file :: "string \<Rightarrow> string \<Rightarrow> Member \<Rightarrow> upload \<Rightarrow> string \<Rightarrow> string \<Rightarrow> File" where
  "new_file i wid me u mime path = \<lparr>fl_ID = i, fl_WorkspaceID = wid, fl_UploaderID = mb_ID me,
     fl_Filename = sanitizeFilename (up_Filename u), fl_MimeType = mime, fl_Size = up_Size u,
     fl_Path = path, fl_CreatedAt = 0\<rparr>"

text \<open>
  sniff stands for http.DetectContentType.  After the check the type is never empty,
  so the fallback to application/octet-stream is not reached.
\<close>

definition store_upload ::
  "(int \<Rightarrow> int \<times> int) \<Rightarrow> string \<Rightarrow> Member \<Rightarrow> upload \<Rightarrow> string \<Rightarrow> world \<times> disk \<Rightarrow> disk_answer" where
  "store_upload month wid me u mime = (\<lambda>(w, d).
     let (i, w) = on_db new_uuid w;
         path = path_Join [wid, i @ path_Ext (up_Filename u)];
         (saved, d) = Save path (up_Data u) d
     in case saved of
          Inl e \<Rightarrow> (serverError, w, d)
        | Inr _ \<Rightarrow>
            let (f, w) = stored (CreateFile (new_file i wid me u mime path)) w in
            case f of
              Inl e \<Rightarrow> (serverError, w, snd (storage_Delete path d))
            | Inr f \<Rightarrow> (writeJSON 201 (File_json f), recordUsage month wid ''files'' 1 w, d))"

definition handleUploadFile ::
  "(int \<Rightarrow> int \<times> int) \<Rightarrow> (string \<Rightarrow> string) \<Rightarrow> form \<Rightarrow> request \<Rightarrow> world \<times> disk \<Rightarrow> disk_answer" where
  "handleUploadFile month sniff form q = (\<lambda>(w, d).
     let wid = URLParam q ''id'' in
     case requireWorkspaceAuth (rq_member q) wid of
       Inl e \<Rightarrow> (e, w, d)
     | Inr me \<Rightarrow>
         if \<not> isUUID wid then and_disk d (refuse 400 ''invalid workspace id'' w)
         else case form of
             BadForm \<Rightarrow> and_disk d (refuse 400 ''invalid multipart form'' w)
           | NoFile \<Rightarrow> and_disk d (refuse 400 ''file field required'' w)
           | FormFile u \<Rightarrow>
               let mime = (if up_ContentType u = '''' then sniff (take 512 (up_Data u)) else up_ContentType u) in
               if \<not> list_ex (HasPrefix mime) allowedTypes
                 then and_disk d (refuse 400 (''file type not allowed: '' @ mime) w)
               else store_upload month wid me u mime (w, d))"

section \<open>Reading, listing, deleting\<close>

text \<open>The file a handler works on, or the answer that refuses it.\<close>

definition the_file :: "request \<Rightarrow> world \<Rightarrow> (response + File) \<times> world" where
  "the_file q w =
     (case rq_member q of
        None \<Rightarrow> (Inl (writeError 401 ''not authenticated''), w)
      | Some me \<Rightarrow>
          let (f, w) = on_db (GetFile (URLParam q ''id'')) w in
          case f of
            Inl e \<Rightarrow> (Inl serverError, w)
          | Inr None \<Rightarrow> (Inl (writeError 404 ''file not found''), w)
          | Inr (Some f) \<Rightarrow>
              (if fl_WorkspaceID f \<noteq> mb_WorkspaceID me then Inl (writeError 404 ''file not found'') else Inr f, w))"

definition handleGetFile :: "request \<Rightarrow> world \<Rightarrow> answer" where
  "handleGetFile q w =
     (let (f, w) = the_file q w in
      case f of Inl r \<Rightarrow> (r, w) | Inr f \<Rightarrow> respond 200 (File_json f) w)"

definition handleListFiles :: "request \<Rightarrow> world \<Rightarrow> answer" where
  "handleListFiles q = in_workspace q (URLParam q ''id'') (\<lambda>me.
     try_db (ListFiles (URLParam q ''id'') (Atoi_or (Query q ''limit'')) (Atoi_or (Query q ''offset'')))
       (\<lambda>fs. respond 200 (slice_json File_json fs)))"

definition handleDeleteFile :: "request \<Rightarrow> world \<times> disk \<Rightarrow> disk_answer" where
  "handleDeleteFile q = (\<lambda>(w, d).
     let (f, w) = the_file q w in
     case f of
       Inl r \<Rightarrow> (r, w, d)
     | Inr f \<Rightarrow>
         let (x, d) = storage_Delete (fl_Path f) d in
         case x of
           Inl (OSError e) \<Rightarrow> (serverError, w, d)
         | _ \<Rightarrow> and_disk d (try_db (DeleteFile (URLParam q ''id'')) (\<lambda>_. empty_answer) w))"

text \<open>A download: disposition, content type and the bytes.\<close>

record download =
  dl_Disposition :: string
  dl_Type :: string
  dl_Data :: string

definition handleDownloadFile :: "request \<Rightarrow> world \<times> disk \<Rightarrow> (response + download) \<times> world" where
  "handleDownloadFile q = (\<lambda>(w, d).
     let (f, w) = the_file q w in
     case f of
       Inl r \<Rightarrow> (Inl r, w)
     | Inr f \<Rightarrow>
         (case Open (fl_Path f) d of
            Inl e \<Rightarrow> (Inl serverError, w)
          | Inr data \<Rightarrow>
              (Inr \<lparr>dl_Disposition = (if HasPrefix (fl_MimeType f) ''image/'' then ''inline'' else ''attachment'')
                   @ ''; filename='' @ quoted (sanitizeFilename (fl_Filename f)),
                 dl_Type = fl_MimeType f, dl_Data = data\<rparr>, w)))"

definition handleUploadAvatar :: "form \<Rightarrow> request \<Rightarrow> world \<times> disk \<Rightarrow> disk_answer" where
  "handleUploadAvatar form q = (\<lambda>(w, d).
     case rq_member q of
       None \<Rightarrow> and_disk d (refuse 401 ''not authenticated'' w)
     | Some me \<Rightarrow>
         (case form of
            BadForm \<Rightarrow> and_disk d (refuse 400 ''invalid form'' w)
          | NoFile \<Rightarrow> and_disk d (refuse 400 ''avatar field required'' w)
          | FormFile u \<Rightarrow>
              let path = ''avatars/'' @ mb_ID me @ path_Ext (up_Filename u);
                  (saved, d) = Save path (up_Data u) d
              in case saved of
                   Inl e \<Rightarrow> (serverError, w, d)
                 | Inr _ \<Rightarrow> and_disk d (try_made (UpdateMember (me\<lparr>mb_AvatarURL := path\<rparr>))
                     (\<lambda>_. respond 200 (str_obj [(''avatar_url'', path)])) w)))"

end
