(* ===== verification/Rest_Members.thy ===== *)
theory Rest_Members
  imports Rest_Core
begin

text \<open>
  api/handlers_auth.go, handlers_workspace.go, handlers_member.go, handlers_agent.go
  and handlers_admin.go: registration, login and logout, the OAuth flows, workspaces,
  members and their keys, agent memory and metrics, and the administration endpoints.
\<close>

section \<open>Registration, login, logout\<close>

text \<open>bcrypt.GenerateFromPassword: the salt comes from the random source.\<close>

definition hash_password :: "string \<Rightarrow> world \<Rightarrow> string option \<times> world" where
  "hash_password pw w =
     (let (salt, w) = read_random 16 w in
      (case salt of None \<Rightarrow> None | Some s \<Rightarrow> bcrypt_hash w s pw, w))"

definition with_token :: "string \<Rightarrow> string \<Rightarrow> (string \<Rightarrow> world \<Rightarrow> answer) \<Rightarrow> world \<Rightarrow> answer" where
  "with_token mid wid k w =
     (let (t, w) = GenerateToken mid wid w in
      case t of None \<Rightarrow> (serverError, w) | Some (tok, jti) \<Rightarrow> k tok w)"

definition dashed :: "string \<Rightarrow> string" where
  "dashed = map (\<lambda>c. if c = CHR '' '' then CHR ''-'' else c)"

definition uuid_prefix :: "world \<Rightarrow> string \<times> world" where
  "uuid_prefix w = (let (u, w) = on_db new_uuid w in (take 8 u, w))"

definition new_workspace :: "string \<Rightarrow> string \<Rightarrow> Workspace" where
  "new_workspace nm slug = \<lparr>ws_ID = '''', ws_Name = nm, ws_Slug = slug, ws_IconURL = '''',
     ws_AgentProvisionToken = '''', ws_CreatedAt = 0, ws_UpdatedAt = 0\<rparr>"

definition registered :: "string \<Rightarrow> string \<Rightarrow> string \<Rightarrow> string \<Rightarrow> Member" where
  "registered wid nm email hash = Member0\<lparr>mb_WorkspaceID := wid, mb_Name := nm, mb_Email := email,
     mb_PasswordHash := hash, mb_Type := ''human'', mb_Role := ''owner'', mb_Status := ''offline''\<rparr>"

text \<open>lower stands for strings.ToLower.\<close>

definition handleRegister :: "(string \<Rightarrow> string) \<Rightarrow> request \<Rightarrow> world \<Rightarrow> answer" where
  "handleRegister lower q = strs_body q [''email'', ''password'', ''name''] (\<lambda>fs w.
     let email = fs ! 0; pw = fs ! 1; nm = fs ! 2 in
     if email = '''' \<or> pw = '''' \<or> nm = ''''
       then refuse 400 ''email, password, and name required'' w
     else if length pw < 6 then refuse 400 ''password must be at least 6 characters'' w
     else
       let (hash, w) = hash_password pw w in
       case hash of
         None \<Rightarrow> (serverError, w)
       | Some hash \<Rightarrow>
           let (u, w) = uuid_prefix w in
           try_svc (svc_CreateWorkspace (new_workspace (nm @ [CHR 0x27] @ ''s Workspace'') (lower (dashed nm) @ ''-'' @ u))) (\<lambda>ws.
             try_svc (svc_CreateMember (registered (ws_ID ws) nm email hash)) (\<lambda>m.
               with_token (mb_ID m) (ws_ID ws) (\<lambda>tok.
                 respond 201 (JObj [(''member_id'', JStr (mb_ID m)), (''token'', JStr tok),
                   (''workspace'', Workspace_json ws)])))) w)"

definition handleLogin :: "request \<Rightarrow> world \<Rightarrow> answer" where
  "handleLogin q = strs_body q [''email'', ''password''] (\<lambda>fs w.
     if fs ! 0 = '''' \<or> fs ! 1 = '''' then refuse 400 ''email and password required'' w
     else try_db (GetMemberByEmail (fs ! 0)) (\<lambda>m w.
       case m of
         None \<Rightarrow> refuse 401 ''invalid email or password'' w
       | Some m \<Rightarrow>
           if \<not> bcrypt_ok w (mb_PasswordHash m) (fs ! 1) then refuse 401 ''invalid email or password'' w
           else with_token (mb_ID m) (mb_WorkspaceID m) (\<lambda>tok.
             respond 200 (str_obj [(''member_id'', mb_ID m), (''name'', mb_Name m), (''token'', tok),
               (''workspace_id'', mb_WorkspaceID m)])) w) w)"

definition handleLogout :: "request \<Rightarrow> world \<Rightarrow> answer" where
  "handleLogout q = authed q (\<lambda>me w.
     let w = (if HasPrefix (rq_auth q) ''Bearer '' then
                (case jwt_parse w (jwt_secret w) (now (db w)) (TrimPrefix (rq_auth q) ''Bearer '') of
                   None \<Rightarrow> w
                 | Some c \<Rightarrow>
                     if cl_ID c = '''' then w
                     else snd (on_db (BlacklistToken (cl_ID c) (cl_ExpiresAt c * 1000)) w))
              else w)
     in respond 200 (str_obj [(''message'', ''logged out'')]) w)"

section \<open>OAuth\<close>

text \<open>
  The pending states and when each was handed out.  A provider is, for an
  authorization code, the user record it answers with: None when the exchange or the
  request fails or the answer is not JSON.  Not configured is None.
\<close>

type_synonym states = "(string, int) go_map"
type_synonym provider = "string \<Rightarrow> json option"

definition expire_states :: "int \<Rightarrow> states \<Rightarrow> states" where
  "expire_states t sts = filter (\<lambda>(k, t'). \<not> 600000 < t - t') sts"

definition generateOAuthState :: "world \<Rightarrow> string \<times> world" where
  "generateOAuthState w =
     (hex_encode (map (\<lambda>i. case entropy w i of None \<Rightarrow> 0 | Some b \<Rightarrow> b) [ent_pos w..<ent_pos w + 16]),
      w\<lparr>ent_pos := ent_pos w + 16\<rparr>)"

definition redirect :: "nat \<Rightarrow> string \<Rightarrow> world \<Rightarrow> answer" where
  "redirect st url w = (\<lparr>status = st, location = Some url, body = None\<rparr>, w)"

text \<open>auth_url stands for AuthCodeURL of the provider's client.\<close>

definition oauth_login ::
  "string \<Rightarrow> (string \<Rightarrow> string) option \<Rightarrow> states \<times> world \<Rightarrow> response \<times> states \<times> world" where
  "oauth_login nm auth_url = (\<lambda>(sts, w).
     case auth_url of
       None \<Rightarrow> (writeError 400 (nm @ '' OAuth not configured''), sts, w)
     | Some url \<Rightarrow>
         let (st, w) = generateOAuthState w; (r, w) = redirect 302 (url st) w
         in (r, go_put st (now (db w)) sts, w))"

definition handleGithubLogin :: "(string \<Rightarrow> string) option \<Rightarrow> states \<times> world \<Rightarrow> response \<times> states \<times> world" where
  "handleGithubLogin = oauth_login ''GitHub''"

definition handleGoogleLogin :: "(string \<Rightarrow> string) option \<Rightarrow> states \<times> world \<Rightarrow> response \<times> states \<times> world" where
  "handleGoogleLogin = oauth_login ''Google''"

definition handleMicrosoftLogin :: "(string \<Rightarrow> string) option \<Rightarrow> states \<times> world \<Rightarrow> response \<times> states \<times> world" where
  "handleMicrosoftLogin = oauth_login ''Microsoft''"

text \<open>The checks every callback opens with: the state is used up whether or not it is still valid.\<close>

definition oauth_callback ::
  "string \<Rightarrow> provider option \<Rightarrow> request \<Rightarrow> (json \<Rightarrow> world \<Rightarrow> answer) \<Rightarrow> states \<times> world \<Rightarrow> response \<times> states \<times> world" where
  "oauth_callback nm prov q k = (\<lambda>(sts, w).
     case prov of
       None \<Rightarrow> (writeError 400 (nm @ '' OAuth not configured''), sts, w)
     | Some fetch \<Rightarrow>
         let st = Query q ''state''; at = go_get sts st; sts = go_del st sts in
         if at = None \<or> 600000 < now (db w) - the at
           then (writeError 400 ''invalid or expired OAuth state'', sts, w)
         else if Query q ''code'' = '''' then (writeError 400 ''missing code'', sts, w)
         else
           case fetch (Query q ''code'') of
             None \<Rightarrow> (serverError, sts, w)
           | Some user \<Rightarrow> (let (r, w) = k user w in (r, sts, w)))"

text \<open>Only paths are accepted as the page to return to.\<close>

definition safe_redirect :: "string \<Rightarrow> string" where
  "safe_redirect u = (if u = '''' \<or> \<not> HasPrefix u ''/'' \<or> HasPrefix u ''//'' then ''/'' else u)"

definition finish_oauth :: "request \<Rightarrow> Member \<Rightarrow> world \<Rightarrow> answer" where
  "finish_oauth q m = with_token (mb_ID m) (mb_WorkspaceID m) (\<lambda>tok.
     redirect 302 (safe_redirect (Query q ''redirect'') @ ''#token='' @ tok))"

definition oauth_member :: "string \<Rightarrow> string \<Rightarrow> string \<Rightarrow> Member" where
  "oauth_member wid nm email = Member0\<lparr>mb_WorkspaceID := wid, mb_Name := nm, mb_Email := email,
     mb_Type := ''human'', mb_Status := ''offline''\<rparr>"

definition new_tenant :: "string \<Rightarrow> string \<Rightarrow> string \<Rightarrow> (Member \<Rightarrow> world \<Rightarrow> answer) \<Rightarrow> world \<Rightarrow> answer" where
  "new_tenant slug nm email k w =
     (let (u, w) = uuid_prefix w in
      try_svc (svc_CreateWorkspace (new_workspace (nm @ [CHR 0x27] @ ''s Workspace'') (slug @ ''-'' @ u))) (\<lambda>ws.
        try_svc (svc_CreateMember (oauth_member (ws_ID ws) nm email)) k) w)"

definition GithubUser_member :: "string \<Rightarrow> json \<Rightarrow> string list \<Rightarrow> string list option" where
  "GithubUser_member k j d =
     (if key_eq k ''id'' then set_int (\<lambda>_ d. d) j d else set_nth_str [''login'', ''name'', ''email''] k j d)"

definition handleGithubCallback :: "provider option \<Rightarrow> request \<Rightarrow> states \<times> world \<Rightarrow> response \<times> states \<times> world" where
  "handleGithubCallback prov q = oauth_callback ''GitHub'' prov q (\<lambda>user w.
     case unmarshal GithubUser_member (Some user) ['''', '''', ''''] of
       Some [user_login, user_name, user_email] \<Rightarrow>
         (let email = (if user_email = '''' then user_login @ ''@github-user'' else user_email);
              nm = (if user_name = '''' then user_login else user_name)
          in try_db (GetMemberByEmail email) (\<lambda>m.
               case m of
                 Some m \<Rightarrow> finish_oauth q m
               | None \<Rightarrow> new_tenant user_login nm email (finish_oauth q)) w)
     | _ \<Rightarrow> (serverError, w))"

definition link :: "string \<Rightarrow> string \<Rightarrow> string \<Rightarrow> string \<Rightarrow> OAuthIdentity" where
  "link mid prov uid email = \<lparr>oa_ID = '''', oa_MemberID = mid, oa_Provider = prov,
     oa_ProviderUserID = uid, oa_Email = email, oa_CreatedAt = 0\<rparr>"

definition add_link :: "OAuthIdentity \<Rightarrow> world \<Rightarrow> world" where
  "add_link ident w = snd (on_db (made (CreateOAuthIdentity ident)) w)"

definition handleOAuthCallback :: "request \<Rightarrow> string \<Rightarrow> string \<Rightarrow> string \<Rightarrow> string \<Rightarrow> world \<Rightarrow> answer" where
  "handleOAuthCallback q prov uid email nm =
     (let by_email = try_db (GetMemberByEmail email) (\<lambda>m w.
            case m of
              Some m \<Rightarrow> finish_oauth q m (add_link (link (mb_ID m) prov uid email) w)
            | None \<Rightarrow>
                new_tenant prov (if nm = '''' then email else nm) email
                  (\<lambda>m w. finish_oauth q m (add_link (link (mb_ID m) prov uid email) w)) w)
      in try_db (GetOAuthIdentity prov uid) (\<lambda>ident.
           case ident of
             None \<Rightarrow> by_email
           | Some ident \<Rightarrow> try_db (GetMember (oa_MemberID ident)) (\<lambda>m.
               case m of None \<Rightarrow> by_email | Some m \<Rightarrow> finish_oauth q m)))"

definition handleGoogleCallback :: "provider option \<Rightarrow> request \<Rightarrow> states \<times> world \<Rightarrow> response \<times> states \<times> world" where
  "handleGoogleCallback prov q = oauth_callback ''Google'' prov q (\<lambda>user w.
     case unmarshal_strs [''id'', ''name'', ''email''] (Some user) of
       Some [uid, nm, email] \<Rightarrow>
         if email = '''' then refuse 400 ''no email from Google'' w
         else handleOAuthCallback q ''google'' uid email nm w
     | _ \<Rightarrow> (serverError, w))"

definition handleMicrosoftCallback :: "provider option \<Rightarrow> request \<Rightarrow> states \<times> world \<Rightarrow> response \<times> states \<times> world" where
  "handleMicrosoftCallback prov q = oauth_callback ''Microsoft'' prov q (\<lambda>user w.
     case unmarshal_strs [''id'', ''displayName'', ''mail''] (Some user) of
       Some [uid, nm, mail] \<Rightarrow>
         handleOAuthCallback q ''microsoft'' uid (if mail = '''' then uid @ ''@microsoft-user'' else mail) nm w
     | _ \<Rightarrow> (serverError, w))"

definition handleListProviders :: "bool \<Rightarrow> bool \<Rightarrow> bool \<Rightarrow> world \<Rightarrow> answer" where
  "handleListProviders github google microsoft =
     respond 200 (JObj [(''providers'', strs_json ((if github then [''github''] else []) @
       (if google then [''google''] else []) @ (if microsoft then [''microsoft''] else [])))])"

section \<open>Workspaces\<close>

definition handleCreateWorkspace :: "request \<Rightarrow> world \<Rightarrow> answer" where
  "handleCreateWorkspace q = strs_body q [''name'', ''slug''] (\<lambda>fs w.
     if fs ! 0 = '''' then refuse 400 ''name required'' w
     else try_svc (svc_CreateWorkspace (new_workspace (fs ! 0) (fs ! 1))) (\<lambda>ws. respond 201 (Workspace_json ws)) w)"

definition without_token :: "Workspace \<Rightarrow> Workspace" where
  "without_token ws = ws\<lparr>ws_AgentProvisionToken := ''''\<rparr>"

definition handleListWorkspaces :: "request \<Rightarrow> world \<Rightarrow> answer" where
  "handleListWorkspaces q = try_db ListWorkspaces
     (\<lambda>wss. respond 200 (slice_json (\<lambda>ws. Workspace_json (without_token ws)) wss))"

definition handleGetWorkspace :: "request \<Rightarrow> world \<Rightarrow> answer" where
  "handleGetWorkspace q = try_db (GetWorkspace (URLParam q ''id'')) (\<lambda>ws.
     found (\<lambda>_. True) ''workspace not found'' ws (\<lambda>ws. respond 200 (Workspace_json (without_token ws))))"

definition handleUpdateWorkspace :: "request \<Rightarrow> world \<Rightarrow> answer" where
  "handleUpdateWorkspace q = in_workspace q (URLParam q ''id'') (\<lambda>me.
     try_db (GetWorkspace (URLParam q ''id'')) (\<lambda>ws. found (\<lambda>_. True) ''workspace not found'' ws (\<lambda>old.
       decodeAndProtect Workspace_member q old
         (\<lambda>ws. ws\<lparr>ws_ID := ws_ID old, ws_AgentProvisionToken := ws_AgentProvisionToken old\<rparr>)
         (\<lambda>ws. try_made (UpdateWorkspace ws) (\<lambda>ws. respond 200 (Workspace_json (without_token ws)))))))"

definition handleDeleteWorkspace :: "request \<Rightarrow> world \<Rightarrow> answer" where
  "handleDeleteWorkspace q = authed q (\<lambda>me.
     try_db (GetWorkspace (URLParam q ''id'')) (\<lambda>ws.
       found (\<lambda>ws. ws_ID ws = mb_WorkspaceID me) ''workspace not found'' ws (\<lambda>ws w.
         if mb_Role me \<noteq> ''admin'' \<and> mb_Role me \<noteq> ''owner'' then refuse 403 ''admin access required'' w
         else try_db (DeleteWorkspace (URLParam q ''id'')) (\<lambda>_. empty_answer) w)))"

section \<open>Members\<close>

definition created_member :: "string \<Rightarrow> string list \<Rightarrow> Member" where
  "created_member wid fs = Member0\<lparr>mb_WorkspaceID := wid, mb_Name := fs ! 0, mb_Type := fs ! 1,
     mb_AvatarURL := fs ! 2, mb_Status := ''offline''\<rparr>"

definition handleCreateMember :: "request \<Rightarrow> world \<Rightarrow> answer" where
  "handleCreateMember q = in_workspace q (URLParam q ''id'') (\<lambda>me.
     strs_body q [''name'', ''type'', ''avatar_url''] (\<lambda>fs w.
       if fs ! 0 = '''' then refuse 400 ''name required'' w
       else if fs ! 1 \<noteq> ''human'' \<and> fs ! 1 \<noteq> ''agent''
         then refuse 400 (''type must be '' @ [CHR 0x27] @ ''human'' @ [CHR 0x27] @ '' or '' @ [CHR 0x27] @ ''agent'' @ [CHR 0x27]) w
       else try_svc (svc_CreateMember (created_member (URLParam q ''id'') fs)) (\<lambda>m. respond 201 (Member_json m)) w))"

definition without_key :: "Member \<Rightarrow> Member" where
  "without_key m = m\<lparr>mb_APIKey := ''''\<rparr>"

definition handleListMembers :: "request \<Rightarrow> world \<Rightarrow> answer" where
  "handleListMembers q = in_workspace q (URLParam q ''id'') (\<lambda>me.
     let wid = URLParam q ''id''; limit = Atoi_or (Query q ''limit''); offset = Atoi_or (Query q ''offset'')
     in try_db (if 0 < limit then ListMembersPaginated wid limit offset else ListMembers wid)
          (\<lambda>ms. respond 200 (slice_json (\<lambda>m. Member_json (without_key m)) ms)))"

text \<open>The six string members of the provisioning request, and its list of capabilities.\<close>

definition Provision_member ::
  "string \<Rightarrow> json \<Rightarrow> string list \<times> string list \<Rightarrow> (string list \<times> string list) option" where
  "Provision_member k j = (\<lambda>(fs, caps).
     if key_eq k ''capabilities'' then set_strs (\<lambda>v (fs, _). (fs, v)) j (fs, caps)
     else map_option (\<lambda>fs. (fs, caps))
       (set_nth_str [''name'', ''provision_token'', ''system_prompt'', ''runtime_type'',
          ''runtime_provider'', ''runtime_model''] k j fs))"

definition provisioned :: "string \<Rightarrow> string list \<Rightarrow> string list \<Rightarrow> Member" where
  "provisioned wid fs caps = Member0\<lparr>mb_WorkspaceID := wid, mb_Name := fs ! 0, mb_Type := ''agent'',
     mb_Status := ''offline'',
     mb_RoleCard := Some \<lparr>rc_SystemPrompt = fs ! 2, rc_Capabilities = caps\<rparr>,
     mb_RuntimeInfo := Some \<lparr>ri_Type = fs ! 3, ri_Provider = fs ! 4, ri_Model = fs ! 5\<rparr>\<rparr>"

definition provision_answer :: "nat \<Rightarrow> Member \<Rightarrow> world \<Rightarrow> answer" where
  "provision_answer st m = respond st
     (str_obj [(''api_key'', mb_APIKey m), (''member_id'', mb_ID m), (''name'', mb_Name m)])"

definition handleAgentProvision :: "request \<Rightarrow> world \<Rightarrow> answer" where
  "handleAgentProvision q =
     decoded (unmarshal Provision_member (rq_body q) (replicate 6 '''', [])) (\<lambda>(fs, caps) w.
       let wid = URLParam q ''id'' in
       if fs ! 0 = '''' \<or> fs ! 1 = '''' then refuse 400 ''name and provision_token required'' w
       else try_db (GetWorkspace wid) (\<lambda>ws. found (\<lambda>_. True) ''workspace not found'' ws (\<lambda>ws w.
         if ws_AgentProvisionToken ws \<noteq> fs ! 1 then refuse 401 ''invalid provision token'' w
         else try_db (GetMemberByName wid (fs ! 0)) (\<lambda>m.
           case m of
             Some m \<Rightarrow> provision_answer 200 m
           | None \<Rightarrow> try_svc (svc_CreateMember (provisioned wid fs caps)) (provision_answer 201)) w)) w)"

text \<open>A member of the caller's workspace.\<close>

definition own_member :: "request \<Rightarrow> Member \<Rightarrow> (Member \<Rightarrow> world \<Rightarrow> answer) \<Rightarrow> world \<Rightarrow> answer" where
  "own_member q me k = try_db (GetMember (URLParam q ''memberID'')) (\<lambda>m.
     found (\<lambda>m. mb_WorkspaceID m = mb_WorkspaceID me) ''member not found'' m k)"

definition handleGetMember :: "request \<Rightarrow> world \<Rightarrow> answer" where
  "handleGetMember q = authed q (\<lambda>me. own_member q me (\<lambda>m. respond 200 (Member_json (without_key m))))"

definition handleUpdateMember :: "request \<Rightarrow> world \<Rightarrow> answer" where
  "handleUpdateMember q = authed q (\<lambda>me. own_member q me (\<lambda>old.
     decodeAndProtect Member_member q old
       (\<lambda>m. m\<lparr>mb_ID := mb_ID old, mb_WorkspaceID := mb_WorkspaceID old, mb_Type := mb_Type old,
            mb_APIKey := mb_APIKey old\<rparr>)
       (\<lambda>m. try_made (UpdateMember m) (\<lambda>m. respond 200 (Member_json (without_key m))))))"

definition handleDeleteMember :: "request \<Rightarrow> world \<Rightarrow> answer" where
  "handleDeleteMember q = authed q (\<lambda>me. own_member q me (\<lambda>m.
     try_db (DeleteMember (URLParam q ''memberID'')) (\<lambda>_. empty_answer)))"

definition handleMyProfile :: "request \<Rightarrow> world \<Rightarrow> answer" where
  "handleMyProfile q = authed q (\<lambda>me. respond 200 (Member_json ((without_key me)\<lparr>mb_PasswordHash := ''''\<rparr>)))"

definition handleChangePassword :: "request \<Rightarrow> world \<Rightarrow> answer" where
  "handleChangePassword q = authed q (\<lambda>me. strs_body q [''old_password'', ''new_password''] (\<lambda>fs w.
     if mb_PasswordHash me = '''' then refuse 400 ''no password set (use OAuth)'' w
     else if \<not> bcrypt_ok w (mb_PasswordHash me) (fs ! 0) then refuse 401 ''wrong password'' w
     else if length (fs ! 1) < 6 then refuse 400 ''password must be at least 6 characters'' w
     else
       let (hash, w) = hash_password (fs ! 1) w in
       case hash of
         None \<Rightarrow> (serverError, w)
       | Some h \<Rightarrow> try_made (UpdateMember (me\<lparr>mb_PasswordHash := h\<rparr>)) (\<lambda>_. empty_answer) w))"

section \<open>Agent memory and metrics\<close>

definition own_agent :: "string \<Rightarrow> request \<Rightarrow> (world \<Rightarrow> answer) \<Rightarrow> world \<Rightarrow> answer" where
  "own_agent verb q k = authed q (\<lambda>me w.
     if mb_ID me \<noteq> URLParam q ''id''
       then refuse 403 (''cannot '' @ verb @ '' another agent'' @ [CHR 0x27] @ ''s memory'') w
     else k w)"

definition handleSetMemory :: "request \<Rightarrow> world \<Rightarrow> answer" where
  "handleSetMemory q = own_agent ''modify'' q (strs_body q [''namespace'', ''key'', ''value''] (\<lambda>fs w.
     if fs ! 1 = '''' then refuse 400 ''key required'' w
     else try_made (SetMemory (AgentMemory0\<lparr>am_AgentID := URLParam q ''id'',
              am_Namespace := (if fs ! 0 = '''' then ''default'' else fs ! 0),
              am_Key := fs ! 1, am_Value := fs ! 2\<rparr>))
            (\<lambda>m. respond 201 (AgentMemory_json m)) w))"

definition handleListMemory :: "request \<Rightarrow> world \<Rightarrow> answer" where
  "handleListMemory q = own_agent ''read'' q (
     let ns = (if Query q ''namespace'' = '''' then ''default'' else Query q ''namespace'')
     in try_db (ListMemory (URLParam q ''id'') ns) (\<lambda>ms. respond 200 (slice_json AgentMemory_json ms)))"

definition handleDeleteMemory :: "request \<Rightarrow> world \<Rightarrow> answer" where
  "handleDeleteMemory q = own_agent ''delete'' q
     (try_db (DeleteMemory (URLParam q ''id'') (URLParam q ''namespace'') (URLParam q ''key''))
        (\<lambda>_. empty_answer))"

definition handleGetAgentMetrics :: "request \<Rightarrow> world \<Rightarrow> answer" where
  "handleGetAgentMetrics q = authed q (\<lambda>me.
     let a = URLParam q ''id'' in
     try_db (GetMember a) (\<lambda>ag. found (\<lambda>ag. mb_WorkspaceID ag = mb_WorkspaceID me) ''agent not found'' ag (\<lambda>ag.
       try_db (ListMemory a ''_metrics'') (\<lambda>ms w.
         let mt = fold (\<lambda>m. go_put (am_Key m) (JStr (am_Value m))) ms [];
             (t, w) = on_db (CountTasksByAssignee a) w;
             mt = (case t of
                     Inl e \<Rightarrow> mt
                   | Inr (completed, pending) \<Rightarrow>
                       go_put ''tasks_completed'' (JNum completed)
                         (go_put ''tasks_assigned'' (JNum (completed + pending)) mt))
         in respond 200 (JObj [(''agent_id'', JStr a), (''metrics'', map_json id mt)]) w))))"

definition agent_entry :: "world \<Rightarrow> Member \<Rightarrow> (string \<times> json) list" where
  "agent_entry w m = [(''id'', JStr (mb_ID m)), (''name'', JStr (mb_Name m)),
     (''online'', JBool (GetAgent (mb_ID m) w \<noteq> None)), (''status'', JStr (mb_Status m))]"

definition handleListAgents :: "request \<Rightarrow> world \<Rightarrow> answer" where
  "handleListAgents q = in_workspace q (URLParam q ''id'') (\<lambda>me.
     try_db (ListMembers (URLParam q ''id'')) (\<lambda>ms w.
       respond 200 (JArr (map (\<lambda>m. JObj (agent_entry w m)) (filter (\<lambda>m. mb_Type m = ''agent'') ms))) w))"

section \<open>Administration\<close>

definition or_nil :: "(db_error + 'a list) \<Rightarrow> 'a list" where
  "or_nil x = (case x of Inl e \<Rightarrow> [] | Inr xs \<Rightarrow> xs)"

definition handleAdminStats :: "request \<Rightarrow> world \<Rightarrow> answer" where
  "handleAdminStats q = as_admin q (\<lambda>me w.
     let (wss, w) = on_db ListWorkspaces w in
     respond 200 (JObj [(''workspaces'', JNum (int (length (or_nil wss)))),
       (''ws_agents'', JNum (int (AgentCount w))), (''ws_connections'', JNum (int (Total w)))]) w)"

definition handleAdminListWorkspaces :: "request \<Rightarrow> world \<Rightarrow> answer" where
  "handleAdminListWorkspaces q = as_admin q (\<lambda>me. handleListWorkspaces q)"

definition admin_agents :: "Workspace \<Rightarrow> json list \<times> world \<Rightarrow> json list \<times> world" where
  "admin_agents ws = (\<lambda>(acc, w).
     let (ms, w) = on_db (ListMembers (ws_ID ws)) w in
     (acc @ map (\<lambda>m. JObj (agent_entry w m @ [(''workspace'', JStr (ws_Name ws)), (''workspace_id'', JStr (ws_ID ws))]))
        (filter (\<lambda>m. mb_Type m = ''agent'') (or_nil ms)), w))"

definition handleAdminListAgents :: "request \<Rightarrow> world \<Rightarrow> answer" where
  "handleAdminListAgents q = as_admin q (\<lambda>me w.
     let (wss, w) = on_db ListWorkspaces w;
         (agents, w) = fold admin_agents (or_nil wss) ([], w)
     in respond 200 (JArr agents) w)"

definition handleMetrics :: "request \<Rightarrow> world \<Rightarrow> answer" where
  "handleMetrics q w = respond 200 (JObj [(''agents'', JNum (int (AgentCount w))),
     (''connections'', JNum (int (Total w)))]) w"

text \<open>The moment's rendering as 20060102-150405 in UTC is the argument.\<close>

definition backup_name :: "string \<Rightarrow> string" where
  "backup_name moment = ''lark-backup-'' @ moment @ ''.db''"

definition handleAdminBackup :: "bool \<Rightarrow> string \<Rightarrow> request \<Rightarrow> world \<Rightarrow> answer" where
  "handleAdminBackup mkdir_ok moment q = as_admin q (\<lambda>me w.
     if \<not> mkdir_ok then (serverError, w)
     else
       let path = ''data/backups/'' @ backup_name moment in
       try_db (Backup path) (\<lambda>_. respond 200
         (str_obj [(''filename'', backup_name moment), (''message'', ''backup created''), (''path'', path)])) w)"

end
