(* ===== verification/Rest_Extra.thy ===== *)
theory Rest_Extra
  imports Rest_Members
begin

text \<open>
  api/handlers_template.go, handlers_e2ee.go, handlers_billing.go,
  handlers_integration.go and handlers_sso.go, and service/stripe.go: team templates,
  end-to-end encryption keys, billing and the Stripe webhook, the integrations a
  workspace has, and single sign-on.
\<close>

section \<open>Team templates\<close>

definition TemplateRole_member :: "string \<Rightarrow> json \<Rightarrow> TemplateRole \<Rightarrow> TemplateRole option" where
  "TemplateRole_member k j d =
     (if key_eq k ''name'' then set_str (\<lambda>v d. d\<lparr>trole_Name := v\<rparr>) j d
      else if key_eq k ''system_prompt'' then set_str (\<lambda>v d. d\<lparr>trole_SystemPrompt := v\<rparr>) j d
      else if key_eq k ''capabilities'' then set_strs (\<lambda>v d. d\<lparr>trole_Capabilities := v\<rparr>) j d
      else if key_eq k ''runtime'' then set_str (\<lambda>v d. d\<lparr>trole_Runtime := v\<rparr>) j d
      else if key_eq k ''description'' then set_str (\<lambda>v d. d\<lparr>trole_Description := v\<rparr>) j d
      else Some d)"

definition TemplateRole0 :: TemplateRole where
  "TemplateRole0 = \<lparr>trole_Name = '''', trole_SystemPrompt = '''', trole_Capabilities = [],
     trole_Runtime = '''', trole_Description = ''''\<rparr>"

fun decode_all :: "(json \<Rightarrow> 'a option) \<Rightarrow> json list \<Rightarrow> 'a list option" where
  "decode_all f [] = Some []"
| "decode_all f (j # js) =
     (case f j of None \<Rightarrow> None | Some x \<Rightarrow> map_option (Cons x) (decode_all f js))"

text \<open>json.Unmarshal into a slice: null is the nil slice, absent data an error.\<close>

definition unmarshal_list :: "(json \<Rightarrow> 'a option) \<Rightarrow> json option \<Rightarrow> 'a list option" where
  "unmarshal_list f data = (case data of Some (JArr js) \<Rightarrow> decode_all f js | Some JNull \<Rightarrow> Some [] | _ \<Rightarrow> None)"

text \<open>
  Where the error of Unmarshal is ignored, what it had filled in stays: members and
  elements of the wrong kind are skipped, the others are set.
\<close>

definition set_or :: "(json \<Rightarrow> 'a \<Rightarrow> 'a option) \<Rightarrow> json \<Rightarrow> 'a \<Rightarrow> 'a" where
  "set_or f j a = (case f j a of None \<Rightarrow> a | Some a' \<Rightarrow> a')"

definition some_strs :: "json \<Rightarrow> string list \<Rightarrow> string list" where
  "some_strs j old = (case j of JArr js \<Rightarrow> map (\<lambda>j. case j of JStr s \<Rightarrow> s | _ \<Rightarrow> '''') js
     | JNull \<Rightarrow> [] | _ \<Rightarrow> old)"

definition TemplateChannel_member :: "string \<times> json \<Rightarrow> TemplateChannel \<Rightarrow> TemplateChannel" where
  "TemplateChannel_member = (\<lambda>(k, j) d.
     if key_eq k ''name'' then set_or (set_str (\<lambda>v d. d\<lparr>tch_Name := v\<rparr>)) j d
     else if key_eq k ''topic'' then set_or (set_str (\<lambda>v d. d\<lparr>tch_Topic := v\<rparr>)) j d
     else if key_eq k ''members'' then d\<lparr>tch_Members := some_strs j (tch_Members d)\<rparr>
     else if key_eq k ''is_private'' then set_or (set_bool (\<lambda>v d. d\<lparr>tch_IsPrivate := v\<rparr>)) j d
     else d)"

definition some_channel :: "json \<Rightarrow> TemplateChannel" where
  "some_channel j =
     (let zero = \<lparr>tch_Name = '''', tch_Topic = '''', tch_Members = [], tch_IsPrivate = False\<rparr>
      in case j of JObj kvs \<Rightarrow> fold TemplateChannel_member kvs zero | _ \<Rightarrow> zero)"

definition some_channels :: "json option \<Rightarrow> TemplateChannel list" where
  "some_channels data = (case data of Some (JArr js) \<Rightarrow> map some_channel js | _ \<Rightarrow> [])"

definition TeamTemplate_member :: "string \<Rightarrow> json \<Rightarrow> TeamTemplate \<Rightarrow> TeamTemplate option" where
  "TeamTemplate_member k j d =
     (if key_eq k ''id'' then set_str (\<lambda>v d. d\<lparr>tt_ID := v\<rparr>) j d
      else if key_eq k ''workspace_id'' then set_str (\<lambda>v d. d\<lparr>tt_WorkspaceID := v\<rparr>) j d
      else if key_eq k ''name'' then set_str (\<lambda>v d. d\<lparr>tt_Name := v\<rparr>) j d
      else if key_eq k ''description'' then set_str (\<lambda>v d. d\<lparr>tt_Description := v\<rparr>) j d
      else if key_eq k ''category'' then set_str (\<lambda>v d. d\<lparr>tt_Category := v\<rparr>) j d
      else if key_eq k ''roles'' then Some (d\<lparr>tt_Roles := Some j\<rparr>)
      else if key_eq k ''channels'' then Some (d\<lparr>tt_Channels := Some j\<rparr>)
      else if key_eq k ''is_builtin'' then set_bool (\<lambda>v d. d\<lparr>tt_IsBuiltin := v\<rparr>) j d
      else if key_eq k ''created_by'' then set_str (\<lambda>v d. d\<lparr>tt_CreatedBy := v\<rparr>) j d
      else if key_eq k ''created_at'' then set_int (\<lambda>v d. d\<lparr>tt_CreatedAt := v\<rparr>) j d
      else if key_eq k ''updated_at'' then set_int (\<lambda>v d. d\<lparr>tt_UpdatedAt := v\<rparr>) j d
      else Some d)"

definition TeamTemplate0 :: TeamTemplate where
  "TeamTemplate0 = \<lparr>tt_ID = '''', tt_WorkspaceID = '''', tt_Name = '''', tt_Description = '''',
     tt_Category = '''', tt_Roles = None, tt_Channels = None, tt_IsBuiltin = False,
     tt_CreatedBy = '''', tt_CreatedAt = 0, tt_UpdatedAt = 0\<rparr>"

definition handleListTemplates :: "request \<Rightarrow> world \<Rightarrow> answer" where
  "handleListTemplates q = try_db (ListTeamTemplates (URLParam q ''id''))
     (\<lambda>ts. respond 200 (slice_json TeamTemplate_json ts))"

definition handleCreateTemplate :: "request \<Rightarrow> world \<Rightarrow> answer" where
  "handleCreateTemplate q = in_workspace q (URLParam q ''id'') (\<lambda>me w.
     case unmarshal TeamTemplate_member (rq_body q) TeamTemplate0 of
       None \<Rightarrow> refuse_code 400 ''BAD_REQUEST'' ''invalid request body'' w
     | Some t \<Rightarrow>
         if tt_Name t = '''' then refuse_code 400 ''BAD_REQUEST'' ''name is required'' w
         else try_made (CreateTeamTemplate (t\<lparr>tt_WorkspaceID := URLParam q ''id'', tt_CreatedBy := mb_ID me\<rparr>))
                (\<lambda>t. respond 201 (TeamTemplate_json t)) w)"

definition handleGetTemplate :: "request \<Rightarrow> world \<Rightarrow> answer" where
  "handleGetTemplate q = found_code (GetTeamTemplate (URLParam q ''id'')) ''template not found''
     (\<lambda>t. respond 200 (TeamTemplate_json t))"

definition handleDeleteTemplate :: "request \<Rightarrow> world \<Rightarrow> answer" where
  "handleDeleteTemplate q = try_db (DeleteTeamTemplate (URLParam q ''id''))
     (\<lambda>_. respond 200 (str_obj [(''status'', ''deleted'')]))"

definition role_agent :: "string \<Rightarrow> TemplateRole \<Rightarrow> Member" where
  "role_agent wid r = Member0\<lparr>mb_WorkspaceID := wid, mb_Name := trole_Name r, mb_Type := ''agent'',
     mb_Role := ''user'', mb_RoleCard := Some \<lparr>rc_SystemPrompt = trole_SystemPrompt r,
       rc_Capabilities = trole_Capabilities r\<rparr>\<rparr>"

text \<open>The loop over the roles: the role names with their agents, or the name that failed.\<close>

fun create_agents ::
  "string \<Rightarrow> TemplateRole list \<Rightarrow> (string \<times> string) list \<Rightarrow> world \<Rightarrow> (string + (string \<times> string) list) \<times> world" where
  "create_agents wid [] acc w = (Inr acc, w)"
| "create_agents wid (r # rs) acc w =
     (let (m, w) = svc_CreateMember (role_agent wid r) w in
      case m of
        Inl e \<Rightarrow> (Inl (trole_Name r), w)
      | Inr m \<Rightarrow> create_agents wid rs (acc @ [(trole_Name r, mb_ID m)]) w)"

text \<open>agentMap[name]: of roles with the same name the last one wins.\<close>

definition role_id :: "(string \<times> string) list \<Rightarrow> string \<Rightarrow> string option" where
  "role_id ags nm = map_of (rev ags) nm"

definition seat :: "(string \<times> string) list \<Rightarrow> string \<Rightarrow> string \<Rightarrow> world \<Rightarrow> world" where
  "seat ags ch nm w =
     (case role_id ags nm of None \<Rightarrow> w | Some a \<Rightarrow> snd (on_db (AddChannelMember ch a) w))"

fun create_channels ::
  "string \<Rightarrow> string \<Rightarrow> (string \<times> string) list \<Rightarrow> TemplateChannel list \<Rightarrow> string list \<Rightarrow> world
   \<Rightarrow> (string + string list) \<times> world" where
  "create_channels wid pfx ags [] acc w = (Inr acc, w)"
| "create_channels wid pfx ags (d # ds) acc w =
     (let nm = (if pfx = '''' then tch_Name d else pfx @ ''-'' @ tch_Name d);
          (c, w) = stored (CreateChannel (Channel0\<lparr>ch_WorkspaceID := wid, ch_Name := nm,
            ch_Type := ''channel'', ch_Topic := tch_Topic d, ch_IsPrivate := tch_IsPrivate d\<rparr>)) w in
      case c of
        Inl e \<Rightarrow> (Inl nm, w)
      | Inr c \<Rightarrow> create_channels wid pfx ags ds (acc @ [ch_ID c])
                  (fold (seat ags (ch_ID c)) (tch_Members d) w))"

definition instantiate :: "string \<Rightarrow> string \<Rightarrow> TemplateRole list \<Rightarrow> TemplateChannel list \<Rightarrow> string \<Rightarrow> world \<Rightarrow> answer" where
  "instantiate wid pfx roles chans tid w =
     (let (ags, w) = create_agents wid roles [] w in
      case ags of
        Inl nm \<Rightarrow> refuse_code 500 ''INTERNAL_ERROR'' (''failed to create agent: '' @ nm) w
      | Inr ags \<Rightarrow>
          let (cs, w) = create_channels wid pfx ags chans [] w in
          case cs of
            Inl nm \<Rightarrow> refuse_code 500 ''INTERNAL_ERROR'' (''failed to create channel: '' @ nm) w
          | Inr cs \<Rightarrow> respond 200 (JObj [(''agents'', JArr (map (JStr \<circ> snd) ags)),
              (''channels'', JArr (map JStr cs)), (''template_id'', JStr tid)]) w)"

text \<open>The optional prefix: a body that does not decode leaves it as far as it was read.\<close>

definition prefix_of_body :: "request \<Rightarrow> string" where
  "prefix_of_body q = (case rq_body q of
     Some (JObj kvs) \<Rightarrow>
       fold (\<lambda>(k, j) p. if key_eq k ''channel_prefix'' then set_or (set_str (\<lambda>v _. v)) j p else p) kvs ''''
   | _ \<Rightarrow> '''')"

definition handleInstantiateTemplate :: "request \<Rightarrow> world \<Rightarrow> answer" where
  "handleInstantiateTemplate q = found_code (GetTeamTemplate (URLParam q ''id'')) ''template not found'' (\<lambda>t w.
     case unmarshal_list (\<lambda>j. unmarshal TemplateRole_member (Some j) TemplateRole0) (tt_Roles t) of
       None \<Rightarrow> refuse_code 500 ''INTERNAL_ERROR'' ''invalid template roles'' w
     | Some roles \<Rightarrow>
         let go = (\<lambda>wid. instantiate wid (prefix_of_body q) roles (some_channels (tt_Channels t)) (URLParam q ''id'') w) in
         if tt_WorkspaceID t = '''' then
           (case rq_member q of
              None \<Rightarrow> refuse_code 401 ''AUTH_REQUIRED'' ''not authenticated'' w
            | Some me \<Rightarrow> go (mb_WorkspaceID me))
         else go (tt_WorkspaceID t))"

section \<open>End-to-end encryption\<close>

definition handleRegisterKey :: "request \<Rightarrow> world \<Rightarrow> answer" where
  "handleRegisterKey q = authed q (\<lambda>me. strs_body q [''key_type'', ''public_key'', ''private_key''] (\<lambda>fs w.
     if fs ! 0 = '''' \<or> fs ! 1 = '''' then refuse 400 ''key_type and public_key required'' w
     else if fs ! 0 \<notin> {''identity'', ''signed_pre'', ''one_time''}
       then refuse 400 ''key_type must be identity, signed_pre, or one_time'' w
     else try_made (RegisterUserKey \<lparr>uk_ID = '''', uk_MemberID = mb_ID me, uk_KeyType = fs ! 0,
              uk_PublicKey = fs ! 1, uk_PrivateKey = fs ! 2, uk_CreatedAt = 0\<rparr>)
            (\<lambda>k. respond 201 (UserKey_json k)) w))"

definition handleGetKeys :: "request \<Rightarrow> world \<Rightarrow> answer" where
  "handleGetKeys q w =
     (if Query q ''type'' = '''' then refuse 400 ''type query param required'' w
      else try_db (GetUserKeys (URLParam q ''id'') (Query q ''type''))
             (\<lambda>ks. respond 200 (slice_json UserKey_json ks)) w)"

definition handleDeleteKey :: "request \<Rightarrow> world \<Rightarrow> answer" where
  "handleDeleteKey q = authed q (\<lambda>me. try_db (GetUserKey (URLParam q ''id'')) (\<lambda>k.
     found (\<lambda>_. True) ''key not found'' k (\<lambda>k w.
       if uk_MemberID k \<noteq> mb_ID me then refuse 403 ''not your key'' w
       else try_db (DeleteUserKey (URLParam q ''id'')) (\<lambda>_. empty_answer) w)))"

definition handleSendEncrypted :: "request \<Rightarrow> world \<Rightarrow> answer" where
  "handleSendEncrypted q = authed q (\<lambda>me.
     strs_body q [''message_id'', ''recipient_id'', ''encrypted_content'', ''sender_identity_key'', ''ephemeral_key''] (\<lambda>fs w.
       if '''' \<in> set (take 4 fs)
         then refuse 400 ''message_id, recipient_id, encrypted_content, and sender_identity_key required'' w
       else try_made (CreateEncryptedMessage \<lparr>em_ID = '''', em_MessageID = fs ! 0, em_RecipientID = fs ! 1,
                em_EncryptedContent = fs ! 2, em_SenderIdentityKey = fs ! 3, em_EphemeralKey = fs ! 4,
                em_CreatedAt = 0\<rparr>)
              (\<lambda>m. respond 201 (EncryptedMessage_json m)) w))"

definition handleGetEncrypted :: "request \<Rightarrow> world \<Rightarrow> answer" where
  "handleGetEncrypted q = authed q (\<lambda>me.
     try_db (GetEncryptedMessages (URLParam q ''id'') (mb_ID me))
       (\<lambda>ms. respond 200 (slice_json EncryptedMessage_json ms)))"

section \<open>Billing\<close>

record StripeService =
  secretKey :: string
  webhookSecret :: string
  frontendURL :: string
  proPriceID :: string
  enterprisePriceID :: string

text \<open>getenv stands for os.Getenv.\<close>

definition NewStripeService :: "(string \<Rightarrow> string) \<Rightarrow> StripeService" where
  "NewStripeService getenv = \<lparr>secretKey = getenv ''LARK_STRIPE_SECRET_KEY'',
     webhookSecret = getenv ''LARK_STRIPE_WEBHOOK_SECRET'',
     frontendURL = (if getenv ''LARK_FRONTEND_URL'' = '''' then ''http://localhost:5173''
                    else getenv ''LARK_FRONTEND_URL''),
     proPriceID = getenv ''LARK_STRIPE_PRO_PRICE_ID'',
     enterprisePriceID = getenv ''LARK_STRIPE_ENTERPRISE_PRICE_ID''\<rparr>"

definition IsConfigured :: "StripeService \<Rightarrow> bool" where
  "IsConfigured s \<longleftrightarrow> secretKey s \<noteq> ''''"

definition IsWebhookConfigured :: "StripeService \<Rightarrow> bool" where
  "IsWebhookConfigured s \<longleftrightarrow> webhookSecret s \<noteq> ''''"

definition priceIDForPlan :: "StripeService \<Rightarrow> string \<Rightarrow> string" where
  "priceIDForPlan s plan =
     (if plan = ''pro'' then proPriceID s else if plan = ''enterprise'' then enterprisePriceID s else '''')"

definition GetPlanForPriceID :: "StripeService \<Rightarrow> string \<Rightarrow> string" where
  "GetPlanForPriceID s p =
     (if p = enterprisePriceID s then ''enterprise'' else if p = proPriceID s then ''pro'' else ''free'')"

text \<open>
  What is asked of Stripe for a checkout session; the client library answers with the
  session's URL, or None where the call fails.
\<close>

record checkout =
  co_reference :: string
  co_price :: string
  co_success :: string
  co_cancel :: string

definition CreateCheckoutSession :: "(checkout \<Rightarrow> string option) \<Rightarrow> StripeService \<Rightarrow> string \<Rightarrow> string \<Rightarrow> string option" where
  "CreateCheckoutSession api s wid plan =
     (let price = priceIDForPlan s plan; page = frontendURL s @ ''/ws/'' @ wid @ ''/billing'' in
      if price = '''' then None
      else api \<lparr>co_reference = wid, co_price = price, co_success = page @ ''?success=true'',
             co_cancel = page @ ''?canceled=true''\<rparr>)"

definition CreatePortalSession :: "(string \<Rightarrow> string \<Rightarrow> string option) \<Rightarrow> StripeService \<Rightarrow> string \<Rightarrow> string option" where
  "CreatePortalSession api s customer = api customer (frontendURL s @ ''/billing'')"

definition free_customer :: "string \<Rightarrow> BillingCustomer" where
  "free_customer wid = BillingCustomer0\<lparr>bc_WorkspaceID := wid, bc_Plan := ''free'', bc_Status := ''active''\<rparr>"

definition handleGetBilling :: "request \<Rightarrow> world \<Rightarrow> answer" where
  "handleGetBilling q = try_db (GetBillingCustomer (URLParam q ''id'')) (\<lambda>c.
     let c = (case c of None \<Rightarrow> free_customer (URLParam q ''id'') | Some c \<Rightarrow> c) in
     respond 200 (JObj [(''customer'', BillingCustomer_json c),
       (''limits'', PlanLimits_json (GetPlanLimits (bc_Plan c)))]))"

definition handleCreateCheckout ::
  "(checkout \<Rightarrow> string option) \<Rightarrow> StripeService \<Rightarrow> request \<Rightarrow> world \<Rightarrow> answer" where
  "handleCreateCheckout api s q = authed q (\<lambda>me w.
     if mb_Role me \<noteq> ''admin'' \<and> mb_Role me \<noteq> ''owner'' then refuse 403 ''admin required'' w
     else strs_body q [''plan''] (\<lambda>fs w.
       let wid = URLParam q ''id''; plan = fs ! 0;
           checkout = (\<lambda>c w. case CreateCheckoutSession api s wid plan of
             None \<Rightarrow> (serverError, w)
           | Some url \<Rightarrow> respond 200 (str_obj [(''checkout_url'', url), (''customer_id'', bc_ID c), (''plan'', plan)]) w)
       in if plan \<noteq> ''pro'' \<and> plan \<noteq> ''enterprise'' then refuse 400 ''plan must be pro or enterprise'' w
          else if \<not> IsConfigured s then refuse 503 ''billing not configured'' w
          else try_db (GetBillingCustomer wid) (\<lambda>c.
            case c of
              Some c \<Rightarrow> checkout c
            | None \<Rightarrow> try_made (CreateBillingCustomer (free_customer wid)) checkout) w) w)"

definition handleBillingPortal ::
  "(string \<Rightarrow> string \<Rightarrow> string option) \<Rightarrow> StripeService \<Rightarrow> request \<Rightarrow> world \<Rightarrow> answer" where
  "handleBillingPortal api s q = authed q (\<lambda>me. try_db (GetBillingCustomer (URLParam q ''id'')) (\<lambda>c.
     found (\<lambda>c. bc_StripeCustomerID c \<noteq> '''') ''no billing account'' c (\<lambda>c w.
       if \<not> IsConfigured s then refuse 503 ''billing not configured'' w
       else case CreatePortalSession api s (bc_StripeCustomerID c) of
              None \<Rightarrow> (serverError, w)
            | Some url \<Rightarrow> respond 200 (str_obj [(''portal_url'', url)]) w)))"

definition handleGetUsage :: "request \<Rightarrow> world \<Rightarrow> answer" where
  "handleGetUsage q = try_db (ListUsageRecords (URLParam q ''id'')) (\<lambda>us w.
     let (c, w) = on_db (GetBillingCustomer (URLParam q ''id'')) w;
         plan = (case c of Inr (Some c) \<Rightarrow> bc_Plan c | _ \<Rightarrow> ''free'')
     in respond 200 (JObj [(''limits'', PlanLimits_json (GetPlanLimits plan)), (''plan'', JStr plan),
          (''usage'', slice_json UsageRecord_json us)]) w)"

text \<open>The session of a completed checkout: customer, subscription, reference and amount.\<close>

definition Session_member :: "string \<Rightarrow> json \<Rightarrow> string list \<times> int \<Rightarrow> (string list \<times> int) option" where
  "Session_member k j = (\<lambda>(fs, n).
     if key_eq k ''amount_total'' then set_int (\<lambda>v (fs, _). (fs, v)) j (fs, n)
     else map_option (\<lambda>fs. (fs, n))
       (set_nth_str [''customer'', ''subscription'', ''client_reference_id''] k j fs))"

definition paid :: "int \<Rightarrow> string \<Rightarrow> string \<Rightarrow> int \<Rightarrow> BillingCustomer \<Rightarrow> BillingCustomer" where
  "paid t customer subscription amount c = c\<lparr>bc_StripeCustomerID := customer,
     bc_StripeSubscriptionID := subscription, bc_Status := ''active'',
     bc_CurrentPeriodStart := t, bc_CurrentPeriodEnd := t + 30 * 24 * 60 * 60 * 1000,
     bc_Plan := (if 10000 \<le> amount then ''enterprise'' else ''pro'')\<rparr>"

definition stripe_status :: "string \<Rightarrow> string \<Rightarrow> string" where
  "stripe_status st old =
     (if st = ''active'' then ''active'' else if st = ''past_due'' then ''past_due''
      else if st = ''canceled'' \<or> st = ''unpaid'' then ''canceled''
      else if st = ''trialing'' then ''trialing'' else old)"

text \<open>if customer != nil { change; UpdateBillingCustomer }, errors ignored.\<close>

definition change_customer ::
  "(store \<Rightarrow> (db_error + BillingCustomer option) \<times> store) \<Rightarrow> (int \<Rightarrow> BillingCustomer \<Rightarrow> BillingCustomer)
   \<Rightarrow> world \<Rightarrow> world" where
  "change_customer get change w =
     (let (c, w) = on_db get w in
      case c of
        Inr (Some c) \<Rightarrow> snd (on_db (made (UpdateBillingCustomer (change (now (db w)) c))) w)
      | _ \<Rightarrow> w)"

definition stripe_event :: "string \<Rightarrow> json option \<Rightarrow> world \<Rightarrow> world" where
  "stripe_event ty data w =
     (if ty = ''checkout.session.completed'' then
        (case unmarshal Session_member data (replicate 3 '''', 0) of
           Some (fs, amount) \<Rightarrow>
             if fs ! 2 = '''' then w
             else change_customer (GetBillingCustomer (fs ! 2)) (\<lambda>t. paid t (fs ! 0) (fs ! 1) amount) w
         | None \<Rightarrow> w)
      else if ty = ''customer.subscription.updated'' then
        (case unmarshal_strs [''customer'', ''status''] data of
           Some fs \<Rightarrow> change_customer (GetBillingCustomerByStripeID (fs ! 0))
             (\<lambda>t c. c\<lparr>bc_Status := stripe_status (fs ! 1) (bc_Status c)\<rparr>) w
         | None \<Rightarrow> w)
      else if ty = ''customer.subscription.deleted'' then
        (case unmarshal_strs [''customer''] data of
           Some fs \<Rightarrow> change_customer (GetBillingCustomerByStripeID (fs ! 0))
             (\<lambda>t c. c\<lparr>bc_Status := ''canceled'', bc_Plan := ''free'', bc_StripeSubscriptionID := ''''\<rparr>) w
         | None \<Rightarrow> w)
      else w)"

text \<open>
  The event is what the library's signature check makes of the request's body and
  header, None where it refuses; an unreadable body is not modelled apart from it.
\<close>

definition handleStripeWebhook :: "StripeService \<Rightarrow> (string \<times> json option) option \<Rightarrow> world \<Rightarrow> answer" where
  "handleStripeWebhook s event w =
     (if \<not> IsWebhookConfigured s then refuse 503 ''webhook not configured'' w
      else case event of
             None \<Rightarrow> refuse 400 ''invalid signature'' w
           | Some (ty, data) \<Rightarrow> (\<lparr>status = 200, location = None, body = None\<rparr>, stripe_event ty data w))"

section \<open>Integrations\<close>

text \<open>Role admin or owner, as the handlers that check it themselves answer.\<close>

definition admin_required :: "request \<Rightarrow> (world \<Rightarrow> answer) \<Rightarrow> world \<Rightarrow> answer" where
  "admin_required q k = authed q (\<lambda>me w.
     if mb_Role me \<noteq> ''admin'' \<and> mb_Role me \<noteq> ''owner'' then refuse 403 ''admin required'' w else k w)"

text \<open>A slice of values that may not encode.\<close>

definition slice_encoded :: "('a \<Rightarrow> json option) \<Rightarrow> 'a list \<Rightarrow> json option" where
  "slice_encoded f xs = (if xs = [] then Some JNull else map_option JArr (those (map f xs)))"

definition handleListIntegrations :: "(string \<Rightarrow> json option) \<Rightarrow> request \<Rightarrow> world \<Rightarrow> answer" where
  "handleListIntegrations parse q =
     try_db ListIntegrations (\<lambda>is. encoded 200 (slice_encoded (Integration_json parse) is))"

definition handleGetIntegration :: "(string \<Rightarrow> json option) \<Rightarrow> request \<Rightarrow> world \<Rightarrow> answer" where
  "handleGetIntegration parse q = try_db (GetIntegration (URLParam q ''id'')) (\<lambda>i.
     found (\<lambda>_. True) ''integration not found'' i (\<lambda>i. encoded 200 (Integration_json parse i)))"

definition handleCreateIntegration :: "(string \<Rightarrow> json option) \<Rightarrow> request \<Rightarrow> world \<Rightarrow> answer" where
  "handleCreateIntegration parse q = admin_required q
     (strs_body q [''name'', ''description'', ''icon_url'', ''type'', ''config_schema''] (\<lambda>fs w.
       if fs ! 0 = '''' \<or> fs ! 3 = '''' then refuse 400 ''name and type required'' w
       else try_made (CreateIntegration \<lparr>ig_ID = '''', ig_Name = fs ! 0, ig_Description = fs ! 1,
                ig_IconURL = fs ! 2, ig_Type = fs ! 3, ig_ConfigSchema = fs ! 4, ig_CreatedAt = 0\<rparr>)
              (\<lambda>i. encoded 201 (Integration_json parse i)) w))"

definition handleInstallIntegration :: "(string \<Rightarrow> json option) \<Rightarrow> request \<Rightarrow> world \<Rightarrow> answer" where
  "handleInstallIntegration parse q = authed q (\<lambda>me. strs_body q [''integration_id'', ''config''] (\<lambda>fs w.
     if fs ! 0 = '''' then refuse 400 ''integration_id required'' w
     else let (i, w) = on_db (GetIntegration (fs ! 0)) w in
       case i of
         Inr (Some i) \<Rightarrow>
           let (old, w) = on_db (GetWorkspaceIntegration (URLParam q ''id'') (fs ! 0)) w in
           (case old of
              Inr (Some old) \<Rightarrow> refuse 409 ''integration already installed'' w
            | _ \<Rightarrow> try_made (InstallIntegration \<lparr>wi_ID = '''', wi_WorkspaceID = URLParam q ''id'',
                    wi_IntegrationID = fs ! 0, wi_InstalledBy = mb_ID me, wi_Config = fs ! 1,
                    wi_Enabled = True, wi_CreatedAt = 0\<rparr>)
                  (\<lambda>wi. encoded 201 (WorkspaceIntegration_json parse wi)) w)
       | _ \<Rightarrow> refuse 404 ''integration not found'' w))"

definition handleListWorkspaceIntegrations :: "(string \<Rightarrow> json option) \<Rightarrow> request \<Rightarrow> world \<Rightarrow> answer" where
  "handleListWorkspaceIntegrations parse q = try_db (ListWorkspaceIntegrations (URLParam q ''id''))
     (\<lambda>is. encoded 200 (slice_encoded (WorkspaceIntegration_json parse) is))"

definition handleUninstallIntegration :: "request \<Rightarrow> world \<Rightarrow> answer" where
  "handleUninstallIntegration q = authed q (\<lambda>me.
     try_db (UninstallIntegration (URLParam q ''id'') (URLParam q ''integrationId'')) (\<lambda>_. empty_answer))"

section \<open>Single sign-on\<close>

definition handleListSSOProviders :: "request \<Rightarrow> world \<Rightarrow> answer" where
  "handleListSSOProviders q = try_db (ListSSOProviders (URLParam q ''id''))
     (\<lambda>ps. respond 200 (slice_json SSOProvider_json ps))"

definition handleCreateSSOProvider :: "request \<Rightarrow> world \<Rightarrow> answer" where
  "handleCreateSSOProvider q = admin_required q (strs_body q [''name'', ''type'', ''issuer'', ''client_id'',
       ''client_secret'', ''discovery_url'', ''domain''] (\<lambda>fs w.
     if fs ! 0 = '''' \<or> fs ! 1 = '''' then refuse 400 ''name and type required'' w
     else if fs ! 1 = ''oidc'' \<and> (fs ! 3 = '''' \<or> fs ! 4 = '''')
       then refuse 400 ''client_id and client_secret required for OIDC'' w
     else try_made (CreateSSOProvider \<lparr>sso_ID = '''', sso_WorkspaceID = URLParam q ''id'', sso_Name = fs ! 0,
              sso_Type = fs ! 1, sso_Issuer = fs ! 2, sso_ClientID = fs ! 3, sso_ClientSecret = fs ! 4,
              sso_DiscoveryURL = fs ! 5, sso_Domain = fs ! 6, sso_Enabled = True, sso_CreatedAt = 0\<rparr>)
            (\<lambda>p. respond 201 (SSOProvider_json p)) w))"

definition handleDeleteSSOProvider :: "request \<Rightarrow> world \<Rightarrow> answer" where
  "handleDeleteSSOProvider q = admin_required q
     (try_db (DeleteSSOProvider (URLParam q ''id'')) (\<lambda>_. empty_answer))"

definition handleSSODiscover :: "request \<Rightarrow> world \<Rightarrow> answer" where
  "handleSSODiscover q w =
     (if Query q ''domain'' = '''' then refuse 400 ''domain required'' w
      else try_db (GetSSOProviderByDomain (Query q ''domain'')) (\<lambda>p.
        found (\<lambda>_. True) ''no sso provider for domain'' p
          (\<lambda>p. respond 200 (SSOProvider_json (p\<lparr>sso_ClientSecret := ''''\<rparr>)))) w)"

text \<open>url.QueryUnescape.\<close>

definition unhex :: "char \<Rightarrow> nat option" where
  "unhex c = (let n = of_char c :: nat in
     if 48 \<le> n \<and> n \<le> 57 then Some (n - 48)
     else if 97 \<le> n \<and> n \<le> 102 then Some (n - 87)
     else if 65 \<le> n \<and> n \<le> 70 then Some (n - 55)
     else None)"

fun QueryUnescape :: "string \<Rightarrow> string option" where
  "QueryUnescape [] = Some []"
| "QueryUnescape (c # cs) =
     (if c = CHR ''+'' then map_option (Cons (CHR '' '')) (QueryUnescape cs)
      else if c \<noteq> CHR ''%'' then map_option (Cons c) (QueryUnescape cs)
      else (case cs of
              a # b # ds \<Rightarrow>
                (case (unhex a, unhex b) of
                   (Some x, Some y) \<Rightarrow> map_option (Cons (char_of (16 * x + y))) (QueryUnescape ds)
                 | _ \<Rightarrow> None)
            | _ \<Rightarrow> None))"

text \<open>
  The identity provider is reached over HTTP: a request is answered by an error text
  or a status and body.  JSON text is read by the library: the value it denotes and,
  where decoding fails, the text of its error.
\<close>

datatype http_body = NoBody | Form "(string \<times> string) list" | Text string

record http_request =
  hr_method :: string
  hr_url :: string
  hr_headers :: "(string \<times> string) list"
  hr_body :: http_body

record internet =
  do_http :: "http_request \<Rightarrow> string + nat \<times> string"
  parse_json :: "string \<Rightarrow> json option"
  json_error :: "string \<Rightarrow> string"

definition fetch_strs :: "internet \<Rightarrow> string list \<Rightarrow> bool \<Rightarrow> string \<Rightarrow> http_request \<Rightarrow> string + string list" where
  "fetch_strs net fs must_be_ok what r =
     (case do_http net r of
        Inl e \<Rightarrow> Inl e
      | Inr (st, txt) \<Rightarrow>
          if must_be_ok \<and> st \<noteq> 200 then Inl (what @ '' ('' @ Itoa (int st) @ ''): '' @ txt)
          else case unmarshal_strs fs (parse_json net txt) of
                 None \<Rightarrow> Inl (json_error net txt) | Some vs \<Rightarrow> Inr vs)"

definition discoverOIDCEndpoints :: "internet \<Rightarrow> string \<Rightarrow> string + string list" where
  "discoverOIDCEndpoints net url = fetch_strs net [''token_endpoint'', ''userinfo_endpoint''] False ''''
     \<lparr>hr_method = ''GET'', hr_url = url, hr_headers = [], hr_body = NoBody\<rparr>"

text \<open>The endpoint named by the discovery document, else the conventional one.\<close>

definition endpoint :: "internet \<Rightarrow> SSOProvider \<Rightarrow> nat \<Rightarrow> string \<Rightarrow> string" where
  "endpoint net p i dflt =
     (let u = sso_Issuer p @ ''/protocol/openid-connect/'' @ dflt in
      if sso_DiscoveryURL p = '''' then u
      else case discoverOIDCEndpoints net (sso_DiscoveryURL p) of
             Inl e \<Rightarrow> u | Inr vs \<Rightarrow> if vs ! i = '''' then u else vs ! i)"

definition exchangeCodeForTokens ::
  "internet \<Rightarrow> string \<Rightarrow> string \<Rightarrow> string \<Rightarrow> string \<Rightarrow> string \<Rightarrow> string + string list" where
  "exchangeCodeForTokens net url code cid secret redir =
     fetch_strs net [''access_token'', ''id_token'', ''token_type''] True ''token exchange failed''
       \<lparr>hr_method = ''POST'', hr_url = url,
        hr_headers = [(''Content-Type'', ''application/x-www-form-urlencoded'')],
        hr_body = Form ([(''client_id'', cid), (''client_secret'', secret), (''code'', code),
          (''grant_type'', ''authorization_code'')]
          @ (if redir = '''' then [] else [(''redirect_uri'', redir)]))\<rparr>"

definition getUserInfo :: "internet \<Rightarrow> SSOProvider \<Rightarrow> string \<Rightarrow> string + string list" where
  "getUserInfo net p tok =
     fetch_strs net [''sub'', ''email'', ''name'', ''picture''] True ''userinfo request failed''
       \<lparr>hr_method = ''GET'', hr_url = endpoint net p 1 ''userinfo'', hr_headers = [(''Authorization'', ''Bearer '' @ tok)],
        hr_body = NoBody\<rparr>"

definition sso_member :: "string \<Rightarrow> string \<Rightarrow> string \<Rightarrow> Member" where
  "sso_member wid nm email = Member0\<lparr>mb_WorkspaceID := wid,
     mb_Name := (if nm \<noteq> '''' then nm else if email \<noteq> '''' then email else ''SSO User''),
     mb_Type := ''human'', mb_Role := ''user''\<rparr>"

definition findOrCreateSSOMember ::
  "string \<Rightarrow> SSOProvider \<Rightarrow> string list \<Rightarrow> world \<Rightarrow> (string + Member) \<times> world" where
  "findOrCreateSSOMember wid p info w =
     (let prov = ''sso:'' @ sso_ID p; (ident, w) = on_db (GetOAuthIdentity prov (info ! 0)) w in
      case ident of
        Inl e \<Rightarrow> (Inl (err_text e), w)
      | Inr (Some ident) \<Rightarrow>
          (let (m, w) = on_db (GetMember (oa_MemberID ident)) w in
           case m of Inr (Some m) \<Rightarrow> (Inr m, w) | _ \<Rightarrow> (Inl ''member not found'', w))
      | Inr None \<Rightarrow>
          (let (m, w) = svc_CreateMember (sso_member wid (info ! 2) (info ! 1)) w in
           case m of
             Inl e \<Rightarrow> (Inl (err_text e), w)
           | Inr m \<Rightarrow> (Inr m, add_link (link (mb_ID m) prov (info ! 0) '''') w)))"

definition sso_redirect :: "string \<Rightarrow> string \<Rightarrow> string" where
  "sso_redirect uri tok =
     (let u = (if uri = '''' then ''/'' else uri)
      in u @ (if Contains u ''?'' then ''&'' else ''?'') @ ''token='' @ tok)"

definition sso_login :: "internet \<Rightarrow> string \<Rightarrow> string list \<Rightarrow> world \<Rightarrow> answer" where
  "sso_login net code st w =
     (let (p, w) = on_db (GetSSOProvider (st ! 0)) w in
      case p of
        Inr (Some p) \<Rightarrow>
          (case exchangeCodeForTokens net (endpoint net p 0 ''token'') code (sso_ClientID p) (sso_ClientSecret p) (st ! 2) of
             Inl e \<Rightarrow> refuse 502 (''token exchange failed: '' @ e) w
           | Inr toks \<Rightarrow>
               case getUserInfo net p (toks ! 0) of
                 Inl e \<Rightarrow> refuse 502 (''failed to get user info: '' @ e) w
               | Inr info \<Rightarrow>
                   let (m, w) = findOrCreateSSOMember (st ! 1) p info w in
                   case m of
                     Inl e \<Rightarrow> refuse 500 (''failed to create member: '' @ e) w
                   | Inr m \<Rightarrow>
                       let (t, w) = GenerateToken (mb_ID m) (st ! 1) w in
                       case t of
                         None \<Rightarrow> refuse 500 ''failed to generate token'' w
                       | Some (tok, jti) \<Rightarrow> redirect 307 (sso_redirect (st ! 2) tok) w)
      | _ \<Rightarrow> refuse 400 ''provider not found'' w)"

definition handleSSOCallback :: "internet \<Rightarrow> request \<Rightarrow> world \<Rightarrow> answer" where
  "handleSSOCallback net q w =
     (let code = Query q ''code''; st = Query q ''state'' in
      if code = '''' \<or> st = '''' then refuse 400 ''code and state required'' w
      else case QueryUnescape st of
             None \<Rightarrow> refuse 400 ''invalid state'' w
           | Some text \<Rightarrow>
               case unmarshal_strs [''provider_id'', ''workspace_id'', ''redirect_uri''] (parse_json net text) of
                 None \<Rightarrow> refuse 400 ''invalid state format'' w
               | Some fs \<Rightarrow> sso_login net code fs w)"

end
