(* ===== verification/Workflow.thy ===== *)
theory Workflow
  imports Rest_Extra
begin

text \<open>
  api/handlers_workflow.go: the workflow handlers, the engine that runs a workflow's
  steps under a five-minute deadline, conditions on the previous step's output, and the
  cron and event triggers.
\<close>

section \<open>Workflow handlers\<close>

definition Workflow0 :: Workflow where
  "Workflow0 = \<lparr>wf_ID = '''', wf_WorkspaceID = '''', wf_Name = '''', wf_Description = '''',
     wf_TriggerType = '''', wf_TriggerConfig = None, wf_Steps = None, wf_Enabled = False,
     wf_CreatedBy = '''', wf_CreatedAt = 0, wf_UpdatedAt = 0\<rparr>"

text \<open>The members a request may set; enabled is a pointer, so null and absence are the same.\<close>

definition NewWorkflow_member :: "string \<Rightarrow> json \<Rightarrow> Workflow \<Rightarrow> Workflow option" where
  "NewWorkflow_member k j d =
     (if key_eq k ''name'' then set_str (\<lambda>v d. d\<lparr>wf_Name := v\<rparr>) j d
      else if key_eq k ''description'' then set_str (\<lambda>v d. d\<lparr>wf_Description := v\<rparr>) j d
      else if key_eq k ''trigger_type'' then set_str (\<lambda>v d. d\<lparr>wf_TriggerType := v\<rparr>) j d
      else if key_eq k ''trigger_config'' then Some (d\<lparr>wf_TriggerConfig := Some j\<rparr>)
      else if key_eq k ''steps'' then Some (d\<lparr>wf_Steps := Some j\<rparr>)
      else Some d)"

definition handleCreateWorkflow :: "request \<Rightarrow> world \<Rightarrow> answer" where
  "handleCreateWorkflow q = authed q (\<lambda>me. decoded (unmarshal NewWorkflow_member (rq_body q) Workflow0) (\<lambda>flow w.
     if wf_Name flow = '''' \<or> wf_TriggerType flow = '''' \<or> wf_Steps flow = None
       then refuse 400 ''name, trigger_type, and steps required'' w
     else if unmarshal_list Some (wf_Steps flow) = None then refuse 400 ''steps must be a JSON array'' w
     else try_made (CreateWorkflow (flow\<lparr>wf_WorkspaceID := URLParam q ''id'', wf_Enabled := True, wf_CreatedBy := mb_ID me\<rparr>))
            (\<lambda>flow. respond 201 (Workflow_json flow)) w))"

definition handleListWorkflows :: "request \<Rightarrow> world \<Rightarrow> answer" where
  "handleListWorkflows q = try_db (ListWorkflows (URLParam q ''id''))
     (\<lambda>ws. respond 200 (slice_json Workflow_json ws))"

definition one_workflow :: "request \<Rightarrow> (Workflow \<Rightarrow> world \<Rightarrow> answer) \<Rightarrow> world \<Rightarrow> answer" where
  "one_workflow q k = try_db (GetWorkflow (URLParam q ''id'')) (\<lambda>x. found (\<lambda>_. True) ''workflow not found'' x k)"

definition handleGetWorkflow :: "request \<Rightarrow> world \<Rightarrow> answer" where
  "handleGetWorkflow q = one_workflow q (\<lambda>flow. respond 200 (Workflow_json flow))"

definition Enabled_member ::
  "string \<Rightarrow> json \<Rightarrow> Workflow \<times> bool option \<Rightarrow> (Workflow \<times> bool option) option" where
  "Enabled_member k j = (\<lambda>(d, e).
     if key_eq k ''enabled'' then
       (if j = JNull then Some (d, None) else set_bool (\<lambda>v (d, _). (d, Some v)) j (d, e))
     else map_option (\<lambda>d. (d, e)) (NewWorkflow_member k j d))"

definition amended :: "Workflow \<Rightarrow> Workflow \<Rightarrow> bool option \<Rightarrow> Workflow" where
  "amended old b en = old\<lparr>
     wf_Name := keep_unless (wf_Name b) (wf_Name old),
     wf_Description := keep_unless (wf_Description b) (wf_Description old),
     wf_TriggerType := keep_unless (wf_TriggerType b) (wf_TriggerType old),
     wf_TriggerConfig := (if wf_TriggerConfig b = None then wf_TriggerConfig old else wf_TriggerConfig b),
     wf_Steps := (if wf_Steps b = None then wf_Steps old else wf_Steps b),
     wf_Enabled := (case en of None \<Rightarrow> wf_Enabled old | Some e \<Rightarrow> e)\<rparr>"

definition handleUpdateWorkflow :: "request \<Rightarrow> world \<Rightarrow> answer" where
  "handleUpdateWorkflow q = authed q (\<lambda>me. one_workflow q (\<lambda>old.
     decoded (unmarshal Enabled_member (rq_body q) (Workflow0, None)) (\<lambda>(b, en).
       try_made (UpdateWorkflow (amended old b en)) (\<lambda>flow. respond 200 (Workflow_json flow)))))"

definition handleDeleteWorkflow :: "request \<Rightarrow> world \<Rightarrow> answer" where
  "handleDeleteWorkflow q = authed q (\<lambda>me. try_db (DeleteWorkflow (URLParam q ''id'')) (\<lambda>_. empty_answer))"

definition handleListWorkflowRuns :: "request \<Rightarrow> world \<Rightarrow> answer" where
  "handleListWorkflowRuns q = try_db (ListWorkflowRuns (URLParam q ''id'')
       (case Atoi (Query q ''limit'') of None \<Rightarrow> 20 | Some n \<Rightarrow> if 0 < n then n else 20))
     (\<lambda>rs. respond 200 (slice_json WorkflowRun_json rs))"

definition handleGetWorkflowRun :: "request \<Rightarrow> world \<Rightarrow> answer" where
  "handleGetWorkflowRun q = try_db (GetWorkflowRun (URLParam q ''id'')) (\<lambda>x.
     found (\<lambda>_. True) ''workflow run not found'' x (\<lambda>x. respond 200 (WorkflowRun_json x)))"

section \<open>Conditions\<close>

text \<open>
  fmt.Sprintf("%v", x).  Integers of magnitude below 2^53 print as they are; for other
  numbers, which Go holds as float64, fmt_float gives the text.  None is nil.
\<close>

fun Sprint :: "(json \<Rightarrow> string) \<Rightarrow> json \<Rightarrow> string" where
  "Sprint fmt_float JNull = ''<nil>''"
| "Sprint fmt_float (JBool b) = (if b then ''true'' else ''false'')"
| "Sprint fmt_float (JNum n) = (if - (2 ^ 53) < n \<and> n < 2 ^ 53 then Itoa n else fmt_float (JNum n))"
| "Sprint fmt_float (JFrac s) = fmt_float (JFrac s)"
| "Sprint fmt_float (JStr s) = s"
| "Sprint fmt_float (JArr js) = ''['' @ Join (map (Sprint fmt_float) js) '' '' @ '']''"
| "Sprint fmt_float (JObj kvs) =
     ''map['' @ Join (map (\<lambda>(k, s). k @ '':'' @ s) (sort_key fst (map (\<lambda>(k, j). (k, Sprint fmt_float j)) kvs))) '' '' @ '']''"

definition Sprint_any :: "(json \<Rightarrow> string) \<Rightarrow> json option \<Rightarrow> string" where
  "Sprint_any fmt_float x = (case x of None \<Rightarrow> ''<nil>'' | Some j \<Rightarrow> Sprint fmt_float j)"

definition evaluateCondition :: "(json \<Rightarrow> string) \<Rightarrow> json option \<Rightarrow> string \<Rightarrow> json option \<Rightarrow> bool" where
  "evaluateCondition fmt_float value operator expected =
     (let a = Sprint_any fmt_float value; b = Sprint_any fmt_float expected in
      if operator = ''eq'' \<or> operator = ''equals'' then a = b
      else if operator = ''neq'' \<or> operator = ''not_equals'' then a \<noteq> b
      else if operator = ''contains'' then Contains a b
      else if operator = ''exists'' then value \<noteq> None
      else False)"

definition before_dot :: "string \<Rightarrow> string" where
  "before_dot = takeWhile (\<lambda>c. c \<noteq> CHR ''.'')"

definition after_dot :: "string \<Rightarrow> string option" where
  "after_dot p = (case dropWhile (\<lambda>c. c \<noteq> CHR ''.'') p of [] \<Rightarrow> None | _ # r \<Rightarrow> Some r)"

lemma after_dot_shorter: "after_dot p = Some r \<Longrightarrow> length r < length p"
  using length_dropWhile_le [of "\<lambda>c. c \<noteq> CHR ''.''" p]
  by (auto simp: after_dot_def split: list.splits)

function getNestedValue :: "(string, json) go_map \<Rightarrow> string \<Rightarrow> json option" where
  "getNestedValue data path =
     (case go_get data (before_dot path) of
        None \<Rightarrow> None
      | Some v \<Rightarrow>
          (case after_dot path of
             None \<Rightarrow> Some v
           | Some r \<Rightarrow> (case v of JObj kvs \<Rightarrow> getNestedValue kvs r | _ \<Rightarrow> None)))"
  by pat_completeness auto
termination
  by (relation "measure (\<lambda>(data, path). length path)") (auto dest: after_dot_shorter)

section \<open>Running the steps\<close>

record workflowStep =
  stp_Type :: string
  stp_Config :: "json option"
  stp_ContinueOnError :: bool

definition workflowStep_member :: "string \<Rightarrow> json \<Rightarrow> workflowStep \<Rightarrow> workflowStep option" where
  "workflowStep_member k j d =
     (if key_eq k ''type'' then set_str (\<lambda>v d. d\<lparr>stp_Type := v\<rparr>) j d
      else if key_eq k ''config'' then Some (d\<lparr>stp_Config := Some j\<rparr>)
      else if key_eq k ''continue_on_error'' then set_bool (\<lambda>v d. d\<lparr>stp_ContinueOnError := v\<rparr>) j d
      else Some d)"

definition decode_step :: "json \<Rightarrow> workflowStep option" where
  "decode_step j = unmarshal workflowStep_member (Some j)
     \<lparr>stp_Type = '''', stp_Config = None, stp_ContinueOnError = False\<rparr>"

text \<open>
  What the engine takes from outside: the answer to an HTTP request within the
  milliseconds left, with the milliseconds it took; the text of the error
  json.Unmarshal reports on a value; the formatting of floating-point numbers.
\<close>

record engine =
  eng_http :: "http_request \<Rightarrow> int \<Rightarrow> nat \<times> (string + nat \<times> string)"
  eng_json_error :: "json option \<Rightarrow> string"
  eng_fmt_float :: "json \<Rightarrow> string"

type_synonym outcome = "(string, json) go_map"

text \<open>A statement under the run's context, which is done once the deadline has passed.\<close>

definition by_deadline :: "int \<Rightarrow> (store \<Rightarrow> 'a \<times> store) \<Rightarrow> world \<Rightarrow> 'a \<times> world" where
  "by_deadline dl op w =
     (if dl \<le> now (db w)
      then let (x, s) = op ((db w)\<lparr>faults := [Some ''context deadline exceeded'']\<rparr>)
           in (x, w\<lparr>db := s\<lparr>faults := faults (db w)\<rparr>\<rparr>)
      else on_db op w)"

definition pass_time :: "int \<Rightarrow> world \<Rightarrow> world" where
  "pass_time ms w = w\<lparr>db := (db w)\<lparr>now := now (db w) + ms\<rparr>\<rparr>"

definition failed_with :: "string \<Rightarrow> outcome \<Rightarrow> outcome" where
  "failed_with e r = go_put ''error'' (JStr e) (go_put ''status'' (JStr ''failed'') r)"

text \<open>A step's result, its output and the state it leaves.\<close>

type_synonym step_answer = "outcome \<times> outcome \<times> world"

text \<open>A statement of a step: its failure is the step's, its row's id goes to both maps.\<close>

definition step_made ::
  "int \<Rightarrow> (store \<Rightarrow> (db_error + unit) \<times> 'r \<times> store) \<Rightarrow> ('r \<Rightarrow> world \<Rightarrow> step_answer) \<Rightarrow> outcome \<Rightarrow> world \<Rightarrow> step_answer" where
  "step_made dl op k res w =
     (let ((x, r), w) = by_deadline dl (made op) w in
      case x of Inl e \<Rightarrow> (failed_with (err_text e) res, [], w) | Inr _ \<Rightarrow> k r w)"

definition both :: "string \<Rightarrow> string \<Rightarrow> outcome \<Rightarrow> world \<Rightarrow> step_answer" where
  "both k v res w = (go_put k (JStr v) res, [(k, JStr v)], w)"

definition step_message :: "string \<Rightarrow> string \<Rightarrow> string \<Rightarrow> Message" where
  "step_message ch who content = Message0\<lparr>msg_ChannelID := ch, msg_SenderID := who,
     msg_Content := content, msg_ContentType := ''text''\<rparr>"

definition step_send :: "int \<Rightarrow> string \<Rightarrow> string \<Rightarrow> string \<Rightarrow> outcome \<Rightarrow> world \<Rightarrow> step_answer" where
  "step_send dl ch who content res = step_made dl (CreateMessage (step_message ch who content))
     (\<lambda>m w. both ''message_id'' (msg_ID m) res (SendNewMessage ch m w)) res"

definition step_dm :: "int \<Rightarrow> Workflow \<Rightarrow> string \<Rightarrow> string \<Rightarrow> outcome \<Rightarrow> world \<Rightarrow> step_answer" where
  "step_dm dl flow who content res w =
     (let ids = [wf_CreatedBy flow, who]; (dm, w) = by_deadline dl (GetDMChannel (wf_WorkspaceID flow) ids) w in
      case dm of
        Inl e \<Rightarrow> (failed_with (err_text e) res, [], w)
      | Inr (Some c) \<Rightarrow> step_send dl (ch_ID c) (wf_CreatedBy flow) content res w
      | Inr None \<Rightarrow>
          let c = Channel0\<lparr>ch_WorkspaceID := wf_WorkspaceID flow, ch_Name := ''dm'', ch_Type := ''dm''\<rparr>
          in step_made dl (\<lambda>s. CreateDMChannel c ids s)
               (\<lambda>c. step_send dl (ch_ID c) (wf_CreatedBy flow) content res) res w)"

definition step_channel :: "int \<Rightarrow> Workflow \<Rightarrow> string \<Rightarrow> string \<Rightarrow> outcome \<Rightarrow> world \<Rightarrow> step_answer" where
  "step_channel dl flow nm ty res = step_made dl
     (CreateChannel (Channel0\<lparr>ch_WorkspaceID := wf_WorkspaceID flow, ch_Name := nm,
        ch_Type := (if ty = '''' then ''public'' else ty)\<rparr>))
     (\<lambda>c. both ''channel_id'' (ch_ID c) res) res"

definition step_task :: "int \<Rightarrow> Workflow \<Rightarrow> string list \<Rightarrow> outcome \<Rightarrow> world \<Rightarrow> step_answer" where
  "step_task dl flow fs res = step_made dl
     (CreateTask (Task0\<lparr>task_WorkspaceID := wf_WorkspaceID flow, task_ChannelID := fs ! 2,
        task_AssignedTo := fs ! 3, task_CreatedBy := wf_CreatedBy flow, task_Title := fs ! 0,
        task_Description := fs ! 1, task_Status := ''todo'', task_Priority := ''medium''\<rparr>))
     (\<lambda>t. both ''task_id'' (task_ID t) res) res"

definition step_update_task :: "int \<Rightarrow> string list \<Rightarrow> outcome \<Rightarrow> world \<Rightarrow> step_answer" where
  "step_update_task dl fs res w =
     (let (t, w) = by_deadline dl (GetTask (fs ! 0)) w in
      case t of
        Inr (Some t) \<Rightarrow>
          step_made dl (UpdateTask (t\<lparr>task_Status := keep_unless (fs ! 1) (task_Status t),
              task_Title := keep_unless (fs ! 2) (task_Title t)\<rparr>))
            (\<lambda>t w. (go_put ''task_id'' (JStr (task_ID t)) res, [], w)) res w
      | _ \<Rightarrow> (failed_with ''task not found'' res, [], w))"

definition step_notify :: "int \<Rightarrow> string list \<Rightarrow> outcome \<Rightarrow> world \<Rightarrow> step_answer" where
  "step_notify dl fs res = step_made dl
     (CreateNotification (Notification0\<lparr>nt_MemberID := fs ! 0, nt_Title := fs ! 1, nt_Body := fs ! 2,
        nt_Type := (if fs ! 3 = '''' then ''workflow'' else fs ! 3)\<rparr>))
     (\<lambda>n. both ''notification_id'' (nt_ID n) res) res"

fun str_map :: "(string \<times> json) list \<Rightarrow> (string \<times> string) list option" where
  "str_map [] = Some []"
| "str_map ((k, JStr s) # kvs) = map_option (\<lambda>m. (k, s) # m) (str_map kvs)"
| "str_map ((k, JNull) # kvs) = map_option (\<lambda>m. (k, '''') # m) (str_map kvs)"
| "str_map ((k, _) # kvs) = None"

definition HttpConfig_member ::
  "string \<Rightarrow> json \<Rightarrow> string list \<times> (string \<times> string) list \<Rightarrow> (string list \<times> (string \<times> string) list) option" where
  "HttpConfig_member k j = (\<lambda>(fs, hs).
     if key_eq k ''headers'' then
       (case j of JObj kvs \<Rightarrow> map_option (\<lambda>m. (fs, hs @ m)) (str_map kvs) | JNull \<Rightarrow> Some (fs, []) | _ \<Rightarrow> None)
     else map_option (\<lambda>fs. (fs, hs)) (set_nth_str [''url'', ''method'', ''body''] k j fs))"

definition maxResponse :: nat where
  "maxResponse = 2 ^ 20"

definition step_http :: "engine \<Rightarrow> int \<Rightarrow> string list \<Rightarrow> (string \<times> string) list \<Rightarrow> outcome \<Rightarrow> world \<Rightarrow> step_answer" where
  "step_http eng dl fs hs res w =
     (let r = \<lparr>hr_method = (if fs ! 1 = '''' then ''GET'' else fs ! 1), hr_url = fs ! 0, hr_headers = hs,
            hr_body = (if fs ! 2 = '''' then NoBody else Text (fs ! 2))\<rparr>;
          (ms, ans) = eng_http eng r (dl - now (db w));
          w = pass_time (int ms) w
      in case ans of
           Inl e \<Rightarrow> (failed_with e res, [], w)
         | Inr (st, txt) \<Rightarrow>
             let out = [(''status_code'', JNum (int st)), (''response'', JStr (take maxResponse txt))]
             in (fold (\<lambda>(k, v). go_put k v) out res, out, w))"

definition Condition_member ::
  "string \<Rightarrow> json \<Rightarrow> string list \<times> json option \<Rightarrow> (string list \<times> json option) option" where
  "Condition_member k j = (\<lambda>(fs, v).
     if key_eq k ''value'' then Some (fs, if j = JNull then None else Some j)
     else map_option (\<lambda>fs. (fs, v)) (set_nth_str [''field'', ''operator''] k j fs))"

definition step_condition ::
  "engine \<Rightarrow> outcome \<Rightarrow> string list \<Rightarrow> json option \<Rightarrow> outcome \<Rightarrow> world \<Rightarrow> step_answer" where
  "step_condition eng prev fs expected res w =
     (let v = (if fs ! 0 = '''' then None else getNestedValue [(''prev'', JObj prev)] (fs ! 0));
          ok = evaluateCondition (eng_fmt_float eng) v (fs ! 1) expected;
          res = go_put ''condition_met'' (JBool ok) res
      in (if ok then res else go_put ''status'' (JStr ''skipped'') res, [(''condition_met'', JBool ok)], w))"

definition Delay_member :: "string \<Rightarrow> json \<Rightarrow> int \<Rightarrow> int option" where
  "Delay_member k j d = (if key_eq k ''seconds'' then set_int (\<lambda>v _. v) j d else Some d)"

text \<open>Decode the configuration, or fail the step.\<close>

definition configured :: "engine \<Rightarrow> workflowStep \<Rightarrow> outcome \<Rightarrow> 'c option \<Rightarrow> ('c \<Rightarrow> world \<Rightarrow> step_answer) \<Rightarrow> world \<Rightarrow> step_answer" where
  "configured eng st res cfg k w =
     (case cfg of None \<Rightarrow> (failed_with (eng_json_error eng (stp_Config st)) res, [], w) | Some c \<Rightarrow> k c w)"

definition executeStep :: "engine \<Rightarrow> int \<Rightarrow> Workflow \<Rightarrow> workflowStep \<Rightarrow> outcome \<Rightarrow> outcome \<Rightarrow> world \<Rightarrow> step_answer" where
  "executeStep eng dl flow st res prev =
     (let ty = stp_Type st;
          strs = (\<lambda>fs. configured eng st res (unmarshal_strs fs (stp_Config st))) in
      if ty = ''send_message'' then
        strs [''channel_id'', ''content''] (\<lambda>fs. step_send dl (fs ! 0) (wf_CreatedBy flow) (fs ! 1) res)
      else if ty = ''send_dm'' then
        strs [''member_id'', ''content''] (\<lambda>fs. step_dm dl flow (fs ! 0) (fs ! 1) res)
      else if ty = ''create_channel'' then
        strs [''name'', ''type''] (\<lambda>fs. step_channel dl flow (fs ! 0) (fs ! 1) res)
      else if ty = ''create_task'' then
        strs [''title'', ''description'', ''channel_id'', ''assigned_to''] (\<lambda>fs. step_task dl flow fs res)
      else if ty = ''update_task'' then
        strs [''task_id'', ''status'', ''title''] (\<lambda>fs. step_update_task dl fs res)
      else if ty = ''send_notification'' then
        strs [''member_id'', ''title'', ''body'', ''type''] (\<lambda>fs. step_notify dl fs res)
      else if ty = ''http_request'' then
        configured eng st res (unmarshal HttpConfig_member (stp_Config st) (replicate 3 '''', []))
          (\<lambda>(fs, hs). step_http eng dl fs hs res)
      else if ty = ''conditional'' then
        configured eng st res (unmarshal Condition_member (stp_Config st) (replicate 2 '''', None))
          (\<lambda>(fs, v). step_condition eng prev fs v res)
      else if ty = ''delay'' then
        configured eng st res (unmarshal Delay_member (stp_Config st) 0)
          (\<lambda>n w. (res, [], if 0 < n \<and> n \<le> 300 then pass_time (n * 1000) w else w))
      else (\<lambda>w. (go_put ''error'' (JStr (''unknown step type: '' @ ty)) (go_put ''status'' (JStr ''skipped'') res), [], w)))"

section \<open>Runs\<close>

text \<open>The results are in step order; a step's entry shows the output it was given.\<close>

definition skipped_entry :: "nat \<Rightarrow> workflowStep \<Rightarrow> outcome" where
  "skipped_entry i st = [(''step'', JNum (int i)), (''type'', JStr (stp_Type st)),
     (''status'', JStr ''skipped''), (''error'', JStr ''timeout'')]"

definition fresh_entry :: "nat \<Rightarrow> workflowStep \<Rightarrow> outcome \<Rightarrow> outcome" where
  "fresh_entry i st prev = [(''step'', JNum (int i)), (''type'', JStr (stp_Type st)),
     (''status'', JStr ''completed'')] @ (if prev = [] then [] else [(''prev_output'', map_json id prev)])"

definition is_failed :: "outcome \<Rightarrow> bool" where
  "is_failed r \<longleftrightarrow> go_get r ''status'' = Some (JStr ''failed'')"

fun run_steps ::
  "engine \<Rightarrow> int \<Rightarrow> Workflow \<Rightarrow> nat \<Rightarrow> workflowStep list \<Rightarrow> outcome \<Rightarrow> world \<Rightarrow> outcome list \<times> world" where
  "run_steps eng dl flow i [] prev w = ([], w)"
| "run_steps eng dl flow i (st # sts) prev w =
     (if dl \<le> now (db w) then ([skipped_entry i st], w)
      else
        let (res, out, w) = executeStep eng dl flow st (fresh_entry i st prev) prev w in
        if is_failed res \<and> \<not> stp_ContinueOnError st then ([res], w)
        else
          let (rs, w) = run_steps eng dl flow (Suc i) sts out w in (res # rs, w))"

definition runTimeout :: int where
  "runTimeout = 5 * 60 * 1000"

definition finish_run :: "int \<Rightarrow> WorkflowRun \<Rightarrow> outcome list \<Rightarrow> world \<Rightarrow> world" where
  "finish_run dl run rs w =
     (let run = run\<lparr>wr_Result := Some (JArr (map (map_json id) rs)), wr_FinishedAt := now (db w)\<rparr>;
          run = (if list_ex is_failed rs
                 then run\<lparr>wr_Status := ''failed'', wr_Error := ''one or more steps failed''\<rparr>
                 else run\<lparr>wr_Status := ''completed''\<rparr>)
      in snd (by_deadline dl (UpdateWorkflowRun run) w))"

definition executeWorkflow :: "engine \<Rightarrow> WorkflowRun \<Rightarrow> Workflow \<Rightarrow> world \<Rightarrow> world" where
  "executeWorkflow eng run flow w =
     (let dl = now (db w) + runTimeout in
      case unmarshal_list decode_step (wf_Steps flow) of
        None \<Rightarrow> snd (by_deadline dl (UpdateWorkflowRun (run\<lparr>wr_Status := ''failed'',
          wr_Error := ''invalid steps: '' @ eng_json_error eng (wf_Steps flow), wr_FinishedAt := now (db w)\<rparr>)) w)
      | Some sts \<Rightarrow>
          let (rs, w) = run_steps eng dl flow 0 sts [] w in finish_run dl run rs w)"

definition new_run :: "Workflow \<Rightarrow> json option \<Rightarrow> WorkflowRun" where
  "new_run flow data = WorkflowRun0\<lparr>wr_WorkflowID := wf_ID flow, wr_Status := ''running'', wr_TriggerData := data\<rparr>"

text \<open>The body of a trigger, read as a map and written again: repeated members collapse.\<close>

definition trigger_data :: "request \<Rightarrow> json option" where
  "trigger_data q = (case rq_body q of
     Some (JObj kvs) \<Rightarrow> Some (map_json id (fold (\<lambda>(k, j). go_put k j) kvs []))
   | Some JNull \<Rightarrow> Some JNull
   | _ \<Rightarrow> None)"

text \<open>
  The run goes on in the background once it is answered; the model answers with the run
  as it was stored and executes it at once.
\<close>

definition handleTriggerWorkflow ::
  "engine \<Rightarrow> (int \<Rightarrow> int \<times> int) \<Rightarrow> request \<Rightarrow> world \<Rightarrow> answer" where
  "handleTriggerWorkflow eng month q = authed q (\<lambda>me. one_workflow q (\<lambda>flow w.
     if \<not> wf_Enabled flow then refuse 400 ''workflow is disabled'' w
     else try_made (CreateWorkflowRun (new_run flow (trigger_data q))) (\<lambda>run w.
       respond 202 (WorkflowRun_json run)
         (recordUsage month (wf_WorkspaceID flow) ''workflows'' 1 (executeWorkflow eng run flow w))) w))"

section \<open>Cron and event triggers\<close>

definition interval_of :: "Workflow \<Rightarrow> int option" where
  "interval_of flow = unmarshal (\<lambda>k j d. if key_eq k ''interval_seconds'' then set_int (\<lambda>v _. v) j d else Some d)
     (wf_TriggerConfig flow) 0"

text \<open>Whether the loop starts at all, and one tick of it: None where the loop ends.\<close>

definition cron_starts :: "Workflow \<Rightarrow> bool" where
  "cron_starts flow \<longleftrightarrow> (case interval_of flow of None \<Rightarrow> False | Some n \<Rightarrow> 0 < n)"

definition runCronWorkflow :: "engine \<Rightarrow> Workflow \<Rightarrow> world \<Rightarrow> Workflow option \<times> world" where
  "runCronWorkflow eng flow w =
     (if \<not> wf_Enabled flow then (None, w)
      else
        let (cur, w) = on_db (GetWorkflow (wf_ID flow)) w in
        case cur of
          Inr (Some flow) \<Rightarrow>
            if \<not> wf_Enabled flow then (None, w)
            else
              (let (run, w) = stored (CreateWorkflowRun (new_run flow None)) w in
               case run of
                 Inl e \<Rightarrow> (Some flow, w)
               | Inr run \<Rightarrow> (Some flow, executeWorkflow eng run flow w))
        | _ \<Rightarrow> (None, w))"

text \<open>The cron workflows started with the server; a workspace whose listing fails is passed over.\<close>

definition cron_of :: "Workspace \<Rightarrow> Workflow list \<times> world \<Rightarrow> Workflow list \<times> world" where
  "cron_of ws = (\<lambda>(acc, w).
     let (fs, w) = on_db (ListWorkflows (ws_ID ws)) w in
     (acc @ filter (\<lambda>f. wf_Enabled f \<and> wf_TriggerType f = ''cron'') (or_nil fs), w))"

definition startCronWorkflows :: "world \<Rightarrow> Workflow list \<times> world" where
  "startCronWorkflows w =
     (let (wss, w) = on_db ListWorkspaces w in fold cron_of (or_nil wss) ([], w))"

definition listens_to :: "string \<Rightarrow> Workflow \<Rightarrow> bool" where
  "listens_to ev flow \<longleftrightarrow> wf_Enabled flow \<and> wf_TriggerType flow = ''event''
     \<and> unmarshal_strs [''event_type''] (wf_TriggerConfig flow) = Some [ev]"

definition event_run :: "engine \<Rightarrow> outcome \<Rightarrow> Workflow \<Rightarrow> world \<Rightarrow> world" where
  "event_run eng data flow w =
     (let (run, w) = stored (CreateWorkflowRun (new_run flow (Some (map_json id data)))) w in
      case run of Inl e \<Rightarrow> w | Inr run \<Rightarrow> executeWorkflow eng run flow w)"

definition TriggerWorkflowByEvent :: "engine \<Rightarrow> string \<Rightarrow> string \<Rightarrow> outcome \<Rightarrow> world \<Rightarrow> world" where
  "TriggerWorkflowByEvent eng wid ev data w =
     (let (fs, w) = on_db (ListWorkflows wid) w in
      fold (event_run eng data) (filter (listens_to ev) (or_nil fs)) w)"

end
