(* ===== verification/Rest_Logic.thy ===== *)
theory Rest_Logic
  imports Step_Logic Rest_Chat Rest_Work Rest_Files Workflow
begin

text \<open>
  The rules of Step_Logic carried over to the REST handlers: a handler's answer is put
  aside and its effect on the server is followed through the combinators of Rest_Core.
  With db_step for the relation, walking through each handler once shows that its
  effect is a sequence of store operations and hub steps.
\<close>

section \<open>Rules for the combinators\<close>

definition acts :: "(store \<Rightarrow> store \<Rightarrow> bool) \<Rightarrow> (string \<Rightarrow> bool) \<Rightarrow> (world \<Rightarrow> 'a \<times> world) \<Rightarrow> bool" where
  "acts R A op \<longleftrightarrow> (\<forall>w0 w. runs R A w0 w \<longrightarrow> runs R A w0 (snd (op w)))"

lemma runs_ent: "runs R A w0 w \<Longrightarrow> runs R A w0 (w\<lparr>ent_pos := n\<rparr>)"
  by (auto simp: runs_def kept_def net.truncate_def)

lemma acts_random: "acts R A (read_random n)"
  by (auto simp: acts_def read_random_def Let_def runs_ent)

lemma actsI: "(\<And>w0 w. runs R A w0 w \<Longrightarrow> runs R A w0 (snd (op w))) \<Longrightarrow> acts R A op"
  by (simp add: acts_def)

lemma actsD: "acts R A op \<Longrightarrow> runs R A w0 w \<Longrightarrow> runs R A w0 (snd (op w))"
  by (simp add: acts_def)

lemma acts_case:
  assumes "acts R A op" "runs R A w0 w" "\<And>x v. runs R A w0 v \<Longrightarrow> P (k x v)"
  shows "P (case op w of (x, v) \<Rightarrow> k x v)"
  using assms(3) actsD [OF assms(1,2)] by (cases "op w") simp

lemma acts_key: "acts R A (GenerateAPIKey pfx)"
  unfolding GenerateAPIKey_def Let_def by (rule actsI, erule acts_case [OF acts_random]) simp

lemma acts_provision: "acts R A GenerateProvisionToken"
  by (simp add: GenerateProvisionToken_def acts_key)

lemma acts_token: "acts R A (GenerateToken m wid)"
  unfolding GenerateToken_def Let_def
  by (rule actsI, erule acts_case [OF acts_random]) (simp split: option.split)

lemma acts_hash: "acts R A (hash_password pw)"
  unfolding hash_password_def Let_def by (rule actsI, erule acts_case [OF acts_random]) simp

lemma acts_state: "acts R A generateOAuthState"
  by (rule actsI) (simp add: generateOAuthState_def runs_ent)

section \<open>Lookups\<close>

context step_look
begin

lemma can_lookup:
  "can R (GetWorkspace i) w" "can R ListWorkspaces w" "can R (GetMemberByEmail e) w"
  "can R (ListMembers i) w" "can R (ListMembersPaginated i l n) w"
  "can R (ListChannels i) w" "can R (ListChannelsPaginated i l n) w" "can R (ListChannelMembers i) w"
  "can R (ListMessages i l n) w" "can R (ListThreadMessages i) w" "can R (ListReactions i) w"
  "can R (SearchChannels i nm l) w" "can R (GetTask i) w" "can R (ListTasks i st) w"
  "can R (CountTasksByAssignee i) w" "can R (ListMemory i ns) w" "can R (GetFile i) w"
  "can R (ListFiles i l n) w" "can R (ListPins i) w" "can R (ListPinsByMessage i) w"
  "can R (ListDMChannels i) w" "can R (GetUnreadCounts i) w" "can R (GetApproval i) w"
  "can R (ListApprovals i st) w" "can R (GetWebhook i) w" "can R (ListWebhooks i) w"
  "can R (ListEditHistory i) w" "can R (GetOAuthIdentity p u) w"
  "can R (ListNotifications i b l) w" "can R (CountUnreadNotifications i) w"
  unfolding GetWorkspace_def ListWorkspaces_def GetMemberByEmail_def ListMembers_def
    ListMembersPaginated_def ListChannels_def ListChannelsPaginated_def ListChannelMembers_def
    ListMessages_def ListThreadMessages_def ListReactions_def SearchChannels_def GetTask_def
    ListTasks_def CountTasksByAssignee_def ListMemory_def GetFile_def ListFiles_def ListPins_def
    ListPinsByMessage_def ListDMChannels_def GetUnreadCounts_def GetApproval_def ListApprovals_def
    GetWebhook_def ListWebhooks_def ListEditHistory_def GetOAuthIdentity_def ListNotifications_def
    CountUnreadNotifications_def
  by (rule can_query)+

lemma can_lookup2:
  "can R ListIntegrations w" "can R (GetIntegration i) w" "can R (ListWorkspaceIntegrations i) w"
  "can R (GetWorkspaceIntegration i j) w"
  "can R (GetSSOProvider i) w" "can R (ListSSOProviders i) w" "can R (GetSSOProviderByDomain d) w"
  "can R (ListCalls i l) w" "can R (GetWorkflow i) w" "can R (ListWorkflows i) w"
  "can R (GetWorkflowRun i) w" "can R (ListWorkflowRuns i l) w" "can R (GetUserKeys i t) w"
  "can R (GetUserKey i) w" "can R (GetEncryptedMessages i m) w" "can R (GetBillingCustomer i) w"
  "can R (GetBillingCustomerByStripeID i) w" "can R (ListUsageRecords i) w"
  "can R (CountAgentInbox i) w" "can R (ListDrafts i st) w" "can R (ListWorkspaceItems i ns) w"
  "can R (SearchWorkspaceItems i q) w" "can R (ListReviewRequests i st) w"
  "can R (GetTeamTemplate i) w" "can R (ListTeamTemplates i) w"
  unfolding ListIntegrations_def GetIntegration_def ListWorkspaceIntegrations_def GetWorkspaceIntegration_def GetSSOProvider_def
    ListSSOProviders_def GetSSOProviderByDomain_def ListCalls_def GetWorkflow_def ListWorkflows_def
    GetWorkflowRun_def ListWorkflowRuns_def GetUserKeys_def GetUserKey_def GetEncryptedMessages_def
    GetBillingCustomer_def GetBillingCustomerByStripeID_def ListUsageRecords_def CountAgentInbox_def
    ListDrafts_def ListWorkspaceItems_def SearchWorkspaceItems_def ListReviewRequests_def
    GetTeamTemplate_def ListTeamTemplates_def
  by (rule can_query)+

lemma can_if: "(b \<Longrightarrow> can R f w) \<Longrightarrow> (\<not> b \<Longrightarrow> can R g w) \<Longrightarrow> can R (if b then f else g) w"
  by simp

lemma can_search: "can R (SearchMessages fts q c wid l) w"
proof -
  have "R\<^sup>*\<^sup>* s (snd (query f s))" for s and f :: "store \<Rightarrow> Message list"
  proof -
    have "snd (query f s) = snd (take_fault s)"
      by (simp add: query_def split: option.split prod.split)
    then show ?thesis using R_take [of s] by (simp add: r_into_rtranclp)
  qed
  then show ?thesis by (simp add: can_def SearchMessages_def Let_def)
qed

end

section \<open>Walking through a handler\<close>

text \<open>
  The guards and combinators of Rest_Core for any property P of the server that the
  statements of R keep.
\<close>

locale walk = step_look R for R :: "store \<Rightarrow> store \<Rightarrow> bool" +
  fixes P :: "world \<Rightarrow> bool"
  assumes P_step: "P w \<Longrightarrow> R\<^sup>*\<^sup>* (db w) s \<Longrightarrow> P (w\<lparr>db := s\<rparr>)"
begin

lemma walk_db: "P w \<Longrightarrow> can R op w \<Longrightarrow> on_db op w = (x, v) \<Longrightarrow> P v"
  using P_step [of w] unfolding can_def on_db_def
  by (auto simp: split_beta dest!: spec [of _ "faults (db w)"])

lemma rest_on_db:
  assumes "P w" "\<And>w. can R op w" "\<And>x v. P v \<Longrightarrow> P (snd (k x v))"
  shows "P (snd (case on_db op w of (x, v) \<Rightarrow> k x v))"
  using walk_db [OF assms(1,2)] assms(3) by (cases "on_db op w") auto

lemma rest_on_db_w:
  assumes "P w" "\<And>w. can R op w" "\<And>x v. P v \<Longrightarrow> P (k x v)"
  shows "P (case on_db op w of (x, v) \<Rightarrow> k x v)"
  using walk_db [OF assms(1,2)] assms(3) by (cases "on_db op w") auto

lemma rest_snd_db:
  assumes "P w" "\<And>w. can R op w"
  shows "P (snd (on_db op w))"
  using walk_db [OF assms] by (cases "on_db op w") auto

lemma rest_stored:
  assumes "P w" "\<And>w. can R (made op) w" "\<And>x v. P v \<Longrightarrow> P (snd (k x v))"
  shows "P (snd (case stored op w of (x, v) \<Rightarrow> k x v))"
  using rest_snd_db [OF assms(1,2)] assms(3) by (auto simp: stored_def Let_def split_beta)

lemma rest_stored_w:
  assumes "P w" "\<And>w. can R (made op) w" "\<And>x v. P v \<Longrightarrow> P (k x v)"
  shows "P (case stored op w of (x, v) \<Rightarrow> k x v)"
  using rest_snd_db [OF assms(1,2)] assms(3) by (auto simp: stored_def Let_def split_beta)

lemma rest_try_db:
  assumes "P w" "\<And>w. can R op w" "\<And>a v. P v \<Longrightarrow> P (snd (k a v))"
  shows "P (snd (try_db op k w))"
  unfolding try_db_def try_svc_def Let_def
  by (rule rest_on_db [OF assms(1,2)]) (simp add: assms(3) split: sum.split)

lemma rest_try_made:
  assumes "P w" "\<And>w. can R (made op) w" "\<And>a v. P v \<Longrightarrow> P (snd (k a v))"
  shows "P (snd (try_made op k w))"
  unfolding try_made_def try_svc_def Let_def
  by (rule rest_stored [OF assms(1,2)]) (simp add: assms(3) split: sum.split)

lemma rest_found_code:
  assumes "P w" "\<And>w. can R op w" "\<And>a v. P v \<Longrightarrow> P (snd (k a v))"
  shows "P (snd (found_code op msg k w))"
  unfolding found_code_def Let_def
  by (rule rest_on_db [OF assms(1,2)]) (simp add: assms(3) refuse_code_def split: sum.split option.split)

lemma rest_ends:
  "P w \<Longrightarrow> P (snd (respond st j w))" "P w \<Longrightarrow> P (snd (refuse st m w))"
  "P w \<Longrightarrow> P (snd (encoded st j1 w))"
  "P w \<Longrightarrow> P (snd (refuse_code st c m w))" "P w \<Longrightarrow> P (snd (empty_answer w))"
  "P w \<Longrightarrow> P (snd (x, w))" "P w \<Longrightarrow> P (snd (redirect st u w))"
  by (simp_all add: respond_def encoded_def refuse_def refuse_code_def empty_answer_def redirect_def)

lemma rest_authed:
  assumes "P w" "\<And>me. rq_member q = Some me \<Longrightarrow> P (snd (k me w))"
  shows "P (snd (authed q k w))"
  using assms by (auto simp: authed_def refuse_def split: option.split)

lemma rest_in_workspace:
  assumes "P w" "\<And>me. rq_member q = Some me \<Longrightarrow> P (snd (k me w))"
  shows "P (snd (in_workspace q wid k w))"
  using assms by (auto simp: in_workspace_def requireWorkspaceAuth_def split: option.split)

lemma rest_as_admin:
  assumes "P w" "\<And>me. rq_member q = Some me \<Longrightarrow> P (snd (k me w))"
  shows "P (snd (as_admin q k w))"
  using assms by (auto simp: as_admin_def requireAdmin_def split: option.split)

lemma rest_found:
  assumes "P w" "\<And>a. x = Some a \<Longrightarrow> ok a \<Longrightarrow> P (snd (k a w))"
  shows "P (snd (found ok msg x k w))"
  using assms by (auto simp: found_def refuse_def split: option.split)

lemma rest_decoded:
  assumes "P w" "\<And>a. x = Some a \<Longrightarrow> P (snd (k a w))"
  shows "P (snd (decoded x k w))"
  using assms by (auto simp: decoded_def refuse_def split: option.split)

lemma rest_strs_body:
  assumes "P w" "\<And>a. P (snd (k a w))"
  shows "P (snd (strs_body q fs k w))"
  unfolding strs_body_def by (rule rest_decoded) (use assms in auto)

lemma rest_protect:
  assumes "P w" "\<And>a. P (snd (k (restore a) w))"
  shows "P (snd (decodeAndProtect f q x restore k w))"
  unfolding decodeAndProtect_def by (rule rest_decoded) (use assms in auto)

lemma rest_in_channel:
  assumes "P w" "\<And>v. P v \<Longrightarrow> P (snd (k v))"
  shows "P (snd (in_channel ch me k w))"
  unfolding in_channel_def by (rule rest_try_db) (use assms in \<open>auto intro: can_get simp: refuse_def\<close>)

lemma rest_if: "(b \<Longrightarrow> P (snd x)) \<Longrightarrow> (\<not> b \<Longrightarrow> P (snd y)) \<Longrightarrow> P (snd (if b then x else y))"
  by simp

lemma rest_option:
  "(x = None \<Longrightarrow> P (snd f)) \<Longrightarrow> (\<And>y. x = Some y \<Longrightarrow> P (snd (g y))) \<Longrightarrow>
   P (snd (case x of None \<Rightarrow> f | Some y \<Rightarrow> g y))"
  by (cases x) auto

lemma rest_option_fun:
  "(x = None \<Longrightarrow> P (snd (f w))) \<Longrightarrow> (\<And>y. x = Some y \<Longrightarrow> P (snd (g y w))) \<Longrightarrow>
   P (snd ((case x of None \<Rightarrow> f | Some y \<Rightarrow> g y) w))"
  by (cases x) auto

lemma rest_if_fun:
  "(b \<Longrightarrow> P (snd (f w))) \<Longrightarrow> (\<not> b \<Longrightarrow> P (snd (g w))) \<Longrightarrow>
   P (snd ((if b then f else g) w))"
  by simp

lemma rest_sum:
  "(\<And>y. x = Inl y \<Longrightarrow> P (snd (f y))) \<Longrightarrow> (\<And>y. x = Inr y \<Longrightarrow> P (snd (g y))) \<Longrightarrow>
   P (snd (case x of Inl y \<Rightarrow> f y | Inr y \<Rightarrow> g y))"
  by (cases x) auto

lemma rest_list:
  "(x = [] \<Longrightarrow> P (snd f)) \<Longrightarrow> (\<And>y ys. x = y # ys \<Longrightarrow> P (snd (g y ys))) \<Longrightarrow>
   P (snd (case x of [] \<Rightarrow> f | y # ys \<Rightarrow> g y ys))"
  by (cases x) auto

lemma rest_pair_fun:
  "(\<And>a b. x = (a, b) \<Longrightarrow> P (snd (f a b w))) \<Longrightarrow> P (snd (case_prod f x w))"
  by (cases x) auto

lemma rest_pair:
  "(\<And>a b. x = (a, b) \<Longrightarrow> P (snd (f a b))) \<Longrightarrow> P (snd (case x of (a, b) \<Rightarrow> f a b))"
  by (cases x) auto

lemmas walk_rules = rest_ends rest_authed rest_in_workspace rest_as_admin rest_found rest_decoded
  rest_strs_body rest_protect rest_in_channel rest_try_db rest_try_made rest_found_code
  rest_on_db rest_stored rest_stored_w rest_if rest_option rest_option_fun
  rest_if_fun rest_sum rest_list rest_pair_fun rest_snd_db

end

text \<open>Runs are closed under the steps of their relation, so the walk serves them too.\<close>

sublocale step_logic \<subseteq> walk R "runs R A w0" for A w0
  by unfold_locales (rule runs_db)

context step_logic
begin

lemma acts_on_db: "(\<And>w. can R op w) \<Longrightarrow> acts R A (on_db op)"
proof (rule actsI)
  fix w0 w assume "\<And>w. can R op w" "runs R A w0 w"
  then show "runs R A w0 (snd (on_db op w))"
    using runs_on_db [of A w0 w op "\<lambda>x v. v"] by (simp add: split_beta)
qed

lemma acts_stored: "(\<And>w. can R (made op) w) \<Longrightarrow> acts R A (stored op)"
  unfolding stored_def Let_def
  by (rule actsI, erule acts_case [OF acts_on_db, rotated]) (simp_all split: prod.split)

lemma rest_try_svc:
  assumes "runs R A w0 w" "acts R A op" "\<And>a v. runs R A w0 v \<Longrightarrow> runs R A w0 (snd (k a v))"
  shows "runs R A w0 (snd (try_svc op k w))"
  unfolding try_svc_def Let_def
  by (rule acts_case [OF assms(2,1)]) (simp add: assms(3) split: sum.split)

lemma rest_hash:
  assumes "runs R A w0 w" "\<And>x v. runs R A w0 v \<Longrightarrow> runs R A w0 (snd (k x v))"
  shows "runs R A w0 (snd (case hash_password pw w of (x, v) \<Rightarrow> k x v))"
  by (rule acts_case [OF acts_hash assms(1)]) (rule assms(2))

lemma acts_uuid: "acts R A uuid_prefix"
  unfolding uuid_prefix_def Let_def
  by (rule actsI, erule acts_case [OF acts_on_db, rotated]) (simp, rule can_one, rule R_uuid)

lemma rest_uuid:
  assumes "runs R A w0 w" "\<And>x v. runs R A w0 v \<Longrightarrow> runs R A w0 (snd (k x v))"
  shows "runs R A w0 (snd (case uuid_prefix w of (x, v) \<Rightarrow> k x v))"
  by (rule acts_case [OF acts_uuid assms(1)]) (rule assms(2))

lemma rest_with_token:
  assumes "runs R A w0 w" "\<And>a v. runs R A w0 v \<Longrightarrow> runs R A w0 (snd (k a v))"
  shows "runs R A w0 (snd (with_token m wid k w))"
  unfolding with_token_def Let_def
  by (rule acts_case [OF acts_token assms(1)]) (simp add: assms(2) split: option.split prod.split)

lemmas rest_rules = walk_rules rest_try_svc rest_hash rest_uuid rest_with_token

end

section \<open>The store operations\<close>

lemma can_write:
  "can db_step (made (CreateWorkspace a)) w" "can db_step (made (CreateMember b)) w"
  "can db_step (made (CreateTask c)) w" "can db_step (made (CreateFile d)) w"
  "can db_step (made (CreatePin e)) w" "can db_step (made (CreateApproval f)) w"
  "can db_step (made (CreateWebhook g)) w" "can db_step (made (CreateEditHistory h)) w"
  "can db_step (made (CreateNotification i)) w" "can db_step (made (CreateSSOProvider j)) w"
  "can db_step (made (CreateWorkflow k)) w" "can db_step (made (CreateWorkflowRun l)) w"
  "can db_step (made (CreateEncryptedMessage m)) w" "can db_step (made (CreateBillingCustomer n)) w"
  "can db_step (made (CreateDraft p)) w" "can db_step (made (CreateWorkspaceItem q)) w"
  "can db_step (made (CreateReviewRequest r)) w" "can db_step (made (CreateTeamTemplate s)) w"
  "can db_step (made (UpdateMember b)) w" "can db_step (made (UpdateChannel t)) w"
  "can db_step (made (UpdateMessage u)) w" "can db_step (made (UpdateWorkflow k)) w"
  "can db_step (made (UpdateReviewRequest r)) w" "can db_step (made (UpdateWorkspace a)) w"
  "can db_step (made (UpdateTask c)) w" "can db_step (made (UpdateBillingCustomer n)) w"
  "can db_step (made (UpdateWorkspaceItem q)) w" "can db_step (made (SetMemory v)) w"
  "can db_step (made (CreateOAuthIdentity x)) w" "can db_step (made (RegisterUserKey y)) w"
  "can db_step (made (AddReaction z)) w" "can db_step (made (CreateChannel t)) w"
  "can db_step (made (\<lambda>s. CreateDMChannel t ms s)) w"
  "can db_step (made (CreateIntegration x1)) w" "can db_step (made (InstallIntegration x2)) w"
  by (rule db_logic.can_made, rule db_step.intros)+

lemma can_change:
  "can db_step (UpdateLastRead a b) w" "can db_step (UpdateNotificationPreference a b c) w"
  "can db_step (MarkNotificationRead a) w" "can db_step (MarkAllNotificationsRead a) w"
  "can db_step (AckInboxItem a) w" "can db_step (AckAllInbox a) w"
  "can db_step (RemoveChannelMember a b) w" "can db_step (RemoveReaction a b c) w"
  "can db_step (DeleteTask a) w" "can db_step (DeleteMemory a b c) w" "can db_step (DeletePin a) w"
  "can db_step (DeleteWebhook a) w" "can db_step (UninstallIntegration a b) w"
  "can db_step (DeleteSSOProvider a) w" "can db_step (DeleteUserKey a) w"
  "can db_step (DeleteWorkspaceItem a) w" "can db_step (DeleteTeamTemplate a) w"
  "can db_step (UpdateWorkflowRun d) w" "can db_step (UpdateDraftStatus a b) w"
  "can db_step (UpdateApproval e) w" "can db_step (IncrementUsage a b t u v) w"
  "can db_step (AddChannelMember a b) w" "can db_step (BlacklistToken a t) w"
  "can db_step (DeleteWorkspace a) w" "can db_step (DeleteMember a) w" "can db_step (DeleteChannel a) w"
  "can db_step (DeleteMessage a) w" "can db_step (DeleteFile a) w" "can db_step (DeleteWorkflow a) w"
  "can db_step (Backup a) w"
  by (rule db_logic.can_one, rule db_step.intros)+

lemma can_post: "msg_ReplyCount x = 0 \<Longrightarrow> can db_step (made (CreateMessage x)) w"
  by (rule db_logic.can_made, erule db_step.intros)

lemma reaches_query:
  fixes f :: "store \<Rightarrow> 'a"
  shows "query f s = (x, t) \<Longrightarrow> db_step\<^sup>*\<^sup>* s t"
  using db_step.query_step [of s]
  by (auto simp: query_def split: option.splits prod.splits intro!: r_into_rtranclp)

lemma can_dm_lookup: "can db_step (GetDMChannel wid ms) w"
proof -
  have "db_step\<^sup>*\<^sup>* s (snd (GetDMChannel wid ms s))" for s
  proof (cases "length ms < 2")
    case False
    let ?q = "query (\<lambda>s. first_row (if length ms = 2 then dm_candidates wid (ms ! 0) (ms ! 1) s
      else group_dm_candidates wid ms s)) s"
    obtain x t where q: "?q = (x, t)" by force
    have "db_step\<^sup>*\<^sup>* s t" by (rule reaches_query [OF q])
    moreover have "db_step\<^sup>*\<^sup>* t (snd (GetChannel i t))" for i
      using reaches_query [of _ t] unfolding GetChannel_def by (metis prod.collapse)
    ultimately show ?thesis using q False
      by (cases x) (auto simp: GetDMChannel_def split: option.split intro: rtranclp_trans)
  qed (simp add: GetDMChannel_def)
  then show ?thesis by (simp add: can_def)
qed

lemmas can_rules = db_logic.can_lookup db_logic.can_lookup2 db_logic.can_search can_write can_change
  can_post can_dm_lookup db_logic.can_get db_logic.can_version db_logic.can_notify

section \<open>Services and shared effects\<close>

lemma acts_CreateWorkspace: "acts db_step A (svc_CreateWorkspace x)"
proof (rule actsI)
  fix w0 w assume w: "runs db_step A w0 w"
  have st: "acts db_step A (stored (CreateWorkspace y))" for y
    by (rule db_logic.acts_stored) (rule can_write)
  show "runs db_step A w0 (snd (svc_CreateWorkspace x w))"
    unfolding svc_CreateWorkspace_def Let_def
    by (rule db_logic.rest_if, simp add: w, rule acts_case [OF acts_provision w])
       (simp add: actsD [OF st] split: option.split)
qed

lemma acts_keyed: "(\<And>t. acts db_step A (k t)) \<Longrightarrow> acts db_step A (keyed pfx what k)"
  unfolding keyed_def Let_def
  by (rule actsI, erule acts_case [OF acts_key]) (simp add: actsD split: option.split)

lemma acts_CreateMember: "acts db_step A (svc_CreateMember x)"
  by (simp add: svc_CreateMember_def acts_keyed db_logic.acts_stored can_write)

lemma acts_CreateWebhook: "acts db_step A (svc_CreateWebhook x)"
  by (simp add: svc_CreateWebhook_def acts_keyed db_logic.acts_stored can_write)

lemmas serve_rules0 = db_logic.rest_rules db_logic.runs_rules can_rules acts_CreateWorkspace acts_CreateMember acts_CreateWebhook
  db_logic.runs_handleMentions db_logic.runs_fold

lemma w_recordUsage: "runs db_step A w0 w \<Longrightarrow> runs db_step A w0 (recordUsage month wid m n w)"
  unfolding recordUsage_def by (simp add: split_beta) (intro serve_rules0)

lemma w_notify_dm: "runs db_step A w0 w \<Longrightarrow> runs db_step A w0 (notify_dm nm msg m w)"
  unfolding notify_dm_def Let_def by (intro serve_rules0)

lemma w_notifyDM: "runs db_step A w0 w \<Longrightarrow> runs db_step A w0 (notifyDMRecipients msg w)"
  unfolding notifyDMRecipients_def Let_def by (intro serve_rules0 w_notify_dm)

lemma w_reaction: "runs db_step A w0 w \<Longrightarrow> runs db_step A w0 (broadcastReactionEvent i rx w)"
  unfolding broadcastReactionEvent_def Let_def by (intro serve_rules0)

lemma w_task: "runs db_step A w0 w \<Longrightarrow> runs db_step A w0 (notifyAssignee t (broadcastTaskEvent t w))"
  unfolding notifyAssignee_def broadcastTaskEvent_def Let_def
  by (intro serve_rules0 db_logic.runs_WakeAgent)

lemma w_post:
  assumes "runs db_step A w0 w" "msg_ReplyCount msg = 0"
  shows "runs db_step A w0 (post_and_notify msg note w)"
  unfolding post_and_notify_def Let_def using assms by (intro serve_rules0)

lemma w_link: "runs db_step A w0 w \<Longrightarrow> runs db_step A w0 (add_link x w)"
  unfolding add_link_def by (intro serve_rules0)

lemmas serve_rules = serve_rules0 w_recordUsage w_notifyDM w_reaction w_task w_post db_logic.runs_kick w_link db_logic.can_if

lemma w_file:
  assumes "runs db_step A w0 w" "\<And>f v. runs db_step A w0 v \<Longrightarrow> runs db_step A w0 (snd (k f v))"
  shows "runs db_step A w0 (snd (case the_file q w of (f, v) \<Rightarrow> k f v))"
proof (cases "rq_member q")
  case (Some me)
  obtain x v where x: "on_db (GetFile (URLParam q ''id'')) w = (x, v)" by force
  have "acts db_step A (on_db (GetFile (URLParam q ''id'')))" by (rule db_logic.acts_on_db) (rule can_rules)
  from actsD [OF this assms(1)] have v: "runs db_step A w0 v" by (simp add: x)
  show ?thesis using assms(2) [OF v] Some
    by (cases x) (auto simp: the_file_def x split: option.split)
qed (simp add: assms the_file_def)

lemmas guard_defs = own_channel_def own_member_def own_agent_def own_task_def set_archived_def
  handleListWorkspaces_def one_workflow_def admin_required_def provision_answer_def announce_task_def bad_body_def
  broadcastPinEvent_def finish_oauth_def new_tenant_def Let_def

lemmas row_fields = posted_message_def Message0_def draft_message_def review_message_def verdict_message_def


end
