(* ===== verification/Rest_Serves.thy ===== *)
theory Rest_Serves
  imports Rest_Logic Rest_Extra
begin

text \<open>
  Every REST handler, walked through once with the rules of Rest_Logic: whatever the
  request, the server it leaves is reached from the server it found by store operations
  and hub steps alone.
\<close>

lemma serves_chat:
  "acts db_step A (handleCreateMessage x10 q)" "acts db_step A (handleListMessages q)"
  "acts db_step A (handleUpdateMessage q)" "acts db_step A (handleDeleteMessage q)"
  "acts db_step A (handleGetThread q)" "acts db_step A (handleSearch x20 q)"
  "acts db_step A (handleGetEditHistory q)" "acts db_step A (handleCreateChannel q)"
  "acts db_step A (handleListChannels q)" "acts db_step A (handleGetChannel q)"
  "acts db_step A (handleUpdateChannel q)" "acts db_step A (handleDeleteChannel q)"
  "acts db_step A (handleAddChannelMember q)" "acts db_step A (handleRemoveChannelMember q)"
  "acts db_step A (handleSearchChannels q)" "acts db_step A (handleArchiveChannel q)"
  "acts db_step A (handleUnarchiveChannel q)" "acts db_step A (handleCreateDM q)"
  "acts db_step A (handleListDMs q)" "acts db_step A (handleGetUnread q)"
  "acts db_step A (handleMarkRead q)" "acts db_step A (handleNotificationPreference q)"
  "acts db_step A (handleAddReaction q)" "acts db_step A (handleListReactions q)"
  "acts db_step A (handleRemoveReaction q)" "acts db_step A (handlePinMessage q)"
  "acts db_step A (handleListPins q)" "acts db_step A (handleUnpinMessage q)"
  by (rule actsI, (unfold guard_defs
    handleCreateMessage_def handleListMessages_def handleUpdateMessage_def handleDeleteMessage_def
    handleGetThread_def handleSearch_def handleGetEditHistory_def handleCreateChannel_def
    handleListChannels_def handleGetChannel_def handleUpdateChannel_def handleDeleteChannel_def
    handleAddChannelMember_def handleRemoveChannelMember_def handleSearchChannels_def
    handleArchiveChannel_def handleUnarchiveChannel_def handleCreateDM_def handleListDMs_def
    handleGetUnread_def handleMarkRead_def handleNotificationPreference_def handleAddReaction_def
    handleListReactions_def handleRemoveReaction_def handlePinMessage_def handleListPins_def
    handleUnpinMessage_def)[1],
      (intro serve_rules w_file; (assumption | simp add: row_fields))[1])+

lemma serves_members:
  "acts db_step A (handleRegister x30 q)" "acts db_step A (handleLogin q)"
  "acts db_step A (handleOAuthCallback q y0 y1 y2 y3)" "acts db_step A (handleCreateWorkspace q)"
  "acts db_step A (handleListWorkspaces q)" "acts db_step A (handleGetWorkspace q)"
  "acts db_step A (handleUpdateWorkspace q)" "acts db_step A (handleDeleteWorkspace q)"
  "acts db_step A (handleCreateMember q)" "acts db_step A (handleListMembers q)"
  "acts db_step A (handleAgentProvision q)" "acts db_step A (handleGetMember q)"
  "acts db_step A (handleUpdateMember q)" "acts db_step A (handleDeleteMember q)"
  "acts db_step A (handleMyProfile q)" "acts db_step A (handleChangePassword q)"
  "acts db_step A (handleSetMemory q)" "acts db_step A (handleListMemory q)"
  "acts db_step A (handleDeleteMemory q)" "acts db_step A (handleGetAgentMetrics q)"
  "acts db_step A (handleListAgents q)" "acts db_step A (handleAdminStats q)"
  "acts db_step A (handleAdminListWorkspaces q)" "acts db_step A (handleMetrics q)"
  "acts db_step A (handleAdminBackup x40 x41 q)"
  by (rule actsI, (unfold guard_defs
    handleRegister_def handleLogin_def handleOAuthCallback_def handleCreateWorkspace_def
    handleListWorkspaces_def handleGetWorkspace_def handleUpdateWorkspace_def handleDeleteWorkspace_def
    handleCreateMember_def handleListMembers_def handleAgentProvision_def handleGetMember_def
    handleUpdateMember_def handleDeleteMember_def handleMyProfile_def handleChangePassword_def
    handleSetMemory_def handleListMemory_def handleDeleteMemory_def handleGetAgentMetrics_def
    handleListAgents_def handleAdminStats_def handleAdminListWorkspaces_def handleMetrics_def
    handleAdminBackup_def)[1],
      (intro serve_rules w_file; (assumption | simp add: row_fields))[1])+

lemma serves_work:
  "acts db_step A (handleCreateTask q)" "acts db_step A (handleListTasks q)"
  "acts db_step A (handleUpdateTask q)" "acts db_step A (handleDeleteTask q)"
  "acts db_step A (handleCreateApproval q)" "acts db_step A (handleGetApproval q)"
  "acts db_step A (handleListApprovals q)" "acts db_step A (handleReviewApproval q)"
  "acts db_step A (handleCreateWebhook q)" "acts db_step A (handleListWebhooks q)"
  "acts db_step A (handleDeleteWebhook q)" "acts db_step A (handleWebhookExecute q)"
  "acts db_step A (handleCreateDraft q)" "acts db_step A (handleListDrafts q)"
  "acts db_step A (handleValidateDraft q)" "acts db_step A (handleSendDraft q)"
  "acts db_step A (handleCancelDraft q)" "acts db_step A (handleListAgentInbox q)"
  "acts db_step A (handleCountAgentInbox q)" "acts db_step A (handleAckInboxItem q)"
  "acts db_step A (handleAckAllInbox q)" "acts db_step A (handleListNotifications q)"
  "acts db_step A (handleMarkNotificationRead q)" "acts db_step A (handleMarkAllNotificationsRead q)"
  "acts db_step A (handleCountUnreadNotifications q)" "acts db_step A (handleListCalls q)"
  "acts db_step A (handleGetCall q)" "acts db_step A (handleCreateWorkspaceItem q)"
  "acts db_step A (handleListWorkspaceItems q)" "acts db_step A (handleGetWorkspaceItem q)"
  "acts db_step A (handleUpdateWorkspaceItem q)" "acts db_step A (handleDeleteWorkspaceItem q)"
  "acts db_step A (handleSearchWorkspaceItems q)" "acts db_step A (handleCreateReview q)"
  "acts db_step A (handleListReviews q)" "acts db_step A (handleGetReview q)"
  "acts db_step A (handleUpdateReview q)"
  by (rule actsI, (unfold guard_defs
    handleCreateTask_def handleListTasks_def handleUpdateTask_def handleDeleteTask_def
    handleCreateApproval_def handleGetApproval_def handleListApprovals_def handleReviewApproval_def
    handleCreateWebhook_def handleListWebhooks_def handleDeleteWebhook_def handleWebhookExecute_def
    handleCreateDraft_def handleListDrafts_def handleValidateDraft_def handleSendDraft_def
    handleCancelDraft_def handleListAgentInbox_def handleCountAgentInbox_def handleAckInboxItem_def
    handleAckAllInbox_def handleListNotifications_def handleMarkNotificationRead_def
    handleMarkAllNotificationsRead_def handleCountUnreadNotifications_def handleListCalls_def
    handleGetCall_def handleCreateWorkspaceItem_def handleListWorkspaceItems_def
    handleGetWorkspaceItem_def handleUpdateWorkspaceItem_def handleDeleteWorkspaceItem_def
    handleSearchWorkspaceItems_def handleCreateReview_def handleListReviews_def handleGetReview_def
    handleUpdateReview_def)[1],
      (intro serve_rules w_file; (assumption | simp add: row_fields))[1])+

lemma serves_files:
  "acts db_step A (handleGetFile q)" "acts db_step A (handleListFiles q)"
  by (rule actsI, (unfold guard_defs
    handleGetFile_def handleListFiles_def)[1],
      (intro serve_rules w_file; (assumption | simp add: row_fields))[1])+

lemma serves_extra:
  "acts db_step A (handleListTemplates q)" "acts db_step A (handleCreateTemplate q)"
  "acts db_step A (handleGetTemplate q)" "acts db_step A (handleDeleteTemplate q)"
  "acts db_step A (handleRegisterKey q)" "acts db_step A (handleGetKeys q)"
  "acts db_step A (handleDeleteKey q)" "acts db_step A (handleSendEncrypted q)"
  "acts db_step A (handleGetEncrypted q)" "acts db_step A (handleGetBilling q)"
  "acts db_step A (handleCreateCheckout x50 x51 q)" "acts db_step A (handleBillingPortal x60 x61 q)"
  "acts db_step A (handleGetUsage q)" "acts db_step A (handleListIntegrations x70 q)"
  "acts db_step A (handleGetIntegration x71 q)" "acts db_step A (handleCreateIntegration x72 q)"
  "acts db_step A (handleInstallIntegration x73 q)" "acts db_step A (handleListWorkspaceIntegrations x74 q)"
  "acts db_step A (handleUninstallIntegration q)" "acts db_step A (handleListSSOProviders q)"
  "acts db_step A (handleCreateSSOProvider q)" "acts db_step A (handleDeleteSSOProvider q)"
  "acts db_step A (handleSSODiscover q)"
  by (rule actsI, (unfold guard_defs
    handleListTemplates_def handleCreateTemplate_def handleGetTemplate_def handleDeleteTemplate_def
    handleRegisterKey_def handleGetKeys_def handleDeleteKey_def handleSendEncrypted_def
    handleGetEncrypted_def handleGetBilling_def handleCreateCheckout_def handleBillingPortal_def
    handleGetUsage_def handleListIntegrations_def handleGetIntegration_def
    handleCreateIntegration_def handleInstallIntegration_def handleListWorkspaceIntegrations_def handleUninstallIntegration_def handleListSSOProviders_def
    handleCreateSSOProvider_def handleDeleteSSOProvider_def handleSSODiscover_def)[1],
      (intro serve_rules w_file; (assumption | simp add: row_fields))[1])+

lemma serves_workflow:
  "acts db_step A (handleCreateWorkflow q)" "acts db_step A (handleListWorkflows q)"
  "acts db_step A (handleGetWorkflow q)" "acts db_step A (handleUpdateWorkflow q)"
  "acts db_step A (handleDeleteWorkflow q)" "acts db_step A (handleListWorkflowRuns q)"
  "acts db_step A (handleGetWorkflowRun q)"
  by (rule actsI, (unfold guard_defs
    handleCreateWorkflow_def handleListWorkflows_def handleGetWorkflow_def handleUpdateWorkflow_def
    handleDeleteWorkflow_def handleListWorkflowRuns_def handleGetWorkflowRun_def)[1],
      (intro serve_rules w_file; (assumption | simp add: row_fields))[1])+

section \<open>The handlers beside files, pending states and loops\<close>

lemma w_snd: "acts db_step A op \<Longrightarrow> runs db_step A w0 w \<Longrightarrow> op w = (x, v) \<Longrightarrow> runs db_step A w0 v"
  by (drule (1) actsD) simp

lemma w_refuse: "runs db_step A w0 w \<Longrightarrow> runs db_step A w0 (snd (refuse st m w))"
  by (simp add: refuse_def)

lemma w_and_disk: "runs db_step A w0 (snd a) \<Longrightarrow> runs db_step A w0 (fst (snd (and_disk d a)))"
  by (cases a) (simp add: and_disk_def)

lemma acts_file: "acts db_step A (the_file q)"
  by (rule actsI) (use w_file [of A _ _ "\<lambda>f v. (f, v)" q] in simp)

lemma w_store_upload:
  assumes "runs db_step A w0 w"
  shows "runs db_step A w0 (fst (snd (store_upload month wid me u mime (w, d))))"
proof -
  obtain i v where i: "on_db new_uuid w = (i, v)" by force
  have v: "runs db_step A w0 v"
    by (rule w_snd [OF db_logic.acts_on_db assms i]) (rule db_logic.can_one, rule db_step.intros)
  define path where "path = path_Join [wid, i @ path_Ext (up_Filename u)]"
  define op where "op = CreateFile (new_file i wid me u mime path)"
  obtain f v' where f: "stored op v = (f, v')" by force
  have v': "runs db_step A w0 v'"
    by (rule w_snd [OF db_logic.acts_stored v f]) (simp add: op_def can_rules)
  obtain x d' where x: "Save path (up_Data u) d = (x, d')" by force
  show ?thesis
    by (cases x; cases f; simp add: store_upload_def i x f v v' w_recordUsage path_def [symmetric] op_def [symmetric] del: path_Join.simps)
qed

lemma serve_disk:
  assumes "runs db_step A w0 w"
  shows "runs db_step A w0 (fst (snd (handleUploadFile month sniff form q (w, d))))"
    "runs db_step A w0 (fst (snd (handleDeleteFile q (w, d))))"
    "runs db_step A w0 (snd (handleDownloadFile q (w, d)))"
    "runs db_step A w0 (fst (snd (handleUploadAvatar form q (w, d))))"
proof -
  show "runs db_step A w0 (fst (snd (handleUploadFile month sniff form q (w, d))))"
    using assms by (auto simp: handleUploadFile_def Let_def w_and_disk w_refuse w_store_upload
        split: sum.split form.split)
  obtain f v where f: "the_file q w = (f, v)" by force
  have v: "runs db_step A w0 v" by (rule w_snd [OF acts_file assms f])
  have del: "runs db_step A w0 (snd (try_db (DeleteFile i) (\<lambda>_. empty_answer) v))" for i
    by (intro serve_rules v)
  show "runs db_step A w0 (fst (snd (handleDeleteFile q (w, d))))"
    using v del by (auto simp: handleDeleteFile_def f w_and_disk split: sum.split prod.split os_error.split)
  show "runs db_step A w0 (snd (handleDownloadFile q (w, d)))"
    using v by (auto simp: handleDownloadFile_def f split: sum.split)
  have upd: "runs db_step A w0 (snd (try_made (UpdateMember m) (\<lambda>_. respond 200 j) w))" for m j
    by (intro serve_rules assms)
  show "runs db_step A w0 (fst (snd (handleUploadAvatar form q (w, d))))"
    using assms upd by (auto simp: handleUploadAvatar_def Let_def w_and_disk w_refuse
        split: sum.split form.split option.split prod.split)
qed

lemma serve_logout: "acts db_step A (handleLogout q)"
proof (rule actsI)
  fix w0 w assume w: "runs db_step A w0 w"
  have "runs db_step A w0 (snd (on_db (BlacklistToken i t) w))" for i t
    by (intro serve_rules w)
  then show "runs db_step A w0 (snd (handleLogout q w))"
    unfolding handleLogout_def using w
    by (intro db_logic.rest_authed) (auto simp: respond_def split: option.split)
qed

lemma serve_states:
  assumes "runs db_step A w0 w"
  shows "runs db_step A w0 (snd (snd (oauth_login nm url (sts, w))))"
    "(\<And>user v. runs db_step A w0 v \<Longrightarrow> runs db_step A w0 (snd (k user v))) \<Longrightarrow>
     runs db_step A w0 (snd (snd (oauth_callback nm prov q k (sts, w))))"
proof -
  obtain st v where st: "generateOAuthState w = (st, v)" by force
  have v: "runs db_step A w0 v" by (rule w_snd [OF acts_state assms st])
  show "runs db_step A w0 (snd (snd (oauth_login nm url (sts, w))))"
    using assms v by (simp add: oauth_login_def st redirect_def split: option.split)
  assume k: "\<And>user v. runs db_step A w0 v \<Longrightarrow> runs db_step A w0 (snd (k user v))"
  show "runs db_step A w0 (snd (snd (oauth_callback nm prov q k (sts, w))))"
    using assms k [OF assms] by (simp add: oauth_callback_def Let_def split_beta split: option.split)
qed

lemma w_tenant:
  assumes "runs db_step A w0 w" "\<And>m v. runs db_step A w0 v \<Longrightarrow> runs db_step A w0 (snd (k m v))"
  shows "runs db_step A w0 (snd (new_tenant slug nm email k w))"
  unfolding new_tenant_def Let_def by (intro serve_rules assms)

lemma w_finish: "runs db_step A w0 w \<Longrightarrow> runs db_step A w0 (snd (finish_oauth q m w))"
  unfolding finish_oauth_def by (intro serve_rules)

lemma w_oauth: "runs db_step A w0 w \<Longrightarrow> runs db_step A w0 (snd (handleOAuthCallback q prov uid email nm w))"
  unfolding handleOAuthCallback_def Let_def
  by (intro serve_rules w_tenant w_finish w_link; assumption)

lemma serve_callbacks:
  assumes "runs db_step A w0 w"
  shows "runs db_step A w0 (snd (snd (handleGithubCallback prov q (sts, w))))"
    "runs db_step A w0 (snd (snd (handleGoogleCallback prov q (sts, w))))"
    "runs db_step A w0 (snd (snd (handleMicrosoftCallback prov q (sts, w))))"
  unfolding handleGithubCallback_def handleGoogleCallback_def handleMicrosoftCallback_def
  by (rule serve_states [OF assms]; auto split: option.split list.split simp: Let_def w_oauth w_refuse
      intro!: db_logic.rest_try_db can_rules w_finish w_tenant)+

end
