(* ===== verification/Flow_Serves.thy ===== *)
theory Flow_Serves
  imports Rest_Serves
begin

text \<open>
  The workflow engine, the triggers and the handlers that loop over a template, a
  tenant's agents or an identity provider's answers, followed with the rules of
  Rest_Logic like the handlers of Rest_Serves.
\<close>

section \<open>Workflow steps and runs\<close>

lemma w_deadline:
  assumes "runs db_step A w0 w" "\<And>w. can db_step op w"
  shows "runs db_step A w0 (snd (by_deadline dl op w))"
proof (cases "dl \<le> now (db w)")
  case True
  let ?s = "(db w)\<lparr>faults := [Some ''context deadline exceeded'']\<rparr>"
  obtain x s where op: "op ?s = (x, s)" by force
  have "db_step\<^sup>*\<^sup>* ?s s" using assms(2) op unfolding can_def by (metis snd_conv)
  then have "db_step\<^sup>*\<^sup>* (db w) (s\<lparr>faults := faults (db w)\<rparr>)"
    using driver_step by (meson converse_rtranclp_into_rtranclp rtranclp.rtrancl_into_rtrancl)
  then show ?thesis using runs_db [OF assms(1)] op True by (simp add: by_deadline_def)
next
  case False
  then show ?thesis using db_logic.rest_snd_db [OF assms] by (simp add: by_deadline_def)
qed

lemma w_time: "runs db_step A w0 w \<Longrightarrow> runs db_step A w0 (pass_time ms w)"
  unfolding pass_time_def using time_step by (intro runs_db) (auto intro: r_into_rtranclp)

lemma w_step_db:
  assumes "runs db_step A w0 w" "\<And>w. can db_step op w"
    and "\<And>x v. runs db_step A w0 v \<Longrightarrow> runs db_step A w0 (snd (snd (k x v)))"
  shows "runs db_step A w0 (snd (snd (case by_deadline dl op w of (x, v) \<Rightarrow> k x v)))"
  using w_deadline [OF assms(1,2)] assms(3) by (simp add: split_beta)

lemma w_step_made:
  assumes "runs db_step A w0 w" "\<And>w. can db_step (made op) w"
    and "\<And>r v. runs db_step A w0 v \<Longrightarrow> runs db_step A w0 (snd (snd (k r v)))"
  shows "runs db_step A w0 (snd (snd (step_made dl op k res w)))"
  using w_deadline [OF assms(1,2)] assms(3) by (simp add: step_made_def Let_def split_beta split: sum.split)

lemma w_step_configured:
  assumes "runs db_step A w0 w" "\<And>c. runs db_step A w0 (snd (snd (k c w)))"
  shows "runs db_step A w0 (snd (snd (configured eng st res cfg k w)))"
  using assms by (simp add: configured_def split: option.split)

lemma w_step_sum:
  "(\<And>y. x = Inl y \<Longrightarrow> runs db_step A w0 (snd (snd (f y)))) \<Longrightarrow>
   (\<And>y. x = Inr y \<Longrightarrow> runs db_step A w0 (snd (snd (g y)))) \<Longrightarrow>
   runs db_step A w0 (snd (snd (case x of Inl y \<Rightarrow> f y | Inr y \<Rightarrow> g y)))"
  by (cases x) auto

lemma w_step_option:
  "(x = None \<Longrightarrow> runs db_step A w0 (snd (snd f))) \<Longrightarrow>
   (\<And>y. x = Some y \<Longrightarrow> runs db_step A w0 (snd (snd (g y)))) \<Longrightarrow>
   runs db_step A w0 (snd (snd (case x of None \<Rightarrow> f | Some y \<Rightarrow> g y)))"
  by (cases x) auto

lemma w_step_ends:
  "runs db_step A w0 w \<Longrightarrow> runs db_step A w0 (snd (snd (r, o', w)))"
  "runs db_step A w0 w \<Longrightarrow> runs db_step A w0 (snd (snd (both k v res w)))"
  by (simp_all add: both_def)

lemmas step_rules0 = w_step_db w_step_made w_step_configured w_step_sum w_step_option w_step_ends can_rules

lemma w_step_send: "runs db_step A w0 w \<Longrightarrow> runs db_step A w0 (snd (snd (step_send dl ch who content res w)))"
  unfolding step_send_def
  by (intro step_rules0 db_logic.runs_new_message; (assumption | simp add: step_message_def Message0_def))

lemmas step_rules = step_rules0 w_step_send

lemma w_step_kinds:
  assumes "runs db_step A w0 w"
  shows "runs db_step A w0 (snd (snd (step_dm dl flow who content res w)))"
    "runs db_step A w0 (snd (snd (step_channel dl flow nm ty res w)))"
    "runs db_step A w0 (snd (snd (step_task dl flow fs res w)))"
    "runs db_step A w0 (snd (snd (step_update_task dl fs res w)))"
    "runs db_step A w0 (snd (snd (step_notify dl fs res w)))"
    "runs db_step A w0 (snd (snd (step_http eng dl fs hs res w)))"
    "runs db_step A w0 (snd (snd (step_condition eng prev fs v res w)))"
proof -
  show "runs db_step A w0 (snd (snd (step_http eng dl fs hs res w)))"
    "runs db_step A w0 (snd (snd (step_condition eng prev fs v res w)))"
    using w_time [OF assms] assms
    by (simp_all add: step_http_def step_condition_def Let_def split_beta split: sum.split)
qed (unfold step_dm_def step_channel_def step_task_def step_update_task_def step_notify_def Let_def;
    intro step_rules; (rule assms | assumption))+

lemma w_step_if:
  "(b \<Longrightarrow> runs db_step A w0 (snd (snd (f w)))) \<Longrightarrow> (\<not> b \<Longrightarrow> runs db_step A w0 (snd (snd (g w)))) \<Longrightarrow>
   runs db_step A w0 (snd (snd ((if b then f else g) w)))"
  by simp

lemma w_step_pair:
  "(\<And>a b. x = (a, b) \<Longrightarrow> runs db_step A w0 (snd (snd (f a b w)))) \<Longrightarrow>
   runs db_step A w0 (snd (snd (case_prod f x w)))"
  by (cases x) auto

lemma w_executeStep:
  assumes "runs db_step A w0 w"
  shows "runs db_step A w0 (snd (snd (executeStep eng dl flow st res prev w)))"
  unfolding executeStep_def Let_def
  by (intro w_step_if w_step_configured w_step_pair w_step_kinds w_step_send w_step_ends;
      (rule assms | simp add: assms w_time))

lemma w_run_steps:
  "runs db_step A w0 w \<Longrightarrow> runs db_step A w0 (snd (run_steps eng dl flow i sts prev w))"
proof (induction sts arbitrary: i prev w)
  case (Cons st sts)
  then show ?case
    using w_executeStep [OF Cons.prems, of eng dl flow st "fresh_entry i st prev" prev]
    by (auto simp: Let_def split_beta)
qed simp

lemma w_executeWorkflow:
  assumes "runs db_step A w0 w"
  shows "runs db_step A w0 (executeWorkflow eng run flow w)"
  unfolding executeWorkflow_def finish_run_def Let_def split_beta
  by (simp split: option.split) (intro conjI allI impI w_deadline w_run_steps can_rules assms)

section \<open>The remaining handlers\<close>

lemma serve_trigger: "acts db_step A (handleTriggerWorkflow eng month q)"
  unfolding handleTriggerWorkflow_def one_workflow_def Let_def
  by (rule actsI) (intro serve_rules w_executeWorkflow; assumption)

lemma w_new_run:
  assumes "runs db_step A w0 w" "stored (CreateWorkflowRun x) w = (run, v)"
  shows "runs db_step A w0 v"
  by (rule w_snd [OF db_logic.acts_stored assms]) (simp add: can_rules)

lemma w_event_run:
  assumes "runs db_step A w0 w"
  shows "runs db_step A w0 (event_run eng data flow w)"
proof -
  obtain run v where x: "stored (CreateWorkflowRun (new_run flow (Some (map_json id data)))) w = (run, v)" by force
  show ?thesis using w_new_run [OF assms x] by (simp add: event_run_def x w_executeWorkflow split: sum.split)
qed

lemma w_background:
  assumes "runs db_step A w0 w"
  shows "runs db_step A w0 (TriggerWorkflowByEvent eng wid ev data w)"
    "runs db_step A w0 (snd (runCronWorkflow eng flow w))"
proof -
  show "runs db_step A w0 (TriggerWorkflowByEvent eng wid ev data w)"
    unfolding TriggerWorkflowByEvent_def Let_def
    by (rule db_logic.runs_on_db [OF assms]) (auto intro: can_rules db_logic.runs_fold w_event_run)
  obtain cur u where cur: "on_db (GetWorkflow (wf_ID flow)) w = (cur, u)" by force
  have u: "runs db_step A w0 u" by (rule w_snd [OF db_logic.acts_on_db assms cur]) (rule can_rules)
  have "runs db_step A w0 (snd (let (run, w) = stored (CreateWorkflowRun (new_run f None)) u in
      case run of Inl e \<Rightarrow> (Some f, w) | Inr run \<Rightarrow> (Some f, executeWorkflow eng run f w)))" for f
  proof -
    obtain run v where x: "stored (CreateWorkflowRun (new_run f None)) u = (run, v)" by force
    show ?thesis using w_new_run [OF u x] by (simp add: x w_executeWorkflow split: sum.split)
  qed
  then show "runs db_step A w0 (snd (runCronWorkflow eng flow w))"
    using assms u by (auto simp: runCronWorkflow_def cur split: sum.split option.split)
qed

lemma w_create_agents:
  "runs db_step A w0 w \<Longrightarrow> runs db_step A w0 (snd (create_agents wid rs acc w))"
proof (induction wid rs acc w rule: create_agents.induct)
  case (2 wid r rs acc w)
  obtain m v where m: "svc_CreateMember (role_agent wid r) w = (m, v)" by force
  have "runs db_step A w0 v" by (rule w_snd [OF acts_CreateMember 2(2) m])
  then show ?case using 2(1) [OF m [symmetric]] by (cases m) (simp_all add: m)
qed simp

lemma w_create_channels:
  "runs db_step A w0 w \<Longrightarrow> runs db_step A w0 (snd (create_channels wid pfx ags ds acc w))"
proof (induction ds arbitrary: acc w)
  case (Cons d ds)
  let ?op = "CreateChannel (Channel0\<lparr>ch_WorkspaceID := wid,
    ch_Name := (if pfx = '''' then tch_Name d else pfx @ ''-'' @ tch_Name d),
    ch_Type := ''channel'', ch_Topic := tch_Topic d, ch_IsPrivate := tch_IsPrivate d\<rparr>)"
  obtain c v where c: "stored ?op w = (c, v)" by force
  have v: "runs db_step A w0 v"
    by (rule w_snd [OF db_logic.acts_stored Cons.prems c]) (simp add: can_rules)
  have seat: "runs db_step A w0 (seat ags ch nm u)" if "runs db_step A w0 u" for ch nm u
    using db_logic.rest_snd_db [OF that can_change(22)] that by (simp add: seat_def split: option.split)
  have "runs db_step A w0 (fold (seat ags i) (tch_Members d) v)" for i
    by (rule db_logic.runs_fold [OF seat v])
  then show ?case using Cons.IH v c by (cases c) (simp_all add: Let_def)
qed simp

lemma serve_instantiate: "acts db_step A (handleInstantiateTemplate q)"
proof -
  have inst: "runs db_step A w0 (snd (instantiate wid pfx roles chans tid w))"
    if w: "runs db_step A w0 w" for w0 w wid pfx roles chans tid
  proof -
    obtain ags v where a: "create_agents wid roles [] w = (ags, v)" by force
    have v: "runs db_step A w0 v" using w_create_agents [OF w, of wid roles "[]"] by (simp add: a)
    show ?thesis
    proof (cases ags)
      case (Inl e)
      then show ?thesis using v by (simp add: instantiate_def a refuse_code_def)
    next
      case (Inr as)
      obtain cs u where c: "create_channels wid pfx as chans [] v = (cs, u)" by force
      have "runs db_step A w0 u" using w_create_channels [OF v, of wid pfx as chans "[]"] by (simp add: c)
      then show ?thesis using Inr by (cases cs) (simp_all add: instantiate_def a c refuse_code_def respond_def)
    qed
  qed
  show ?thesis
    unfolding handleInstantiateTemplate_def Let_def
    by (rule actsI) (intro serve_rules inst; assumption)
qed

lemma serve_admin_agents: "acts db_step A (handleAdminListAgents q)"
proof -
  have "runs db_step A w0 (snd (fold admin_agents wss (acc, w)))" if "runs db_step A w0 w" for w0 w wss acc
    using that
  proof (induction wss arbitrary: acc w)
    case (Cons ws wss)
    obtain ms v where m: "on_db (ListMembers (ws_ID ws)) w = (ms, v)" by force
    have "runs db_step A w0 v" by (rule w_snd [OF db_logic.acts_on_db Cons.prems m]) (rule can_rules)
    then show ?case using Cons.IH by (simp add: admin_agents_def m)
  qed simp
  then show ?thesis
    unfolding handleAdminListAgents_def Let_def
    by (intro actsI db_logic.rest_as_admin db_logic.rest_on_db can_rules)
       (auto simp: respond_def split_beta)
qed

lemma w_stripe:
  assumes "runs db_step A w0 w"
  shows "runs db_step A w0 (snd (handleStripeWebhook s ev w))"
proof -
  have change: "runs db_step A w0 (change_customer get f w)" if "\<And>w. can db_step get w" for get f
  proof -
    obtain c v where c: "on_db get w = (c, v)" by force
    have v: "runs db_step A w0 v" by (rule w_snd [OF db_logic.acts_on_db [OF that] assms c])
    show ?thesis using v db_logic.rest_snd_db [OF v can_write(26)]
      by (simp add: change_customer_def c split: sum.split option.split)
  qed
  have "runs db_step A w0 (stripe_event ty data w)" for ty data
    using assms change can_rules
    by (auto simp: stripe_event_def split: option.split)
  then show ?thesis using assms by (simp add: handleStripeWebhook_def refuse_def split: option.split)
qed

lemma acts_sso: "acts db_step A (findOrCreateSSOMember wid p info)"
proof (rule actsI)
  fix w0 w assume w: "runs db_step A w0 w"
  obtain i v where i: "on_db (GetOAuthIdentity (''sso:'' @ sso_ID p) (info ! 0)) w = (i, v)" by force
  have v: "runs db_step A w0 v" by (rule w_snd [OF db_logic.acts_on_db w i]) (rule can_rules)
  have g: "runs db_step A w0 (snd (on_db (GetMember j) v))" for j
    by (rule db_logic.rest_snd_db [OF v]) (rule can_rules)
  obtain m u where m: "svc_CreateMember (sso_member wid (info ! 2) (info ! 1)) v = (m, u)" by force
  have u: "runs db_step A w0 u" by (rule w_snd [OF acts_CreateMember v m])
  show "runs db_step A w0 (snd (findOrCreateSSOMember wid p info w))"
    unfolding findOrCreateSSOMember_def Let_def i prod.case
    using v g u by (auto simp: m w_link split_beta simp del: One_nat_def split: sum.split option.split)
qed

lemma acts_sso_login: "acts db_step A (sso_login net code st)"
proof (rule actsI)
  fix w0 w assume w: "runs db_step A w0 w"
  obtain p v where p: "on_db (GetSSOProvider (st ! 0)) w = (p, v)" by force
  have v: "runs db_step A w0 v" by (rule w_snd [OF db_logic.acts_on_db w p]) (rule can_rules)
  have "runs db_step A w0 (snd (let (m, w) = findOrCreateSSOMember (st ! 1) x info v in
      case m of Inl e \<Rightarrow> refuse 500 (''failed to create member: '' @ e) w
      | Inr m \<Rightarrow> let (t, w) = GenerateToken (mb_ID m) (st ! 1) w in
          case t of None \<Rightarrow> refuse 500 ''failed to generate token'' w
          | Some (tok, jti) \<Rightarrow> redirect 307 (sso_redirect (st ! 2) tok) w))" for x info
  proof -
    obtain m u where m: "findOrCreateSSOMember (st ! 1) x info v = (m, u)" by force
    have u: "runs db_step A w0 u" by (rule w_snd [OF acts_sso v m])
    have "runs db_step A w0 (snd (GenerateToken i j u))" for i j by (rule actsD [OF acts_token u])
    then show ?thesis using u by (auto simp: m refuse_def redirect_def split_beta simp del: One_nat_def split: sum.split option.split)
  qed
  then show "runs db_step A w0 (snd (sso_login net code st w))"
    using v by (auto simp: sso_login_def p refuse_def simp del: One_nat_def split: sum.split option.split)
qed

lemma serve_sso: "acts db_step A (handleSSOCallback net q)"
  unfolding handleSSOCallback_def Let_def
  by (rule actsI) (auto simp: refuse_def intro: actsD [OF acts_sso_login] split: option.split)

lemma serve_providers: "acts db_step A (handleListProviders a b c)"
  by (rule actsI) (simp add: handleListProviders_def respond_def)

end
