(* ===== verification/Rate_Limit.thy ===== *)
theory Rate_Limit
  imports Go_Strings
begin

text \<open>
  api/ratelimit.go and the middleware of api/middleware.go: a token bucket per
  client address.  Times are nanoseconds; the clock is read once per call of
  Allow (the code reads it two or three times in a row).  Token counts are
  unbounded integers: they never exceed the limit plus the seconds since the last
  call, far below 64 bits.
\<close>

section \<open>State and operations\<close>

record clientBucket =
  tokens :: int
  lastCheck :: int

record RateLimiter =
  clients :: "(string, clientBucket) go_map"
  limit :: int

definition staleThreshold :: int where
  "staleThreshold = 600 * 10 ^ 9"

definition NewRateLimiter :: "int \<Rightarrow> RateLimiter" where
  "NewRateLimiter l = \<lparr>clients = [], limit = l\<rparr>"

text \<open>int(elapsed.Seconds()) truncates toward zero.\<close>

definition whole_seconds :: "int \<Rightarrow> int" where
  "whole_seconds d = (if 0 \<le> d then d div 10 ^ 9 else - ((- d) div 10 ^ 9))"

definition Allow :: "string \<Rightarrow> int \<Rightarrow> RateLimiter \<Rightarrow> bool \<times> RateLimiter" where
  "Allow ip t rl =
     (let b = (case go_get (clients rl) ip of
                 Some b \<Rightarrow> b | None \<Rightarrow> \<lparr>tokens = limit rl, lastCheck = t\<rparr>);
          elapsed = whole_seconds (t - lastCheck b);
          tk = tokens b + elapsed;
          tk = (if limit rl < tk then limit rl else tk) in
      if tk \<le> 0 then (False, rl\<lparr>clients := go_put ip \<lparr>tokens = tk, lastCheck = t\<rparr> (clients rl)\<rparr>)
      else (True, rl\<lparr>clients := go_put ip \<lparr>tokens = tk - 1, lastCheck = t\<rparr> (clients rl)\<rparr>))"

definition cleanup :: "int \<Rightarrow> RateLimiter \<Rightarrow> RateLimiter" where
  "cleanup t rl = rl\<lparr>clients := filter (\<lambda>(ip, b). t - lastCheck b \<le> staleThreshold) (clients rl)\<rparr>"

text \<open>The client key: the remote address up to its last colon.\<close>

definition client_ip :: "string \<Rightarrow> string" where
  "client_ip addr = (case last_index_char (CHR '':'') addr of None \<Rightarrow> addr | Some i \<Rightarrow> take i addr)"

text \<open>Whether the middleware passes the request on to the next handler.\<close>

definition rateLimitMiddleware ::
  "string \<Rightarrow> string \<Rightarrow> int \<Rightarrow> RateLimiter \<Rightarrow> bool \<times> RateLimiter" where
  "rateLimitMiddleware addr meth t rl =
     (let ip = client_ip addr; (ok, rl) = Allow ip t rl in
      if \<not> ok then (False, rl)
      else if meth \<in> {''POST'', ''PATCH'', ''DELETE''} then
        let (ok2, rl) = Allow ip t rl in (ok2, rl)
      else (True, rl))"

section \<open>The bucket of one client\<close>

text \<open>
  Abstraction: a client without an entry has a full bucket.  A call looks only at
  the client's own bucket and at the limit.
\<close>

definition bucket_of :: "string \<Rightarrow> int \<Rightarrow> RateLimiter \<Rightarrow> clientBucket" where
  "bucket_of ip t rl = (case go_get (clients rl) ip of
     Some b \<Rightarrow> b | None \<Rightarrow> \<lparr>tokens = limit rl, lastCheck = t\<rparr>)"

definition refill :: "int \<Rightarrow> int \<Rightarrow> clientBucket \<Rightarrow> int" where
  "refill l t b = min l (tokens b + whole_seconds (t - lastCheck b))"

lemma Allow_alt:
  "Allow ip t rl =
     (let tk = refill (limit rl) t (bucket_of ip t rl) in
      (0 < tk, rl\<lparr>clients := go_put ip
         \<lparr>tokens = (if 0 < tk then tk - 1 else tk), lastCheck = t\<rparr> (clients rl)\<rparr>))"
  by (auto simp: Allow_def refill_def bucket_of_def Let_def min_def)

lemma limit_Allow [simp]: "limit (snd (Allow ip t rl)) = limit rl"
  by (simp add: Allow_alt Let_def)

lemma bucket_of_Allow_other:
  "ip' \<noteq> ip \<Longrightarrow> bucket_of ip' t' (snd (Allow ip t rl)) = bucket_of ip' t' rl"
  by (simp add: Allow_alt Let_def bucket_of_def split: option.splits)

lemma whole_seconds_0 [simp]: "whole_seconds 0 = 0"
  by (simp add: whole_seconds_def)

lemma whole_seconds_nonneg: "0 \<le> d \<Longrightarrow> 0 \<le> whole_seconds d"
  by (simp add: whole_seconds_def pos_imp_zdiv_nonneg_iff)

lemma whole_seconds_add:
  "0 \<le> a \<Longrightarrow> 0 \<le> b \<Longrightarrow> whole_seconds a + whole_seconds b \<le> whole_seconds (a + b)"
proof -
  assume "0 \<le> a" "0 \<le> b"
  moreover have "a div 10 ^ 9 + b div 10 ^ 9 \<le> (a + b) div (10 ^ 9 :: int)"
    by (subst div_add1_eq) (simp add: pos_imp_zdiv_nonneg_iff)
  ultimately show ?thesis by (simp add: whole_seconds_def)
qed

section \<open>Runs\<close>

text \<open>The calls of Allow for one client at given times: how many were let through.\<close>

fun allow_run :: "string \<Rightarrow> int list \<Rightarrow> RateLimiter \<Rightarrow> nat \<times> RateLimiter" where
  "allow_run ip [] rl = (0, rl)"
| "allow_run ip (t # ts) rl =
     (let (ok, rl') = Allow ip t rl; (n, rl'') = allow_run ip ts rl' in
      (if ok then Suc n else n, rl''))"

lemma allow_run_bucket:
  assumes "go_get (clients rl) ip = Some b" "sorted (lastCheck b # ts)" "tokens b \<le> limit rl"
    "0 \<le> tokens b"
  shows "int (fst (allow_run ip ts rl)) \<le>
    tokens b + whole_seconds (last (lastCheck b # ts) - lastCheck b)"
  using assms
proof (induction ts arbitrary: rl b)
  case (Cons t ts)
  define tk where "tk = refill (limit rl) t b"
  define b' where "b' = \<lparr>tokens = (if 0 < tk then tk - 1 else tk), lastCheck = t\<rparr>"
  have bo: "bucket_of ip t rl = b" using Cons.prems(1) by (simp add: bucket_of_def)
  have al: "Allow ip t rl = (0 < tk, rl\<lparr>clients := go_put ip b' (clients rl)\<rparr>)"
    by (simp add: Allow_alt Let_def bo tk_def b'_def)
  have le: "lastCheck b \<le> t" "\<forall>x\<in>set ts. t \<le> x" "sorted ts" using Cons.prems(2) by auto
  have el: "0 \<le> whole_seconds (t - lastCheck b)" using le whole_seconds_nonneg by simp
  have tkb: "0 \<le> tk" "tk \<le> limit rl" "tk \<le> tokens b + whole_seconds (t - lastCheck b)"
    using Cons.prems(3,4) el by (auto simp: tk_def refill_def)
  have IH: "int (fst (allow_run ip ts (rl\<lparr>clients := go_put ip b' (clients rl)\<rparr>)))
      \<le> tokens b' + whole_seconds (last (t # ts) - t)"
    using Cons.IH [of "rl\<lparr>clients := go_put ip b' (clients rl)\<rparr>" b'] le tkb by (simp add: b'_def)
  have "t \<le> last (t # ts)" using le by (cases ts rule: rev_cases) auto
  then have sec: "whole_seconds (t - lastCheck b) + whole_seconds (last (t # ts) - t)
      \<le> whole_seconds (last (t # ts) - lastCheck b)"
    using whole_seconds_add [of "t - lastCheck b" "last (t # ts) - t"] le by simp
  show ?case using IH sec tkb al by (auto simp: split_beta b'_def split: if_splits)
qed simp

lemma allow_run_slow:
  assumes "go_get (clients rl) ip = Some b" "sorted (lastCheck b # ts)"
    "\<forall>i<length ts. ((lastCheck b # ts) ! Suc i) - ((lastCheck b # ts) ! i) < 10 ^ 9"
    "tokens b \<le> limit rl" "0 \<le> tokens b"
  shows "int (fst (allow_run ip ts rl)) \<le> tokens b"
  using assms
proof (induction ts arbitrary: rl b)
  case (Cons t ts)
  have gap: "0 \<le> t - lastCheck b" "t - lastCheck b < 10 ^ 9"
    using Cons.prems(2) Cons.prems(3) [rule_format, of 0] by auto
  then have "whole_seconds (t - lastCheck b) = 0" by (simp add: whole_seconds_def)
  then have tk: "refill (limit rl) t b = tokens b" using Cons.prems(4) by (simp add: refill_def)
  define b' where "b' = \<lparr>tokens = (if 0 < tokens b then tokens b - 1 else tokens b), lastCheck = t\<rparr>"
  have al: "Allow ip t rl = (0 < tokens b, rl\<lparr>clients := go_put ip b' (clients rl)\<rparr>)"
    using Cons.prems(1) tk by (simp add: Allow_alt Let_def bucket_of_def b'_def)
  have gaps: "((t # ts) ! Suc i) - ((t # ts) ! i) < 10 ^ 9" if "i < length ts" for i
    using Cons.prems(3) [rule_format, of "Suc i"] that by simp
  have "int (fst (allow_run ip ts (rl\<lparr>clients := go_put ip b' (clients rl)\<rparr>))) \<le> tokens b'"
    using Cons.prems(2,4,5) gaps by (intro Cons.IH) (auto simp: b'_def)
  then show ?case using al Cons.prems(5)
    by (cases "0 < tokens b") (auto simp: split_beta b'_def)
qed simp

lemma allow_run_first:
  assumes "go_get (clients rl) ip = None" "0 < limit rl"
  shows "Allow ip t rl =
    (True, rl\<lparr>clients := go_put ip \<lparr>tokens = limit rl - 1, lastCheck = t\<rparr> (clients rl)\<rparr>)"
  using assms by (simp add: Allow_alt bucket_of_def refill_def)

section \<open>Properties\<close>

text \<open>
  C18: over any calls of one client at non-decreasing times, starting with no entry,
  the limiter lets through at most the limit plus one per whole second elapsed.
\<close>
theorem rate_bound:
  assumes "sorted (t # ts)" "0 < l"
  shows "int (fst (allow_run ip (t # ts) (NewRateLimiter l)))
    \<le> l + whole_seconds (last (t # ts) - t)"
proof -
  let ?rl = "NewRateLimiter l" and ?b = "\<lparr>tokens = l - 1, lastCheck = t\<rparr>"
  have "int (fst (allow_run ip ts (?rl\<lparr>clients := go_put ip ?b (clients ?rl)\<rparr>)))
      \<le> tokens ?b + whole_seconds (last (lastCheck ?b # ts) - lastCheck ?b)"
    by (rule allow_run_bucket) (use assms in \<open>auto simp: NewRateLimiter_def\<close>)
  then show ?thesis
    using allow_run_first [of ?rl ip t] assms(2)
    by (auto simp: NewRateLimiter_def split_beta split: if_splits)
qed

theorem rate_bound_witness:
  "fst (allow_run ''1.2.3.4'' [0, 10 ^ 8, 2 * 10 ^ 8, 3 * 10 ^ 9] (NewRateLimiter 2)) \<le> 5"
  using rate_bound [of 0 "[10 ^ 8, 2 * 10 ^ 8, 3 * 10 ^ 9]" 2 "''1.2.3.4''"]
  by (simp add: whole_seconds_def del: allow_run.simps)

text \<open>
  C19: a client whose calls are always less than a second apart never gets a token
  back, because each call restarts the clock and the fraction of a second is
  thrown away: whatever the time elapsed, no more than the initial limit of calls
  is ever let through.
\<close>
theorem rate_starvation:
  assumes "sorted (t # ts)" "\<forall>i<length ts. ((t # ts) ! Suc i) - ((t # ts) ! i) < 10 ^ 9" "0 < l"
  shows "int (fst (allow_run ip (t # ts) (NewRateLimiter l))) \<le> l"
proof -
  let ?rl = "NewRateLimiter l" and ?b = "\<lparr>tokens = l - 1, lastCheck = t\<rparr>"
  have "int (fst (allow_run ip ts (?rl\<lparr>clients := go_put ip ?b (clients ?rl)\<rparr>))) \<le> tokens ?b"
    by (rule allow_run_slow) (use assms in \<open>auto simp: NewRateLimiter_def\<close>)
  then show ?thesis
    using allow_run_first [of ?rl ip t] assms(3)
    by (auto simp: NewRateLimiter_def split_beta split: if_splits)
qed

theorem rate_starvation_witness:
  "fst (allow_run ''::1'' [0, 9 * 10 ^ 8, 18 * 10 ^ 8, 27 * 10 ^ 8, 36 * 10 ^ 8] (NewRateLimiter 2)) \<le> 2"
  using rate_starvation [of 0 "[9 * 10 ^ 8, 18 * 10 ^ 8, 27 * 10 ^ 8, 36 * 10 ^ 8]" 2 "''::1''"]
  by (simp add: less_Suc_eq numeral_eq_Suc nth_Cons' del: allow_run.simps)

text \<open>
  C20: evicting stale entries does not show, for limits up to 600: whenever cleanup ran
  at an earlier time, the next call of any client gets the same answer and leaves the
  same bucket behind.
\<close>
theorem cleanup_transparent:
  assumes "limit rl \<le> 600" "t0 \<le> t" "\<forall>(ip, b)\<in>set (clients rl). 0 \<le> tokens b"
    and "go_wf (clients rl)"
  shows "fst (Allow ip t (cleanup t0 rl)) = fst (Allow ip t rl) \<and>
    bucket_of ip t' (snd (Allow ip t (cleanup t0 rl))) = bucket_of ip t' (snd (Allow ip t rl))"
proof -
  have get: "go_get (clients (cleanup t0 rl)) ip =
      (case go_get (clients rl) ip of
         Some b \<Rightarrow> if t0 - lastCheck b \<le> staleThreshold then Some b else None | None \<Rightarrow> None)"
    using assms(4) by (simp add: cleanup_def go_get_filter split: option.splits)
  have lim: "limit (cleanup t0 rl) = limit rl" by (simp add: cleanup_def)
  have "refill (limit rl) t (bucket_of ip t (cleanup t0 rl)) = refill (limit rl) t (bucket_of ip t rl)"
  proof (cases "go_get (clients rl) ip")
    case None
    then show ?thesis using get lim by (simp add: bucket_of_def)
  next
    case (Some b)
    have tb: "0 \<le> tokens b" using assms(3) Some by (auto dest!: map_of_SomeD)
    have "staleThreshold < t0 - lastCheck b \<Longrightarrow> 600 \<le> whole_seconds (t - lastCheck b)"
      using assms(2) by (simp add: staleThreshold_def whole_seconds_def)
    then show ?thesis using get lim Some tb assms(1)
      by (auto simp: bucket_of_def refill_def)
  qed
  then show ?thesis using lim by (simp add: Allow_alt Let_def bucket_of_def [of _ t'])
qed

theorem cleanup_transparent_witness:
  "fst (Allow ''a'' (2 * 10 ^ 12) (cleanup (10 ^ 12) (snd (Allow ''a'' 0 (NewRateLimiter 1))))) =
   fst (Allow ''a'' (2 * 10 ^ 12) (snd (Allow ''a'' 0 (NewRateLimiter 1))))"
  using cleanup_transparent [of "snd (Allow ''a'' 0 (NewRateLimiter 1))" "10 ^ 12" "2 * 10 ^ 12" "''a''"]
  by (simp add: Allow_def NewRateLimiter_def whole_seconds_def)

end
