(* ===== verification/Router.thy ===== *)
theory Router
  imports Flow_Serves Rate_Limit
begin

text \<open>
  api/router.go and the middleware chain: the table of routes, the rate limiter and
  the authentication a request passes through, and the state a request works on: the
  running server, the files, the pending OAuth states and the limiter's buckets.

  Matching a method and a path against the table is chi's, a parameter: it names the
  registered route and the URL parameters.  CORS, the response headers and the log are
  left out; they decide nothing.  A response to a preflight request is the CORS
  library's.  Not in the table is /llms.txt, a fixed text.
\<close>

section \<open>State and requests\<close>

record site =
  srv :: world
  files_on :: disk
  pending_states :: states
  limiter :: RateLimiter

text \<open>
  A request as net/http hands it over: the header's first values, the decoded JSON
  body or the multipart form, and what Stripe's library makes of body and signature.
\<close>

record http =
  hq_method :: string
  hq_path :: string
  hq_addr :: string
  hq_header :: "(string \<times> string) list"
  hq_query :: "(string \<times> string) list"
  hq_body :: "json option"
  hq_form :: form
  hq_stripe :: "(string \<times> json option) option"
  hq_handshake :: bool

text \<open>What the handlers take from outside.\<close>

record outside =
  out_route :: "string \<Rightarrow> string \<Rightarrow> ((string \<times> string) \<times> (string \<times> string) list) option"
  out_month :: "int \<Rightarrow> int \<times> int"
  out_sniff :: "string \<Rightarrow> string"
  out_lower :: "string \<Rightarrow> string"
  out_fts :: "string \<Rightarrow> string \<Rightarrow> bool"
  out_mkdir :: bool
  out_moment :: "int \<Rightarrow> string"
  out_stripe :: StripeService
  out_checkout :: "checkout \<Rightarrow> string option"
  out_portal :: "string \<Rightarrow> string \<Rightarrow> string option"
  out_net :: internet
  out_github_url :: "(string \<Rightarrow> string) option"
  out_github :: "provider option"
  out_google_url :: "(string \<Rightarrow> string) option"
  out_google :: "provider option"
  out_microsoft_url :: "(string \<Rightarrow> string) option"
  out_microsoft :: "provider option"

datatype http_answer = Json response | Bytes download | Switched nat | NotRouted | Forbidden

type_synonym handler = "outside \<Rightarrow> http \<Rightarrow> request \<Rightarrow> site \<Rightarrow> http_answer \<times> site"

section \<open>Kinds of handlers\<close>

definition plain :: "(outside \<Rightarrow> http \<Rightarrow> request \<Rightarrow> world \<Rightarrow> answer) \<Rightarrow> handler" where
  "plain f e h q s = (let (r, w) = f e h q (srv s) in (Json r, s\<lparr>srv := w\<rparr>))"

definition pending :: "(outside \<Rightarrow> request \<Rightarrow> states \<times> world \<Rightarrow> response \<times> states \<times> world) \<Rightarrow> handler" where
  "pending f e h q s =
     (let (r, sts, w) = f e q (pending_states s, srv s) in (Json r, s\<lparr>srv := w, pending_states := sts\<rparr>))"

definition on_disk :: "(outside \<Rightarrow> http \<Rightarrow> request \<Rightarrow> world \<times> disk \<Rightarrow> disk_answer) \<Rightarrow> handler" where
  "on_disk f e h q s =
     (let (r, w, d) = f e h q (srv s, files_on s) in (Json r, s\<lparr>srv := w, files_on := d\<rparr>))"

definition downloading :: handler where
  "downloading e h q s =
     (let (r, w) = handleDownloadFile q (srv s, files_on s) in
      (case r of Inl a \<Rightarrow> Json a | Inr d \<Rightarrow> Bytes d, s\<lparr>srv := w\<rparr>))"

definition handleHealth :: handler where
  "handleHealth = plain (\<lambda>e h q w.
     let (x, w) = on_db (query (\<lambda>_. ())) w in
     case x of
       Inl _ \<Rightarrow> respond 503 (str_obj [(''error'', ''database unreachable''), (''status'', ''error'')]) w
     | Inr _ \<Rightarrow> respond 200 (str_obj [(''status'', ''ok'')]) w)"

text \<open>The upgrade needs a sound handshake and an origin the hub accepts.\<close>

definition handleWebSocket :: handler where
  "handleWebSocket e h q s =
     (if \<not> hq_handshake h \<or> \<not> CheckOrigin (allowedOrigin (srv s)) (incoming_header (hq_header h))
      then (Forbidden, s)
      else let (r, w) = accept_conn (srv s) in (Switched r, s\<lparr>srv := w\<rparr>))"

section \<open>Routes\<close>

type_synonym routes = "((string \<times> string) \<times> handler) list"

definition open_routes :: routes where
  "open_routes = [((''GET'', ''/health''), handleHealth)]"

definition public_routes :: routes where
  "public_routes =
     [((''GET'', ''/metrics''), plain (\<lambda>e h. handleMetrics)),
      ((''POST'', ''/webhooks/{id}/{secret}''), plain (\<lambda>e h. handleWebhookExecute)),
      ((''POST'', ''/v1/auth/register''), plain (\<lambda>e h. handleRegister (out_lower e))),
      ((''POST'', ''/v1/auth/login''), plain (\<lambda>e h. handleLogin)),
      ((''GET'', ''/v1/auth/github''), pending (\<lambda>e q. handleGithubLogin (out_github_url e))),
      ((''GET'', ''/v1/auth/github/callback''), pending (\<lambda>e. handleGithubCallback (out_github e))),
      ((''GET'', ''/v1/auth/google''), pending (\<lambda>e q. handleGoogleLogin (out_google_url e))),
      ((''GET'', ''/v1/auth/google/callback''), pending (\<lambda>e. handleGoogleCallback (out_google e))),
      ((''GET'', ''/v1/auth/microsoft''), pending (\<lambda>e q. handleMicrosoftLogin (out_microsoft_url e))),
      ((''GET'', ''/v1/auth/microsoft/callback''), pending (\<lambda>e. handleMicrosoftCallback (out_microsoft e))),
      ((''GET'', ''/v1/auth/providers''), plain (\<lambda>e h q. handleListProviders (out_github_url e \<noteq> None) (out_google_url e \<noteq> None) (out_microsoft_url e \<noteq> None))),
      ((''GET'', ''/v1/sso/callback''), plain (\<lambda>e h. handleSSOCallback (out_net e))),
      ((''POST'', ''/v1/workspaces''), plain (\<lambda>e h. handleCreateWorkspace)),
      ((''POST'', ''/v1/workspaces/{id}/agents''), plain (\<lambda>e h. handleAgentProvision)),
      ((''GET'', ''/ws''), handleWebSocket),
      ((''POST'', ''/webhooks/stripe''), plain (\<lambda>e h q. handleStripeWebhook (out_stripe e) (hq_stripe h)))]"

definition chat_routes :: routes where
  "chat_routes =
     [((''POST'', ''/v1/auth/logout''), plain (\<lambda>e h. handleLogout)),
      ((''GET'', ''/v1/admin/stats''), plain (\<lambda>e h. handleAdminStats)),
      ((''GET'', ''/v1/admin/workspaces''), plain (\<lambda>e h. handleAdminListWorkspaces)),
      ((''GET'', ''/v1/admin/agents''), plain (\<lambda>e h. handleAdminListAgents)),
      ((''POST'', ''/v1/admin/backup''), plain (\<lambda>e h q w. handleAdminBackup (out_mkdir e) (out_moment e (now (db w))) q w)),
      ((''GET'', ''/v1/workspaces''), plain (\<lambda>e h. handleListWorkspaces)),
      ((''GET'', ''/v1/workspaces/{id}''), plain (\<lambda>e h. handleGetWorkspace)),
      ((''PATCH'', ''/v1/workspaces/{id}''), plain (\<lambda>e h. handleUpdateWorkspace)),
      ((''DELETE'', ''/v1/workspaces/{id}''), plain (\<lambda>e h. handleDeleteWorkspace)),
      ((''POST'', ''/v1/workspaces/{id}/members''), plain (\<lambda>e h. handleCreateMember)),
      ((''GET'', ''/v1/workspaces/{id}/members''), plain (\<lambda>e h. handleListMembers)),
      ((''GET'', ''/v1/workspaces/{id}/members/{memberID}''), plain (\<lambda>e h. handleGetMember)),
      ((''PATCH'', ''/v1/workspaces/{id}/members/{memberID}''), plain (\<lambda>e h. handleUpdateMember)),
      ((''DELETE'', ''/v1/workspaces/{id}/members/{memberID}''), plain (\<lambda>e h. handleDeleteMember)),
      ((''GET'', ''/v1/members/me''), plain (\<lambda>e h. handleMyProfile)),
      ((''POST'', ''/v1/members/me/avatar''), on_disk (\<lambda>e h. handleUploadAvatar (hq_form h))),
      ((''POST'', ''/v1/members/me/password''), plain (\<lambda>e h. handleChangePassword)),
      ((''POST'', ''/v1/workspaces/{id}/channels''), plain (\<lambda>e h. handleCreateChannel)),
      ((''GET'', ''/v1/workspaces/{id}/channels''), plain (\<lambda>e h. handleListChannels)),
      ((''GET'', ''/v1/workspaces/{id}/channels/search''), plain (\<lambda>e h. handleSearchChannels)),
      ((''GET'', ''/v1/workspaces/{id}/channels/{channelID}''), plain (\<lambda>e h. handleGetChannel)),
      ((''PATCH'', ''/v1/workspaces/{id}/channels/{channelID}''), plain (\<lambda>e h. handleUpdateChannel)),
      ((''DELETE'', ''/v1/workspaces/{id}/channels/{channelID}''), plain (\<lambda>e h. handleDeleteChannel)),
      ((''POST'', ''/v1/workspaces/{id}/channels/{channelID}/archive''), plain (\<lambda>e h. handleArchiveChannel)),
      ((''POST'', ''/v1/workspaces/{id}/channels/{channelID}/unarchive''), plain (\<lambda>e h. handleUnarchiveChannel)),
      ((''POST'', ''/v1/workspaces/{id}/channels/{channelID}/members''), plain (\<lambda>e h. handleAddChannelMember)),
      ((''DELETE'', ''/v1/workspaces/{id}/channels/{channelID}/members/{memberID}''), plain (\<lambda>e h. handleRemoveChannelMember)),
      ((''POST'', ''/v1/channels/{id}/messages''), plain (\<lambda>e h. handleCreateMessage (out_month e))),
      ((''GET'', ''/v1/channels/{id}/messages''), plain (\<lambda>e h. handleListMessages)),
      ((''PATCH'', ''/v1/messages/{id}''), plain (\<lambda>e h. handleUpdateMessage)),
      ((''DELETE'', ''/v1/messages/{id}''), plain (\<lambda>e h. handleDeleteMessage)),
      ((''GET'', ''/v1/messages/{id}/thread''), plain (\<lambda>e h. handleGetThread)),
      ((''GET'', ''/v1/messages/{id}/edits''), plain (\<lambda>e h. handleGetEditHistory)),
      ((''POST'', ''/v1/messages/{id}/reactions''), plain (\<lambda>e h. handleAddReaction)),
      ((''GET'', ''/v1/messages/{id}/reactions''), plain (\<lambda>e h. handleListReactions)),
      ((''DELETE'', ''/v1/messages/{id}/reactions/{emoji}''), plain (\<lambda>e h. handleRemoveReaction)),
      ((''GET'', ''/v1/search''), plain (\<lambda>e h. handleSearch (out_fts e)))]"

definition work_routes :: routes where
  "work_routes =
     [((''POST'', ''/v1/workspaces/{id}/tasks''), plain (\<lambda>e h. handleCreateTask)),
      ((''GET'', ''/v1/workspaces/{id}/tasks''), plain (\<lambda>e h. handleListTasks)),
      ((''PATCH'', ''/v1/tasks/{id}''), plain (\<lambda>e h. handleUpdateTask)),
      ((''DELETE'', ''/v1/tasks/{id}''), plain (\<lambda>e h. handleDeleteTask)),
      ((''GET'', ''/v1/workspaces/{id}/agents''), plain (\<lambda>e h. handleListAgents)),
      ((''POST'', ''/v1/agents/{id}/memory''), plain (\<lambda>e h. handleSetMemory)),
      ((''GET'', ''/v1/agents/{id}/memory''), plain (\<lambda>e h. handleListMemory)),
      ((''DELETE'', ''/v1/agents/{id}/memory/{namespace}/{key}''), plain (\<lambda>e h. handleDeleteMemory)),
      ((''POST'', ''/v1/workspaces/{id}/files''), on_disk (\<lambda>e h. handleUploadFile (out_month e) (out_sniff e) (hq_form h))),
      ((''GET'', ''/v1/workspaces/{id}/files''), plain (\<lambda>e h. handleListFiles)),
      ((''GET'', ''/v1/files/{id}''), plain (\<lambda>e h. handleGetFile)),
      ((''DELETE'', ''/v1/files/{id}''), on_disk (\<lambda>e h. handleDeleteFile)),
      ((''GET'', ''/v1/files/{id}/download''), downloading),
      ((''POST'', ''/v1/channels/{id}/pins''), plain (\<lambda>e h. handlePinMessage)),
      ((''GET'', ''/v1/channels/{id}/pins''), plain (\<lambda>e h. handleListPins)),
      ((''DELETE'', ''/v1/pins/{id}''), plain (\<lambda>e h. handleUnpinMessage)),
      ((''POST'', ''/v1/workspaces/{id}/approvals''), plain (\<lambda>e h. handleCreateApproval)),
      ((''GET'', ''/v1/workspaces/{id}/approvals''), plain (\<lambda>e h. handleListApprovals)),
      ((''GET'', ''/v1/approvals/{id}''), plain (\<lambda>e h. handleGetApproval)),
      ((''GET'', ''/v1/agents/{id}/metrics''), plain (\<lambda>e h. handleGetAgentMetrics)),
      ((''POST'', ''/v1/workspaces/{id}/dm''), plain (\<lambda>e h. handleCreateDM)),
      ((''GET'', ''/v1/members/{id}/dm''), plain (\<lambda>e h. handleListDMs)),
      ((''GET'', ''/v1/members/{id}/unread''), plain (\<lambda>e h. handleGetUnread)),
      ((''POST'', ''/v1/channels/{id}/read''), plain (\<lambda>e h. handleMarkRead)),
      ((''PATCH'', ''/v1/channels/{id}/notification-preference''), plain (\<lambda>e h. handleNotificationPreference)),
      ((''GET'', ''/v1/notifications''), plain (\<lambda>e h. handleListNotifications)),
      ((''GET'', ''/v1/notifications/unread-count''), plain (\<lambda>e h. handleCountUnreadNotifications)),
      ((''PATCH'', ''/v1/notifications/{id}/read''), plain (\<lambda>e h. handleMarkNotificationRead)),
      ((''POST'', ''/v1/notifications/mark-all-read''), plain (\<lambda>e h. handleMarkAllNotificationsRead)),
      ((''GET'', ''/v1/integrations''), plain (\<lambda>e h. handleListIntegrations (parse_json (out_net e)))),
      ((''GET'', ''/v1/integrations/{id}''), plain (\<lambda>e h. handleGetIntegration (parse_json (out_net e)))),
      ((''POST'', ''/v1/integrations''), plain (\<lambda>e h. handleCreateIntegration (parse_json (out_net e)))),
      ((''POST'', ''/v1/workspaces/{id}/integrations''), plain (\<lambda>e h. handleInstallIntegration (parse_json (out_net e)))),
      ((''GET'', ''/v1/workspaces/{id}/integrations''), plain (\<lambda>e h. handleListWorkspaceIntegrations (parse_json (out_net e)))),
      ((''DELETE'', ''/v1/workspaces/{id}/integrations/{integrationId}''), plain (\<lambda>e h. handleUninstallIntegration))]"

definition agent_routes :: routes where
  "agent_routes =
     [((''POST'', ''/v1/keys''), plain (\<lambda>e h. handleRegisterKey)),
      ((''GET'', ''/v1/members/{id}/keys''), plain (\<lambda>e h. handleGetKeys)),
      ((''DELETE'', ''/v1/keys/{id}''), plain (\<lambda>e h. handleDeleteKey)),
      ((''POST'', ''/v1/messages/{id}/encrypted''), plain (\<lambda>e h. handleSendEncrypted)),
      ((''GET'', ''/v1/messages/{id}/encrypted''), plain (\<lambda>e h. handleGetEncrypted)),
      ((''GET'', ''/v1/workspaces/{id}/billing''), plain (\<lambda>e h. handleGetBilling)),
      ((''POST'', ''/v1/workspaces/{id}/billing/checkout''), plain (\<lambda>e h. handleCreateCheckout (out_checkout e) (out_stripe e))),
      ((''POST'', ''/v1/workspaces/{id}/billing/portal''), plain (\<lambda>e h. handleBillingPortal (out_portal e) (out_stripe e))),
      ((''GET'', ''/v1/workspaces/{id}/usage''), plain (\<lambda>e h. handleGetUsage)),
      ((''POST'', ''/v1/workspaces/{id}/webhooks''), plain (\<lambda>e h. handleCreateWebhook)),
      ((''GET'', ''/v1/workspaces/{id}/webhooks''), plain (\<lambda>e h. handleListWebhooks)),
      ((''DELETE'', ''/v1/webhooks/{id}''), plain (\<lambda>e h. handleDeleteWebhook)),
      ((''GET'', ''/v1/agents/{id}/inbox''), plain (\<lambda>e h. handleListAgentInbox)),
      ((''GET'', ''/v1/agents/{id}/inbox/count''), plain (\<lambda>e h. handleCountAgentInbox)),
      ((''POST'', ''/v1/agents/{id}/inbox/{itemID}/ack''), plain (\<lambda>e h. handleAckInboxItem)),
      ((''POST'', ''/v1/agents/{id}/inbox/ack-all''), plain (\<lambda>e h. handleAckAllInbox)),
      ((''POST'', ''/v1/agents/{id}/drafts''), plain (\<lambda>e h. handleCreateDraft)),
      ((''GET'', ''/v1/agents/{id}/drafts''), plain (\<lambda>e h. handleListDrafts)),
      ((''POST'', ''/v1/drafts/{id}/validate''), plain (\<lambda>e h. handleValidateDraft)),
      ((''POST'', ''/v1/drafts/{id}/send''), plain (\<lambda>e h. handleSendDraft)),
      ((''DELETE'', ''/v1/drafts/{id}''), plain (\<lambda>e h. handleCancelDraft)),
      ((''POST'', ''/v1/agents/{id}/workspace''), plain (\<lambda>e h. handleCreateWorkspaceItem)),
      ((''GET'', ''/v1/agents/{id}/workspace''), plain (\<lambda>e h. handleListWorkspaceItems)),
      ((''GET'', ''/v1/agents/{id}/workspace/search''), plain (\<lambda>e h. handleSearchWorkspaceItems)),
      ((''GET'', ''/v1/agents/{id}/workspace/{itemID}''), plain (\<lambda>e h. handleGetWorkspaceItem)),
      ((''PUT'', ''/v1/agents/{id}/workspace/{itemID}''), plain (\<lambda>e h. handleUpdateWorkspaceItem)),
      ((''DELETE'', ''/v1/agents/{id}/workspace/{itemID}''), plain (\<lambda>e h. handleDeleteWorkspaceItem))]"

definition protected_routes :: routes where
  "protected_routes = chat_routes @ work_routes @ agent_routes"

section \<open>Serving a request\<close>

text \<open>The limiter's clock runs in nanoseconds.\<close>

definition limited :: "http \<Rightarrow> (site \<Rightarrow> http_answer \<times> site) \<Rightarrow> site \<Rightarrow> http_answer \<times> site" where
  "limited h k s =
     (let (ok, rl) = rateLimitMiddleware (hq_addr h) (hq_method h) (now (db (srv s)) * 10 ^ 6) (limiter s);
          s = s\<lparr>limiter := rl\<rparr>
      in if ok then k s else (Json (writeErrorCode 429 ''RATE_LIMITED'' ''rate limit exceeded''), s))"

definition the_request :: "http \<Rightarrow> (string \<times> string) list \<Rightarrow> Member option \<Rightarrow> request" where
  "the_request h ps m = \<lparr>rq_params = ps, rq_query = hq_query h, rq_body = hq_body h,
     rq_auth = header_get (hq_header h) ''Authorization'', rq_member = m\<rparr>"

definition authenticated :: "http \<Rightarrow> (Member \<Rightarrow> site \<Rightarrow> http_answer \<times> site) \<Rightarrow> site \<Rightarrow> http_answer \<times> site" where
  "authenticated h k s =
     (let (m, w) = authenticate (header_get (hq_header h) ''Authorization'') (srv s); s = s\<lparr>srv := w\<rparr> in
      case m of Inl r \<Rightarrow> (Json r, s) | Inr me \<Rightarrow> k me s)"

definition dispatch :: "outside \<Rightarrow> http \<Rightarrow> site \<Rightarrow> http_answer \<times> site" where
  "dispatch e h s =
     (case out_route e (hq_method h) (hq_path h) of
        None \<Rightarrow> (NotRouted, s)
      | Some (k, ps) \<Rightarrow>
          (case map_of open_routes k of
             Some f \<Rightarrow> f e h (the_request h ps None) s
           | None \<Rightarrow>
               (case map_of public_routes k of
                  Some f \<Rightarrow> limited h (f e h (the_request h ps None)) s
                | None \<Rightarrow>
                    (case map_of protected_routes k of
                       Some f \<Rightarrow> limited h (authenticated h (\<lambda>me. f e h (the_request h ps (Some me)))) s
                     | None \<Rightarrow> (NotRouted, s)))))"

definition serve :: "outside \<Rightarrow> http \<Rightarrow> site \<Rightarrow> http_answer \<times> site" where
  "serve e h = limited h (dispatch e h)"

end
