(* ===== verification/Ws_Authority.thy ===== *)
theory Ws_Authority
  imports Step_Logic
begin

text \<open>
  What a WebSocket event may do to the database, as a specification: ws_op me lists
  the statements a connection with the identity me may cause, with the ownership each
  one needs.  Every handler refines it.
\<close>

section \<open>The specification\<close>

inductive ws_op :: "string \<Rightarrow> store \<Rightarrow> store \<Rightarrow> bool" for me where
  op_take: "ws_op me s (snd (take_fault s))"
| op_faults: "ws_op me s (s\<lparr>faults := fs\<rparr>)"
| op_uuid: "ws_op me s (snd (new_uuid s))"
| op_wake: "ws_op me s (snd (snd (SetMemory (metric_row a k v) s)))"
| op_notify: "ws_op me s (snd (snd (CreateNotification n s)))"
| op_message: "msg_SenderID x = me \<Longrightarrow> msg_ReplyCount x = 0 \<Longrightarrow>
    ws_op me s (snd (snd (CreateMessage x s)))"
| op_edit: "m \<in> set (t_messages s) \<Longrightarrow> msg_SenderID m = me \<Longrightarrow> msg_ID x = msg_ID m \<Longrightarrow>
    ws_op me s (snd (snd (UpdateMessage x s)))"
| op_unsend: "m \<in> set (t_messages s) \<Longrightarrow> msg_SenderID m = me \<Longrightarrow>
    ws_op me s (snd (DeleteMessage (msg_ID m) s))"
| op_approval: "apr_AgentID a = me \<Longrightarrow> ws_op me s (snd (snd (CreateApproval a s)))"
| op_call: "call_CallerID c = me \<Longrightarrow> ws_op me s (snd (snd (CreateCall c s)))"
| op_call_update: "c \<in> set (t_calls s) \<Longrightarrow> call_CallerID c = me \<or> call_CalleeID c = me \<Longrightarrow>
    call_ID x = call_ID c \<Longrightarrow> ws_op me s (snd (UpdateCall x s))"
| op_ack: "ws_op me s (snd (AckInboxItem i s))"
| op_draft: "hd_AgentID d = me \<Longrightarrow> ws_op me s (snd (snd (CreateDraft d s)))"
| op_draft_sent: "d \<in> set (t_drafts s) \<Longrightarrow> hd_AgentID d = me \<Longrightarrow>
    ws_op me s (snd (UpdateDraftStatus (hd_ID d) ''sent'' s))"
| op_review: "rr_RequesterID x = me \<Longrightarrow> ws_op me s (snd (snd (CreateReviewRequest x s)))"
| op_review_result: "y \<in> set (t_reviews s) \<Longrightarrow> rr_ReviewerID y = me \<Longrightarrow> rr_ID x = rr_ID y \<Longrightarrow>
    ws_op me s (snd (snd (UpdateReviewRequest x s)))"
| op_item: "wsi_AgentID x = me \<Longrightarrow> ws_op me s (snd (snd (CreateWorkspaceItem x s)))"
| op_item_update: "y \<in> set (t_items s) \<Longrightarrow> wsi_AgentID y = me \<Longrightarrow> wsi_ID x = wsi_ID y \<Longrightarrow>
    ws_op me s (snd (snd (UpdateWorkspaceItem x s)))"
| op_hello: "ws_op me s (snd (UpdateMemberRoleCard me rc ri s))"

inductive_cases ws_opE: "ws_op me s s'"

lemma ws_op_db_step: "ws_op me s s' \<Longrightarrow> db_step s s'"
  by (induction rule: ws_op.induct) (auto intro: db_step.intros)

interpretation ws_logic: step_logic "ws_op me" for me
  by unfold_locales (rule ws_op.intros)+

section \<open>Lookups\<close>

lemma faults_same: "\<exists>fs. s = s\<lparr>faults := fs\<rparr>" for s :: store
  by (rule exI [of _ "faults s"]) simp

lemma query_result:
  assumes "query f s = (x, s')"
  shows "(\<exists>fs. s' = s\<lparr>faults := fs\<rparr>) \<and> (\<forall>y. x = Inr y \<longrightarrow> y = f s')"
proof (cases "faults s")
  case Nil
  then show ?thesis using assms Nil faults_same by (auto simp: query_def take_fault_def)
next
  case (Cons f fs)
  then show ?thesis using assms by (auto simp: query_def take_fault_def split: option.splits)
qed

lemma ctx_result:
  assumes "with_ctx r (query f) w = (x, w')"
  shows "(\<exists>fs. db w' = (db w)\<lparr>faults := fs\<rparr>) \<and> (\<forall>y. x = Inr y \<longrightarrow> y = f (db w'))"
proof (cases "c_cancelled (heap w r)")
  case True
  then show ?thesis using assms
    by (auto simp: with_ctx_def query_def take_fault_def faults_same)
next
  case False
  then obtain s where "query f (db w) = (x, s)" "w' = w\<lparr>db := s\<rparr>"
    using assms by (auto simp: with_ctx_def on_db_def split: prod.splits)
  then show ?thesis using query_result [of f "db w" x s] by simp
qed

lemma find_someD: "List.find P xs = Some x \<Longrightarrow> x \<in> set xs \<and> P x"
  by (auto simp: find_Some_iff)

lemma find_someD': "Some x = List.find P xs \<Longrightarrow> x \<in> set xs \<and> P x"
  by (metis find_someD)

lemma ctx_get:
  "with_ctx r (GetMessage i) w = (Inr (Some m), w') \<Longrightarrow> m \<in> set (t_messages (db w')) \<and> msg_ID m = i"
  "with_ctx r (GetCall i) w = (Inr (Some c), w') \<Longrightarrow> c \<in> set (t_calls (db w')) \<and> call_ID c = i"
  "with_ctx r (GetDraft i) w = (Inr (Some d), w') \<Longrightarrow> d \<in> set (t_drafts (db w')) \<and> hd_ID d = i"
  "with_ctx r (GetReviewRequest i) w = (Inr (Some x), w') \<Longrightarrow> x \<in> set (t_reviews (db w')) \<and> rr_ID x = i"
  "with_ctx r (GetWorkspaceItem i) w = (Inr (Some y), w') \<Longrightarrow> y \<in> set (t_items (db w')) \<and> wsi_ID y = i"
  unfolding GetMessage_def GetCall_def GetDraft_def GetReviewRequest_def GetWorkspaceItem_def
  by (auto dest!: ctx_result find_someD')

lemma version_drafts: "t_drafts (snd (GetChannelRoomVersion ch s)) = t_drafts s"
  by (auto simp: GetChannelRoomVersion_def query_def take_fault_def
      split: option.splits prod.splits sum.splits list.splits)

lemma put_message_drafts: "t_drafts (put_message x s) = t_drafts s"
  by (simp add: put_message_def)

lemma exec_drafts:
  assumes "\<And>s s'. g s = Inr s' \<Longrightarrow> t_drafts s' = t_drafts s"
  shows "t_drafts (snd (exec g s)) = t_drafts s"
  using assms by (auto simp: exec_def take_fault_def split: option.splits prod.splits sum.splits list.splits)

lemma insert_checked_some: "insert_checked a b fks g s = Inr s' \<Longrightarrow> s' = g s"
  by (auto simp: insert_checked_def split: option.splits if_splits)

lemma message_drafts: "t_drafts (snd (snd (CreateMessage x s))) = t_drafts s"
  by (auto simp: CreateMessage_def fresh_id_def new_uuid_def Let_def split_beta put_message_drafts
      intro!: exec_drafts [THEN trans] dest!: insert_checked_some)

lemma ctx_drafts:
  assumes "\<And>s. t_drafts (snd (op s)) = t_drafts s" "with_ctx r op w = (x, w')"
  shows "t_drafts (db w') = t_drafts (db w)"
proof -
  have "t_drafts (snd (op s)) = t_drafts s" for s by (rule assms)
  then show ?thesis using assms(2)
    by (auto simp: with_ctx_def on_db_def split_beta split: if_splits)
qed

lemma made_drafts: "(\<And>s. t_drafts (snd (snd (op s))) = t_drafts s) \<Longrightarrow> t_drafts (snd (made op s)) = t_drafts s"
  by (simp add: made_def split_beta)

lemmas draft_kept = ctx_drafts [OF version_drafts] ctx_drafts [OF made_drafts [OF message_drafts]]

section \<open>Permissions\<close>

lemma ws_can_create:
  "msg_SenderID x = me \<Longrightarrow> msg_ReplyCount x = 0 \<Longrightarrow> can (ws_op me) (made (CreateMessage x)) w"
  "apr_AgentID a = me \<Longrightarrow> can (ws_op me) (made (CreateApproval a)) w"
  "call_CallerID c = me \<Longrightarrow> can (ws_op me) (made (CreateCall c)) w"
  "hd_AgentID e = me \<Longrightarrow> can (ws_op me) (made (CreateDraft e)) w"
  "rr_RequesterID f = me \<Longrightarrow> can (ws_op me) (made (CreateReviewRequest f)) w"
  "wsi_AgentID h = me \<Longrightarrow> can (ws_op me) (made (CreateWorkspaceItem h)) w"
  by (auto intro!: ws_logic.can_made ws_op.intros)

lemma ws_can_update:
  "\<exists>m\<in>set (t_messages (db w)). msg_SenderID m = me \<and> msg_ID y = msg_ID m \<Longrightarrow>
     can (ws_op me) (made (UpdateMessage y)) w"
  "\<exists>y\<in>set (t_reviews (db w)). rr_ReviewerID y = me \<and> rr_ID g = rr_ID y \<Longrightarrow>
     can (ws_op me) (made (UpdateReviewRequest g)) w"
  "\<exists>y\<in>set (t_items (db w)). wsi_AgentID y = me \<and> wsi_ID k = wsi_ID y \<Longrightarrow>
     can (ws_op me) (made (UpdateWorkspaceItem k)) w"
  by (auto intro!: ws_logic.can_made ws_op.intros)

lemma ws_can_other:
  "\<exists>m\<in>set (t_messages (db w)). msg_SenderID m = me \<and> msg_ID m = i \<Longrightarrow>
     can (ws_op me) (DeleteMessage i) w"
  "\<exists>c\<in>set (t_calls (db w)). (call_CallerID c = me \<or> call_CalleeID c = me) \<and> call_ID d = call_ID c \<Longrightarrow>
     can (ws_op me) (UpdateCall d) w"
  "can (ws_op me) (AckInboxItem i) w"
  "\<exists>d\<in>set (t_drafts (db w)). hd_AgentID d = me \<and> hd_ID d = i \<Longrightarrow>
     can (ws_op me) (UpdateDraftStatus i ''sent'') w"
  "can (ws_op me) (UpdateMemberRoleCard me rc ri) w"
  by (auto intro!: ws_logic.can_one ws_op.intros)

lemmas ws_rules = ws_logic.runs_rules ws_logic.runs_authed ws_logic.runs_agent ws_logic.runs_member
  ws_logic.runs_handleMentions ws_logic.runs_RecordWake ws_can_create ws_can_update ws_can_other

section \<open>The handlers\<close>

lemmas msg_fields = Message0_def ApprovalRequest0_def Call0_def HeldDraft0_def ReviewRequest0_def
  AgentWorkspaceItem0_def draft_message_def trackMessageEdit_def
  send_request_def

abbreviation obeys :: "(string \<Rightarrow> bool) \<Rightarrow> nat \<Rightarrow> (world \<Rightarrow> world) \<Rightarrow> world \<Rightarrow> bool" where
  "obeys A r h w \<equiv> runs (ws_op (c_id (heap w r))) A w (h w)"

lemma obeys_MessageSend: "obeys A r (handleWSMessageSend r data) w"
  unfolding handleWSMessageSend_def Let_def
  by (intro ws_rules) (auto simp: msg_fields dest!: runs_keptD)

lemma obeys_MessageEdit: "obeys A r (handleWSMessageEdit r data) w"
  unfolding handleWSMessageEdit_def Let_def
  by (intro ws_rules) (auto simp: msg_fields dest!: runs_keptD ctx_get)

lemma obeys_MessageDelete: "obeys A r (handleWSMessageDelete r data) w"
  unfolding handleWSMessageDelete_def Let_def
  by (intro ws_rules) (auto simp: msg_fields dest!: runs_keptD ctx_get)

lemma obeys_typing:
  "obeys A r (handleWSTypingStart r data) w" "obeys A r (handleWSTypingStop r data) w"
  unfolding handleWSTypingStart_def handleWSTypingStop_def Let_def
  by (intro ws_rules; assumption)+

lemma obeys_ThreadReply: "obeys A r (handleWSThreadReply r data) w"
  unfolding handleWSThreadReply_def Let_def
  by (intro ws_rules) (auto simp: msg_fields dest!: runs_keptD)

lemma obeys_ApprovalRequest: "obeys A r (handleWSApprovalRequest r data) w"
  unfolding handleWSApprovalRequest_def Let_def
  by (intro ws_rules) (auto simp: msg_fields dest!: runs_keptD)

lemma obeys_CallOffer: "obeys A r (handleWSCallOffer r data) w"
  unfolding handleWSCallOffer_def Let_def
  by (intro ws_rules) (auto simp: msg_fields dest!: runs_keptD)

lemma obeys_CallAnswer: "obeys A r (handleWSCallAnswer r data) w"
  unfolding handleWSCallAnswer_def Let_def
  by (intro ws_rules) (auto dest!: runs_keptD ctx_get)

lemma obeys_CallICE: "obeys A r (handleWSCallICE r data) w"
  unfolding handleWSCallICE_def by (intro ws_rules)

lemma obeys_CallEnd: "obeys A r (handleWSCallEnd r data) w"
  unfolding handleWSCallEnd_def Let_def
  by (intro ws_rules) (auto dest!: runs_keptD ctx_get)

lemma obeys_inbox:
  "obeys A r (handleWSInboxPoll r data) w" "obeys A r (handleWSInboxAck r data) w"
  unfolding handleWSInboxPoll_def handleWSInboxAck_def Let_def
  by (intro ws_rules; assumption)+

lemma obeys_DraftCreate: "obeys A r (handleWSDraftCreate r data) w"
  unfolding handleWSDraftCreate_def Let_def
  by (intro ws_rules) (auto simp: msg_fields dest!: runs_keptD)

lemma obeys_DraftValidate: "obeys A r (handleWSDraftValidate r data) w"
  unfolding handleWSDraftValidate_def Let_def by (intro ws_rules; assumption)

lemma obeys_DraftSend: "obeys A r (handleWSDraftSend r data) w"
  unfolding handleWSDraftSend_def Let_def
  by (intro ws_rules) (auto simp: msg_fields dest!: runs_keptD ctx_get draft_kept)

lemma obeys_ReviewRequest: "obeys A r (handleWSReviewRequest r data) w"
  unfolding handleWSReviewRequest_def Let_def
  by (intro ws_rules) (auto simp: msg_fields dest!: runs_keptD)

lemma obeys_ReviewResult: "obeys A r (handleWSReviewResult r data) w"
  unfolding handleWSReviewResult_def Let_def
  by (intro ws_rules) (auto simp: msg_fields dest!: runs_keptD ctx_get)

lemma obeys_WorkspaceUpdate: "obeys A r (handleWSWorkspaceUpdate r data) w"
  unfolding handleWSWorkspaceUpdate_def Let_def
  by (intro ws_rules) (auto simp: msg_fields dest!: runs_keptD ctx_get)

lemma obeys_DaemonRegister:
  "r < next_ref w \<Longrightarrow> obeys A r (handleWSDaemonRegister r data) w"
  unfolding handleWSDaemonRegister_def Let_def
  by (intro ws_rules ws_logic.runs_register)

lemma obeys_ChannelLeave:
  "r < next_ref w \<Longrightarrow> obeys A r (handleWSChannelLeave r data) w"
  unfolding handleWSChannelLeave_def Let_def
  by (intro ws_rules ws_logic.runs_leave)

lemma obeys_ChannelJoin:
  assumes "r < next_ref w"
  shows "obeys A r (handleWSChannelJoin r data) w"
proof -
  have j: "runs (ws_op me) A w (case join ch r v of (ok, v') \<Rightarrow> k ok v')"
    if "runs (ws_op me) A w v" "c_authenticated (heap w r)"
      "\<And>ok v'. runs (ws_op me) A w v' \<Longrightarrow> runs (ws_op me) A w (k ok v')" for me ch v k
  proof -
    have "runs (ws_op me) A w (snd (join ch r v))"
      using that(1,2) assms by (intro ws_logic.runs_join) (auto dest!: runs_keptD)
    then show ?thesis using that(3) by (simp add: split_beta)
  qed
  show ?thesis
    unfolding handleWSChannelJoin_def Let_def by (intro ws_rules j; assumption)
qed

lemma obeys_agent:
  "obeys A r (HandleAgentSleep r) w" "obeys A r (handle_thinking r data) w" "obeys A r (handle_hello r data) w"
  unfolding HandleAgentSleep_def handle_thinking_def HandleAgentThinking_def handle_hello_def
    HandleAgentHello_def Let_def
  by (intro ws_rules ws_logic.runs_typing; assumption)+

lemmas obeys_all = obeys_MessageSend obeys_MessageEdit obeys_MessageDelete obeys_typing obeys_ThreadReply
  obeys_ApprovalRequest obeys_CallOffer obeys_CallAnswer obeys_CallICE obeys_CallEnd obeys_inbox
  obeys_DraftCreate obeys_DraftValidate obeys_DraftSend obeys_ReviewRequest obeys_ReviewResult
  obeys_WorkspaceUpdate obeys_DaemonRegister obeys_ChannelLeave obeys_ChannelJoin obeys_agent

text \<open>The dispatcher, logging in apart.\<close>

lemma obeys_event:
  assumes "r < next_ref w" "env_Type e \<noteq> ''auth.login''"
  shows "obeys A r (handleWSEvent r e) w"
proof (cases "map_of ws_handlers (env_Type e)")
  case (Some h)
  then have "h \<in> set (map snd (tl ws_handlers))"
    using assms(2) by (auto simp: ws_handlers_def split: if_splits)
  then have "obeys A r (h r (env_Data e)) w"
    using assms(1) by (auto simp: ws_handlers_def obeys_all)
  then show ?thesis using Some by (simp add: handleWSEvent_def)
qed (simp add: handleWSEvent_def)

end
