(* ===== verification/Ws_Props.thy ===== *)
theory Ws_Props
  imports Ws_Authority
begin

text \<open>
  What the WebSocket half guarantees: nobody touches another member's messages, an
  unauthenticated connection touches nothing, a sent message reaches every open
  subscriber, a refused statement reaches nobody else, and logging in gives exactly
  the identity of the member the credential names.
\<close>

section \<open>Other members' messages\<close>

definition core :: "Message \<Rightarrow> string \<times> string \<times> string \<times> string \<times> string" where
  "core m = (msg_ID m, msg_ChannelID m, msg_SenderID m, msg_ThreadID m, msg_Content m)"

definition others_in :: "string \<Rightarrow> Message list \<Rightarrow> (string \<times> string \<times> string \<times> string \<times> string) list" where
  "others_in me ms = map core (filter (\<lambda>m. msg_SenderID m \<noteq> me) ms)"

definition others :: "string \<Rightarrow> store \<Rightarrow> (string \<times> string \<times> string \<times> string \<times> string) list" where
  "others me s = others_in me (t_messages s)"

lemma take_fault_messages [simp]: "t_messages (snd (take_fault s)) = t_messages s"
  by (simp add: take_fault_def split: list.split)

lemma exec_cases:
  obtains "snd (exec g s) = snd (take_fault s)" | s' where "g (snd (take_fault s)) = Inr s'" "snd (exec g s) = s'"
  by (cases "take_fault s"; cases "fst (take_fault s)"; cases "g (snd (take_fault s))")
     (auto simp: exec_def)

lemma exec_messages:
  assumes "\<And>s s'. g s = Inr s' \<Longrightarrow> t_messages s' = t_messages s"
  shows "t_messages (snd (exec g s)) = t_messages s"
  by (rule exec_cases [of g s]) (auto dest: assms)

lemma others_cong: "t_messages s' = t_messages s \<Longrightarrow> others me s' = others me s"
  by (simp add: others_def)

lemma op_messages:
  "t_messages (snd (new_uuid s)) = t_messages s"
  "t_messages (snd (snd (SetMemory a s))) = t_messages s"
  "t_messages (snd (snd (CreateNotification b s))) = t_messages s"
  "t_messages (snd (snd (CreateApproval c s))) = t_messages s"
  "t_messages (snd (snd (CreateCall d s))) = t_messages s"
  "t_messages (snd (UpdateCall d s)) = t_messages s"
  "t_messages (snd (AckInboxItem i s)) = t_messages s"
  "t_messages (snd (snd (CreateDraft e s))) = t_messages s"
  "t_messages (snd (UpdateDraftStatus i st s)) = t_messages s"
  "t_messages (snd (snd (CreateReviewRequest f s))) = t_messages s"
  "t_messages (snd (snd (UpdateReviewRequest f s))) = t_messages s"
  "t_messages (snd (snd (CreateWorkspaceItem h s))) = t_messages s"
  "t_messages (snd (snd (UpdateWorkspaceItem h s))) = t_messages s"
  "t_messages (snd (UpdateMemberRoleCard m rc ri s)) = t_messages s"
proof -
  note ds = fresh_id_def new_uuid_def Let_def split_beta
  show "t_messages (snd (new_uuid s)) = t_messages s" by (simp add: new_uuid_def)
  show "t_messages (snd (snd (SetMemory a s))) = t_messages s"
    by (auto simp: SetMemory_def ds intro!: exec_messages [THEN trans] dest!: insert_checked_some split: if_splits)
  show "t_messages (snd (snd (CreateNotification b s))) = t_messages s"
    by (auto simp: CreateNotification_def ds intro!: exec_messages [THEN trans] dest!: insert_checked_some)
  show "t_messages (snd (snd (CreateApproval c s))) = t_messages s"
    by (auto simp: CreateApproval_def ds intro!: exec_messages [THEN trans] dest!: insert_checked_some)
  show "t_messages (snd (snd (CreateCall d s))) = t_messages s"
    by (auto simp: CreateCall_def ds intro!: exec_messages [THEN trans] dest!: insert_checked_some)
  show "t_messages (snd (UpdateCall d s)) = t_messages s"
    by (auto simp: UpdateCall_def intro!: exec_messages split: if_splits)
  show "t_messages (snd (AckInboxItem i s)) = t_messages s"
    by (auto simp: AckInboxItem_def intro!: exec_messages)
  show "t_messages (snd (snd (CreateDraft e s))) = t_messages s"
    by (auto simp: CreateDraft_def ds intro!: exec_messages [THEN trans] dest!: insert_checked_some)
  show "t_messages (snd (UpdateDraftStatus i st s)) = t_messages s"
    by (auto simp: UpdateDraftStatus_def intro!: exec_messages split: if_splits)
  show "t_messages (snd (snd (CreateReviewRequest f s))) = t_messages s"
    by (auto simp: CreateReviewRequest_def ds intro!: exec_messages [THEN trans] dest!: insert_checked_some)
  show "t_messages (snd (snd (UpdateReviewRequest f s))) = t_messages s"
    by (auto simp: UpdateReviewRequest_def ds intro!: exec_messages [THEN trans] split: if_splits)
  show "t_messages (snd (snd (CreateWorkspaceItem h s))) = t_messages s"
    by (auto simp: CreateWorkspaceItem_def ds intro!: exec_messages [THEN trans] dest!: insert_checked_some)
  show "t_messages (snd (snd (UpdateWorkspaceItem h s))) = t_messages s"
    by (auto simp: UpdateWorkspaceItem_def ds intro!: exec_messages [THEN trans] split: if_splits option.splits)
  show "t_messages (snd (UpdateMemberRoleCard m rc ri s)) = t_messages s"
    by (auto simp: UpdateMemberRoleCard_def intro!: exec_messages)
qed

lemma others_in_map:
  assumes "\<And>m. m \<in> set ms \<Longrightarrow> core (f m) = core m \<or> msg_SenderID m = me \<and> msg_SenderID (f m) = me"
  shows "others_in me (map f ms) = others_in me ms"
  using assms
proof (induction ms)
  case (Cons m ms)
  have "core (f m) = core m \<or> msg_SenderID m = me \<and> msg_SenderID (f m) = me" using Cons.prems by simp
  then have "msg_SenderID (f m) = me \<longleftrightarrow> msg_SenderID m = me" "msg_SenderID m \<noteq> me \<Longrightarrow> core (f m) = core m"
    by (auto simp: core_def)
  then show ?case using Cons by (simp add: others_in_def)
qed simp

lemma others_in_upd:
  assumes "\<And>m. m \<in> set ms \<Longrightarrow> P m \<Longrightarrow>
    core (f m) = core m \<or> msg_SenderID m = me \<and> msg_SenderID (f m) = me"
  shows "others_in me (upd_where P f ms) = others_in me ms"
  unfolding upd_where_def using assms by (intro others_in_map) auto

lemma others_in_own: "msg_SenderID x = me \<Longrightarrow> others_in me (ms @ [x]) = others_in me ms"
  by (simp add: others_in_def)

lemma others_in_del:
  assumes "\<And>m. m \<in> set ms \<Longrightarrow> P m \<Longrightarrow> msg_SenderID m = me"
  shows "others_in me (del_where P ms) = others_in me ms"
  using assms unfolding others_in_def del_where_def by (induction ms) auto

lemma others_put_message:
  "msg_SenderID x = me \<Longrightarrow> others me (put_message x s) = others me s"
  by (simp add: others_def put_message_def others_in_upd core_def others_in_own)

text \<open>A statement that keeps the others' messages in every table it may run on.\<close>

lemma others_exec:
  assumes "\<And>s' s''. t_messages s' = t_messages s \<Longrightarrow> g s' = Inr s'' \<Longrightarrow> others me s'' = others me s"
  shows "others me (snd (exec g s)) = others me s"
proof (rule exec_cases [of g s])
  fix s' assume "g (snd (take_fault s)) = Inr s'" "snd (exec g s) = s'"
  then show ?thesis using assms [OF take_fault_messages] by simp
qed (simp add: others_def)

lemma others_create:
  assumes "msg_SenderID x = me"
  shows "others me (snd (snd (CreateMessage x s))) = others me s"
proof -
  have put: "others me s'' = others me s"
    if "insert_checked a b fks (put_message y) s' = Inr s''" "msg_SenderID y = me"
      "t_messages s' = t_messages s" for a b fks y s s' s''
    using that insert_checked_some others_put_message others_cong by metis
  obtain i s1 where f: "fresh_id (msg_ID x) s = (i, s1)" "t_messages s1 = t_messages s"
    by (cases "fresh_id (msg_ID x) s") (auto simp: fresh_id_def new_uuid_def split: if_splits)
  have "others me (snd (exec (\<lambda>s. insert_checked (a s) (b s) (fks s) (put_message y) s) s1)) = others me s1"
    if "msg_SenderID y = me" for a b fks y
    by (rule others_exec) (use put that in blast)
  moreover have "others me s1 = others me s" using f(2) by (rule others_cong)
  ultimately show ?thesis using assms f(1)
    by (simp add: CreateMessage_def message_row_def Let_def split_beta)
qed

lemma others_update:
  assumes "distinct (map msg_ID (t_messages s))" "m \<in> set (t_messages s)" "msg_SenderID m = me"
    "msg_ID x = msg_ID m"
  shows "others me (snd (snd (UpdateMessage x s))) = others me s"
proof -
  have own: "msg_SenderID y = me" if "y \<in> set (t_messages s)" "msg_ID y = msg_ID m" for y
    using assms that by (metis distinct_map inj_on_def)
  show ?thesis
    unfolding UpdateMessage_def Let_def
    by (simp add: split_beta assms(4), rule others_exec) (auto simp: others_def own intro!: others_in_upd)
qed

lemma doom_message:
  "d_msg (doom (doomed0\<lparr>d_msg := [i]\<rparr>) s) = [i]"
proof -
  have "\<not> hit (doomed0\<lparr>d_msg := [i]\<rparr>) Cascade (message_fks m)" for m
    by (cases "nullStr (msg_ThreadID m)") (simp_all add: hit_def message_fks_def doomed0_def)
  moreover have "\<not> hit (doomed0\<lparr>d_msg := [i]\<rparr>) Cascade (member_fks r)"
    "\<not> hit (doomed0\<lparr>d_msg := [i]\<rparr>) Cascade (channel_fks c)" for r c
    by (simp_all add: hit_def member_fks_def channel_fks_def doomed0_def)
  ultimately show ?thesis by (simp add: doom_def Let_def)
qed

lemma others_delete:
  assumes "distinct (map msg_ID (t_messages s))" "m \<in> set (t_messages s)" "msg_SenderID m = me"
  shows "others me (snd (DeleteMessage (msg_ID m) s)) = others me s"
proof -
  have own: "msg_SenderID y = me" if "y \<in> set (t_messages s)" "msg_ID y = msg_ID m" for y
    using assms that by (metis distinct_map inj_on_def)
  show ?thesis
    unfolding DeleteMessage_def
    by (rule others_exec)
       (auto simp: delete_parents_def Let_def others_def sweep_all_def doom_message in_ids_def own
          uncount_replies_def core_def
          intro!: others_in_map [THEN trans] others_in_del split: if_splits)
qed

lemma ws_op_others:
  assumes "ws_op me s s'" "db_ok s"
  shows "others me s' = others me s"
proof -
  have d: "distinct (map msg_ID (t_messages s))"
    using assms(2) by (simp add: db_ok_def keys_ok_def)
  show ?thesis using assms(1)
    by cases (auto simp: others_create others_update [OF d] others_delete [OF d] op_messages
        intro!: others_cong)
qed

lemma ws_ops_others:
  assumes "(ws_op me)\<^sup>*\<^sup>* s s'" "db_ok s"
  shows "others me s' = others me s \<and> db_ok s'"
  using assms
  by (induction rule: rtranclp_induct) (auto simp: ws_op_others intro: db_step_ok ws_op_db_step)

section \<open>Logging in\<close>

definition steps :: "(store \<Rightarrow> store \<Rightarrow> bool) \<Rightarrow> (string \<Rightarrow> bool) \<Rightarrow> world \<Rightarrow> world \<Rightarrow> bool" where
  "steps R A w w' \<longleftrightarrow> R\<^sup>*\<^sup>* (db w) (db w') \<and> (hub_step A)\<^sup>*\<^sup>* (net.truncate w) (net.truncate w')"

lemma runs_steps: "runs R A w w' \<Longrightarrow> steps R A w w'"
  by (simp add: runs_def steps_def)

lemma steps_trans: "steps R A w v \<Longrightarrow> steps R A v u \<Longrightarrow> steps R A w u"
  by (auto simp: steps_def)

text \<open>Members whose type is the one the hub's invariant was told.\<close>

definition typed_members :: "(string \<Rightarrow> bool) \<Rightarrow> store \<Rightarrow> bool" where
  "typed_members A s \<longleftrightarrow> (\<forall>m\<in>set (t_members s). A (mb_ID m) = (mb_Type m = ''agent''))"

lemma on_db_result:
  assumes "on_db (query f) w = (x, w')"
  shows "(\<exists>fs. w' = w\<lparr>db := (db w)\<lparr>faults := fs\<rparr>\<rparr>) \<and> (\<forall>y. x = Inr y \<longrightarrow> y = f (db w'))"
proof -
  obtain s where "query f (db w) = (x, s)" "w' = w\<lparr>db := s\<rparr>"
    using assms by (auto simp: on_db_def split: prod.splits)
  then show ?thesis using query_result [of f "db w" x s] by auto
qed

lemma validate_runs: "runs (ws_op me) A w (snd (ValidateToken tok w)) \<and>
  (\<exists>fs. snd (ValidateToken tok w) = w\<lparr>db := (db w)\<lparr>faults := fs\<rparr>\<rparr>)"
proof -
  have same: "\<exists>fs. w = w\<lparr>db := (db w)\<lparr>faults := fs\<rparr>\<rparr>"
    by (rule exI [of _ "faults (db w)"]) simp
  show ?thesis
  proof (cases "jwt_parse w (jwt_secret w) (now (db w)) tok")
    case None
    then show ?thesis using same by (simp add: ValidateToken_def)
  next
    case (Some c)
    obtain x v where x: "on_db (IsTokenBlacklisted (cl_ID c)) w = (x, v)" by force
    then obtain fs where v: "v = w\<lparr>db := (db w)\<lparr>faults := fs\<rparr>\<rparr>"
      unfolding IsTokenBlacklisted_def by (blast dest: on_db_result)
    have "runs (ws_op me) A w (case on_db (IsTokenBlacklisted (cl_ID c)) w of (x, v) \<Rightarrow> v)"
      by (rule ws_logic.runs_on_db) (auto intro: ws_logic.can_get)
    then show ?thesis using Some x v same by (auto simp: ValidateToken_def split: sum.split)
  qed
qed

lemma Close_ids [simp]:
  "c_id (Close c) = c_id c" "c_isAgent (Close c) = c_isAgent c" "c_authenticated (Close c) = c_authenticated c"
  by (simp_all add: Close_def CloseWithMessage_def)

lemma login_ids:
  "c_id (heap (login i nm a r w) r) = i" "c_isAgent (heap (login i nm a r w) r) = a"
  "c_authenticated (heap (login i nm a r w) r)" "next_ref (login i nm a r w) = next_ref w"
  by (simp_all add: login_def Add_fields SetAuthenticated_def SetIdentity_def split: option.split)

lemma admit_runs:
  assumes "r < next_ref w"
  shows "runs (ws_op me) A (login (mb_ID m) (mb_Name m) (mb_Type m = ''agent'') r w) (ws_admit r m w)"
proof -
  let ?w1 = "login (mb_ID m) (mb_Name m) (mb_Type m = ''agent'') r w"
  have auth: "c_authenticated (heap ?w1 r)" "r < next_ref ?w1" by (simp_all add: login_ids assms)
  have "runs (ws_op me) A ?w1 (subscribeMemberChannels r (mb_ID m) ?w1)"
    unfolding subscribeMemberChannels_def Let_def
    by (intro ws_rules ws_logic.runs_fold ws_logic.runs_join) (use auth in \<open>auto dest!: runs_keptD\<close>)
  then show ?thesis unfolding ws_admit_def Let_def by (intro ws_rules)
qed

lemma admit_identity:
  assumes "r < next_ref w"
  shows "c_id (heap (ws_admit r m w) r) = mb_ID m"
    "c_isAgent (heap (ws_admit r m w) r) = (mb_Type m = ''agent'')"
    "c_authenticated (heap (ws_admit r m w) r)"
  using admit_runs [OF assms, of "''''" "\<lambda>_. False" m] by (simp_all add: runs_def kept_def login_ids)

lemma admit_steps:
  assumes "r < next_ref w" "\<not> c_authenticated (heap w r)" "\<not> c_closed (heap w r)"
    "A (mb_ID m) = (mb_Type m = ''agent'')"
  shows "steps (ws_op me) A w (ws_admit r m w)"
proof -
  let ?w1 = "login (mb_ID m) (mb_Name m) (mb_Type m = ''agent'') r w"
  have "hub_step A (net.truncate w) (net.truncate ?w1)"
    using step_login [of r "net.truncate w" A "mb_ID m" "mb_Name m"] assms
    by (simp add: truncate_login truncate_fields)
  then have 1: "steps (ws_op me) A w ?w1" by (simp add: steps_def r_into_rtranclp)
  then show ?thesis using 1 admit_runs [OF assms(1)] runs_steps steps_trans by blast
qed

lemma login_steps:
  assumes "r < next_ref w" "\<not> c_authenticated (heap w r)" "\<not> c_closed (heap w r)"
    "typed_members A (db w)"
  shows "steps (ws_op me) A w (handleWSAuthLogin r data w)"
proof (cases "ParseAuthLogin data")
  case None
  then show ?thesis
    by (simp add: handleWSAuthLogin_def runs_steps ws_logic.runs_ws_err)
next
  case (Some d)
  obtain c v where v: "ValidateToken (al_Token d) w = (c, v)" by force
  then obtain fs where w: "v = w\<lparr>db := (db w)\<lparr>faults := fs\<rparr>\<rparr>" and r: "runs (ws_op me) A w v"
    using validate_runs [of me A w "al_Token d"] by auto
  have adm: "steps (ws_op me) A v (case with_ctx r (query (\<lambda>s. List.find P (t_members s))) v of (m, u) \<Rightarrow>
      (case m of Inl e \<Rightarrow> auth_fail r ''auth error'' u
       | Inr None \<Rightarrow> auth_fail r msg u
       | Inr (Some m) \<Rightarrow> ws_admit r m u))" for P msg
  proof -
    obtain m u where u: "with_ctx r (query (\<lambda>s. List.find P (t_members s))) v = (m, u)" by force
    have "runs (ws_op me) A v (case with_ctx r (query (\<lambda>s. List.find P (t_members s))) v of (m, u) \<Rightarrow> u)"
      by (rule ws_logic.runs_with_ctx [OF runs_refl ws_logic.can_query])
    then have ru: "runs (ws_op me) A v u" using u by simp
    note res = ctx_result [OF u]
    show ?thesis
    proof (cases "\<exists>y. m = Inr (Some y)")
      case True
      then obtain y where y: "m = Inr (Some y)" by blast
      then have "y \<in> set (t_members (db w))" using res w by (auto dest!: find_someD')
      then have "steps (ws_op me) A u (ws_admit r y u)"
        using assms runs_keptD [OF ru] w
        by (intro admit_steps) (auto simp: typed_members_def)
      then show ?thesis using u y runs_steps [OF ru] by (auto intro: steps_trans)
    next
      case False
      then show ?thesis using u ru
        by (auto split: sum.split option.split intro!: runs_steps ws_logic.runs_auth_fail)
    qed
  qed
  have "steps (ws_op me) A v (handleWSAuthLogin r data w)"
    using adm [where P = "\<lambda>m. nullStr (mb_APIKey m) = Some (al_Token d)" and msg = "''invalid credentials''"]
      adm [where P = "\<lambda>m. mb_ID m = cl_MemberID (projr c)" and msg = "''member not found''"]
    by (cases c) (auto simp: handleWSAuthLogin_def Some v GetMember_def GetMemberByAPIKey_def)
  then show ?thesis using runs_steps [OF r] steps_trans by blast
qed

section \<open>A sample server\<close>

text \<open>
  The sample database behind a running server: ann (m) and the agent bot (n) are
  logged in and subscribed to the channel c, a third connection has said nothing yet.
  The libraries are toys: a token is the member's id behind a T.
\<close>

definition world0 :: "store \<Rightarrow> world" where
  "world0 s = \<lparr>heap = (\<lambda>_. NewConn None '''' '''' False), next_ref = 0, connections = [], agents = [],
     agentNames = [], channels = [], presence = [], allowedOrigin = '''', daemons = [],
     daemonAgents = [], db = s, fmt_time = (\<lambda>t. ''now''), parse_time = (\<lambda>t. Some 0),
     entropy = (\<lambda>n. Some (word_of_nat n)), ent_pos = 0, jwt_secret = ''k'',
     jwt_sign = (\<lambda>k c. Some (''T'' @ cl_MemberID c)),
     jwt_parse = (\<lambda>k t tok. if HasPrefix tok ''T''
       then Some \<lparr>cl_MemberID = drop 1 tok, cl_WorkspaceID = ''w'', cl_ID = ''j'', cl_ExpiresAt = t,
                  cl_IssuedAt = t, cl_Issuer = ''lark''\<rparr> else None),
     bcrypt_hash = (\<lambda>salt p. Some p), bcrypt_ok = (\<lambda>h p. h = p)\<rparr>"

definition sample_world :: world where
  "sample_world =
     (let w = snd (accept_conn (world0 sample_db));
          w = snd (join ''c'' 0 (login ''m'' ''ann'' False 0 w));
          w = snd (accept_conn w);
          w = snd (join ''c'' 1 (login ''n'' ''bot'' True 1 w))
      in snd (accept_conn w))"

lemma sample_world_eval:
  "next_ref sample_world = 3" "c_id (heap sample_world 0) = ''m''" "c_id (heap sample_world 1) = ''n''"
  "c_authenticated (heap sample_world 0)" "\<not> c_authenticated (heap sample_world 2)"
  "\<not> c_isAgent (heap sample_world 2)" "c_send (heap sample_world 1) = []"
  "IsSubscribed ''c'' (heap sample_world 0)" "\<not> c_closed (heap sample_world 1)"
  "c_cancelled (heap sample_world 0) = False" "c_closed (heap sample_world 2) = False"
  "subscriber sample_world ''c'' ''n'' = Some 1"
  "GetConn ''m'' sample_world = Some 0"
  by code_simp+

lemma sample_world_db: "db sample_world = sample_db"
  by (simp add: sample_world_def Let_def accept_conn_def world0_def)

definition event :: "string \<Rightarrow> json option \<Rightarrow> envelope" where
  "event t d = \<lparr>env_V = 1, env_ID = '''', env_Type = t, env_TS = 0, env_Data = d\<rparr>"

section \<open>Properties\<close>



text \<open>
  C4: No event changes, removes or adds a message of anybody but the member the
  connection is logged in as: the list of all other members' messages (id, channel,
  sender, thread and content, in table order) stays the same.
\<close>

theorem ws_others_untouched:
  assumes "db_reach (db w)" "r < next_ref w" "env_Type e \<noteq> ''auth.login''"
  shows "others (c_id (heap w r)) (db (handleWSEvent r e w)) = others (c_id (heap w r)) (db w)"
proof -
  have "(ws_op (c_id (heap w r)))\<^sup>*\<^sup>* (db w) (db (handleWSEvent r e w))"
    using obeys_event [OF assms(2,3)] by (simp add: runs_def)
  then show ?thesis using ws_ops_others db_reach_ok [OF assms(1)] by blast
qed

theorem ws_others_untouched_witness:
  "others ''m'' (db (handleWSEvent 0 (event ''message.delete'' (Some (str_obj [(''message_id'', ''b'')])))
     sample_world)) = [(''b'', ''c'', ''n'', ''a'', ''yo'')]"
  using ws_others_untouched [of sample_world 0 "event ''message.delete'' (Some (str_obj [(''message_id'', ''b'')]))"]
    sample_reach
  by (simp add: sample_world_eval sample_world_db event_def others_def others_in_def core_def
      sample_db_eval(1) Message0_def)

section \<open>Unauthenticated connections\<close>

text \<open>What an answer to one connection changes: its queue and the UUID counter.\<close>

definition answered :: "nat \<Rightarrow> world \<Rightarrow> world \<Rightarrow> bool" where
  "answered r w w' \<longleftrightarrow>
     (\<exists>k es. length es \<le> 1 \<and>
       w' = w\<lparr>heap := (heap w)(r := fold Send es (heap w r)), db := (db w)\<lparr>uuid_ctr := k\<rparr>\<rparr>)"

lemma answered_refl: "answered r w w"
  unfolding answered_def
  by (rule exI [of _ "uuid_ctr (db w)"], rule exI [of _ "[]"]) simp

lemma answered_reply: "answered r w (reply r t d w)"
proof -
  obtain e where "stamp t d w = (e, w\<lparr>db := (db w)\<lparr>uuid_ctr := Suc (uuid_ctr (db w))\<rparr>\<rparr>)"
    by (simp add: stamp_def on_db_def NewEnvelope_def new_uuid_def)
  then show ?thesis
    unfolding answered_def
    by (intro exI [of _ "Suc (uuid_ctr (db w))"] exI [of _ "[e]"])
       (simp add: reply_def send_ref_def upd_conn_def)
qed

lemma answered_ws_err: "answered r w (ws_err r msg w)"
  unfolding ws_err_def by (rule answered_reply)

lemma answered_guard:
  assumes "\<not> c_authenticated (heap w r)"
  shows "answered r w (if_authed r k w)" "answered r w (if_agent r msg k w)"
  using assms by (simp_all add: if_authed_def if_agent_def answered_ws_err)

lemma answered_event:
  assumes "\<not> c_authenticated (heap w r)" "\<not> c_isAgent (heap w r)" "env_Type e \<noteq> ''auth.login''"
  shows "answered r w (handleWSEvent r e w)"
proof (cases "map_of ws_handlers (env_Type e)")
  case (Some h)
  then have "h \<in> set (map snd (tl ws_handlers))"
    using assms(3) by (auto simp: ws_handlers_def split: if_splits)
  moreover have "answered r w (handle_hello r data w)" for data
    using assms by (auto simp: handle_hello_def HandleAgentHello_def answered_ws_err split: option.split)
  moreover have "answered r w (HandleAgentSleep r w)"
    using assms by (simp add: HandleAgentSleep_def answered_refl)
  ultimately have "answered r w (h r (env_Data e) w)"
    using answered_guard [OF assms(1)]
    unfolding ws_handlers_def
    by (auto simp: handleWSDaemonRegister_def handle_thinking_def handleWSChannelJoin_def
        handleWSChannelLeave_def handleWSMessageSend_def handleWSTypingStart_def handleWSTypingStop_def
        handleWSThreadReply_def handleWSMessageEdit_def handleWSMessageDelete_def
        handleWSApprovalRequest_def handleWSCallOffer_def handleWSCallAnswer_def handleWSCallICE_def
        handleWSCallEnd_def handleWSInboxPoll_def handleWSInboxAck_def handleWSDraftCreate_def
        handleWSDraftValidate_def handleWSDraftSend_def handleWSReviewRequest_def
        handleWSReviewResult_def handleWSWorkspaceUpdate_def)
  then show ?thesis using Some by (simp add: handleWSEvent_def)
qed (simp add: handleWSEvent_def answered_refl)

text \<open>
  C7: An event other than a login from a connection that has not authenticated
  changes no table, no other connection and nothing of the hub: at most one envelope
  is offered to the sender's own queue and the UUID supply moves on.
\<close>

theorem ws_unauthenticated:
  assumes "\<not> c_authenticated (heap w r)" "\<not> c_isAgent (heap w r)" "env_Type e \<noteq> ''auth.login''"
  shows "\<exists>k es. length es \<le> 1 \<and> handleWSEvent r e w =
    w\<lparr>heap := (heap w)(r := fold Send es (heap w r)), db := (db w)\<lparr>uuid_ctr := k\<rparr>\<rparr>"
  using answered_event [OF assms] unfolding answered_def by blast

theorem ws_unauthenticated_witness:
  "t_messages (db (handleWSEvent 2 (event ''message.send'' (Some (str_obj [(''channel_id'', ''c''),
     (''content'', ''x'')]))) sample_world)) = t_messages sample_db"
  using ws_unauthenticated [of sample_world 2 "event ''message.send'' (Some (str_obj [(''channel_id'', ''c''),
     (''content'', ''x'')]))"]
  by (auto simp: sample_world_eval sample_world_db event_def)

section \<open>Delivery\<close>

lemma send_queued: "\<not> c_closed c \<Longrightarrow> length (c_send c) < send_cap \<Longrightarrow> e \<in> set (c_send (Send e c))"
  by (simp add: Send_def)

lemma fold_send_prefix: "prefix (c_send (heap v c)) (c_send (heap (fold (send_ref e) rs v) c))" for v :: world
  using kept_fold_send [of v e rs] by (simp add: kept_def)

lemma broadcast_queued:
  fixes w :: world
  assumes "subscriber w ch q = Some c" "\<not> c_closed (heap w c)" "length (c_send (heap w c)) < send_cap"
  shows "e \<in> set (c_send (heap (BroadcastToChannel ch e w) c))"
proof -
  obtain cm where cm: "go_get (channels w) ch = Some cm" "go_get cm q = Some c"
    using assms(1) by (auto simp: subscriber_def split: option.splits)
  then have c: "c \<in> set (map snd cm)" by (force dest: map_of_SomeD)
  have "c \<in> set rs \<Longrightarrow> \<not> c_closed (heap v c) \<Longrightarrow>
      length (c_send (heap v c)) < send_cap \<Longrightarrow> e \<in> set (c_send (heap (fold (send_ref e) rs v) c))"
    for rs and v :: world
  proof (induction rs arbitrary: v)
    case (Cons x rs)
    show ?case
    proof (cases "x = c")
      case True
      have "e \<in> set (c_send (heap (send_ref e x v) c))"
        using True Cons.prems by (simp add: send_queued)
      then show ?thesis
        using fold_send_prefix [of "send_ref e x v" c e rs] by (auto simp: prefix_def)
    next
      case False
      then show ?thesis using Cons by simp
    qed
  qed simp
  from this [OF c assms(2,3)] show ?thesis using cm(1) by (simp add: BroadcastToChannel_def)
qed

lemma stamp_eq:
  "stamp t d w = (\<lparr>env_V = 1, env_ID = uuids (db w) (uuid_ctr (db w)), env_Type = t,
     env_TS = now (db w), env_Data = Some d\<rparr>, w\<lparr>db := (db w)\<lparr>uuid_ctr := Suc (uuid_ctr (db w))\<rparr>\<rparr>)"
  by (simp add: stamp_def on_db_def NewEnvelope_def new_uuid_def)

lemma to_channel_queued:
  assumes "subscriber w ch q = Some c" "\<not> c_closed (heap w c)" "length (c_send (heap w c)) < send_cap"
  shows "\<exists>e\<in>set (c_send (heap (to_channel ch t d w) c)). env_Type e = t \<and> env_Data e = Some d"
proof -
  let ?e = "fst (stamp t d w)" and ?w = "snd (stamp t d w)"
  have "?e \<in> set (c_send (heap (BroadcastToChannel ch ?e ?w) c))"
    using assms by (intro broadcast_queued) (auto simp: subscriber_def stamp_eq)
  then show ?thesis
    by (intro bexI [of _ ?e]) (simp_all add: to_channel_def split_beta stamp_eq)
qed

definition sendable :: "nat \<Rightarrow> MessageSendData \<Rightarrow> world \<Rightarrow> bool" where
  "sendable r d w \<longleftrightarrow> c_authenticated (heap w r) \<and> TrimSpace (ms_Content d) \<noteq> '''' \<and>
     length (ms_Content d) \<le> maxContent \<and> IsSubscribed (ms_ChannelID d) (heap w r)"

lemma send_unfold:
  assumes "ParseMessageSend data = Some d" "sendable r d w"
    "with_ctx r (made (CreateMessage (send_request (c_id (heap w r)) d))) w = ((err, m), w1)"
  shows "handleWSMessageSend r data w =
    (case err of Inl e \<Rightarrow> wsError r w1
     | Inr _ \<Rightarrow> handleMentions m (reply r ''message.ack'' (str_obj [(''message_id'', msg_ID m)])
                  (SendNewMessage (msg_ChannelID m) m w1)))"
  using assms
  by (simp add: handleWSMessageSend_def if_authed_def sendable_def not_less Let_def split: sum.split)

lemma with_ctx_frame: "with_ctx r op w = (x, w1) \<Longrightarrow> \<exists>s. w1 = w\<lparr>db := s\<rparr>"
  by (auto simp: with_ctx_def on_db_def split: if_splits prod.splits)

text \<open>
  C6: Delivery.  When a permitted message.send is stored, the stored message is in
  the queue of every open connection subscribed to its channel that had room, and
  stays there until the write pump takes it: nothing the handler does afterwards
  (acknowledgement, mentions, wake-ups) removes it.
\<close>

theorem send_reaches_subscribers:
  assumes "ParseMessageSend data = Some d" "sendable r d w"
    and "with_ctx r (made (CreateMessage (send_request (c_id (heap w r)) d))) w = ((Inr u, m), w1)"
    and "subscriber w (msg_ChannelID m) q = Some c" "\<not> c_closed (heap w c)"
      "length (c_send (heap w c)) < send_cap"
  shows "\<exists>e\<in>set (c_send (heap (handleWSMessageSend r data w) c)).
    env_Type e = ''message.new'' \<and> env_Data e = Some (JObj [(''message'', Message_json m)])"
proof -
  let ?w2 = "SendNewMessage (msg_ChannelID m) m w1"
  have eq: "handleWSMessageSend r data w =
      handleMentions m (reply r ''message.ack'' (str_obj [(''message_id'', msg_ID m)]) ?w2)"
    using send_unfold [OF assms(1-3)] by simp
  obtain s where "w1 = w\<lparr>db := s\<rparr>" using with_ctx_frame [OF assms(3)] by blast
  then obtain e where e: "e \<in> set (c_send (heap ?w2 c))" "env_Type e = ''message.new''"
      "env_Data e = Some (JObj [(''message'', Message_json m)])"
    unfolding SendNewMessage_def
    using to_channel_queued [of w1 "msg_ChannelID m" q c "''message.new''"] assms(4-6)
    by (auto simp: subscriber_def)
  have "runs (ws_op '''') (\<lambda>_. False) ?w2 (handleWSMessageSend r data w)"
    unfolding eq by (intro ws_rules)
  then have "prefix (c_send (heap ?w2 c)) (c_send (heap (handleWSMessageSend r data w) c))"
    by (rule runs_queueD)
  then show ?thesis using e by (auto simp: prefix_def)
qed

lemma create_refused:
  assumes "CreateMessage x s = (Inl e, m, s')"
  shows "t_messages s' = t_messages s"
proof -
  have ex: "t_messages s2 = t_messages s1" if "exec g s1 = (Inl e, s2)" for g s1 s2
    using that by (auto simp: exec_def take_fault_def split: option.splits sum.splits list.splits)
  show ?thesis using assms
    by (auto simp: CreateMessage_def fresh_id_def new_uuid_def Let_def split: if_splits prod.splits dest!: ex)
qed


definition sample_send :: "json option" where
  "sample_send = Some (str_obj [(''channel_id'', ''c''), (''content'', ''hello'')])"

definition sample_bad_send :: "json option" where
  "sample_bad_send = Some (str_obj [(''channel_id'', ''c''), (''content'', ''hello''), (''thread_id'', ''zz'')])"

lemma sample_parse:
  "ParseMessageSend sample_send = Some \<lparr>ms_ChannelID = ''c'', ms_Content = ''hello'', ms_ThreadID = '''',
     ms_ContentType = '''', ms_Type = '''', ms_Metadata = None\<rparr>"
  "ParseMessageSend sample_bad_send = Some \<lparr>ms_ChannelID = ''c'', ms_Content = ''hello'', ms_ThreadID = ''zz'',
     ms_ContentType = '''', ms_Type = '''', ms_Metadata = None\<rparr>"
  by code_simp+

lemma hello_trimmed: "TrimSpace ''hello'' = ''hello''"
  by code_simp

lemma sample_sendable:
  "sendable 0 (the (ParseMessageSend sample_send)) sample_world"
  "sendable 0 (the (ParseMessageSend sample_bad_send)) sample_world"
  by (simp_all add: sendable_def sample_world_eval sample_parse hello_trimmed maxContent_def)

lemma sample_ctx:
  "fst (with_ctx 0 op sample_world) = fst (op sample_db)"
  by (simp add: with_ctx_def on_db_def sample_world_eval sample_world_db split_beta)

lemma sample_create1:
  "fst (fst (made (CreateMessage (send_request ''m'' (the (ParseMessageSend sample_send)))) sample_db)) = Inr ()"
  by code_simp

lemma sample_create2:
  "msg_ChannelID (snd (fst (made (CreateMessage (send_request ''m''
     (the (ParseMessageSend sample_send)))) sample_db))) = ''c''"
  by code_simp

lemma sample_create3:
  "fst (fst (made (CreateMessage (send_request ''m'' (the (ParseMessageSend sample_bad_send)))) sample_db))
     = Inl ForeignKeyErr"
  by code_simp

lemmas sample_create = sample_create1 sample_create2 sample_create3

theorem send_reaches_subscribers_witness:
  "\<exists>e\<in>set (c_send (heap (handleWSMessageSend 0 sample_send sample_world) 1)). env_Type e = ''message.new''"
proof -
  let ?d = "the (ParseMessageSend sample_send)"
  let ?x = "with_ctx 0 (made (CreateMessage (send_request (c_id (heap sample_world 0)) ?d))) sample_world"
  have "?x = ((Inr (), snd (fst ?x)), snd ?x)"
    using sample_create(1) by (simp add: sample_world_eval sample_ctx prod_eq_iff)
  from send_reaches_subscribers [OF _ sample_sendable(1) this, of sample_send "''n''" 1] show ?thesis
    using sample_create(2) [unfolded sample_parse] by (auto simp: sample_parse sample_world_eval sample_ctx send_cap_def simp del: One_nat_def)
qed


section \<open>Identity\<close>

lemma ctx_find:
  assumes "with_ctx r (query (\<lambda>s. List.find P (t_members s))) v = (Inr (Some m), u)"
  shows "m \<in> set (t_members (db v)) \<and> P m \<and> (\<exists>fs. u = v\<lparr>db := (db v)\<lparr>faults := fs\<rparr>\<rparr>)"
  using ctx_result [OF assms] with_ctx_frame [OF assms] by (auto dest!: find_someD')

text \<open>What a credential vouches for: a member of the database.\<close>

definition vouches :: "world \<Rightarrow> string \<Rightarrow> Member \<Rightarrow> bool" where
  "vouches w tok m \<longleftrightarrow> m \<in> set (t_members (db w)) \<and>
     ((\<exists>cl. jwt_parse w (jwt_secret w) (now (db w)) tok = Some cl \<and> cl_MemberID cl = mb_ID m
         \<and> (cl_ID cl = '''' \<or> cl_ID cl \<notin> fst ` set (t_blacklist (db w))))
      \<or> mb_APIKey m = tok \<and> tok \<noteq> '''')"

lemma validate_result:
  assumes "ValidateToken tok w = (Inr cl, v)"
  shows "jwt_parse w (jwt_secret w) (now (db w)) tok = Some cl \<and>
    (cl_ID cl = '''' \<or> cl_ID cl \<notin> fst ` set (t_blacklist (db w)))"
proof (cases "jwt_parse w (jwt_secret w) (now (db w)) tok")
  case (Some c)
  show ?thesis
  proof (cases "cl_ID c = ''''")
    case False
    obtain b u where b: "on_db (IsTokenBlacklisted (cl_ID c)) w = (b, u)" by force
    then have bc: "b = Inr False" "c = cl"
      using assms Some False by (simp_all add: ValidateToken_def split: sum.splits if_splits)
    have "\<not> 0 < length (filter (\<lambda>p. fst p = cl_ID c) (t_blacklist (db u)))"
      "t_blacklist (db u) = t_blacklist (db w)"
      using on_db_result [OF b [unfolded IsTokenBlacklisted_def]] bc(1) by auto
    then have "cl_ID c \<notin> fst ` set (t_blacklist (db w))" by (auto simp: filter_empty_conv)
    then show ?thesis using Some bc(2) by simp

  qed (use assms Some in \<open>simp add: ValidateToken_def\<close>)
qed (use assms in \<open>simp add: ValidateToken_def\<close>)

text \<open>A login either leaves the connection as it was or admits a member the token vouches for.\<close>

lemma login_shape:
  obtains (refused) "runs (ws_op me) A w (handleWSAuthLogin r data w)"
  | (admitted) d m fs where "ParseAuthLogin data = Some d" "vouches w (al_Token d) m"
      "handleWSAuthLogin r data w = ws_admit r m (w\<lparr>db := (db w)\<lparr>faults := fs\<rparr>\<rparr>)"
proof (cases "ParseAuthLogin data")
  case None
  then show ?thesis
    by (intro refused) (simp add: handleWSAuthLogin_def ws_logic.runs_ws_err)
next
  case (Some d)
  obtain c v where v: "ValidateToken (al_Token d) w = (c, v)" by force
  then obtain fs where w: "v = w\<lparr>db := (db w)\<lparr>faults := fs\<rparr>\<rparr>" and r: "runs (ws_op me) A w v"
    using validate_runs [of me A w "al_Token d"] by auto
  define P where "P m = (case c of Inl _ \<Rightarrow> nullStr (mb_APIKey m) = Some (al_Token d)
    | Inr cl \<Rightarrow> mb_ID m = cl_MemberID cl)" for m :: Member
  define msg where "msg = (case c of Inl _ \<Rightarrow> ''invalid credentials'' | Inr cl \<Rightarrow> ''member not found'')"
  obtain x u where u: "with_ctx r (query (\<lambda>s. List.find P (t_members s))) v = (x, u)" by force
  have h: "handleWSAuthLogin r data w = (case x of Inl e \<Rightarrow> auth_fail r ''auth error'' u
       | Inr None \<Rightarrow> auth_fail r msg u | Inr (Some m) \<Rightarrow> ws_admit r m u)"
    using u unfolding P_def msg_def
    by (cases c) (simp_all add: handleWSAuthLogin_def Some v GetMember_def GetMemberByAPIKey_def
        split: sum.split option.split)
  have "runs (ws_op me) A w (case with_ctx r (query (\<lambda>s. List.find P (t_members s))) v of (m, u) \<Rightarrow> u)"
    by (rule ws_logic.runs_with_ctx [OF r ws_logic.can_query])
  then have ru: "runs (ws_op me) A w u" using u by simp
  show ?thesis
  proof (cases "\<exists>y. x = Inr (Some y)")
    case True
    then obtain m where m: "x = Inr (Some m)" by blast
    then obtain fs' where f: "m \<in> set (t_members (db v))" "P m" "u = v\<lparr>db := (db v)\<lparr>faults := fs'\<rparr>\<rparr>"
      using ctx_find u by blast
    have "vouches w (al_Token d) m"
    proof (cases c)
      case (Inr cl)
      then show ?thesis using validate_result [of "al_Token d" w cl v] v f w
        by (auto simp: vouches_def P_def)
    qed (use f w in \<open>auto simp: vouches_def P_def nullStr_def split: if_splits\<close>)
    then show ?thesis using h m f w Some by (intro admitted) auto
  next
    case False
    then have "runs (ws_op me) A w (handleWSAuthLogin r data w)"
      using ru h by (auto split: sum.splits option.splits intro: ws_logic.runs_auth_fail)
    then show ?thesis by (rule refused)
  qed
qed

text \<open>
  C5: If an auth.login event turns an unauthenticated connection into an
  authenticated one, the connection has the id and the kind of a member of the
  database whom the presented token vouches for: either the token is valid, names
  that member and is not on the blacklist, or it is that member's non-empty API key.
\<close>

theorem login_authentic:
  assumes "r < next_ref w" "\<not> c_authenticated (heap w r)"
    "c_authenticated (heap (handleWSAuthLogin r data w) r)"
  shows "\<exists>d m. ParseAuthLogin data = Some d \<and> vouches w (al_Token d) m \<and>
    c_id (heap (handleWSAuthLogin r data w) r) = mb_ID m \<and>
    c_isAgent (heap (handleWSAuthLogin r data w) r) = (mb_Type m = ''agent'')"
proof (cases rule: login_shape [of "''''" "\<lambda>_. False" w r data])
  case refused
  then show ?thesis using assms by (auto dest!: runs_keptD)
next
  case (admitted d m fs)
  then show ?thesis using assms(1) by (auto simp: admit_identity)
qed

definition sample_login :: "json option" where
  "sample_login = Some (str_obj [(''token'', ''Tn'')])"

lemma params_frame:
  "jwt_parse (login i nm a r w) = jwt_parse w" "jwt_secret (login i nm a r w) = jwt_secret w"
  "jwt_parse (snd (join ch r w)) = jwt_parse w" "jwt_secret (snd (join ch r w)) = jwt_secret w"
  "jwt_parse (snd (accept_conn w)) = jwt_parse w" "jwt_secret (snd (accept_conn w)) = jwt_secret w"
  by (simp_all add: login_def Add_def upd_conn_def join_def SubscribeChannel_def accept_conn_def
      Let_def split_beta split: option.split)

lemma sample_world_env:
  "jwt_parse sample_world = jwt_parse (world0 sample_db)" "jwt_secret sample_world = ''k''"
  "\<not> c_cancelled (heap sample_world 2)"
proof -
  show "jwt_parse sample_world = jwt_parse (world0 sample_db)"
    by (simp add: sample_world_def Let_def params_frame)
  show "jwt_secret sample_world = ''k''"
    unfolding sample_world_def Let_def params_frame by (simp add: world0_def)
  show "\<not> c_cancelled (heap sample_world 2)" by code_simp
qed

lemma sample_member: "List.find (\<lambda>m. mb_ID m = ''n'') (t_members sample_db) \<noteq> None" "t_blacklist sample_db = []"
  by code_simp+

lemma sample_login_eval: "c_authenticated (heap (handleWSAuthLogin 2 sample_login sample_world) 2)"
proof -
  have p: "ParseAuthLogin sample_login = Some \<lparr>al_Token = ''Tn''\<rparr>" by code_simp
  have v: "ValidateToken ''Tn'' sample_world = (Inr \<lparr>cl_MemberID = ''n'', cl_WorkspaceID = ''w'', cl_ID = ''j'',
      cl_ExpiresAt = now sample_db, cl_IssuedAt = now sample_db, cl_Issuer = ''lark''\<rparr>, sample_world)"
    by (simp add: ValidateToken_def sample_world_env sample_world_db world0_def HasPrefix_def on_db_def
        IsTokenBlacklisted_def query_def take_fault_def sample_db_eval sample_member)
  obtain m where m: "List.find (\<lambda>m. mb_ID m = ''n'') (t_members sample_db) = Some m"
    using sample_member by blast
  have g: "with_ctx 2 (GetMember ''n'') sample_world = (Inr (Some m), sample_world)"
    by (simp add: with_ctx_def on_db_def sample_world_db GetMember_def query_def take_fault_def
        sample_db_eval sample_world_env m)
  have "handleWSAuthLogin 2 sample_login sample_world = ws_admit 2 m sample_world"
    by (simp add: handleWSAuthLogin_def p v g)
  then show ?thesis by (simp add: admit_identity sample_world_eval)
qed

theorem login_authentic_witness:
  "\<exists>m. vouches sample_world ''Tn'' m \<and> c_id (heap (handleWSAuthLogin 2 sample_login sample_world) 2) = mb_ID m"
proof -
  have "ParseAuthLogin sample_login = Some \<lparr>al_Token = ''Tn''\<rparr>" by code_simp
  then show ?thesis
    using login_authentic [of 2 sample_world sample_login] sample_login_eval
    by (auto simp: sample_world_eval)
qed

end
