(* ===== verification/Db_Types.thy ===== *)
theory Db_Types
  imports Db_Reach
begin

text \<open>
  The enumerated columns: in every database the operations can produce they hold one
  of the values their CHECK constraint lists, also after updates and cascades.
\<close>

section \<open>Well-typed databases\<close>

definition typed_task :: "Task \<Rightarrow> bool" where
  "typed_task t \<longleftrightarrow> task_status_ok (task_Status t) \<and> task_priority_ok (task_Priority t)"

definition typed_channel :: "Channel \<Rightarrow> bool" where
  "typed_channel c \<longleftrightarrow> ch_Type c \<in> {''channel'', ''dm'', ''group_dm''}"

definition typed_member :: "Member \<Rightarrow> bool" where
  "typed_member m \<longleftrightarrow> mb_Type m \<in> {''human'', ''agent''} \<and> mb_Role m \<in> {''user'', ''admin'', ''owner''}"

definition typed_call :: "Call \<Rightarrow> bool" where
  "typed_call c \<longleftrightarrow> call_Type c \<in> {''audio'', ''video''} \<and> call_status_ok (call_Status c)"

definition typed_billing :: "BillingCustomer \<Rightarrow> bool" where
  "typed_billing c \<longleftrightarrow> bc_Plan c \<in> {''free'', ''pro'', ''enterprise''}
     \<and> bc_Status c \<in> {''active'', ''past_due'', ''canceled'', ''trialing''}"

definition typed_approval :: "ApprovalRequest \<Rightarrow> bool" where
  "typed_approval a \<longleftrightarrow> apr_Status a \<in> {''pending'', ''approved'', ''denied''}"

definition typed_integration :: "Integration \<Rightarrow> bool" where
  "typed_integration x \<longleftrightarrow> ig_Type x \<in> {''webhook'', ''bot'', ''oauth'', ''custom''}"

definition typed_sso :: "SSOProvider \<Rightarrow> bool" where
  "typed_sso x \<longleftrightarrow> sso_Type x \<in> {''oidc'', ''saml''}"

definition typed_key :: "UserKey \<Rightarrow> bool" where
  "typed_key k \<longleftrightarrow> uk_KeyType k \<in> {''identity'', ''signed_pre'', ''one_time''}"

definition well_typed :: "store \<Rightarrow> bool" where
  "well_typed s \<longleftrightarrow> list_all typed_task (t_tasks s) \<and> list_all typed_channel (t_channels s)
     \<and> list_all typed_member (t_members s) \<and> list_all typed_call (t_calls s)
     \<and> list_all typed_billing (t_billing s) \<and> list_all typed_approval (t_approvals s)
     \<and> list_all typed_integration (t_integrations s) \<and> list_all typed_sso (t_sso s)
     \<and> list_all typed_key (t_keys s) \<and> list_all (\<lambda>x. run_status_ok (wr_Status x)) (t_runs s)
     \<and> list_all (\<lambda>d. draft_status_ok (hd_Status d)) (t_drafts s)
     \<and> list_all (\<lambda>x. review_status_ok (rr_Status x)) (t_reviews s)"

named_theorems typed

lemmas typed_rows = typed_task_def typed_channel_def typed_member_def typed_call_def typed_billing_def
  typed_approval_def typed_integration_def typed_sso_def typed_key_def

lemma typed_frame [simp]:
  "well_typed (s\<lparr>now := a\<rparr>) = well_typed s" "well_typed (s\<lparr>uuids := b\<rparr>) = well_typed s"
  "well_typed (s\<lparr>uuid_ctr := c\<rparr>) = well_typed s" "well_typed (s\<lparr>faults := d\<rparr>) = well_typed s"
  "well_typed (s\<lparr>t_workspaces := e\<rparr>) = well_typed s" "well_typed (s\<lparr>t_blacklist := f\<rparr>) = well_typed s"
  "well_typed (s\<lparr>t_channel_members := g\<rparr>) = well_typed s" "well_typed (s\<lparr>t_messages := h\<rparr>) = well_typed s"
  "well_typed (s\<lparr>t_reactions := i\<rparr>) = well_typed s" "well_typed (s\<lparr>t_memory := j\<rparr>) = well_typed s"
  "well_typed (s\<lparr>t_files := k\<rparr>) = well_typed s" "well_typed (s\<lparr>t_pins := l\<rparr>) = well_typed s"
  "well_typed (s\<lparr>t_webhooks := m\<rparr>) = well_typed s" "well_typed (s\<lparr>t_edits := n\<rparr>) = well_typed s"
  "well_typed (s\<lparr>t_oauth := o1\<rparr>) = well_typed s" "well_typed (s\<lparr>t_notifications := p\<rparr>) = well_typed s"
  "well_typed (s\<lparr>t_ws_integrations := q\<rparr>) = well_typed s" "well_typed (s\<lparr>t_workflows := r\<rparr>) = well_typed s"
  "well_typed (s\<lparr>t_encrypted := u\<rparr>) = well_typed s" "well_typed (s\<lparr>t_usage := v\<rparr>) = well_typed s"
  "well_typed (s\<lparr>t_items := x\<rparr>) = well_typed s" "well_typed (s\<lparr>t_templates := y\<rparr>) = well_typed s"
  by (simp_all add: well_typed_def)

lemma typed_fault [simp]: "well_typed (snd (take_fault s)) = well_typed s"
  by (cases "faults s") (simp_all add: take_fault_def)

lemma typed_uuid [simp]: "well_typed (snd (new_uuid s)) = well_typed s"
  by (simp add: new_uuid_def)

lemma typed_fresh [simp]: "well_typed (snd (fresh_id i s)) = well_typed s"
  by (simp add: fresh_id_def)

lemma typed_exec:
  assumes "\<And>t t'. well_typed t \<Longrightarrow> g t = Inr t' \<Longrightarrow> well_typed t'" "well_typed s"
  shows "well_typed (snd (exec g s))"
proof -
  obtain f u where f: "take_fault s = (f, u)" by force
  then have "well_typed u" using assms(2) typed_fault [of s] by simp
  then show ?thesis using f assms(1) by (auto simp: exec_def split: option.split sum.split)
qed

lemma typed_query [simp]: "well_typed (snd (query f s)) = well_typed s"
proof -
  have "snd (query f s) = snd (take_fault s)"
    by (simp add: query_def split_beta split: option.split prod.split)
  then show ?thesis by simp
qed

lemma insert_checkedD:
  "insert_checked chk uniq fks put s = Inr s' \<Longrightarrow> chk = None \<and> s' = put s"
  by (auto simp: insert_checked_def split: option.splits if_splits)

lemma bad_None: "bad c ok = None \<longleftrightarrow> ok"
  by (simp add: bad_def)

lemma first_two_None: "first_some [a, b] = None \<longleftrightarrow> a = None \<and> b = None"
  by (cases a; cases b) simp_all

lemma typed_upd: "list_all P xs \<Longrightarrow> (\<And>x. x \<in> set xs \<Longrightarrow> P x \<Longrightarrow> p x \<Longrightarrow> P (f x)) \<Longrightarrow> list_all P (upd_where p f xs)"
  by (auto simp: upd_where_def list_all_iff)

lemma typed_del: "list_all P xs \<Longrightarrow> list_all P (del_where p xs)"
  by (auto simp: del_where_def list_all_iff)

lemma typed_sweep: "list_all P xs \<Longrightarrow> list_all P (sweep d fks xs)"
  by (simp add: sweep_def typed_del)

lemma typed_map: "list_all P xs \<Longrightarrow> (\<And>x. P (f x) = P x) \<Longrightarrow> list_all P (map f xs)"
  by (simp add: list.pred_map comp_def)

lemma typed_put:
  assumes "well_typed s"
  shows "well_typed (s\<lparr>t_tasks := a\<rparr>) = list_all typed_task a" "well_typed (s\<lparr>t_channels := b\<rparr>) = list_all typed_channel b"
    "well_typed (s\<lparr>t_members := c\<rparr>) = list_all typed_member c" "well_typed (s\<lparr>t_calls := d\<rparr>) = list_all typed_call d"
    "well_typed (s\<lparr>t_billing := e\<rparr>) = list_all typed_billing e" "well_typed (s\<lparr>t_approvals := f\<rparr>) = list_all typed_approval f"
    "well_typed (s\<lparr>t_integrations := g\<rparr>) = list_all typed_integration g" "well_typed (s\<lparr>t_sso := h\<rparr>) = list_all typed_sso h"
    "well_typed (s\<lparr>t_keys := i\<rparr>) = list_all typed_key i" "well_typed (s\<lparr>t_runs := j\<rparr>) = list_all (\<lambda>x. run_status_ok (wr_Status x)) j"
    "well_typed (s\<lparr>t_drafts := k\<rparr>) = list_all (\<lambda>d. draft_status_ok (hd_Status d)) k"
    "well_typed (s\<lparr>t_reviews := l\<rparr>) = list_all (\<lambda>x. review_status_ok (rr_Status x)) l"
  using assms by (simp_all add: well_typed_def)

lemma typed_tables:
  assumes "well_typed s"
  shows "list_all typed_task (t_tasks s)" "list_all typed_channel (t_channels s)"
    "list_all typed_member (t_members s)" "list_all typed_call (t_calls s)"
    "list_all typed_billing (t_billing s)" "list_all typed_approval (t_approvals s)"
    "list_all typed_integration (t_integrations s)" "list_all typed_sso (t_sso s)"
    "list_all typed_key (t_keys s)" "list_all (\<lambda>x. run_status_ok (wr_Status x)) (t_runs s)"
    "list_all (\<lambda>d. draft_status_ok (hd_Status d)) (t_drafts s)"
    "list_all (\<lambda>x. review_status_ok (rr_Status x)) (t_reviews s)"
  using assms by (simp_all add: well_typed_def)

lemma insert_checked_typed:
  "insert_checked chk uniq fks put t = Inr t' \<Longrightarrow> (chk = None \<Longrightarrow> well_typed (put t)) \<Longrightarrow> well_typed t'"
  by (auto dest: insert_checkedD)

lemmas typed_simps = typed_put typed_tables typed_rows typed_del list_ex_iff bad_None first_two_None billing_chk_def
  put_message_def Let_def split_beta

section \<open>Operations\<close>

lemma inserts_typed [typed]:
  assumes "well_typed s"
  shows "well_typed (snd (snd (CreateWorkspace x1 s)))" "well_typed (snd (snd (CreateMember x2 s)))"
    "well_typed (snd (snd (CreateTask x3 s)))" "well_typed (snd (snd (CreateFile x4 s)))"
    "well_typed (snd (snd (CreatePin x5 s)))" "well_typed (snd (snd (CreateApproval x6 s)))"
    "well_typed (snd (snd (CreateWebhook x7 s)))" "well_typed (snd (snd (CreateEditHistory x8 s)))"
    "well_typed (snd (snd (CreateNotification x9 s)))" "well_typed (snd (snd (CreateIntegration x10 s)))"
    "well_typed (snd (snd (CreateSSOProvider x11 s)))" "well_typed (snd (snd (CreateCall x12 s)))"
    "well_typed (snd (snd (CreateWorkflow x13 s)))" "well_typed (snd (snd (CreateWorkflowRun x14 s)))"
    "well_typed (snd (snd (CreateEncryptedMessage x15 s)))"
    "well_typed (snd (snd (CreateBillingCustomer x16 s)))" "well_typed (snd (snd (CreateDraft x17 s)))"
    "well_typed (snd (snd (CreateWorkspaceItem x18 s)))" "well_typed (snd (snd (CreateReviewRequest x19 s)))"
    "well_typed (snd (snd (CreateTeamTemplate x20 s)))" "well_typed (snd (snd (SetMemory x21 s)))"
    "well_typed (snd (IncrementUsage a22 b22 c22 d22 e22 s))"
    "well_typed (snd (snd (CreateOAuthIdentity x23 s)))" "well_typed (snd (snd (InstallIntegration x24 s)))"
    "well_typed (snd (snd (RegisterUserKey x25 s)))" "well_typed (snd (snd (CreateUsageRecord x26 s)))"
    "well_typed (snd (AddChannelMember a27 b27 s))" "well_typed (snd (snd (AddReaction x28 s)))"
    "well_typed (snd (BlacklistToken a29 b29 s))" "well_typed (snd (snd (CreateChannel x30 s)))"
    "well_typed (snd (snd (CreateMessage x31 s)))" "well_typed (snd (Backup a32 s))"
  using assms
  by (auto simp: typed_simps
    CreateWorkspace_def CreateMember_def CreateTask_def CreateFile_def CreatePin_def CreateApproval_def
    CreateWebhook_def CreateEditHistory_def CreateNotification_def CreateIntegration_def
    CreateSSOProvider_def CreateCall_def CreateWorkflow_def CreateWorkflowRun_def
    CreateEncryptedMessage_def CreateBillingCustomer_def CreateDraft_def CreateWorkspaceItem_def
    CreateReviewRequest_def CreateTeamTemplate_def SetMemory_def IncrementUsage_def
    CreateOAuthIdentity_def InstallIntegration_def RegisterUserKey_def CreateUsageRecord_def
    AddChannelMember_def AddReaction_def BlacklistToken_def CreateChannel_def CreateMessage_def
    Backup_def
    intro!: typed_exec typed_upd dest!: insert_checkedD split: if_splits option.splits)

lemma updates_typed [typed]:
  assumes "well_typed s"
  shows "well_typed (snd (UpdateMemberRoleCard a1 b1 c1 s))" "well_typed (snd (snd (UpdateMember x2 s)))"
    "well_typed (snd (snd (UpdateChannel x3 s)))" "well_typed (snd (UpdateLastRead a4 b4 s))"
    "well_typed (snd (UpdateNotificationPreference a5 b5 c5 s))" "well_typed (snd (snd (UpdateMessage x6 s)))"
    "well_typed (snd (MarkNotificationRead a7 s))" "well_typed (snd (MarkAllNotificationsRead a8 s))"
    "well_typed (snd (snd (UpdateWorkflow x9 s)))" "well_typed (snd (AckInboxItem a10 s))"
    "well_typed (snd (AckAllInbox a11 s))" "well_typed (snd (UpdateCall a13 s))" "well_typed (snd (UpdateWorkflowRun a14 s))"
    "well_typed (snd (snd (UpdateReviewRequest x16 s)))"
    "well_typed (snd (snd (UpdateWorkspace x17 s)))" "well_typed (snd (snd (UpdateTask x18 s)))"
    "well_typed (snd (UpdateApproval x19 s))" "well_typed (snd (snd (UpdateBillingCustomer x20 s)))"
    "well_typed (snd (snd (UpdateWorkspaceItem x21 s)))"
  using assms
  by (auto simp: typed_simps
    UpdateMemberRoleCard_def UpdateMember_def UpdateChannel_def UpdateLastRead_def
    UpdateNotificationPreference_def UpdateMessage_def MarkNotificationRead_def
    MarkAllNotificationsRead_def UpdateWorkflow_def AckInboxItem_def AckAllInbox_def ExpireDrafts_def
    UpdateCall_def UpdateWorkflowRun_def UpdateReviewRequest_def
    UpdateWorkspace_def UpdateTask_def UpdateApproval_def UpdateBillingCustomer_def
    UpdateWorkspaceItem_def
    intro!: typed_exec typed_upd dest!: insert_checkedD split: if_splits option.splits)

lemma draft_expired: "draft_status_ok ''expired''"
  by (simp add: draft_status_ok_def)

lemma draft_status_typed [typed]:
  assumes "well_typed s"
  shows "well_typed (snd (UpdateDraftStatus i st s))" "well_typed (snd (ExpireDrafts s))"
proof -
  show "well_typed (snd (UpdateDraftStatus i st s))"
    unfolding UpdateDraftStatus_def
  proof (rule typed_exec [OF _ assms], goal_cases)
    case (1 t t')
    then have "t' = t\<lparr>t_drafts := upd_where (\<lambda>d. hd_ID d = i) (\<lambda>d. d\<lparr>hd_Status := st, hd_UpdatedAt := now t\<rparr>) (t_drafts t)\<rparr>"
      "\<forall>d\<in>set (t_drafts t). hd_ID d = i \<longrightarrow> draft_status_ok st"
      by (auto simp: list_ex_iff split: if_splits)
    then show ?case using 1(1) by (auto simp: typed_put typed_tables intro!: typed_upd)
  qed
  show "well_typed (snd (ExpireDrafts s))"
    unfolding ExpireDrafts_def
    by (rule typed_exec [OF _ assms]) (auto simp: typed_simps draft_expired intro!: typed_upd)
qed

lemma deletes_typed [typed]:
  assumes "well_typed s"
  shows "well_typed (snd (RemoveChannelMember a1 b1 s))" "well_typed (snd (RemoveReaction a2 b2 c2 s))"
    "well_typed (snd (DeleteTask a3 s))" "well_typed (snd (DeleteMemory a4 b4 c4 s))"
    "well_typed (snd (DeletePin a5 s))" "well_typed (snd (DeleteWebhook a6 s))"
    "well_typed (snd (UninstallIntegration a7 b7 s))" "well_typed (snd (DeleteSSOProvider a8 s))"
    "well_typed (snd (DeleteUserKey a9 s))" "well_typed (snd (DeleteUserKeysByMember a10 s))"
    "well_typed (snd (DeleteBillingCustomer a11 s))" "well_typed (snd (DeleteDraft a12 s))"
    "well_typed (snd (DeleteWorkspaceItem a13 s))" "well_typed (snd (DeleteTeamTemplate a14 s))"
  using assms
  by (auto simp: typed_simps
    RemoveChannelMember_def RemoveReaction_def DeleteTask_def DeleteMemory_def DeletePin_def
    DeleteWebhook_def UninstallIntegration_def DeleteSSOProvider_def DeleteUserKey_def
    DeleteUserKeysByMember_def DeleteBillingCustomer_def DeleteDraft_def DeleteWorkspaceItem_def
    DeleteTeamTemplate_def
    intro!: typed_exec typed_upd dest!: insert_checkedD split: if_splits option.splits)

section \<open>Cascades and steps\<close>

lemma typed_fold_null: "list_all typed_call xs \<Longrightarrow> list_all typed_call (map (null_call d) xs)"
  by (rule typed_map) (simp_all add: typed_call_def null_call_def)

lemma typed_sweep_all: "well_typed s \<Longrightarrow> well_typed (sweep_all d s)"
  by (simp add: well_typed_def sweep_all_def typed_sweep typed_del typed_fold_null)

lemma typed_delete_parents: "well_typed s \<Longrightarrow> well_typed (snd (exec (delete_parents d) s))"
  by (rule typed_exec) (auto simp: delete_parents_def Let_def typed_sweep_all split: if_splits)

lemma cascades_typed [typed]:
  assumes "well_typed s"
  shows "well_typed (snd (DeleteWorkspace i s))" "well_typed (snd (DeleteMember i s))"
    "well_typed (snd (DeleteChannel i s))" "well_typed (snd (DeleteMessage i s))"
    "well_typed (snd (DeleteFile i s))" "well_typed (snd (DeleteWorkflow i s))"
  using assms by (simp_all add: DeleteWorkspace_def DeleteMember_def DeleteChannel_def DeleteMessage_def
      DeleteFile_def DeleteWorkflow_def typed_delete_parents)

lemma seed_typed [typed]: "well_typed s \<Longrightarrow> well_typed (seed_templates s)"
  by (simp add: seed_templates_def)

section \<open>Direct messages\<close>

text \<open>
  Creating a direct message channel finds the existing one or fails: the INSERT names
  more columns than it has values.  Either way no table changes.
\<close>

definition same_tables :: "store \<Rightarrow> store \<Rightarrow> bool" where
  "same_tables s s' \<longleftrightarrow> (\<exists>fs k. s' = s\<lparr>faults := fs, uuid_ctr := k\<rparr>)"

lemma same_tables_refl: "same_tables s s"
  unfolding same_tables_def by (rule exI [of _ "faults s"], rule exI [of _ "uuid_ctr s"]) simp

lemma same_tables_trans [trans]: "same_tables s t \<Longrightarrow> same_tables t u \<Longrightarrow> same_tables s u"
  unfolding same_tables_def by force

lemma same_take_fault: "take_fault s = (r, s') \<Longrightarrow> same_tables s s'"
proof -
  assume t: "take_fault s = (r, s')"
  have "s' = s\<lparr>faults := faults s', uuid_ctr := uuid_ctr s\<rparr>"
    using t by (auto simp: take_fault_def split: list.splits)
  then show ?thesis unfolding same_tables_def by blast
qed

lemma same_query: "query f s = (r, s') \<Longrightarrow> same_tables s s'"
  by (auto simp: query_def split: prod.splits option.splits dest: same_take_fault)

lemma same_fresh: "fresh_id i s = (j, s') \<Longrightarrow> same_tables s s'"
proof -
  assume f: "fresh_id i s = (j, s')"
  have "s' = s\<lparr>faults := faults s, uuid_ctr := uuid_ctr s'\<rparr>"
    using f by (auto simp: fresh_id_def new_uuid_def split: if_splits)
  then show ?thesis unfolding same_tables_def by blast
qed

lemma same_begin: "begin_tx s = (r, s') \<Longrightarrow> same_tables s s'"
  by (auto simp: begin_tx_def exec_def split: prod.splits option.splits dest: same_take_fault)

lemma same_rollback: "same_tables s (rollback s s')"
  unfolding same_tables_def rollback_def by blast

lemma query_value: "query f s = (Inr y, s') \<Longrightarrow> y = f s'"
  by (auto simp: query_def split: prod.splits option.splits)

lemma candidates_same: "same_tables s t \<Longrightarrow> dm_candidates w a b t = dm_candidates w a b s"
  by (auto simp: same_tables_def dm_candidates_def members_of_def)

lemma dm_insert_error: "\<exists>e t. dm_insert c mids s = (Inl e, t)"
  using dm_insert_fails [of c mids s] by (cases "dm_insert c mids s"; cases "fst (dm_insert c mids s)") auto

lemma createDM_frame:
  assumes "createDMChannel mids (c, s) = (r, c', s')"
  shows "same_tables s s' \<and> ch_WorkspaceID c' = ch_WorkspaceID c \<and> (\<forall>u. r = Inr u \<longrightarrow> length mids = 2
    \<and> first_row (dm_candidates (ch_WorkspaceID c) (mids ! 0) (mids ! 1) s) = Some (ch_ID c'))"
proof -
  obtain b s1 where b: "begin_tx s = (b, s1)" by force
  then have s1: "same_tables s s1" by (rule same_begin)
  show ?thesis
  proof (cases b)
    case (Inl e)
    then show ?thesis using assms b s1 by (auto simp: createDMChannel_def)
  next
    case (Inr u)
    let ?row = "\<lambda>s. first_row (dm_candidates (ch_WorkspaceID c) (mids ! 0) (mids ! 1) s)"
    let ?find = "if length mids = 2 then query ?row s1 else (Inr None, s1)"
    obtain q s2 where q: "?find = (q, s2)" by force
    then have "same_tables s1 s2" by (auto split: if_splits dest: same_query simp: same_tables_refl)
    with s1 have s2: "same_tables s s2" by (rule same_tables_trans)
    obtain i s3 where f: "fresh_id (ch_ID c) s2 = (i, s3)" by force
    then have s3: "same_tables s s3" using s2 same_fresh same_tables_trans by blast
    let ?c = "c\<lparr>ch_ID := i, ch_CreatedAt := or_now (ch_CreatedAt c) s3, ch_UpdatedAt := or_now (ch_CreatedAt c) s3\<rparr>"
    obtain e t where e: "dm_insert ?c mids s3 = (Inl e, t)" using dm_insert_error by blast
    have unfold: "createDMChannel mids (c, s) = (case q of Inl e \<Rightarrow> (Inl e, c, s2)
        | Inr (Some cid) \<Rightarrow> (Inr (), c\<lparr>ch_ID := cid\<rparr>, s2) | Inr None \<Rightarrow> (Inl e, ?c, rollback s3 t))"
      using b Inr q f e by (simp add: createDMChannel_def Let_def split: sum.split option.split)
    show ?thesis
    proof (cases "\<exists>cid. q = Inr (Some cid)")
      case True
      then obtain cid where cid: "q = Inr (Some cid)" by blast
      then have "length mids = 2 \<and> ?row s2 = Some cid"
        using q by (auto split: if_splits dest: query_value)
      then show ?thesis using assms s2 cid unfolding unfold by (auto simp: candidates_same [OF s2])
    next
      case False
      have "same_tables s (rollback s3 t)" using s3 same_rollback by (rule same_tables_trans)
      then show ?thesis using assms s2 False unfolding unfold by (auto split: sum.splits option.splits)
    qed
  qed
qed

lemma retry_frame:
  assumes "retryOnLocked n (createDMChannel mids) (c, s) = (r, c', s')" "n \<noteq> 0"
  shows "same_tables s s' \<and> (\<forall>u. r = Inr u \<longrightarrow> length mids = 2
    \<and> first_row (dm_candidates (ch_WorkspaceID c) (mids ! 0) (mids ! 1) s) = Some (ch_ID c'))"
  using assms
proof (induction n arbitrary: c s)
  case (Suc n)
  obtain x c1 s1 where d: "createDMChannel mids (c, s) = (x, c1, s1)" by (metis prod.exhaust)
  note frame = createDM_frame [OF d]
  show ?case
  proof (cases "\<exists>e. x = Inl e \<and> isLockedError e \<and> n \<noteq> 0")
    case True
    then have "retryOnLocked n (createDMChannel mids) (c1, s1) = (r, c', s')" "n \<noteq> 0"
      using Suc.prems d by auto
    from Suc.IH [OF this] frame show ?thesis using same_tables_trans by (auto simp: candidates_same)
  next
    case False
    then have "(r, c', s') = (x, c1, s1)" using Suc.prems(1) d by (auto split: sum.splits if_splits)
    then show ?thesis using frame by simp
  qed
qed simp

text \<open>
  C40: Creating a direct-message channel never creates one: whatever the members, the
  retries and the driver do, no table changes, and success means that the two members
  already shared a DM channel, which is the one returned.
\<close>

theorem dm_never_created:
  assumes "CreateDMChannel c mids s = (r, c', s')"
  shows "same_tables s s' \<and> (\<forall>u. r = Inr u \<longrightarrow> length mids = 2
    \<and> first_row (dm_candidates (ch_WorkspaceID c) (mids ! 0) (mids ! 1) s) = Some (ch_ID c'))"
  using retry_frame [of maxRetries mids c s r c' s'] assms by (simp add: CreateDMChannel_def maxRetries_def)

theorem dm_never_created_witness:
  "t_channels (snd (snd (CreateDMChannel (Channel0\<lparr>ch_WorkspaceID := ''w'', ch_Name := ''dm'', ch_Type := ''dm''\<rparr>)
     [''m'', ''n''] sample_db))) = t_channels sample_db"
proof -
  obtain r c' s' where d: "CreateDMChannel (Channel0\<lparr>ch_WorkspaceID := ''w'', ch_Name := ''dm'', ch_Type := ''dm''\<rparr>)
     [''m'', ''n''] sample_db = (r, c', s')" by (metis prod.exhaust)
  from dm_never_created [OF d] show ?thesis by (auto simp: d same_tables_def)
qed

section \<open>The invariant\<close>

lemma typed_dm [typed]: "well_typed s \<Longrightarrow> well_typed (snd (snd (CreateDMChannel c mids s)))"
proof -
  assume "well_typed s"
  moreover obtain r c' s' where d: "CreateDMChannel c mids s = (r, c', s')" by (metis prod.exhaust)
  then have "same_tables s s'"
    using retry_frame [of maxRetries mids c s r c' s'] by (simp add: CreateDMChannel_def maxRetries_def)
  ultimately show ?thesis by (auto simp: d same_tables_def)
qed

lemma typed_step: "db_step s s' \<Longrightarrow> well_typed s \<Longrightarrow> well_typed s'"
  by (induction rule: db_step.induct) (simp_all add: typed)

lemma typed_store0: "well_typed (store0 t us)"
  by (simp add: well_typed_def store0_def)

text \<open>
  C28: In every database the operations can produce, every enumerated column holds one
  of the values its CHECK constraint lists: the type and role of members, the type of
  channels, calls, integrations, identity providers and keys, the plan and status of
  billing customers, and the status of tasks, approvals, calls, workflow runs, drafts
  and reviews.
\<close>

theorem db_well_typed:
  assumes "db_reach s"
  shows "well_typed s"
  using assms
proof (induction rule: db_reach.induct)
  case (start t us)
  show ?case by (rule typed_store0)
qed (rule typed_step)

theorem db_well_typed_witness:
  "well_typed sample_db \<and> length (t_members sample_db) = 2"
  using db_well_typed [OF sample_reach] arg_cong [OF sample_db_eval(3), of length] by simp

end
