(* ===== verification/System.thy ===== *)
theory System
  imports Router Ws_Props Db_Types
begin

text \<open>
  The whole server: requests, WebSocket frames, connection ends, write pumps, timers
  and background workflows, interleaved in any order over one shared state, and what
  every state the server can reach satisfies.
\<close>

section \<open>The invariant\<close>

definition db_good :: "store \<Rightarrow> bool" where
  "db_good s \<longleftrightarrow> db_ok s \<and> well_typed s"

lemma db_good_step: "db_step s s' \<Longrightarrow> db_good s \<Longrightarrow> db_good s'"
  by (auto simp: db_good_def intro: db_step_ok typed_step)

lemma db_good_fresh: "db_good (seed_templates (store0 t us))"
  using seed_templates_ok [OF db_ok_store0] seed_typed [OF typed_store0] by (simp add: db_good_def)

definition hub_ok :: "'a net_scheme \<Rightarrow> bool" where
  "hub_ok n \<longleftrightarrow> hub_wf n \<and> (\<forall>r. conn_inv (heap n r))"

definition site_ok :: "site \<Rightarrow> bool" where
  "site_ok s \<longleftrightarrow> db_good (db (srv s)) \<and> hub_ok (srv s) \<and> go_wf (pending_states s) \<and> go_wf (clients (limiter s))"

lemma conns_fold_send:
  "\<forall>r. conn_inv (heap n r) \<Longrightarrow> \<forall>r. conn_inv (heap (fold (upd_conn (Send e)) rs n) r)"
  by (induction rs arbitrary: n) (simp_all add: conn_inv_Send)

lemma conns_broadcast:
  assumes "\<forall>r. conn_inv (heap n r)"
  shows "\<forall>r. conn_inv (heap (BroadcastToChannel ch e n) r)" "\<forall>r. conn_inv (heap (BroadcastToAll e n) r)"
    "\<forall>r. conn_inv (heap (BroadcastToAgents e n) r)"
  using conns_fold_send [OF assms]
  by (simp_all add: BroadcastToChannel_def BroadcastToAll_def BroadcastToAgents_def send_ref_def [abs_def] Let_def)

lemma conns_ops:
  assumes "\<forall>r. conn_inv (heap n r)"
  shows "\<forall>q. conn_inv (heap (login i nm a r n) q)" "\<forall>q. conn_inv (heap (snd (join ch r n)) q)"
    "\<forall>q. conn_inv (heap (leave ch r n) q)" "\<forall>q. conn_inv (heap (kick ch m n) q)"
    "\<forall>q. conn_inv (heap (hub_Close n) q)" "\<forall>q. conn_inv (heap (snd (accept_conn n)) q)"
proof -
  show "\<forall>q. conn_inv (heap (login i nm a r n) q)"
    using assms by (auto simp: login_def Add_fields conn_inv_Close conn_inv_SetAuthenticated conn_inv_SetIdentity
        split: option.split)
  show "\<forall>q. conn_inv (heap (snd (join ch r n)) q)"
    using assms by (auto simp: join_def Let_def split_beta conn_inv_Subscribe)
  show "\<forall>q. conn_inv (heap (leave ch r n) q)" "\<forall>q. conn_inv (heap (kick ch m n) q)"
    using assms by (auto simp: leave_def kick_def Let_def conn_inv_Unsubscribe split: option.split)
  show "\<forall>q. conn_inv (heap (hub_Close n) q)"
    using assms by (auto simp: hub_Close_def heap_fold_upd_conn funpow_CloseWithMessage conn_inv_CloseWithMessage)
  show "\<forall>q. conn_inv (heap (snd (accept_conn n)) q)"
    using assms by (simp add: accept_conn_def conn_inv_NewConn)
qed

lemma conns_step: "hub_step A n n' \<Longrightarrow> \<forall>r. conn_inv (heap n r) \<Longrightarrow> \<forall>r. conn_inv (heap n' r)"
proof (induction rule: hub_step.induct)
  case (step_register r n d ags)
  then show ?case by (simp add: RegisterDaemon_def)
next
  case (step_unregister n d)
  then show ?case by (simp add: UnregisterDaemon_def split: option.split)
qed (auto simp: conns_ops conns_broadcast conn_inv_Close conn_inv_Send conn_inv_WritePump ReadPump_exit_def
    send_ref_def)

lemma hub_ok_step: "hub_step A n n' \<Longrightarrow> hub_ok n \<Longrightarrow> hub_ok n'"
  by (simp add: hub_ok_def hub_wf_step) (meson conns_step)

lemma hub_ok_truncate: "hub_ok (net.truncate w) = hub_ok w"
  by (simp add: hub_ok_def hub_wf_def truncate_fields)

lemma hub_ok_frame [simp]: "hub_ok (w\<lparr>db := s\<rparr>) = hub_ok w"
  by (simp add: hub_ok_def hub_wf_def)

lemma runs_ok:
  assumes "runs db_step A w w'" "db_good (db w)" "hub_ok w"
  shows "db_good (db w') \<and> hub_ok w'"
proof -
  have "db_step\<^sup>*\<^sup>* (db w) (db w')" "(hub_step A)\<^sup>*\<^sup>* (net.truncate w) (net.truncate w')"
    using assms(1) by (simp_all add: runs_def)
  moreover have "db_good s'" if "db_step\<^sup>*\<^sup>* s s'" "db_good s" for s s'
    using that by (induction rule: rtranclp_induct) (auto intro: db_good_step)
  moreover have "hub_ok n'" if "(hub_step A)\<^sup>*\<^sup>* n n'" "hub_ok n" for n n'
    using that by (induction rule: rtranclp_induct) (auto intro: hub_ok_step)
  ultimately show ?thesis using assms(2,3) by (metis hub_ok_truncate)
qed

section \<open>Requests\<close>

definition safe :: "handler \<Rightarrow> bool" where
  "safe f \<longleftrightarrow> (\<forall>e h q s. site_ok s \<longrightarrow> site_ok (snd (f e h q s)))"

lemma site_ok_runs:
  assumes "site_ok s" "runs db_step A (srv s) w"
  shows "site_ok (s\<lparr>srv := w\<rparr>)" "go_wf sts \<Longrightarrow> site_ok (s\<lparr>srv := w, pending_states := sts\<rparr>)"
    "site_ok (s\<lparr>srv := w, files_on := d\<rparr>)"
  using assms runs_ok [OF assms(2)] by (simp_all add: site_ok_def)

lemma safe_plain:
  assumes "\<And>e h q A. acts db_step A (f e h q)"
  shows "safe (plain f)"
  using site_ok_runs(1) [OF _ actsD [OF assms runs_refl]] by (simp add: safe_def plain_def split_beta)

lemma safe_pending:
  assumes "\<And>e q sts w A. runs db_step A w (snd (snd (f e q (sts, w))))"
    and "\<And>e q sts w. go_wf sts \<Longrightarrow> go_wf (fst (snd (f e q (sts, w))))"
  shows "safe (pending f)"
  unfolding safe_def
proof (intro allI impI)
  fix e h q s assume s: "site_ok s"
  then have "go_wf (pending_states s)" by (simp add: site_ok_def)
  from site_ok_runs(2) [OF s assms(1) assms(2) [OF this]]
  show "site_ok (snd (pending f e h q s))" by (simp add: pending_def split_beta)
qed

lemma safe_on_disk:
  assumes "\<And>e h q w d A. runs db_step A w (fst (snd (f e h q (w, d))))"
  shows "safe (on_disk f)"
  using site_ok_runs(3) [OF _ assms] by (simp add: safe_def on_disk_def split_beta)

lemma safe_downloading: "safe downloading"
  using site_ok_runs(1) [OF _ serve_disk(3) [OF runs_refl]]
  by (simp add: safe_def downloading_def split_beta)

lemma safe_health: "safe handleHealth"
  unfolding handleHealth_def Let_def
  by (rule safe_plain, rule actsI) (intro serve_rules db_logic.can_query; assumption)

lemma safe_websocket: "safe handleWebSocket"
  unfolding safe_def handleWebSocket_def site_ok_def
  using conns_ops(6) by (auto simp: hub_ok_def Let_def split_beta hub_wf_accept) (auto simp: accept_conn_def)


lemma pending_wf:
  assumes "go_wf sts"
  shows "go_wf (fst (snd (oauth_login nm url (sts, w))))"
    "go_wf (fst (snd (oauth_callback nm prov q k (sts, w))))"
  using assms by (simp_all add: oauth_login_def oauth_callback_def Let_def split_beta split: option.split)

lemmas pending_defs = handleGithubLogin_def handleGoogleLogin_def handleMicrosoftLogin_def
  handleGithubCallback_def handleGoogleCallback_def handleMicrosoftCallback_def

lemma safe_public: "\<forall>p\<in>set public_routes. safe (snd p)"
  unfolding public_routes_def
  by (simp only: set_simps ball_simps snd_conv)
     (intro conjI TrueI safe_plain safe_pending safe_websocket serves_extra serves_members serves_work serves_chat
       serve_providers serve_sso w_stripe [THEN actsI];
      (rule serve_callbacks [OF runs_refl] | simp add: pending_defs pending_wf serve_states))


lemmas serves_all = serves_chat serves_members serves_work serves_files serves_extra serves_workflow
  serve_logout serve_admin_agents

lemma acts_now: "(\<And>t. acts R A (f t)) \<Longrightarrow> acts R A (\<lambda>w. f (g w) w)"
  by (simp add: acts_def)

lemma safe_protected: "\<forall>p\<in>set protected_routes. safe (snd p)"
proof -
  have "\<forall>p\<in>set chat_routes. safe (snd p)"
    unfolding chat_routes_def
    by (simp only: set_simps ball_simps snd_conv)
       (intro conjI TrueI safe_plain safe_on_disk serves_all serve_disk runs_refl
          acts_now [where f = "\<lambda>t. handleAdminBackup b (m t) q" for b m q])
  moreover have "\<forall>p\<in>set work_routes. safe (snd p)"
    unfolding work_routes_def
    by (simp only: set_simps ball_simps snd_conv)
       (intro conjI TrueI safe_plain safe_on_disk safe_downloading serves_all serve_disk runs_refl)
  moreover have "\<forall>p\<in>set agent_routes. safe (snd p)"
    unfolding agent_routes_def
    by (simp only: set_simps ball_simps snd_conv) (intro conjI TrueI safe_plain serves_all)
  ultimately show ?thesis by (auto simp: protected_routes_def)
qed

lemma site_ok_limited:
  assumes "site_ok s" "\<And>s. site_ok s \<Longrightarrow> site_ok (snd (k s))"
  shows "site_ok (snd (limited h k s))"
proof -
  have "go_wf (clients (snd (Allow ip t rl)))" if "go_wf (clients rl)" for ip t rl
    using that by (simp add: Allow_def Let_def)
  then have "go_wf (clients (snd (rateLimitMiddleware a m t (limiter s))))" for a m t
    using assms(1) by (simp add: rateLimitMiddleware_def Let_def split_beta site_ok_def)
  then have "site_ok (s\<lparr>limiter := snd (rateLimitMiddleware a m t (limiter s))\<rparr>)" for a m t
    using assms(1) by (simp add: site_ok_def)
  then show ?thesis using assms(2) by (simp add: limited_def Let_def split_beta)
qed

text \<open>The middleware only looks things up.\<close>

lemma on_db_query: "snd (on_db (query f) w) = w\<lparr>db := snd (take_fault (db w))\<rparr>"
  by (simp add: on_db_def query_def split_beta split: option.split prod.split)

lemma take_fault_frame: "\<exists>fs. snd (take_fault s) = s\<lparr>faults := fs\<rparr>"
  by (cases "faults s") (auto simp: take_fault_def intro: exI [of _ "faults s"])

lemma lookup_frame: "\<exists>fs. snd (on_db (query f) w) = w\<lparr>db := (db w)\<lparr>faults := fs\<rparr>\<rparr>"
  using take_fault_frame [of "db w"] by (auto simp: on_db_query)

lemma authenticate_frame: "\<exists>fs. snd (authenticate hdr w) = w\<lparr>db := (db w)\<lparr>faults := fs\<rparr>\<rparr>"
proof -
  have same: "\<exists>fs. w = w\<lparr>db := (db w)\<lparr>faults := fs\<rparr>\<rparr>"
    by (rule exI [of _ "faults (db w)"]) simp
  define tok where "tok = (let b = TrimPrefix hdr ''Bearer '' in if b = hdr then TrimPrefix hdr ''ApiKey '' else b)"
  obtain fs where v: "snd (ValidateToken tok w) = w\<lparr>db := (db w)\<lparr>faults := fs\<rparr>\<rparr>"
    using validate_runs [of "''''" "\<lambda>_. False" w tok] by auto
  define u where "u = w\<lparr>db := (db w)\<lparr>faults := fs\<rparr>\<rparr>"
  obtain c where c: "ValidateToken tok w = (c, u)" using v by (cases "ValidateToken tok w") (simp add: u_def)
  have m: "\<exists>fs. snd (on_db (GetMember i) u) = w\<lparr>db := (db w)\<lparr>faults := fs\<rparr>\<rparr>"
    "\<exists>fs. snd (on_db (GetMemberByAPIKey i) u) = w\<lparr>db := (db w)\<lparr>faults := fs\<rparr>\<rparr>" for i
    using lookup_frame [of _ u] by (simp_all add: GetMember_def GetMemberByAPIKey_def u_def)
  have a: "authenticate hdr w =
     (if hdr = '''' then (Inl (writeErrorCode 401 ''AUTH_REQUIRED'' ''missing Authorization header''), w)
      else if tok = hdr then (Inl (writeErrorCode 401 ''AUTH_INVALID_TOKEN'' ''invalid Authorization format''), w)
      else case c of
        Inr claims \<Rightarrow> (case on_db (GetMember (cl_MemberID claims)) u of (m, w) \<Rightarrow>
          case m of Inl e \<Rightarrow> (Inl serverError, w)
          | Inr None \<Rightarrow> (Inl (writeErrorCode 401 ''AUTH_INVALID_TOKEN'' ''member not found''), w)
          | Inr (Some m) \<Rightarrow> (Inr m, w))
      | Inl _ \<Rightarrow> (case on_db (GetMemberByAPIKey tok) u of (m, w) \<Rightarrow>
          case m of Inl e \<Rightarrow> (Inl serverError, w)
          | Inr None \<Rightarrow> (Inl (writeErrorCode 401 ''AUTH_INVALID_CREDENTIALS'' ''invalid credentials''), w)
          | Inr (Some m) \<Rightarrow> (Inr m, w)))"
    unfolding authenticate_def tok_def [unfolded Let_def, symmetric] Let_def c prod.case ..
  show ?thesis
  proof (cases c)
    case (Inl x)
    then show ?thesis using same m(2) [of tok]
      by (cases "on_db (GetMemberByAPIKey tok) u") (simp add: a split: sum.split option.split)
  next
    case (Inr cl)
    then show ?thesis using same m(1) [of "cl_MemberID cl"]
      by (cases "on_db (GetMember (cl_MemberID cl)) u") (simp add: a split: sum.split option.split)
  qed
qed

lemma safe_serve: "site_ok s \<Longrightarrow> site_ok (snd (serve e h s))"
proof -
  have auth: "site_ok (snd (authenticated h k s))" if "site_ok s" "\<And>m s. site_ok s \<Longrightarrow> site_ok (snd (k m s))" for k s
  proof -
    let ?hdr = "header_get (hq_header h) ''Authorization''"
    obtain m w where a: "authenticate ?hdr (srv s) = (m, w)" by force
    then obtain fs where "w = (srv s)\<lparr>db := (db (srv s))\<lparr>faults := fs\<rparr>\<rparr>"
      using authenticate_frame [of ?hdr "srv s"] by auto
    then have "site_ok (s\<lparr>srv := w\<rparr>)"
      using that(1) db_good_step [OF driver_step] by (simp add: site_ok_def)
    then show ?thesis using that(2) by (simp add: authenticated_def a Let_def split: sum.split)
  qed
  have route: "site_ok (snd (f e h q s))"
    if "map_of rs k = Some f" "\<forall>p\<in>set rs. safe (snd p)" "site_ok s" for rs k f q s
    using that by (auto simp: safe_def dest!: map_of_SomeD)
  have health: "\<forall>p\<in>set open_routes. safe (snd p)" by (simp add: open_routes_def safe_health)
  have "site_ok (snd (dispatch e h s))" if s: "site_ok s" for s
  proof (cases "out_route e (hq_method h) (hq_path h)")
    case (Some x)
    obtain k ps where x: "x = (k, ps)" by (cases x)
    consider f where "map_of open_routes k = Some f"
      | f where "map_of open_routes k = None" "map_of public_routes k = Some f"
      | f where "map_of open_routes k = None" "map_of public_routes k = None" "map_of protected_routes k = Some f"
      | "map_of open_routes k = None" "map_of public_routes k = None" "map_of protected_routes k = None"
      by (cases "map_of open_routes k"; cases "map_of public_routes k"; cases "map_of protected_routes k") blast+
    then show ?thesis
    proof cases
      case 1
      then show ?thesis using route [OF 1 health s] by (simp add: dispatch_def Some x)
    next
      case (2 f)
      then show ?thesis using site_ok_limited [OF s route [OF 2(2) safe_public]]
        by (simp add: dispatch_def Some x)
    next
      case (3 f)
      then show ?thesis using site_ok_limited [OF s auth [OF _ route [OF 3(3) safe_protected]]]
        by (simp add: dispatch_def Some x)
    qed (simp add: dispatch_def Some x s)
  qed (simp add: dispatch_def s)
  then show "site_ok s \<Longrightarrow> site_ok (snd (serve e h s))"
    unfolding serve_def by (intro site_ok_limited)
qed

section \<open>Frames\<close>

lemma step_to_db: "runs (ws_op me) A w v \<Longrightarrow> runs db_step A w v"
  by (rule runs_mono [OF ws_op_db_step])

lemma admit_ok:
  assumes "db_good (db w)" "hub_ok w" "r < next_ref w"
  shows "db_good (db (ws_admit r m w)) \<and> hub_ok (ws_admit r m w)"
proof -
  define l where "l = login (mb_ID m) (mb_Name m) (mb_Type m = ''agent'') r w"
  have l: "db_good (db l)" "hub_ok l" "r < next_ref l" "c_authenticated (heap l r)"
    using assms conns_ops(1) [of w]
    by (auto simp: l_def hub_ok_def login_def hub_wf_Add Add_fields split: option.split)
  have "runs db_step (\<lambda>_. False) l (subscribeMemberChannels r (mb_ID m) l)"
    unfolding subscribeMemberChannels_def Let_def
  proof (rule db_logic.runs_with_ctx [OF runs_refl])
    fix chs v assume v: "runs db_step (\<lambda>_. False) l v"
    have "runs db_step (\<lambda>_. False) l (fold (\<lambda>ch w. snd (join ch r w)) cs v)" for cs
      by (rule db_logic.runs_fold [OF db_logic.runs_join v]) (auto dest: runs_keptD simp: l(3,4))
    then show "runs db_step (\<lambda>_. False) l (case chs of Inl e \<Rightarrow> v | Inr cs \<Rightarrow> fold (\<lambda>ch w. snd (join ch r w)) cs v)"
      using v by (simp split: sum.split)
  qed (rule can_rules)
  then have "runs db_step (\<lambda>_. False) l (ws_admit r m w)"
    unfolding ws_admit_def l_def [symmetric] Let_def
    by (intro db_logic.runs_presence_update db_logic.runs_reply)
  then show ?thesis using runs_ok l by blast
qed

lemma frame_ok:
  assumes "db_good (db w)" "hub_ok w" "r < next_ref w"
  shows "db_good (db (handleWSEvent r e w)) \<and> hub_ok (handleWSEvent r e w)"
proof (cases "env_Type e = ''auth.login''")
  case False
  then show ?thesis
    using runs_ok [OF step_to_db [OF obeys_event [OF assms(3) False]] assms(1,2)] by simp
next
  case True
  then have h: "handleWSEvent r e w = handleWSAuthLogin r (env_Data e) w"
    by (simp add: handleWSEvent_def ws_handlers_def)
  show ?thesis
  proof (cases rule: login_shape [of "''''" "\<lambda>_. False" w r "env_Data e"])
    case refused
    then show ?thesis using runs_ok [OF step_to_db assms(1,2)] by (simp add: h)
  next
    case (admitted d m fs)
    have "db_good ((db w)\<lparr>faults := fs\<rparr>)" using db_good_step [OF driver_step assms(1)] .
    then show ?thesis using admit_ok [of "w\<lparr>db := (db w)\<lparr>faults := fs\<rparr>\<rparr>" r m] assms
      by (simp add: h admitted(3))
  qed
qed

lemma timeout_ok:
  assumes "db_good (db w)" "hub_ok w"
  shows "db_good (db (auth_timeout r w)) \<and> hub_ok (auth_timeout r w)"
proof -
  have "db_good (db (ws_err r t w)) \<and> hub_ok (ws_err r t w)" for t
    by (rule runs_ok [OF db_logic.runs_ws_err [OF runs_refl] assms])
  then show ?thesis using assms by (simp add: auth_timeout_def hub_ok_def conn_inv_Close)
qed

section \<open>Steps\<close>

text \<open>
  Each request, frame and timer is one step, with whatever it takes from outside
  chosen afresh; a workflow run is one step too.  Connections are numbered by
  acceptance; only accepted ones send frames.
\<close>

inductive site_step :: "site \<Rightarrow> site \<Rightarrow> bool" where
  request_step: "site_step s (snd (serve e h s))"
| frame_step: "r < next_ref (srv s) \<Longrightarrow> site_step s (s\<lparr>srv := handleWSEvent r env (srv s)\<rparr>)"
| pump_step: "site_step s (s\<lparr>srv := upd_conn (\<lambda>c. snd (WritePump p c)) r (srv s)\<rparr>)"
| silent_step: "site_step s (s\<lparr>srv := auth_timeout r (srv s)\<rparr>)"
| leave_step: "site_step s (s\<lparr>srv := ReadPump_exit r (srv s)\<rparr>)"
| drafts_step: "site_step s (s\<lparr>srv := snd (on_db ExpireDrafts (srv s))\<rparr>)"
| cron_step: "site_step s (s\<lparr>srv := snd (runCronWorkflow eng flow (srv s))\<rparr>)"
| event_step: "site_step s (s\<lparr>srv := TriggerWorkflowByEvent eng wid ev data (srv s)\<rparr>)"
| states_step: "site_step s (s\<lparr>pending_states := expire_states t (pending_states s)\<rparr>)"
| buckets_step: "site_step s (s\<lparr>limiter := cleanup t (limiter s)\<rparr>)"
| clock_step: "site_step s (s\<lparr>srv := (srv s)\<lparr>db := (db (srv s))\<lparr>now := t\<rparr>\<rparr>\<rparr>)"
| fault_step: "site_step s (s\<lparr>srv := (srv s)\<lparr>db := (db (srv s))\<lparr>faults := fs\<rparr>\<rparr>\<rparr>)"
| close_step: "site_step s (s\<lparr>srv := hub_Close (srv s)\<rparr>)"

text \<open>The server as server.New leaves it: an empty hub, a fresh database with the built-in templates.\<close>

definition fresh_site :: "site \<Rightarrow> bool" where
  "fresh_site s \<longleftrightarrow>
     (\<exists>t us. db (srv s) = seed_templates (store0 t us)) \<and>
     (\<exists>o'. net.truncate (srv s) = SetAllowedOrigin o' NewHub) \<and>
     pending_states s = [] \<and> (\<exists>l. limiter s = NewRateLimiter l)"

inductive site_reach :: "site \<Rightarrow> bool" where
  site_start: "fresh_site s \<Longrightarrow> site_reach s"
| site_next: "site_reach s \<Longrightarrow> site_step s s' \<Longrightarrow> site_reach s'"

lemma fresh_ok: "fresh_site s \<Longrightarrow> site_ok s"
proof -
  assume "fresh_site s"
  then obtain t us o' l where s: "db (srv s) = seed_templates (store0 t us)"
      "net.truncate (srv s) = SetAllowedOrigin o' NewHub" "pending_states s = []" "limiter s = NewRateLimiter l"
    by (auto simp: fresh_site_def)
  have "hub_ok (SetAllowedOrigin o' NewHub)"
    by (simp add: hub_ok_def hub_wf_def SetAllowedOrigin_def NewHub_def conn_inv_NewConn)
  then have "hub_ok (srv s)" by (metis s(2) hub_ok_truncate)
  then show ?thesis
    using s db_good_fresh [of t us] by (simp add: site_ok_def NewRateLimiter_def)
qed

lemma site_step_ok: "site_step s s' \<Longrightarrow> site_ok s \<Longrightarrow> site_ok s'"
proof (induction rule: site_step.induct)
  case (request_step s e h)
  then show ?case by (rule safe_serve)
next
  case (frame_step r s env)
  then show ?case using frame_ok by (auto simp: site_ok_def)
next
  case (silent_step s r)
  then show ?case using timeout_ok by (auto simp: site_ok_def)
next
  case (leave_step s r)
  moreover have "db (ReadPump_exit r w) = db w" for w :: world
    by (simp add: ReadPump_exit_def upd_conn_def Remove_def Let_def)
  ultimately show ?case by (auto simp: site_ok_def hub_ok_def ReadPump_exit_def hub_wf_Remove conn_inv_Close)
next
  case (drafts_step s)
  have "can db_step ExpireDrafts w" for w by (rule db_logic.can_one, rule db_step.intros)
  from site_ok_runs(1) [OF drafts_step db_logic.rest_snd_db [OF runs_refl this]] show ?case .
next
  case (cron_step s eng flow)
  from site_ok_runs(1) [OF cron_step w_background(2) [OF runs_refl]] show ?case .
next
  case (event_step s eng wid ev data)
  from site_ok_runs(1) [OF event_step w_background(1) [OF runs_refl]] show ?case .
next
  case (states_step s t)
  then show ?case by (simp add: site_ok_def expire_states_def distinct_map_filter)
next
  case (buckets_step s t)
  then show ?case by (simp add: site_ok_def cleanup_def distinct_map_filter)
next
  case (clock_step s t)
  then show ?case using db_good_step [OF time_step] by (simp add: site_ok_def)
next
  case (fault_step s fs)
  then show ?case using db_good_step [OF driver_step] by (simp add: site_ok_def)
next
  case (close_step s)
  moreover have "db (hub_Close w) = db w" for w :: world
  proof -
    have "db (fold (upd_conn f) rs v) = db v" for f rs and v :: world
      by (induction rs arbitrary: v) simp_all
    then show ?thesis by (simp add: hub_Close_def)
  qed
  ultimately show ?case using conns_ops(5) by (auto simp: site_ok_def hub_ok_def hub_wf_hub_Close)
next
  case (pump_step s p r)
  then show ?case by (simp add: site_ok_def hub_ok_def conn_inv_WritePump)
qed

lemma site_reach_ok: "site_reach s \<Longrightarrow> site_ok s"
  by (induction rule: site_reach.induct) (auto intro: fresh_ok site_step_ok)

section \<open>Properties\<close>

definition first_site :: site where
  "first_site = \<lparr>srv = world0 (seed_templates (store0 7 (\<lambda>n. ''u''))),
     files_on = \<lparr>baseDir = ''data/files'', files = [], os_fails = (\<lambda>p. None)\<rparr>,
     pending_states = [], limiter = NewRateLimiter 100\<rparr>"

definition sample_outside :: outside where
  "sample_outside = \<lparr>out_route = (\<lambda>m p. if p = ''/v1/workspaces'' then Some ((m, p), []) else None),
     out_month = (\<lambda>t. (0, 1)), out_sniff = (\<lambda>x. ''text/plain''), out_lower = (\<lambda>x. x),
     out_fts = (\<lambda>x y. False), out_mkdir = True, out_moment = (\<lambda>t. ''''),
     out_stripe = NewStripeService (\<lambda>k. ''''), out_checkout = (\<lambda>c. None), out_portal = (\<lambda>a b. None),
     out_net = \<lparr>do_http = (\<lambda>r. Inl ''''), parse_json = (\<lambda>s. None), json_error = (\<lambda>s. '''')\<rparr>,
     out_github_url = None, out_github = None, out_google_url = None, out_google = None,
     out_microsoft_url = None, out_microsoft = None\<rparr>"

definition ask :: "string \<Rightarrow> string \<Rightarrow> string \<Rightarrow> json option \<Rightarrow> http" where
  "ask m p cred b = \<lparr>hq_method = m, hq_path = p, hq_addr = ''10.0.0.1:5'', hq_header = [(''Authorization'', cred)],
     hq_query = [], hq_body = b, hq_form = BadForm, hq_stripe = None, hq_handshake = False\<rparr>"


lemma first_site_fresh: "fresh_site first_site"
proof -
  have "net.truncate (world0 s) = SetAllowedOrigin '''' NewHub" for s
    by (simp add: world0_def NewHub_def SetAllowedOrigin_def net.truncate_def fun_eq_iff)
  moreover have "db (world0 s) = s" for s by (simp add: world0_def)
  ultimately show ?thesis by (auto simp: fresh_site_def first_site_def)
qed


section \<open>Who a request is served as\<close>

text \<open>The token an Authorization header presents.\<close>

definition credential :: "string \<Rightarrow> string" where
  "credential hdr = (if HasPrefix hdr ''Bearer '' then drop 7 hdr else if HasPrefix hdr ''ApiKey '' then drop 7 hdr else '''')"

lemma TrimPrefix_same: "HasPrefix hdr p \<Longrightarrow> p \<noteq> '''' \<Longrightarrow> TrimPrefix hdr p \<noteq> hdr"
  by (auto simp: TrimPrefix_def HasPrefix_def prefix_def)

lemma find_member:
  assumes "on_db (query (\<lambda>s. List.find P (t_members s))) w = (Inr (Some m), v)"
  shows "m \<in> set (t_members (db w)) \<and> P m"
proof -
  obtain fs where f: "v = w\<lparr>db := (db w)\<lparr>faults := fs\<rparr>\<rparr>"
    using lookup_frame [of "\<lambda>s. List.find P (t_members s)" w] assms by auto
  have "Some m = List.find P (t_members (db v))" using on_db_result [OF assms] by simp
  then show ?thesis using find_someD' f by fastforce
qed

lemma ValidateToken_frame: "ValidateToken tok w = (c, v) \<Longrightarrow> \<exists>fs. v = w\<lparr>db := (db w)\<lparr>faults := fs\<rparr>\<rparr>"
  using validate_runs [of "''''" "\<lambda>_. False" w tok] by auto

lemma authenticate_vouched:
  assumes "authenticate hdr w = (Inr m, w')"
  shows "vouches w (credential hdr) m"
proof -
  define tok where "tok = (let b = TrimPrefix hdr ''Bearer '' in if b = hdr then TrimPrefix hdr ''ApiKey '' else b)"
  have t: "tok \<noteq> hdr" "hdr \<noteq> ''''"
    using assms unfolding authenticate_def tok_def [unfolded Let_def, symmetric] Let_def
    by (auto split: if_splits)
  have cred: "credential hdr = tok"
    using t TrimPrefix_same [of hdr "''Bearer ''"]
    by (auto simp: tok_def credential_def TrimPrefix_def numeral_eq_Suc split: if_splits)
  obtain c v where c: "ValidateToken tok w = (c, v)" by force
  then obtain fs where v: "v = w\<lparr>db := (db w)\<lparr>faults := fs\<rparr>\<rparr>" using ValidateToken_frame by blast
  show ?thesis
  proof (cases c)
    case (Inl x)
    then obtain u where "on_db (GetMemberByAPIKey tok) v = (Inr (Some m), u)"
      using assms t c unfolding authenticate_def tok_def [unfolded Let_def, symmetric] Let_def
      by (auto split: prod.splits sum.splits option.splits)
    from find_member [OF this [unfolded GetMemberByAPIKey_def]] v show ?thesis
      by (auto simp: cred vouches_def nullStr_def split: if_splits)
  next
    case (Inr cl)
    then obtain u where "on_db (GetMember (cl_MemberID cl)) v = (Inr (Some m), u)"
      using assms t c unfolding authenticate_def tok_def [unfolded Let_def, symmetric] Let_def
      by (auto split: prod.splits sum.splits option.splits)
    from find_member [OF this [unfolded GetMember_def]] v validate_result [of tok w cl v] c Inr
    show ?thesis by (auto simp: cred vouches_def)
  qed
qed

text \<open>Nothing changed but the limiter's buckets and what the driver will do next.\<close>

definition looked_up :: "site \<Rightarrow> site \<Rightarrow> bool" where
  "looked_up s s' \<longleftrightarrow>
     (\<exists>rl fs. s' = s\<lparr>limiter := rl, srv := (srv s)\<lparr>db := (db (srv s))\<lparr>faults := fs\<rparr>\<rparr>\<rparr>)"

lemma looked_up_refl: "looked_up s s"
  unfolding looked_up_def by (rule exI [of _ "limiter s"], rule exI [of _ "faults (db (srv s))"]) simp

lemma looked_up_trans:
  assumes "looked_up s t" "looked_up t u"
  shows "looked_up s u"
proof -
  from assms(1) obtain rl fs where t: "t = s\<lparr>limiter := rl, srv := (srv s)\<lparr>db := (db (srv s))\<lparr>faults := fs\<rparr>\<rparr>\<rparr>"
    by (auto simp: looked_up_def)
  from assms(2) obtain rl' fs' where "u = t\<lparr>limiter := rl', srv := (srv t)\<lparr>db := (db (srv t))\<lparr>faults := fs'\<rparr>\<rparr>\<rparr>"
    by (auto simp: looked_up_def)
  then have "u = s\<lparr>limiter := rl', srv := (srv s)\<lparr>db := (db (srv s))\<lparr>faults := fs'\<rparr>\<rparr>\<rparr>"
    unfolding t by (cases s) simp
  then show ?thesis unfolding looked_up_def by blast
qed

lemma looked_up_limited:
  obtains (passed) s1 where "limited h k s = k s1" "looked_up s s1" "srv s1 = srv s"
  | (refused) r s1 where "limited h k s = (Json r, s1)" "status r = 429" "looked_up s s1"
proof -
  obtain ok rl where a: "rateLimitMiddleware (hq_addr h) (hq_method h) (now (db (srv s)) * 10 ^ 6) (limiter s) = (ok, rl)"
    by force
  have l: "looked_up s (s\<lparr>limiter := rl\<rparr>)"
    unfolding looked_up_def by (rule exI [of _ rl], rule exI [of _ "faults (db (srv s))"]) simp
  have e: "limited h k s = (if ok then k (s\<lparr>limiter := rl\<rparr>)
      else (Json (writeErrorCode 429 ''RATE_LIMITED'' ''rate limit exceeded''), s\<lparr>limiter := rl\<rparr>))"
    unfolding limited_def a Let_def prod.case ..
  show ?thesis
  proof (cases ok)
    case True
    then show ?thesis using passed [OF _ l] by (simp add: e)
  next
    case False
    then show ?thesis using refused [OF _ _ l] by (simp add: e writeErrorCode_def writeJSON_def)
  qed
qed

lemma authenticate_status: "authenticate hdr w = (Inl r, w') \<Longrightarrow> status r = 401 \<or> status r = 500"
  by (auto simp: authenticate_def Let_def writeErrorCode_def writeJSON_def serverError_def
      split: if_splits prod.splits sum.splits option.splits)

lemma authenticated_cases:
  obtains (member) m s1 where "authenticated h k s = k m s1" "looked_up s s1"
      "vouches (srv s) (credential (header_get (hq_header h) ''Authorization'')) m"
  | (refused) r s1 where "authenticated h k s = (Json r, s1)" "status r = 401 \<or> status r = 500" "looked_up s s1"
proof -
  let ?hdr = "header_get (hq_header h) ''Authorization''"
  obtain x w where a: "authenticate ?hdr (srv s) = (x, w)" by force
  then obtain fs where w: "w = (srv s)\<lparr>db := (db (srv s))\<lparr>faults := fs\<rparr>\<rparr>"
    using authenticate_frame [of ?hdr "srv s"] by auto
  have l: "looked_up s (s\<lparr>srv := w\<rparr>)"
    unfolding looked_up_def w by (rule exI [of _ "limiter s"], rule exI [of _ fs]) simp
  show ?thesis
  proof (cases x)
    case (Inl r)
    then show ?thesis using a authenticate_status [of ?hdr "srv s" r w] refused [OF _ _ l]
      by (simp add: authenticated_def)
  next
    case (Inr m)
    then show ?thesis using a authenticate_vouched [of ?hdr "srv s" m w] member [OF _ l]
      by (simp add: authenticated_def)
  qed
qed

lemma protected_cases:
  assumes "out_route e (hq_method h) (hq_path h) = Some (k, ps)"
    and "map_of open_routes k = None" "map_of public_routes k = None" "map_of protected_routes k = Some f"
  shows "(\<exists>m s1. vouches (srv s) (credential (header_get (hq_header h) ''Authorization'')) m \<and> looked_up s s1
        \<and> serve e h s = f e h (the_request h ps (Some m)) s1)
    \<or> (\<exists>r s1. serve e h s = (Json r, s1) \<and> status r \<in> {401, 429, 500} \<and> looked_up s s1)"
proof -
  let ?k = "\<lambda>me. f e h (the_request h ps (Some me))"
  have d: "dispatch e h = limited h (authenticated h ?k)"
    using assms by (simp add: dispatch_def fun_eq_iff)
  show ?thesis
  proof (cases rule: looked_up_limited [of h "dispatch e h" s])
    case (passed s1)
    note one = passed
    show ?thesis
    proof (cases rule: looked_up_limited [of h "authenticated h ?k" s1])
      case (passed s2)
      note two = passed
      then have l: "looked_up s s2" using one looked_up_trans by blast
      show ?thesis
      proof (cases rule: authenticated_cases [of h ?k s2])
        case (member m s3)
        then show ?thesis using one two looked_up_trans [OF l] by (auto simp: serve_def d)
      next
        case (refused r s3)
        then show ?thesis using one two looked_up_trans [OF l] by (auto simp: serve_def d)
      qed
    next
      case (refused r s2)
      then show ?thesis using one looked_up_trans by (fastforce simp: serve_def d)
    qed
  next
    case (refused r s1)
    then show ?thesis by (auto simp: serve_def)
  qed
qed

text \<open>
  C2: A request to a protected route either runs the route's handler as a member whom
  the presented credential vouches for (a valid, unrevoked token naming that member,
  or that member's API key), on a state where nothing but the limiter's buckets
  changed; or it is refused with 401, 429 or 500, and then nothing else changed at all.
\<close>

theorem protected_requests:
  assumes "out_route e (hq_method h) (hq_path h) = Some (k, ps)"
    and "map_of open_routes k = None" "map_of public_routes k = None" "map_of protected_routes k = Some f"
  shows "(\<exists>m s1. vouches (srv s) (credential (header_get (hq_header h) ''Authorization'')) m \<and> looked_up s s1
        \<and> serve e h s = f e h (the_request h ps (Some m)) s1)
    \<or> (\<exists>r s1. serve e h s = (Json r, s1) \<and> status r \<in> {401, 429, 500} \<and> looked_up s s1)"
  by (rule protected_cases [OF assms])

theorem protected_requests_witness:
  "\<exists>r s1. serve sample_outside (ask ''GET'' ''/v1/workspaces'' ''Bearer no'' None) first_site = (Json r, s1)
     \<and> status r \<in> {401, 429, 500} \<and> looked_up first_site s1"
proof -
  let ?h = "ask ''GET'' ''/v1/workspaces'' ''Bearer no'' None"
  have r: "out_route sample_outside (hq_method ?h) (hq_path ?h) = Some ((''GET'', ''/v1/workspaces''), [])"
    by (simp add: sample_outside_def ask_def)
  have "header_get (hq_header ?h) ''Authorization'' = ''Bearer no''" by code_simp
  then have "\<not> vouches (srv first_site) (credential (header_get (hq_header ?h) ''Authorization'')) m" for m
    by (simp add: vouches_def first_site_def credential_def HasPrefix_def world0_def)
      (simp add: seed_templates_def store0_def)
  moreover have "map_of open_routes (''GET'', ''/v1/workspaces'') = None"
    "map_of public_routes (''GET'', ''/v1/workspaces'') = None"
    by (simp_all add: open_routes_def public_routes_def)
  moreover have "map_of protected_routes (''GET'', ''/v1/workspaces'') = Some (plain (\<lambda>e h. handleListWorkspaces))"
    by (simp add: protected_routes_def chat_routes_def)
  ultimately show ?thesis
    using protected_requests [OF r] by blast
qed

end
