(* ===== verification/Reads.thy ===== *)
theory Reads
  imports System
begin

text \<open>
  Reading is safe: the walk of Rest_Logic for a server on which nothing changes but
  the driver's next faults, once through every handler behind a protected GET route.
\<close>

section \<open>Looking without touching\<close>

definition peeked :: "store \<Rightarrow> store \<Rightarrow> bool" where
  "peeked s s' \<longleftrightarrow> (\<exists>fs. s' = s\<lparr>faults := fs\<rparr>)"

definition glanced :: "world \<Rightarrow> world \<Rightarrow> bool" where
  "glanced w w' \<longleftrightarrow> (\<exists>fs. w' = w\<lparr>db := (db w)\<lparr>faults := fs\<rparr>\<rparr>)"

lemma peeked_steps: "peeked\<^sup>*\<^sup>* s s' \<Longrightarrow> peeked s s'"
  by (induction rule: rtranclp_induct) (auto simp: peeked_def intro: exI [of _ "faults s"])

lemma glanced_refl: "glanced w w"
  unfolding glanced_def by (rule exI [of _ "faults (db w)"]) simp

interpretation look: walk peeked "glanced w0" for w0
proof
  show "peeked s (snd (take_fault s))" for s using take_fault_frame by (simp add: peeked_def)
  show "glanced w0 (w\<lparr>db := s\<rparr>)" if "glanced w0 w" "peeked\<^sup>*\<^sup>* (db w) s" for w s
    using that(1) peeked_steps [OF that(2)] by (auto simp: glanced_def peeked_def)
qed

definition looks :: "(world \<Rightarrow> 'a \<times> world) \<Rightarrow> bool" where
  "looks h \<longleftrightarrow> (\<forall>w. glanced w (snd (h w)))"

lemma looksI: "(\<And>w0 w. glanced w0 w \<Longrightarrow> glanced w0 (snd (h w))) \<Longrightarrow> looks h"
  using glanced_refl by (auto simp: looks_def)

lemmas look_rules = look.walk_rules look.can_lookup look.can_lookup2 look.can_get look.can_search look.can_version look.can_if

lemma look_chat:
  "looks (handleListMessages q)" "looks (handleGetThread q)" "looks (handleSearch fts q)"
  "looks (handleGetEditHistory q)" "looks (handleListChannels q)" "looks (handleGetChannel q)"
  "looks (handleSearchChannels q)" "looks (handleListDMs q)" "looks (handleGetUnread q)"
  "looks (handleListReactions q)" "looks (handleListPins q)"
  by (rule looksI, (unfold guard_defs
    handleListMessages_def handleGetThread_def handleSearch_def handleGetEditHistory_def handleListChannels_def
    handleGetChannel_def handleSearchChannels_def handleListDMs_def handleGetUnread_def
    handleListReactions_def handleListPins_def)[1], (intro look_rules; assumption)[1])+

lemma look_members:
  "looks (handleListWorkspaces q)" "looks (handleGetWorkspace q)" "looks (handleListMembers q)"
  "looks (handleGetMember q)" "looks (handleMyProfile q)" "looks (handleListMemory q)"
  "looks (handleGetAgentMetrics q)" "looks (handleListAgents q)" "looks (handleAdminStats q)"
  "looks (handleAdminListWorkspaces q)"
  by (rule looksI, (unfold guard_defs
    handleGetWorkspace_def handleListMembers_def handleGetMember_def handleMyProfile_def
    handleListMemory_def handleGetAgentMetrics_def handleListAgents_def handleAdminStats_def
    handleAdminListWorkspaces_def)[1], (intro look_rules; assumption)[1])+

lemma look_work:
  "looks (handleListTasks q)" "looks (handleListApprovals q)" "looks (handleGetApproval q)"
  "looks (handleListNotifications q)" "looks (handleCountUnreadNotifications q)" "looks (handleListWebhooks q)"
  "looks (handleListAgentInbox q)" "looks (handleCountAgentInbox q)" "looks (handleListDrafts q)"
  "looks (handleListWorkspaceItems q)" "looks (handleSearchWorkspaceItems q)" "looks (handleGetWorkspaceItem q)"
  by (rule looksI, (unfold guard_defs
    handleListTasks_def handleListApprovals_def handleGetApproval_def handleListNotifications_def
    handleCountUnreadNotifications_def handleListWebhooks_def handleListAgentInbox_def
    handleCountAgentInbox_def handleListDrafts_def handleListWorkspaceItems_def
    handleSearchWorkspaceItems_def handleGetWorkspaceItem_def)[1], (intro look_rules; assumption)[1])+

lemma look_extra:
  "looks (handleListIntegrations p q)" "looks (handleGetIntegration p q)" "looks (handleListWorkspaceIntegrations p q)"
  "looks (handleGetKeys q)" "looks (handleGetEncrypted q)" "looks (handleGetBilling q)" "looks (handleGetUsage q)"
  by (rule looksI, (unfold guard_defs
    handleListIntegrations_def handleGetIntegration_def handleListWorkspaceIntegrations_def
    handleGetKeys_def handleGetEncrypted_def handleGetBilling_def handleGetUsage_def)[1],
    (intro look_rules; assumption)[1])+

lemma look_download: "looks (\<lambda>w. handleDownloadFile q (w, d))" "looks (handleGetFile q)" "looks (handleListFiles q)"
proof -
  have fetch: "glanced w0 (snd (case the_file q w of (f, v) \<Rightarrow> k f v))"
    if "glanced w0 w" "\<And>f v. glanced w0 v \<Longrightarrow> glanced w0 (snd (k f v))" for w0 w k
  proof -
    have "glanced w0 (snd (the_file q w))"
      unfolding the_file_def Let_def by (intro look_rules look.rest_pair that(1); assumption)
    then show ?thesis using that(2) by (cases "the_file q w") simp
  qed
  show "looks (\<lambda>w. handleDownloadFile q (w, d))" "looks (handleGetFile q)"
    by (rule looksI, simp add: handleDownloadFile_def handleGetFile_def, erule fetch,
        auto simp: respond_def split: sum.split option.split)+
  show "looks (handleListFiles q)"
    unfolding handleListFiles_def by (rule looksI) (intro look_rules; assumption)
qed

lemmas look_all = look_chat look_members look_work look_extra look_download

text \<open>A route that stores nothing: not in the database, not on disk, not in memory.\<close>

definition stores_nothing :: "handler \<Rightarrow> bool" where
  "stores_nothing f \<longleftrightarrow> (\<forall>e h q s. looked_up s (snd (f e h q s)))"

lemma glanced_looked_up: "glanced (srv s) w \<Longrightarrow> looked_up s (s\<lparr>srv := w\<rparr>)"
  unfolding glanced_def looked_up_def by (elim exE, rule exI [of _ "limiter s"]) auto

lemma stores_plain: "(\<And>e h q. looks (f e h q)) \<Longrightarrow> stores_nothing (plain f)"
  by (simp add: stores_nothing_def plain_def looks_def split_beta glanced_looked_up)

lemma stores_download: "stores_nothing downloading"
  using look_download(1)
  by (simp add: stores_nothing_def downloading_def looks_def split_beta glanced_looked_up)

lemma admin_agents_looks: "looks (handleAdminListAgents q)"
proof -
  have f: "glanced w0 (snd (fold admin_agents wss (acc, w)))" if "glanced w0 w" for w0 w wss acc
    using that
  proof (induction wss arbitrary: acc w)
    case (Cons x wss)
    obtain ms v where m: "on_db (ListMembers (ws_ID x)) w = (ms, v)" by fastforce
    have "glanced w0 v" using look.rest_snd_db [OF Cons.prems look.can_lookup(4), of "ws_ID x"] m by simp
    then show ?case using Cons.IH by (simp add: admin_agents_def m)
  qed simp
  have g: "glanced w0 (snd (case fold admin_agents wss ([], w) of (js, w) \<Rightarrow> respond 200 (JArr js) w))"
    if "glanced w0 w" for w0 w wss
    using f [OF that, of wss "[]"] by (cases "fold admin_agents wss ([], w)") (simp add: respond_def)
  show ?thesis unfolding handleAdminListAgents_def Let_def
    by (rule looksI) (intro look_rules g; assumption)
qed

lemma get_routes: "\<forall>p\<in>set protected_routes. fst (fst p) = ''GET'' \<longrightarrow> stores_nothing (snd p)"
proof -
  have "\<forall>p\<in>set chat_routes. fst (fst p) = ''GET'' \<longrightarrow> stores_nothing (snd p)"
    unfolding chat_routes_def
    by (simp add: stores_plain look_all admin_agents_looks)
  moreover have "\<forall>p\<in>set work_routes. fst (fst p) = ''GET'' \<longrightarrow> stores_nothing (snd p)"
    unfolding work_routes_def by (simp add: stores_plain stores_download look_all)
  moreover have "\<forall>p\<in>set agent_routes. fst (fst p) = ''GET'' \<longrightarrow> stores_nothing (snd p)"
    unfolding agent_routes_def by (simp add: stores_plain look_all)
  ultimately show ?thesis by (auto simp: protected_routes_def)
qed

text \<open>
  C26: Reading is safe: whatever the caller, the path, the parameters and the state, a
  GET request to a protected route changes no table of the database, no file, no
  pending login and nothing of the hub; only the limiter's buckets move.
\<close>

theorem get_stores_nothing:
  assumes "out_route e (hq_method h) (hq_path h) = Some ((''GET'', pat), ps)"
    and "map_of open_routes (''GET'', pat) = None" "map_of public_routes (''GET'', pat) = None"
    and "map_of protected_routes (''GET'', pat) = Some f"
  shows "looked_up s (snd (serve e h s))"
proof -
  have "stores_nothing f" using get_routes map_of_SomeD [OF assms(4)] by fastforce
  then have f: "looked_up t (snd (f e h q t))" for q t by (simp add: stores_nothing_def)
  show ?thesis using protected_cases [OF assms, of s] looked_up_trans [OF _ f] by auto
qed

theorem get_stores_nothing_witness:
  "looked_up first_site (snd (serve sample_outside (ask ''GET'' ''/v1/workspaces'' ''Bearer no'' None) first_site))"
  by (rule get_stores_nothing [of _ _ "''/v1/workspaces''"])
     (simp_all add: sample_outside_def ask_def open_routes_def public_routes_def protected_routes_def chat_routes_def)

end
