(* ===== verification/Sessions.thy ===== *)
theory Sessions
  imports System
begin

text \<open>
  A member's session: what a login hands out is accepted until it expires or is
  revoked, and a logout revokes it.
\<close>

lemma query_quiet: "faults s = [] \<Longrightarrow> query f s = (Inr (f s), s)"
  by (simp add: query_def take_fault_def)

lemma authenticate_token:
  assumes "jwt_parse w (jwt_secret w) (now (db w)) tok = Some c" "faults (db w) = []"
    and "cl_ID c \<notin> fst ` set (t_blacklist (db w))"
    and "List.find (\<lambda>x. mb_ID x = cl_MemberID c) (t_members (db w)) = Some m"
  shows "authenticate (''Bearer '' @ tok) w = (Inr m, w)"
proof -
  have free: "filter (\<lambda>p. fst p = cl_ID c) (t_blacklist (db w)) = []"
    using assms(3) by (metis (mono_tags, lifting) filter_False image_eqI)
  have "ValidateToken tok w = (Inr c, w)"
    using assms(1,2) free by (simp add: ValidateToken_def on_db_def IsTokenBlacklisted_def query_quiet)
  then show ?thesis
    using assms(2,4) by (simp add: authenticate_def TrimPrefix_def HasPrefix_def on_db_def GetMember_def query_quiet)
qed

lemma issued:
  assumes "GenerateToken mid wid w = (Some (tok, jti), w')"
  shows "jwt_sign w (jwt_secret w) \<lparr>cl_MemberID = mid, cl_WorkspaceID = wid, cl_ID = jti,
    cl_ExpiresAt = (now (db w) + 86400000) div 1000, cl_IssuedAt = now (db w) div 1000, cl_Issuer = ''lark''\<rparr> = Some tok"
  using assms by (auto simp: GenerateToken_def read_random_def Let_def split: option.splits if_splits)

text \<open>
  C24: A login opens a session: whoever logs in with a member's email and password gets
  a token that authenticates requests as that member, in every later state of the
  server, until 24 hours have passed or the token's identifier is on the blacklist.
  (The JWT library reads back the claims of a token signed with the same secret as long
  as it has not expired.)
\<close>

theorem login_session:
  assumes "handleLogin q w = (r, w1)" "status r = 200"
    and "\<And>c tok t. jwt_sign w (jwt_secret w) c = Some tok \<Longrightarrow> t div 1000 < cl_ExpiresAt c \<Longrightarrow>
      jwt_parse w (jwt_secret w) t tok = Some c"
  shows "\<exists>m tok jti. body r = Some (str_obj [(''member_id'', mb_ID m), (''name'', mb_Name m), (''token'', tok),
        (''workspace_id'', mb_WorkspaceID m)]) \<and> m \<in> set (t_members (db w))
    \<and> (\<exists>email pw. unmarshal_strs [''email'', ''password''] (rq_body q) = Some [email, pw]
        \<and> mb_Email m = email \<and> bcrypt_ok w (mb_PasswordHash m) pw)
    \<and> (\<forall>w2 m2. jwt_parse w2 = jwt_parse w \<and> jwt_secret w2 = jwt_secret w \<and> faults (db w2) = []
        \<and> now (db w2) div 1000 < (now (db w) + 86400000) div 1000 \<and> jti \<notin> fst ` set (t_blacklist (db w2))
        \<and> List.find (\<lambda>x. mb_ID x = mb_ID m) (t_members (db w2)) = Some m2
        \<longrightarrow> authenticate (''Bearer '' @ tok) w2 = (Inr m2, w2))"
proof -
  obtain fs m v tok jti where fs: "unmarshal_strs [''email'', ''password''] (rq_body q) = Some fs" "fs ! 0 \<noteq> ''''"
    and m: "on_db (GetMemberByEmail (fs ! 0)) w = (Inr (Some m), v)" "bcrypt_ok v (mb_PasswordHash m) (fs ! 1)"
    and tok: "GenerateToken (mb_ID m) (mb_WorkspaceID m) v = (Some (tok, jti), w1)"
    and r: "body r = Some (str_obj [(''member_id'', mb_ID m), (''name'', mb_Name m), (''token'', tok), (''workspace_id'', mb_WorkspaceID m)])"
    using assms(1,2)
    by (auto simp: handleLogin_def strs_body_def decoded_def refuse_def try_db_def try_svc_def with_token_def respond_def
        writeError_def writeErrorCode_def writeJSON_def serverError_def Let_def
        split: option.splits if_splits prod.splits sum.splits)
  obtain email pw where ep: "fs = [email, pw]"
    using unmarshal_strs_length [OF fs(1)] by (auto simp: length_Suc_conv numeral_eq_Suc)
  obtain k where v: "v = w\<lparr>db := (db w)\<lparr>faults := k\<rparr>\<rparr>"
    using lookup_frame [of _ w] m(1) unfolding GetMemberByEmail_def by (metis snd_conv)
  have found: "m \<in> set (t_members (db w)) \<and> nullStr (mb_Email m) = Some email"
    using find_member [OF m(1) [unfolded GetMemberByEmail_def]] by (simp add: ep)
  let ?c = "\<lparr>cl_MemberID = mb_ID m, cl_WorkspaceID = mb_WorkspaceID m, cl_ID = jti,
    cl_ExpiresAt = (now (db w) + 86400000) div 1000, cl_IssuedAt = now (db w) div 1000, cl_Issuer = ''lark''\<rparr>"
  have sign: "jwt_sign w (jwt_secret w) ?c = Some tok" using issued [OF tok] by (simp add: v)
  have later: "authenticate (''Bearer '' @ tok) w2 = (Inr m2, w2)"
    if "jwt_parse w2 = jwt_parse w" "jwt_secret w2 = jwt_secret w" "faults (db w2) = []"
      "now (db w2) div 1000 < (now (db w) + 86400000) div 1000" "jti \<notin> fst ` set (t_blacklist (db w2))"
      "List.find (\<lambda>x. mb_ID x = mb_ID m) (t_members (db w2)) = Some m2" for w2 m2
    using authenticate_token [of w2 tok ?c m2] assms(3) [OF sign, of "now (db w2)"] that by simp
  show ?thesis
    using r found fs(1) m(2) later
    by (intro exI [of _ m] exI [of _ tok] exI [of _ jti]) (auto simp: ep v nullStr_def split: if_splits)
qed


section \<open>A concrete session\<close>

definition session_member :: Member where
  "session_member = Member0\<lparr>mb_ID := ''m'', mb_WorkspaceID := ''w'', mb_Name := ''ann'', mb_Email := ''a@b'',
     mb_PasswordHash := ''secret''\<rparr>"

definition session_claims :: JWTClaims where
  "session_claims = \<lparr>cl_MemberID = ''m'', cl_WorkspaceID = ''w'', cl_ID = ''000102030405060708090a0b0c0d0e0f'',
     cl_ExpiresAt = 86400, cl_IssuedAt = 0, cl_Issuer = ''lark''\<rparr>"

definition session_world :: world where
  "session_world = (world0 ((store0 7 (\<lambda>n. ''u''))\<lparr>t_members := [session_member]\<rparr>))
     \<lparr>jwt_sign := (\<lambda>k c. if c = session_claims then Some ''T'' else None),
      jwt_parse := (\<lambda>k t tok. if tok = ''T'' \<and> t div 1000 < 86400 then Some session_claims else None)\<rparr>"

definition session_request :: "json option \<Rightarrow> string \<Rightarrow> request" where
  "session_request b a = \<lparr>rq_params = [], rq_query = [], rq_body = b, rq_auth = a, rq_member = Some session_member\<rparr>"

lemma session_eval:
  "db session_world = (store0 7 (\<lambda>n. ''u''))\<lparr>t_members := [session_member]\<rparr>"
  "jwt_parse session_world = (\<lambda>k t tok. if tok = ''T'' \<and> t div 1000 < 86400 then Some session_claims else None)"
  "jwt_sign session_world = (\<lambda>k c. if c = session_claims then Some ''T'' else None)"
  by (simp_all add: session_world_def world0_def)

theorem login_session_witness:
  "\<exists>tok. authenticate (''Bearer '' @ tok) session_world = (Inr session_member, session_world)"
proof -
  let ?q = "session_request (Some (str_obj [(''email'', ''a@b''), (''password'', ''secret'')])) ''''"
  have s: "status (fst (handleLogin ?q session_world)) = 200" by code_simp
  have law: "jwt_parse session_world (jwt_secret session_world) t tok = Some c"
    if "jwt_sign session_world (jwt_secret session_world) c = Some tok" "t div 1000 < cl_ExpiresAt c" for c tok t
    using that by (auto simp: session_eval session_claims_def split: if_splits)
  have "handleLogin ?q session_world = (fst (handleLogin ?q session_world), snd (handleLogin ?q session_world))" by simp
  from login_session [OF this s law] obtain m tok jti where m: "m \<in> set (t_members (db session_world))"
    and a: "\<And>w2 m2. jwt_parse w2 = jwt_parse session_world \<and> jwt_secret w2 = jwt_secret session_world \<and> faults (db w2) = []
        \<and> now (db w2) div 1000 < (now (db session_world) + 86400000) div 1000 \<and> jti \<notin> fst ` set (t_blacklist (db w2))
        \<and> List.find (\<lambda>x. mb_ID x = mb_ID m) (t_members (db w2)) = Some m2
        \<Longrightarrow> authenticate (''Bearer '' @ tok) w2 = (Inr m2, w2)"
    by blast
  have "m = session_member" using m by (simp add: session_eval)
  then have "authenticate (''Bearer '' @ tok) session_world = (Inr session_member, session_world)"
    by (intro a) (simp add: session_eval store0_def)
  then show ?thesis by blast
qed


end
