(* ===== verification/Server_Config.thy ===== *)
theory Server_Config
  imports System
begin

text \<open>
  internal/server: the configuration read from the environment (config.go), and what
  server.New makes of it (server.go): the server a process starts with, how it stops,
  and restarts.  Opening the database, creating directories, the S3 client and the
  listener are parameters; the ticker that expires drafts is a step of System.
\<close>

section \<open>Configuration\<close>

record Config =
  cfg_Host :: string
  cfg_Port :: int
  cfg_DBPath :: string
  cfg_DataDir :: string
  cfg_JWTSecret :: string
  cfg_LogLevel :: string
  cfg_LogFormat :: string
  cfg_CORSOrigin :: string
  cfg_TLSCert :: string
  cfg_TLSKey :: string
  cfg_RateLimit :: int
  cfg_StorageType :: string
  cfg_S3Bucket :: string
  cfg_S3Region :: string
  cfg_S3Endpoint :: string
  cfg_S3Key :: string
  cfg_S3Secret :: string
  cfg_GithubClientID :: string
  cfg_GithubSecret :: string
  cfg_GoogleClientID :: string
  cfg_GoogleSecret :: string
  cfg_MicrosoftClientID :: string
  cfg_MicrosoftSecret :: string

text \<open>An environment gives the empty string for a variable that is not set.\<close>

definition getEnv :: "(string \<Rightarrow> string) \<Rightarrow> string \<Rightarrow> string \<Rightarrow> string" where
  "getEnv env key fallback = (if env key \<noteq> '''' then env key else fallback)"

definition getEnvInt :: "(string \<Rightarrow> string) \<Rightarrow> string \<Rightarrow> int \<Rightarrow> int" where
  "getEnvInt env key fallback =
     (if env key \<noteq> '''' then (case Atoi (env key) of Some n \<Rightarrow> n | None \<Rightarrow> fallback) else fallback)"

definition LoadConfig :: "(string \<Rightarrow> string) \<Rightarrow> Config" where
  "LoadConfig env =
     \<lparr>cfg_Host = getEnv env ''LARK_HOST'' ''127.0.0.1'',
      cfg_Port = getEnvInt env ''LARK_PORT'' 4001,
      cfg_DBPath = getEnv env ''LARK_DB_PATH'' ''data/lark.db'',
      cfg_DataDir = getEnv env ''LARK_DATA_DIR'' ''data'',
      cfg_JWTSecret = getEnv env ''LARK_JWT_SECRET'' '''',
      cfg_LogLevel = getEnv env ''LARK_LOG_LEVEL'' ''info'',
      cfg_LogFormat = getEnv env ''LARK_LOG_FORMAT'' ''text'',
      cfg_CORSOrigin = getEnv env ''LARK_CORS_ORIGIN'' '''',
      cfg_TLSCert = getEnv env ''LARK_TLS_CERT'' '''',
      cfg_TLSKey = getEnv env ''LARK_TLS_KEY'' '''',
      cfg_RateLimit = getEnvInt env ''LARK_RATE_LIMIT'' 100,
      cfg_StorageType = getEnv env ''LARK_STORAGE_TYPE'' ''local'',
      cfg_S3Bucket = getEnv env ''LARK_S3_BUCKET'' '''',
      cfg_S3Region = getEnv env ''LARK_S3_REGION'' '''',
      cfg_S3Endpoint = getEnv env ''LARK_S3_ENDPOINT'' '''',
      cfg_S3Key = getEnv env ''LARK_S3_KEY'' '''',
      cfg_S3Secret = getEnv env ''LARK_S3_SECRET'' '''',
      cfg_GithubClientID = getEnv env ''LARK_GITHUB_CLIENT_ID'' '''',
      cfg_GithubSecret = getEnv env ''LARK_GITHUB_SECRET'' '''',
      cfg_GoogleClientID = getEnv env ''LARK_GOOGLE_CLIENT_ID'' '''',
      cfg_GoogleSecret = getEnv env ''LARK_GOOGLE_SECRET'' '''',
      cfg_MicrosoftClientID = getEnv env ''LARK_MICROSOFT_CLIENT_ID'' '''',
      cfg_MicrosoftSecret = getEnv env ''LARK_MICROSOFT_SECRET'' ''''\<rparr>"

definition Validate :: "Config \<Rightarrow> string option" where
  "Validate c =
     (if cfg_JWTSecret c = ''''
        then Some ''LARK_JWT_SECRET is required (generate with: openssl rand -hex 32)''
      else if cfg_Port c < 1 \<or> 65535 < cfg_Port c then Some ''LARK_PORT must be between 1 and 65535''
      else None)"

datatype log_level = LevelDebug | LevelInfo | LevelWarn | LevelError

definition parseLogLevel :: "string \<Rightarrow> log_level" where
  "parseLogLevel s =
     (let l = map lower_char s in
      if l = ''debug'' then LevelDebug else if l = ''warn'' then LevelWarn
      else if l = ''error'' then LevelError else LevelInfo)"

text \<open>slog orders its levels by these numbers; a handler passes a record on from its own level up.\<close>

primrec Level :: "log_level \<Rightarrow> int" where
  "Level LevelDebug = -4"
| "Level LevelInfo = 0"
| "Level LevelWarn = 4"
| "Level LevelError = 8"

lemma Level_inject: "Level a = Level b \<longleftrightarrow> a = b"
  by (cases a; cases b) simp_all

instantiation log_level :: linorder
begin

definition less_eq_log_level :: "log_level \<Rightarrow> log_level \<Rightarrow> bool" where
  "a \<le> b \<longleftrightarrow> Level a \<le> Level b"

definition less_log_level :: "log_level \<Rightarrow> log_level \<Rightarrow> bool" where
  "a < b \<longleftrightarrow> Level a < Level b"

instance
  by standard (auto simp: less_eq_log_level_def less_log_level_def Level_inject)

end

definition log_enabled :: "Config \<Rightarrow> log_level \<Rightarrow> bool" where
  "log_enabled c l \<longleftrightarrow> parseLogLevel (cfg_LogLevel c) \<le> l"

lemma errors_logged: "log_enabled c LevelError"
  by (cases "parseLogLevel (cfg_LogLevel c)") (simp_all add: log_enabled_def less_eq_log_level_def)

section \<open>Log-in providers\<close>

record oauth_config =
  oa_ClientID :: string
  oa_ClientSecret :: string
  oa_AuthURL :: string
  oa_TokenURL :: string
  oa_RedirectURL :: string
  oa_Scopes :: "string list"

definition scheme :: "Config \<Rightarrow> string" where
  "scheme c = (if cfg_TLSCert c \<noteq> '''' then ''https'' else ''http'')"

text \<open>Run serves TLS only when it has both files.\<close>

definition serves_tls :: "Config \<Rightarrow> bool" where
  "serves_tls c \<longleftrightarrow> cfg_TLSCert c \<noteq> '''' \<and> cfg_TLSKey c \<noteq> ''''"

definition addr :: "Config \<Rightarrow> string" where
  "addr c = cfg_Host c @ '':'' @ Itoa (cfg_Port c)"

definition callback_url :: "Config \<Rightarrow> string \<Rightarrow> string" where
  "callback_url c provider =
     scheme c @ ''://'' @ cfg_Host c @ '':'' @ Itoa (cfg_Port c) @ ''/v1/auth/'' @ provider @ ''/callback''"

definition githubOAuthCfg :: "Config \<Rightarrow> oauth_config option" where
  "githubOAuthCfg c =
     (if cfg_GithubClientID c \<noteq> '''' \<and> cfg_GithubSecret c \<noteq> ''''
      then Some \<lparr>oa_ClientID = cfg_GithubClientID c, oa_ClientSecret = cfg_GithubSecret c,
        oa_AuthURL = ''https://github.com/login/oauth/authorize'',
        oa_TokenURL = ''https://github.com/login/oauth/access_token'',
        oa_RedirectURL = callback_url c ''github'', oa_Scopes = [''read:user'', ''user:email'']\<rparr>
      else None)"

definition googleOAuthCfg :: "Config \<Rightarrow> oauth_config option" where
  "googleOAuthCfg c =
     (if cfg_GoogleClientID c \<noteq> '''' \<and> cfg_GoogleSecret c \<noteq> ''''
      then Some \<lparr>oa_ClientID = cfg_GoogleClientID c, oa_ClientSecret = cfg_GoogleSecret c,
        oa_AuthURL = ''https://accounts.google.com/o/oauth2/v2/auth'',
        oa_TokenURL = ''https://oauth2.googleapis.com/token'',
        oa_RedirectURL = callback_url c ''google'', oa_Scopes = [''openid'', ''email'', ''profile'']\<rparr>
      else None)"

definition microsoftOAuthCfg :: "Config \<Rightarrow> oauth_config option" where
  "microsoftOAuthCfg c =
     (if cfg_MicrosoftClientID c \<noteq> '''' \<and> cfg_MicrosoftSecret c \<noteq> ''''
      then Some \<lparr>oa_ClientID = cfg_MicrosoftClientID c, oa_ClientSecret = cfg_MicrosoftSecret c,
        oa_AuthURL = ''https://login.microsoftonline.com/common/oauth2/v2.0/authorize'',
        oa_TokenURL = ''https://login.microsoftonline.com/common/oauth2/v2.0/token'',
        oa_RedirectURL = callback_url c ''microsoft'', oa_Scopes = [''openid'', ''email'', ''profile'']\<rparr>
      else None)"

section \<open>Starting\<close>

text \<open>filepath.Dir.\<close>

definition path_Dir :: "string \<Rightarrow> string" where
  "path_Dir p = path_Clean (rev (dropWhile (\<lambda>c. c \<noteq> CHR ''/'') (rev p)))"

text \<open>
  The machine a process starts on: what creating a directory reports, the database
  NewSQLiteStore opens, the S3 store, and the clock, random source and libraries of
  the new server.
\<close>

record platform =
  pf_mkdir :: "string \<Rightarrow> string option"
  pf_open :: "string \<Rightarrow> string + store"
  pf_s3 :: "Config \<Rightarrow> string + disk"
  pf_world :: world

text \<open>storage.NewStore: every type but s3 is the local store.\<close>

definition NewStore :: "platform \<Rightarrow> Config \<Rightarrow> string + disk" where
  "NewStore pf c =
     (if cfg_StorageType c = ''s3'' then pf_s3 pf c
      else newLocalStore (path_Join [cfg_DataDir c, ''files'']) (pf_mkdir pf))"

text \<open>A new hub with the configured origin, and the configured secret, over the database.\<close>

definition new_world :: "Config \<Rightarrow> store \<Rightarrow> world \<Rightarrow> world" where
  "new_world c st w = w\<lparr>heap := heap NewHub, next_ref := next_ref NewHub, connections := connections NewHub,
     agents := agents NewHub, agentNames := agentNames NewHub, channels := channels NewHub,
     presence := presence NewHub, allowedOrigin := cfg_CORSOrigin c, daemons := daemons NewHub,
     daemonAgents := daemonAgents NewHub, db := st, jwt_secret := cfg_JWTSecret c\<rparr>"

definition New :: "platform \<Rightarrow> Config \<Rightarrow> string + site" where
  "New pf c =
     (case Validate c of
        Some e \<Rightarrow> Inl e
      | None \<Rightarrow>
          (case pf_mkdir pf (path_Dir (cfg_DBPath c)) of
             Some e \<Rightarrow> Inl (''create data dir: '' @ e)
           | None \<Rightarrow>
               (case pf_open pf (cfg_DBPath c) of
                  Inl e \<Rightarrow> Inl (''open database: '' @ e)
                | Inr st \<Rightarrow>
                    (case NewStore pf c of
                       Inl e \<Rightarrow> Inl (''storage init: '' @ e)
                     | Inr d \<Rightarrow> Inr \<lparr>srv = new_world c st (pf_world pf), files_on = d,
                         pending_states = [], limiter = NewRateLimiter (cfg_RateLimit c)\<rparr>))))"

section \<open>Stopping\<close>

text \<open>
  Run waits for a signal or for the listener's error, which it returns as it is.  After
  a signal it drains the HTTP server and closes the hub and the database; the first
  error is its result.  What draining and closing the database report are parameters.
\<close>

datatype stop_cause = Signalled | ListenFailed string

definition server_Close :: "site \<Rightarrow> site" where
  "server_Close s = s\<lparr>srv := hub_Close (srv s)\<rparr>"

definition Run_stops :: "stop_cause \<Rightarrow> string option \<Rightarrow> string option \<Rightarrow> site \<Rightarrow> string option \<times> site" where
  "Run_stops cause drained closed s =
     (case cause of
        ListenFailed e \<Rightarrow> (Some e, s)
      | Signalled \<Rightarrow> (case drained of Some e \<Rightarrow> Some e | None \<Rightarrow> closed, server_Close s))"

text \<open>A signal leaves no connection open and none registered, and the database as it was.\<close>

theorem signal_closes_connections:
  assumes "(i, r) \<in> set (connections (srv s))" "Run_stops Signalled e1 e2 s = (e, s')"
  shows "c_closed (heap (srv s') r) \<and> connections (srv s') = [] \<and> db (srv s') = db (srv s)"
proof -
  have s': "srv s' = hub_Close (srv s)" using assms(2) by (auto simp: Run_stops_def server_Close_def)
  have "r \<in> set (map snd (connections (srv s)))" using assms(1) by force
  then have "count_list (map snd (connections (srv s))) r \<noteq> 0" by (metis count_list_0_iff)
  then obtain k where "count_list (map snd (connections (srv s))) r = Suc k" by (cases "count_list (map snd (connections (srv s))) r") auto
  then have "c_closed (heap (srv s') r)"
    by (simp add: s' hub_Close_def heap_fold_upd_conn CloseWithMessage_def)
  moreover have "net.more (hub_Close (srv s)) = net.more (srv s)" by (simp add: hub_Close_def)
  then have "db (hub_Close (srv s)) = db (srv s)" by (cases "hub_Close (srv s)"; cases "srv s"; simp)
  ultimately show ?thesis by (simp add: s' hub_Close_def)
qed

section \<open>Properties\<close>

text \<open>What a restart finds in the database file: the tables, under a new clock and UUID source.\<close>

definition reopened :: "store \<Rightarrow> store \<Rightarrow> bool" where
  "reopened s s' \<longleftrightarrow> (\<exists>t us k fs. s' = s\<lparr>now := t, uuids := us, uuid_ctr := k, faults := fs\<rparr>)"

lemma reopened_good: "db_good s \<Longrightarrow> reopened s s' \<Longrightarrow> db_good s'"
proof -
  assume g: "db_good s" and "reopened s s'"
  then obtain t us k fs where s': "s' = s\<lparr>now := t, uuids := us, uuid_ctr := k, faults := fs\<rparr>"
    by (auto simp: reopened_def)
  have i: "ids s' = ids s" by (rule ext, case_tac x) (simp_all add: s')
  have "fkset s' = fkset s" by (simp add: s' fkset_def)
  then have "ref_ok s'" using g by (simp add: i ref_ok_def db_good_def db_ok_def)
  moreover have "keys_ok s'" "counts_ok s'" "well_typed s'"
    using g by (simp_all add: s' db_good_def db_ok_def keys_ok_def counts_ok_def replies_ok_def versions_ok_def)
  ultimately show "db_good s'" by (simp add: db_good_def db_ok_def)
qed

lemma New_ok:
  assumes "New pf c = Inr s" "pf_open pf (cfg_DBPath c) = Inr st" "db_good st"
  shows "site_ok s" "cfg_JWTSecret c \<noteq> ''''" "jwt_secret (srv s) = cfg_JWTSecret c" "db (srv s) = st"
proof -
  obtain d where s: "s = \<lparr>srv = new_world c st (pf_world pf), files_on = d, pending_states = [],
      limiter = NewRateLimiter (cfg_RateLimit c)\<rparr>" and v: "Validate c = None"
    using assms(1,2) by (auto simp: New_def split: option.splits sum.splits)
  show "cfg_JWTSecret c \<noteq> ''''" using v by (auto simp: Validate_def)
  show "jwt_secret (srv s) = cfg_JWTSecret c" "db (srv s) = st" by (simp_all add: s new_world_def)
  have "net.truncate (new_world c st (pf_world pf)) = SetAllowedOrigin (cfg_CORSOrigin c) NewHub"
    by (simp add: new_world_def net.truncate_def SetAllowedOrigin_def NewHub_def)
  moreover have "hub_ok (SetAllowedOrigin (cfg_CORSOrigin c) NewHub)"
    by (simp add: hub_ok_def hub_wf_def SetAllowedOrigin_def NewHub_def conn_inv_NewConn)
  ultimately have "hub_ok (new_world c st (pf_world pf))" by (metis hub_ok_truncate)
  then show "site_ok s" using assms(3) by (simp add: site_ok_def s new_world_def NewRateLimiter_def)
qed

lemma site_steps_ok: "site_step\<^sup>*\<^sup>* s s' \<Longrightarrow> site_ok s \<Longrightarrow> site_ok s'"
  by (induction rule: rtranclp_induct) (auto intro: site_step_ok)

text \<open>
  Every server a process is in the course of: one just started on an empty database,
  one that took a step, and one started on the database an earlier one left.
\<close>

inductive lifetime :: "site \<Rightarrow> bool" where
  installed: "New pf c = Inr s \<Longrightarrow> pf_open pf (cfg_DBPath c) = Inr (seed_templates (store0 t us)) \<Longrightarrow> lifetime s"
| served: "lifetime s \<Longrightarrow> site_step s s' \<Longrightarrow> lifetime s'"
| restarted: "lifetime s \<Longrightarrow> New pf c = Inr s' \<Longrightarrow> pf_open pf (cfg_DBPath c) = Inr st
    \<Longrightarrow> reopened (db (srv s)) st \<Longrightarrow> lifetime s'"

lemma lifetime_ok: "lifetime s \<Longrightarrow> site_ok s"
proof (induction rule: lifetime.induct)
  case (installed pf c s t us)
  then show ?case by (rule New_ok(1) [OF _ _ db_good_fresh])
next
  case (served s s')
  then show ?case by (blast intro: site_step_ok)
next
  case (restarted s pf c s' st)
  then have "db_good st" by (auto simp: site_ok_def intro: reopened_good)
  then show ?case using restarted by (blast intro: New_ok(1))
qed


definition sample_env :: "string \<Rightarrow> string" where
  "sample_env k = (if k = ''LARK_JWT_SECRET'' then ''s3cret'' else '''')"

definition sample_platform :: platform where
  "sample_platform = \<lparr>pf_mkdir = (\<lambda>p. None), pf_open = (\<lambda>p. Inr (seed_templates (store0 7 (\<lambda>n. ''u'')))),
     pf_s3 = (\<lambda>c. Inl ''none''), pf_world = world0 (store0 0 (\<lambda>n. ''u''))\<rparr>"

lemma platform_starts:
  "Validate c = None \<Longrightarrow> cfg_StorageType c = ''local'' \<Longrightarrow> \<exists>s. New sample_platform c = Inr s"
  by (simp add: New_def NewStore_def newLocalStore_def sample_platform_def)

lemma sample_config:
  "cfg_JWTSecret (LoadConfig sample_env) = ''s3cret''" "cfg_Port (LoadConfig sample_env) = 4001"
  "cfg_StorageType (LoadConfig sample_env) = ''local''"
  by (simp_all add: LoadConfig_def getEnv_def getEnvInt_def sample_env_def)

lemma sample_starts: "\<exists>s. New sample_platform (LoadConfig sample_env) = Inr s"
  by (rule platform_starts) (simp_all add: Validate_def sample_config)


text \<open>A certificate without its key makes the log-in providers call back over https to a server that speaks http.\<close>

theorem https_callback_on_http:
  "\<exists>c. Validate c = None \<and> \<not> serves_tls c
     \<and> map_option oa_RedirectURL (githubOAuthCfg c) = Some ''https://127.0.0.1:4001/v1/auth/github/callback''"
proof (rule exI, intro conjI)
  let ?c = "LoadConfig (\<lambda>k. if k = ''LARK_JWT_SECRET'' \<or> k = ''LARK_TLS_CERT'' \<or> k = ''LARK_GITHUB_CLIENT_ID''
    \<or> k = ''LARK_GITHUB_SECRET'' then ''x'' else '''')"
  show "Validate ?c = None" by (simp add: Validate_def LoadConfig_def getEnv_def getEnvInt_def)
  show "\<not> serves_tls ?c" by (simp add: serves_tls_def LoadConfig_def getEnv_def)
  show "map_option oa_RedirectURL (githubOAuthCfg ?c) = Some ''https://127.0.0.1:4001/v1/auth/github/callback''"
    by (simp add: githubOAuthCfg_def callback_url_def scheme_def LoadConfig_def getEnv_def getEnvInt_def) code_simp
qed

end
