(* ===== verification/Migrations.thy ===== *)
theory Migrations
  imports Go_Strings
begin

text \<open>
  store/sqlite.go, opening the database: runMigrations, which brings the schema up to
  date one recorded version at a time, and splitMigrationSQL, which cuts a migration
  into statements.  SQLite itself is a parameter: what executing a statement does to
  the database and the error it reports.  The tables the migrations create are the
  record fields of Db; their texts are not repeated here.  They are ASCII, on which
  strings.ToUpper works byte by byte.
\<close>

section \<open>Splitting a migration\<close>

fun Split :: "string \<Rightarrow> char \<Rightarrow> string list" where
  "Split [] x = ['''']"
| "Split (c # cs) x =
     (if c = x then '''' # Split cs x
      else case Split cs x of [] \<Rightarrow> [[c]] | p # ps \<Rightarrow> (c # p) # ps)"

definition upper_char :: "char \<Rightarrow> char" where
  "upper_char c = (if 97 \<le> byte c \<and> byte c \<le> 122 then char_of (byte c - 32) else c)"

definition ToUpper :: "string \<Rightarrow> string" where
  "ToUpper = map upper_char"

definition TrimLeft :: "string \<Rightarrow> string \<Rightarrow> string" where
  "TrimLeft s cutset = dropWhile (\<lambda>c. c \<in> set cutset) s"

definition gaps :: string where
  "gaps = [CHR '';'', CHR '' '', CHR 0x09, CHR 0x0A]"

text \<open>The statements of a text without triggers.\<close>

definition plain_statements :: "string \<Rightarrow> string list" where
  "plain_statements sql = filter (\<lambda>s. s \<noteq> '''') (map TrimSpace (Split sql (CHR '';'')))"

lemma Index_bound: "Index s p = Some i \<Longrightarrow> i + length p \<le> length s"
proof (induction s arbitrary: i)
  case (Cons c s)
  then show ?case by (auto split: if_splits dest: prefix_length_le)
qed (auto split: if_splits)

function split_loop :: "string \<Rightarrow> string \<Rightarrow> string list" where
  "split_loop sql upper =
     (case Index upper ''CREATE TRIGGER'' of
        None \<Rightarrow> plain_statements sql
      | Some t \<Rightarrow> plain_statements (take t sql) @
          (case Index (drop t upper) ''BEGIN'' of
             None \<Rightarrow> [TrimSpace (drop t sql)]
           | Some b \<Rightarrow>
               (case Index (drop (t + b) upper) ''END'' of
                  None \<Rightarrow> [TrimSpace (drop t sql)]
                | Some e \<Rightarrow>
                    let stop = t + b + e + 3 in
                    TrimSpace (take (stop - t) (drop t sql))
                      # split_loop (TrimLeft (drop stop sql) gaps) (TrimLeft (drop stop upper) gaps))))"
  by pat_completeness auto
termination
proof (relation "measure (length \<circ> snd)", simp)
  fix sql upper t b e stop
  assume "Index upper ''CREATE TRIGGER'' = Some t" and stop: "stop = t + b + e + 3"
  then have "upper \<noteq> []" by (auto split: if_splits)
  then have "length (drop stop upper) < length upper" by (simp add: stop)
  then have "length (TrimLeft (drop stop upper) gaps) < length upper"
    unfolding TrimLeft_def using length_dropWhile_le by (rule le_less_trans [rotated])
  then show "((TrimLeft (drop stop sql) gaps, TrimLeft (drop stop upper) gaps), sql, upper) \<in> measure (length \<circ> snd)"
    by simp
qed

declare split_loop.simps [simp del]

definition splitMigrationSQL :: "string \<Rightarrow> string list" where
  "splitMigrationSQL sql = split_loop sql (ToUpper sql)"

section \<open>Running the migrations\<close>

text \<open>
  The database as runMigrations uses it: the versions recorded in schema_version and
  the rest, opaque.  sql_exec is what SQLite does with a statement, sql_record whether
  the row for a version is refused.
\<close>

record 'd sql_db =
  versions :: "int list"
  schema :: 'd

record 'd sqlite =
  sql_exec :: "string \<Rightarrow> 'd \<Rightarrow> string option \<times> 'd"
  sql_record :: "int \<Rightarrow> 'd \<Rightarrow> string option"

definition ignorable :: "string \<Rightarrow> bool" where
  "ignorable err \<longleftrightarrow> Contains err ''duplicate column'' \<or> Contains err ''already exists''"

fun run_statements :: "'d sqlite \<Rightarrow> string list \<Rightarrow> 'd \<Rightarrow> string option \<times> 'd" where
  "run_statements q [] d = (None, d)"
| "run_statements q (st # sts) d =
     (if TrimSpace st = '''' then run_statements q sts d
      else case sql_exec q (TrimSpace st) d of
        (None, d) \<Rightarrow> run_statements q sts d
      | (Some err, d) \<Rightarrow> if ignorable err then run_statements q sts d else (Some err, d))"

definition run_migration :: "'d sqlite \<Rightarrow> int \<times> string \<Rightarrow> 'd sql_db \<Rightarrow> string option \<times> 'd sql_db" where
  "run_migration q m db =
     (case run_statements q (splitMigrationSQL (snd m)) (schema db) of
        (Some err, d) \<Rightarrow> (Some (''migration '' @ Itoa (fst m) @ '': '' @ err), db\<lparr>schema := d\<rparr>)
      | (None, d) \<Rightarrow>
          (case sql_record q (fst m) d of
             Some err \<Rightarrow> (Some (''record migration '' @ Itoa (fst m) @ '': '' @ err), db\<lparr>schema := d\<rparr>)
           | None \<Rightarrow> (None, db\<lparr>schema := d, versions := versions db @ [fst m]\<rparr>)))"

text \<open>COALESCE(MAX(version), 0); a failing read leaves 0.\<close>

definition current_version :: "int list \<Rightarrow> int" where
  "current_version vs = (if vs = [] then 0 else Max (set vs))"

fun migrate_from :: "'d sqlite \<Rightarrow> int \<Rightarrow> (int \<times> string) list \<Rightarrow> 'd sql_db \<Rightarrow> string option \<times> 'd sql_db" where
  "migrate_from q v [] db = (None, db)"
| "migrate_from q v (m # ms) db =
     (if fst m \<le> v then migrate_from q v ms db
      else case run_migration q m db of
        (Some err, db) \<Rightarrow> (Some err, db)
      | (None, db) \<Rightarrow> migrate_from q v ms db)"

definition runMigrations :: "'d sqlite \<Rightarrow> (int \<times> string) list \<Rightarrow> 'd sql_db \<Rightarrow> string option \<times> 'd sql_db" where
  "runMigrations q ms db = migrate_from q (current_version (versions db)) ms db"

text \<open>
  NewSQLiteStore: the pragma, the schema, the version table, the migrations, the
  full-text index.  sql.Open itself does not touch the file.
\<close>

fun exec_in_turn :: "'d sqlite \<Rightarrow> (string \<times> string) list \<Rightarrow> 'd sql_db \<Rightarrow> string option \<times> 'd sql_db" where
  "exec_in_turn q [] db = (None, db)"
| "exec_in_turn q ((what, st) # sts) db =
     (case sql_exec q st (schema db) of
        (Some err, d) \<Rightarrow> (Some (what @ '': '' @ err), db\<lparr>schema := d\<rparr>)
      | (None, d) \<Rightarrow> exec_in_turn q sts (db\<lparr>schema := d\<rparr>))"

definition create_version_table :: string where
  "create_version_table =
     ''CREATE TABLE IF NOT EXISTS schema_version (version INTEGER PRIMARY KEY, applied_at INTEGER NOT NULL)''"

definition rebuild_fts :: string where
  "rebuild_fts = ''INSERT INTO messages_fts(messages_fts) VALUES('' @ [CHR 0x27] @ ''rebuild'' @ [CHR 0x27] @ '')''"

definition NewSQLiteStore ::
  "'d sqlite \<Rightarrow> string \<Rightarrow> (int \<times> string) list \<Rightarrow> 'd sql_db \<Rightarrow> string option \<times> 'd sql_db" where
  "NewSQLiteStore q schemaSQL ms db =
     (case exec_in_turn q [(''enable foreign keys'', ''PRAGMA foreign_keys = ON''), (''migrate'', schemaSQL),
          (''schema_version table'', create_version_table)] db of
        (Some err, db) \<Rightarrow> (Some err, db)
      | (None, db) \<Rightarrow>
          (case runMigrations q ms db of
             (Some err, db) \<Rightarrow> (Some (''migrations: '' @ err), db)
           | (None, db) \<Rightarrow> exec_in_turn q [(''fts rebuild'', rebuild_fts)] db))"

section \<open>Nothing is lost\<close>

definition ascii :: "string \<Rightarrow> bool" where
  "ascii s \<longleftrightarrow> (\<forall>c\<in>set s. byte c < (128::nat))"

text \<open>The characters that matter: neither white space nor a semicolon.\<close>

definition solid :: "string \<Rightarrow> string" where
  "solid s = filter (\<lambda>c. \<not> ascii_space c \<and> c \<noteq> CHR '';'') s"

lemma solid_append [simp]: "solid (a @ b) = solid a @ solid b"
  by (simp add: solid_def)

lemma space_len_plain: "ascii s \<Longrightarrow> space_len s = (if s \<noteq> [] \<and> ascii_space (hd s) then 1 else 0)"
  by (cases s) (auto simp: ascii_def space_len.simps split: list.split)

lemma space_suffix_plain:
  assumes "ascii s"
  shows "space_suffix s = (if s \<noteq> [] \<and> ascii_space (hd s) then 1 else 0)"
proof -
  have "ascii (rev (take n s))" for n using assms by (auto simp: ascii_def dest: in_set_takeD)
  then have "space_len (rev (take n s)) \<noteq> 2" "space_len (rev (take n s)) \<noteq> 3" for n
    by (simp_all add: space_len_plain)
  then show ?thesis by (auto simp: space_suffix_def)
qed

lemma TrimLeftSpace_plain: "ascii s \<Longrightarrow> TrimLeftSpace s = dropWhile ascii_space s"
proof (induction s)
  case (Cons c s)
  then show ?case using space_len_plain [OF Cons.prems] by (simp add: ascii_def)
qed simp

lemma trim_rev_plain: "ascii s \<Longrightarrow> trim_rev s = dropWhile ascii_space s"
proof (induction s)
  case (Cons c s)
  then show ?case using space_suffix_plain [OF Cons.prems] by (simp add: ascii_def)
qed simp

lemma solid_dropWhile: "(\<And>c. Q c \<Longrightarrow> ascii_space c \<or> c = CHR '';'') \<Longrightarrow> solid (dropWhile Q s) = solid s"
  by (induction s) (auto simp: solid_def)

lemma solid_TrimSpace: "ascii s \<Longrightarrow> solid (TrimSpace s) = solid s"
proof -
  assume a: "ascii s"
  have r: "solid (rev t) = rev (solid t)" for t by (simp add: solid_def rev_filter)
  have "ascii (rev (dropWhile ascii_space s))" using a by (auto simp: ascii_def dest: set_dropWhileD)
  then show ?thesis
    using a by (simp add: TrimSpace_def TrimLeftSpace_plain trim_rev_plain r solid_dropWhile)
qed

lemma solid_concat_filter: "solid (concat (filter (\<lambda>s. s \<noteq> []) xs)) = concat (map solid xs)"
  by (induction xs) (auto simp: solid_def)

lemma Split_solid: "concat (map solid (Split s (CHR '';''))) = solid s"
  by (induction s) (auto simp: solid_def split: list.split)

lemma Split_set: "p \<in> set (Split s x) \<Longrightarrow> set p \<subseteq> set s"
proof (induction s arbitrary: p)
  case (Cons c s)
  then show ?case by (cases "Split s x") (auto split: if_splits, blast+)
qed simp

lemma Split_ascii: "ascii s \<Longrightarrow> p \<in> set (Split s x) \<Longrightarrow> ascii p"
  using Split_set unfolding ascii_def by blast

lemma plain_statements_solid:
  assumes "ascii s"
  shows "solid (concat (plain_statements s)) = solid s"
proof -
  have "map solid (map TrimSpace (Split s (CHR '';''))) = map solid (Split s (CHR '';''))"
    using Split_ascii [OF assms] by (simp add: solid_TrimSpace)
  then show ?thesis by (simp add: plain_statements_def solid_concat_filter Split_solid del: map_map)
qed

lemma solid_cut: "solid (take t s) @ solid (drop t s) = solid s"
  by (metis append_take_drop_id solid_append)

lemma ascii_parts: "ascii s \<Longrightarrow> ascii (take n s)" "ascii s \<Longrightarrow> ascii (drop n s)" "ascii s \<Longrightarrow> ascii (TrimLeft s x)"
  by (auto simp: ascii_def TrimLeft_def dest: in_set_takeD in_set_dropD set_dropWhileD)

lemma split_loop_solid: "ascii sql \<Longrightarrow> solid (concat (split_loop sql upper)) = solid sql"
proof (induction sql upper rule: split_loop.induct)
  case (1 sql upper)
  have gap: "solid (TrimLeft x gaps) = solid x" for x
    unfolding TrimLeft_def by (rule solid_dropWhile) (auto simp: gaps_def ascii_space_def)
  show ?case
  proof (cases "Index upper ''CREATE TRIGGER''")
    case None
    then show ?thesis using 1 by (simp add: split_loop.simps [of sql upper] plain_statements_solid)
  next
    case (Some t)
    note t = this
    have ends: "solid (concat (plain_statements (take t sql))) @ solid (TrimSpace (drop t sql)) = solid sql"
      using 1(2) by (simp add: plain_statements_solid solid_TrimSpace ascii_parts solid_cut)
    show ?thesis
    proof (cases "Index (drop t upper) ''BEGIN''")
      case None
      then show ?thesis using ends t by (simp add: split_loop.simps [of sql upper])
    next
      case (Some b)
      note b = this
      show ?thesis
      proof (cases "Index (drop (t + b) upper) ''END''")
        case None
        then show ?thesis using ends t b by (simp add: split_loop.simps [of sql upper])
      next
        case (Some e)
        have "solid (concat (split_loop (TrimLeft (drop (t + b + e + 3) sql) gaps)
            (TrimLeft (drop (t + b + e + 3) upper) gaps))) = solid (drop (t + b + e + 3) sql)"
          using 1(1) [OF t b Some refl] 1(2) by (simp add: ascii_parts gap)
        moreover have "solid (take (b + e + 3) (drop t sql)) @ solid (drop (t + b + e + 3) sql) = solid (drop t sql)"
          using solid_cut [of "b + e + 3" "drop t sql"] by (simp add: ac_simps)
        ultimately show ?thesis
          using t b Some 1(2) solid_cut [of t sql, symmetric]
          by (simp add: ac_simps Let_def split_loop.simps [of sql upper] plain_statements_solid solid_TrimSpace ascii_parts)
      qed
    qed
  qed
qed

text \<open>
  Splitting a migration loses nothing and invents nothing: put back together, the
  statements have the text's characters in the text's order, up to white space and
  semicolons.
\<close>

theorem split_keeps_text: "ascii sql \<Longrightarrow> solid (concat (splitMigrationSQL sql)) = solid sql"
  by (simp add: splitMigrationSQL_def split_loop_solid)

text \<open>The END a trigger is cut at may be part of a word.\<close>

theorem trigger_cut_inside_word:
  "splitMigrationSQL ''CREATE TRIGGER t AFTER INSERT ON m BEGIN UPDATE m SET a = NEW.sender_id; END'' =
     [''CREATE TRIGGER t AFTER INSERT ON m BEGIN UPDATE m SET a = NEW.send'', ''er_id'', ''END'']"
  by code_simp

section \<open>Resuming\<close>

definition outstanding :: "(int \<times> string) list \<Rightarrow> 'd sql_db \<Rightarrow> (int \<times> string) list" where
  "outstanding ms db = filter (\<lambda>m. current_version (versions db) < fst m) ms"

lemma migrate_from_run:
  assumes "migrate_from q v ms db = (err, db')"
  shows "\<exists>k\<le>length (filter (\<lambda>m. v < fst m) ms). versions db' = versions db @ map fst (take k (filter (\<lambda>m. v < fst m) ms))
    \<and> (err = None \<longleftrightarrow> k = length (filter (\<lambda>m. v < fst m) ms))"
  using assms
proof (induction ms arbitrary: db)
  case (Cons m ms)
  show ?case
  proof (cases "fst m \<le> v")
    case True
    then show ?thesis using Cons by simp
  next
    case False
    obtain e d where r: "run_migration q m db = (e, d)" by force
    show ?thesis
    proof (cases e)
      case None
      then have v: "versions d = versions db @ [fst m]"
        using r by (auto simp: run_migration_def split: prod.splits option.splits)
      obtain k where "k \<le> length (filter (\<lambda>m. v < fst m) ms)"
        "versions db' = versions d @ map fst (take k (filter (\<lambda>m. v < fst m) ms))"
        "err = None \<longleftrightarrow> k = length (filter (\<lambda>m. v < fst m) ms)"
        using Cons.IH [of d] Cons.prems False r None by auto
      then show ?thesis using False v by (intro exI [of _ "Suc k"]) auto
    next
      case (Some x)
      then have "versions d = versions db" "err = Some x" "db' = d"
        using r Cons.prems False by (auto simp: run_migration_def split: prod.splits option.splits)
      then show ?thesis using False by (intro exI [of _ 0]) auto
    qed
  qed
qed simp

lemma later_versions:
  assumes "sorted_wrt (<) (map fst ps)" "\<forall>m\<in>set ps. current_version vs < fst m" "k < length ps"
  shows "current_version (vs @ map fst (take (Suc k) ps)) = fst (ps ! k)"
proof -
  have le: "x \<le> fst (ps ! k)" if x: "x \<in> set vs \<union> fst ` set (take (Suc k) ps)" for x
  proof (cases "x \<in> set vs")
    case True
    then have "x \<le> current_version vs" by (auto simp: current_version_def)
    also have "\<dots> < fst (ps ! k)" using assms(2,3) by simp
    finally show ?thesis by simp
  next
    case False
    then obtain m where m: "m \<in> set (take (Suc k) ps)" "x = fst m" using x by auto
    then obtain i where "i < Suc k" "i < length ps" "x = fst (ps ! i)" unfolding in_set_conv_nth by auto
    then show ?thesis using assms(1,3) by (cases "i = k") (auto simp: sorted_wrt_iff_nth_less less_imp_le)
  qed
  have mem: "fst (ps ! k) \<in> set vs \<union> fst ` set (take (Suc k) ps)" using assms(3) by (simp add: take_Suc_conv_app_nth)
  have "Max (set vs \<union> fst ` set (take (Suc k) ps)) = fst (ps ! k)" by (rule Max_eqI) (use le mem in auto)
  moreover have "ps \<noteq> []" using assms(3) by auto
  ultimately show ?thesis by (simp add: current_version_def)
qed

lemma outstanding_later:
  assumes "sorted_wrt (<) (map fst ms)" "k \<le> length (outstanding ms db)"
    and "versions db' = versions db @ map fst (take k (outstanding ms db))"
  shows "outstanding ms db' = drop k (outstanding ms db)"
proof (cases k)
  case 0
  then show ?thesis using assms(3) by (simp add: outstanding_def)
next
  case (Suc j)
  let ?ps = "outstanding ms db"
  have s: "sorted_wrt (<) (map fst ?ps)"
    using assms(1) by (induction ms) (auto simp: outstanding_def)
  have above: "\<forall>m\<in>set ?ps. current_version (versions db) < fst m" by (simp add: outstanding_def)
  have j: "j < length ?ps" using assms(2) Suc by simp
  have c: "current_version (versions db') = fst (?ps ! j)" using later_versions [OF s above j] assms(3) Suc by simp
  have "filter (\<lambda>m. fst (?ps ! j) < fst m) ms = filter (\<lambda>m. fst (?ps ! j) < fst m) ?ps"
    unfolding outstanding_def filter_filter using above [rule_format, OF nth_mem [OF j]]
    by (intro filter_cong) (auto simp: outstanding_def)
  also have "\<dots> = filter (\<lambda>m. fst (?ps ! j) < fst m) (take (Suc j) ?ps) @ filter (\<lambda>m. fst (?ps ! j) < fst m) (drop (Suc j) ?ps)"
    by (metis append_take_drop_id filter_append)
  also have "filter (\<lambda>m. fst (?ps ! j) < fst m) (take (Suc j) ?ps) = []"
    unfolding filter_empty_conv
  proof
    fix m assume "m \<in> set (take (Suc j) ?ps)"
    then obtain i where "i < Suc j" "m = ?ps ! i" unfolding in_set_conv_nth by auto
    then show "\<not> fst (?ps ! j) < fst m"
      using s j by (cases "i = j") (auto simp: sorted_wrt_iff_nth_less not_less less_imp_le)
  qed
  also have "filter (\<lambda>m. fst (?ps ! j) < fst m) (drop (Suc j) ?ps) = drop (Suc j) ?ps"
    unfolding filter_id_conv
  proof
    fix m assume "m \<in> set (drop (Suc j) ?ps)"
    then obtain i where "i < length (drop (Suc j) ?ps)" "m = drop (Suc j) ?ps ! i" unfolding in_set_conv_nth by blast
    then have "Suc j + i < length ?ps" "m = ?ps ! (Suc j + i)" using j by simp_all
    then show "fst (?ps ! j) < fst m"
      using s unfolding sorted_wrt_iff_nth_less by (auto dest!: spec [of _ j] spec [of _ "Suc j + i"])
  qed
  finally show ?thesis by (simp add: outstanding_def [of ms db'] c Suc)
qed

lemma nothing_pending: "outstanding ms db = [] \<Longrightarrow> runMigrations q ms db = (None, db)"
proof -
  have "filter (\<lambda>m. v < fst m) ms = [] \<Longrightarrow> migrate_from q v ms db = (None, db)" for v
    by (induction ms) (auto split: if_splits)
  then show "outstanding ms db = [] \<Longrightarrow> runMigrations q ms db = (None, db)"
    by (simp add: outstanding_def runMigrations_def)
qed

lemma migrations_up_to_date:
  assumes "sorted_wrt (<) (map fst ms)" "runMigrations q ms db = (None, db')"
  shows "outstanding ms db' = []"
proof -
  obtain k where k: "k \<le> length (outstanding ms db)" "versions db' = versions db @ map fst (take k (outstanding ms db))"
    "k = length (outstanding ms db)"
    using migrate_from_run [OF assms(2) [unfolded runMigrations_def]] unfolding outstanding_def by blast
  show ?thesis using outstanding_later [OF assms(1) k(1,2)] k(3) by simp
qed

lemma exec_versions: "exec_in_turn q sts db = (err, db') \<Longrightarrow> versions db' = versions db"
  by (induction sts arbitrary: db) (auto split: prod.splits option.splits)

text \<open>A store that opens is up to date: no migration is pending.\<close>

theorem open_is_current:
  assumes "sorted_wrt (<) (map fst ms)" "NewSQLiteStore q schemaSQL ms db = (None, db')"
  shows "outstanding ms db' = []"
proof -
  obtain d d' where "runMigrations q ms d = (None, d')" "exec_in_turn q [(''fts rebuild'', rebuild_fts)] d' = (None, db')"
    using assms(2) by (auto simp: NewSQLiteStore_def split: prod.splits option.splits simp del: exec_in_turn.simps)
  then show ?thesis using migrations_up_to_date [OF assms(1)] exec_versions by (fastforce simp: outstanding_def)
qed


text \<open>A disk that fills up at the second migration.\<close>

definition sample_sqlite :: "string list sqlite" where
  "sample_sqlite = \<lparr>sql_exec = (\<lambda>st d. if st = ''B'' then (Some ''disk full'', d) else (None, d @ [st])),
     sql_record = (\<lambda>v d. None)\<rparr>"


end
