(* ===== verification/Bridge.thy ===== *)
theory Bridge
  imports Go_Strings Protocol
begin

text \<open>
  internal/agent: the bridge a developer's machine runs.  It finds the agent programs
  installed there (runtime.go), logs in to the server as an agent, and answers each
  agent.wake by running a program and posting what it prints (bridge.go).

  Taken from outside: where a program is found and what it prints, the frames the
  server sends, and whether writing to the connection fails.  A program's output is
  taken to be UTF-8, as the strings of a JSON frame are.
\<close>

section \<open>Runtimes\<close>

definition RuntimeClaude :: string where "RuntimeClaude = ''claude''"
definition RuntimeCodex :: string where "RuntimeCodex = ''codex''"
definition RuntimeGemini :: string where "RuntimeGemini = ''gemini''"
definition RuntimeKimi :: string where "RuntimeKimi = ''kimi''"

lemmas runtime_names = RuntimeClaude_def RuntimeCodex_def RuntimeGemini_def RuntimeKimi_def

record RuntimeDef =
  rd_Type :: string
  rd_Binary :: string
  rd_Description :: string
  rd_Protocol :: string
  rd_Provider :: string

definition SupportedRuntimes :: "RuntimeDef list" where
  "SupportedRuntimes =
     [\<lparr>rd_Type = RuntimeClaude, rd_Binary = ''claude'', rd_Description = ''Claude Code (Anthropic)'',
       rd_Protocol = ''stream-json'', rd_Provider = ''anthropic''\<rparr>,
      \<lparr>rd_Type = RuntimeCodex, rd_Binary = ''codex'', rd_Description = ''Codex CLI (OpenAI)'',
       rd_Protocol = ''process-per-turn'', rd_Provider = ''openai''\<rparr>,
      \<lparr>rd_Type = RuntimeGemini, rd_Binary = ''gemini'', rd_Description = ''Gemini CLI (Google)'',
       rd_Protocol = ''process-per-turn'', rd_Provider = ''google''\<rparr>,
      \<lparr>rd_Type = RuntimeKimi, rd_Binary = ''kimi'', rd_Description = ''Kimi CLI (Moonshot)'',
       rd_Protocol = ''jsonrpc'', rd_Provider = ''moonshot''\<rparr>]"

record DetectedRuntime = RuntimeDef +
  dr_Path :: string
  dr_Version :: string

text \<open>The machine: exec.LookPath, and the combined output of a command that succeeds.\<close>

record machine =
  windows :: bool
  LookPath :: "string \<Rightarrow> string option"
  CombinedOutput :: "string \<Rightarrow> string list \<Rightarrow> string option"

definition first_line :: "string \<Rightarrow> string" where
  "first_line v = (case Index v [CHR 0x0A] of Some i \<Rightarrow> if 0 < i then take i v else v | None \<Rightarrow> v)"

fun try_versions :: "machine \<Rightarrow> string \<Rightarrow> string list list \<Rightarrow> string" where
  "try_versions mc binary [] = ''''"
| "try_versions mc binary (args # rest) =
     (case CombinedOutput mc binary args of
        None \<Rightarrow> try_versions mc binary rest
      | Some out \<Rightarrow>
          if TrimSpace out = '''' then try_versions mc binary rest
          else take 80 (first_line (TrimSpace out)))"

definition detectVersion :: "machine \<Rightarrow> string \<Rightarrow> string" where
  "detectVersion mc binary = try_versions mc binary [[''--version''], [''version''], [''-v'']]"

definition detect_one :: "machine \<Rightarrow> RuntimeDef \<Rightarrow> DetectedRuntime option" where
  "detect_one mc d =
     (case LookPath mc (if windows mc then rd_Binary d @ ''.exe'' else rd_Binary d) of
        None \<Rightarrow> None
      | Some path \<Rightarrow> Some (RuntimeDef.extend d \<lparr>dr_Path = path, dr_Version = detectVersion mc path\<rparr>))"

definition DetectRuntimes :: "machine \<Rightarrow> DetectedRuntime list" where
  "DetectRuntimes mc = List.map_filter (detect_one mc) SupportedRuntimes"

definition RuntimeByType :: "DetectedRuntime list \<Rightarrow> string \<Rightarrow> DetectedRuntime option" where
  "RuntimeByType ds t = List.find (\<lambda>d. rd_Type d = t) ds"

fun pick_from :: "DetectedRuntime list \<Rightarrow> string list \<Rightarrow> DetectedRuntime option" where
  "pick_from ds [] = None"
| "pick_from ds (t # ts) = (case RuntimeByType ds t of Some d \<Rightarrow> Some d | None \<Rightarrow> pick_from ds ts)"

definition pickRuntime :: "DetectedRuntime list \<Rightarrow> DetectedRuntime option" where
  "pickRuntime ds = pick_from ds [RuntimeClaude, RuntimeCodex, RuntimeGemini, RuntimeKimi]"

text \<open>The command line of a runtime; None for a runtime the bridge does not know.\<close>

definition agent_command :: "DetectedRuntime \<Rightarrow> string \<Rightarrow> string list option" where
  "agent_command rt prompt =
     (if rd_Type rt = RuntimeClaude
        then Some [dr_Path rt, ''--print'', ''--output-format'', ''text'', prompt]
      else if rd_Type rt = RuntimeCodex then Some [dr_Path rt, ''--quiet'', prompt]
      else if rd_Type rt = RuntimeGemini then Some [dr_Path rt, ''-p'', prompt]
      else if rd_Type rt = RuntimeKimi then Some [dr_Path rt, ''chat'', ''--message'', prompt]
      else None)"

section \<open>State\<close>

record draftAckData =
  ak_DraftID :: string
  ak_RoomVersion :: int

definition draftAckData_member :: "string \<Rightarrow> json \<Rightarrow> draftAckData \<Rightarrow> draftAckData option" where
  "draftAckData_member k j d =
     (if key_eq k ''draft_id'' then set_str (\<lambda>s d. d\<lparr>ak_DraftID := s\<rparr>) j d
      else if key_eq k ''room_version'' then set_int (\<lambda>n d. d\<lparr>ak_RoomVersion := n\<rparr>) j d
      else Some d)"

text \<open>
  The goroutines of spawnAgent: a program at work for a channel on a prompt, or its
  response waiting for the server to acknowledge the draft.
\<close>

datatype job = Spawned DetectedRuntime string string | AwaitAck string string

text \<open>
  The connection is the list of frames written to it, None when there is none; once a
  write has failed every later one fails too.  The channel pendingDraftAck holds at
  most one acknowledgement.
\<close>

record Bridge =
  br_serverURL :: string
  br_apiKey :: string
  br_name :: string
  br_detected :: "DetectedRuntime list"
  br_conn :: "envelope list option"
  br_broken :: bool
  br_acks :: "draftAckData option"
  br_jobs :: "job list"
  br_now :: int

definition NewBridge :: "string \<Rightarrow> string \<Rightarrow> string \<Rightarrow> Bridge" where
  "NewBridge serverURL apiKey nm =
     \<lparr>br_serverURL = serverURL, br_apiKey = apiKey, br_name = nm, br_detected = [], br_conn = None,
      br_broken = False, br_acks = None, br_jobs = [], br_now = 0\<rparr>"

datatype bridge_error = NotConnected | WriteFailed | DialFailed | ReadFailed | BadResponse
  | AuthFailed string | UnexpectedResponse string

definition newEnvelope :: "string \<Rightarrow> json \<Rightarrow> Bridge \<Rightarrow> envelope" where
  "newEnvelope eventType data b =
     \<lparr>env_V = 1, env_ID = '''', env_Type = eventType, env_TS = br_now b, env_Data = Some data\<rparr>"

definition bridge_send :: "string \<Rightarrow> json \<Rightarrow> Bridge \<Rightarrow> bridge_error option \<times> Bridge" where
  "bridge_send t data b =
     (case br_conn b of
        None \<Rightarrow> (Some NotConnected, b)
      | Some out \<Rightarrow>
          if br_broken b then (Some WriteFailed, b)
          else (None, b\<lparr>br_conn := Some (out @ [newEnvelope t data b])\<rparr>))"

text \<open>Most callers ignore the error.\<close>

definition tell :: "string \<Rightarrow> json \<Rightarrow> Bridge \<Rightarrow> Bridge" where
  "tell t data b = snd (bridge_send t data b)"

section \<open>Connecting\<close>

definition replace_first :: "string \<Rightarrow> string \<Rightarrow> string \<Rightarrow> string" where
  "replace_first s old new =
     (case Index s old of None \<Rightarrow> s | Some i \<Rightarrow> take i s @ new @ drop (i + length old) s)"

definition dial_url :: "string \<Rightarrow> string" where
  "dial_url serverURL =
     TrimRight (replace_first (replace_first serverURL ''http://'' ''ws://'') ''https://'' ''wss://'') ''/''
       @ ''/ws''"

definition bridge_connect :: "(string \<Rightarrow> bool) \<Rightarrow> Bridge \<Rightarrow> bridge_error option \<times> Bridge" where
  "bridge_connect reachable b =
     (if reachable (dial_url (br_serverURL b)) then (None, b\<lparr>br_conn := Some []\<rparr>)
      else (Some DialFailed, b))"

definition bridge_close :: "Bridge \<Rightarrow> Bridge" where
  "bridge_close b = b\<lparr>br_conn := None\<rparr>"

text \<open>What a read from the connection gives.\<close>

datatype incoming = Frame envelope | NotJson | CloseNormal | ReadError

text \<open>data["error"] after decoding into a map of strings, errors ignored.\<close>

definition error_text :: "json option \<Rightarrow> string" where
  "error_text data =
     (case data of
        Some (JObj kvs) \<Rightarrow> (case map_of (rev kvs) ''error'' of Some (JStr s) \<Rightarrow> s | _ \<Rightarrow> '''')
      | _ \<Rightarrow> '''')"

definition bridge_authenticate :: "incoming \<Rightarrow> Bridge \<Rightarrow> bridge_error option \<times> Bridge" where
  "bridge_authenticate answer b =
     (case bridge_send ''auth.login'' (str_obj [(''token'', br_apiKey b)]) b of
        (Some e, b) \<Rightarrow> (Some e, b)
      | (None, b) \<Rightarrow>
          (case answer of
             Frame resp \<Rightarrow>
               if env_Type resp = ''auth.fail'' then (Some (AuthFailed (error_text (env_Data resp))), b)
               else if env_Type resp \<noteq> ''auth.success''
                 then (Some (UnexpectedResponse (env_Type resp)), b)
               else (None, b)
           | NotJson \<Rightarrow> (Some BadResponse, b)
           | _ \<Rightarrow> (Some ReadFailed, b)))"

definition hello_prompt :: "string \<Rightarrow> string list \<Rightarrow> string" where
  "hello_prompt nm caps = ''I am '' @ nm @ '', a multi-runtime agent bridge. I can spawn and manage ''
     @ Join caps '', '' @ ''.''"

definition hello_data :: "string \<Rightarrow> DetectedRuntime list \<Rightarrow> json" where
  "hello_data nm ds =
     (let caps = map rd_Type ds;
          provider = (case ds of [] \<Rightarrow> ''unknown'' | d # _ \<Rightarrow> rd_Provider d);
          typ = (case ds of [] \<Rightarrow> ''cli'' | d # _ \<Rightarrow> rd_Type d);
          model = (case ds of [] \<Rightarrow> '''' | d # _ \<Rightarrow> dr_Version d)
      in JObj [(''name'', JStr nm),
           (''role_card'', JObj [(''capabilities'', JArr (map JStr caps)),
              (''system_prompt'', JStr (hello_prompt nm caps))]),
           (''runtime'', str_obj [(''model'', model), (''provider'', provider), (''type'', typ)])])"

definition sendHello :: "Bridge \<Rightarrow> bridge_error option \<times> Bridge" where
  "sendHello b = bridge_send ''agent.hello'' (hello_data (br_name b) (br_detected b)) b"

text \<open>Run up to the read loop; a failure after connecting closes the connection.\<close>

definition bridge_start ::
  "machine \<Rightarrow> (string \<Rightarrow> bool) \<Rightarrow> incoming \<Rightarrow> Bridge \<Rightarrow> bridge_error option \<times> Bridge" where
  "bridge_start mc reachable answer b =
     (case bridge_connect reachable (b\<lparr>br_detected := DetectRuntimes mc\<rparr>) of
        (Some e, b) \<Rightarrow> (Some e, b)
      | (None, b) \<Rightarrow>
          (case bridge_authenticate answer b of
             (Some e, b) \<Rightarrow> (Some e, bridge_close b)
           | (None, b) \<Rightarrow>
               (case sendHello b of
                  (Some e, b) \<Rightarrow> (Some e, bridge_close b)
                | (None, b) \<Rightarrow> (None, b))))"

section \<open>Events\<close>

record wake_message =
  wm_ID :: string
  wm_SenderID :: string
  wm_Content :: string
  wm_CreatedAt :: int

definition wake_message_member :: "string \<Rightarrow> json \<Rightarrow> wake_message \<Rightarrow> wake_message option" where
  "wake_message_member k j d =
     (if key_eq k ''id'' then set_str (\<lambda>s d. d\<lparr>wm_ID := s\<rparr>) j d
      else if key_eq k ''sender_id'' then set_str (\<lambda>s d. d\<lparr>wm_SenderID := s\<rparr>) j d
      else if key_eq k ''content'' then set_str (\<lambda>s d. d\<lparr>wm_Content := s\<rparr>) j d
      else if key_eq k ''created_at'' then set_int (\<lambda>n d. d\<lparr>wm_CreatedAt := n\<rparr>) j d
      else Some d)"

fun decode_each :: "(json \<Rightarrow> 'a option) \<Rightarrow> json list \<Rightarrow> 'a list option" where
  "decode_each f [] = Some []"
| "decode_each f (j # js) =
     (case f j of None \<Rightarrow> None | Some a \<Rightarrow> map_option (Cons a) (decode_each f js))"

fun set_list :: "(json \<Rightarrow> 'b option) \<Rightarrow> ('b list \<Rightarrow> 'a \<Rightarrow> 'a) \<Rightarrow> json \<Rightarrow> 'a \<Rightarrow> 'a option" where
  "set_list f u (JArr js) a = map_option (\<lambda>xs. u xs a) (decode_each f js)"
| "set_list f u JNull a = Some (u [] a)"
| "set_list f u _ a = None"

definition decode_message :: "json \<Rightarrow> wake_message option" where
  "decode_message j = unmarshal wake_message_member (Some j)
     \<lparr>wm_ID = '''', wm_SenderID = '''', wm_Content = '''', wm_CreatedAt = 0\<rparr>"

record wakeData =
  wk_Reason :: string
  wk_Channel :: string
  wk_Messages :: "wake_message list"

definition wake_channel_member :: "string \<Rightarrow> json \<Rightarrow> string \<Rightarrow> string option" where
  "wake_channel_member k j ch = (if key_eq k ''id'' then set_str (\<lambda>s _. s) j ch else Some ch)"

definition wake_context_member :: "string \<Rightarrow> json \<Rightarrow> wakeData \<Rightarrow> wakeData option" where
  "wake_context_member k j d =
     (if key_eq k ''channel'' then set_struct wake_channel_member wk_Channel (\<lambda>c d. d\<lparr>wk_Channel := c\<rparr>) j d
      else if key_eq k ''recent_messages'' then set_list decode_message (\<lambda>ms d. d\<lparr>wk_Messages := ms\<rparr>) j d
      else Some d)"

definition wakeData_member :: "string \<Rightarrow> json \<Rightarrow> wakeData \<Rightarrow> wakeData option" where
  "wakeData_member k j d =
     (if key_eq k ''reason'' then set_str (\<lambda>s d. d\<lparr>wk_Reason := s\<rparr>) j d
      else if key_eq k ''context'' then unmarshal wake_context_member (Some j) d
      else Some d)"

definition buildPrompt :: "wake_message list \<Rightarrow> string" where
  "buildPrompt ms = ''Recent conversation:'' @ [CHR 0x0A, CHR 0x0A]
     @ concat (map (\<lambda>m. ''['' @ wm_SenderID m @ ''] '' @ wm_Content m @ [CHR 0x0A]) ms)
     @ [CHR 0x0A] @ ''Respond to the latest message.''"

definition handleWake :: "json option \<Rightarrow> Bridge \<Rightarrow> Bridge" where
  "handleWake data b =
     (case unmarshal wakeData_member data \<lparr>wk_Reason = '''', wk_Channel = '''', wk_Messages = []\<rparr> of
        None \<Rightarrow> b
      | Some d \<Rightarrow>
          let b = tell ''agent.thinking'' (str_obj [(''channel_id'', wk_Channel d)]) b;
              prompt = buildPrompt (wk_Messages d) in
          case pickRuntime (br_detected b) of
            None \<Rightarrow> b
          | Some rt \<Rightarrow> b\<lparr>br_jobs := br_jobs b @ [Spawned rt (wk_Channel d) prompt]\<rparr>)"

text \<open>The seven strings of an inbox item, in the struct's order; only the first is sent back.\<close>

definition inbox_fields :: "string list" where
  "inbox_fields = [''id'', ''type'', ''title'', ''body'', ''source_type'', ''priority'', ''payload'']"

definition decode_items :: "json option \<Rightarrow> string list list option" where
  "decode_items data =
     (case data of
        Some (JArr js) \<Rightarrow> decode_each (\<lambda>j. unmarshal_strs inbox_fields (Some j)) js
      | Some JNull \<Rightarrow> Some []
      | _ \<Rightarrow> None)"

definition handleInboxItems :: "json option \<Rightarrow> Bridge \<Rightarrow> Bridge" where
  "handleInboxItems data b =
     (case decode_items data of
        None \<Rightarrow> b
      | Some items \<Rightarrow> fold (\<lambda>it. tell ''inbox.ack'' (str_obj [(''item_id'', it ! 0)])) items b)"

definition handleDraftAck :: "json option \<Rightarrow> Bridge \<Rightarrow> Bridge" where
  "handleDraftAck data b =
     (case unmarshal draftAckData_member data \<lparr>ak_DraftID = '''', ak_RoomVersion = 0\<rparr> of
        None \<Rightarrow> b
      | Some ack \<Rightarrow> (case br_acks b of None \<Rightarrow> b\<lparr>br_acks := Some ack\<rparr> | Some _ \<Rightarrow> b))"

definition handleEvent :: "envelope \<Rightarrow> Bridge \<Rightarrow> Bridge" where
  "handleEvent env b =
     (if env_Type env = ''agent.wake'' then handleWake (env_Data env) b
      else if env_Type env = ''inbox.items'' then handleInboxItems (env_Data env) b
      else if env_Type env = ''draft.ack'' then handleDraftAck (env_Data env) b
      else b)"

text \<open>One turn of the read loop: Inr to go on, Inl with the error Run returns (None for a normal close).\<close>

definition readLoop_turn :: "incoming \<Rightarrow> Bridge \<Rightarrow> bridge_error option + Bridge" where
  "readLoop_turn i b =
     (case i of
        Frame env \<Rightarrow> Inr (handleEvent env b)
      | NotJson \<Rightarrow> Inr b
      | CloseNormal \<Rightarrow> Inl None
      | ReadError \<Rightarrow> Inl (Some ReadFailed))"

definition pollInbox :: "Bridge \<Rightarrow> Bridge" where
  "pollInbox = tell ''inbox.poll'' (JObj [(''limit'', JNum 20), (''unread_only'', JBool True)])"

section \<open>Running a program\<close>

text \<open>
  bufio.Scanner on the lines of stdout and then of stderr.  A line of 1 MiB or more
  stops the scan, and what follows it is lost.
\<close>

definition maxLine :: nat where
  "maxLine = 1024 * 1024"

definition drop_cr :: "string \<Rightarrow> string" where
  "drop_cr l = (if l \<noteq> [] \<and> last l = CHR 0x0D then butlast l else l)"

function scan_lines :: "string \<Rightarrow> string list" where
  "scan_lines s =
     (let l = takeWhile (\<lambda>c. c \<noteq> CHR 0x0A) s in
      if s = [] \<or> maxLine \<le> length l then []
      else drop_cr l # scan_lines (drop (Suc (length l)) s))"
  by auto
termination by (relation "measure length") auto

declare scan_lines.simps [simp del]

definition agent_response :: "string \<Rightarrow> string \<Rightarrow> string" where
  "agent_response stdout stderr =
     (let r = TrimSpace (concat (map (\<lambda>l. l @ [CHR 0x0A]) (scan_lines (stdout @ stderr)))) in
      if r = '''' then ''(no output)'' else r)"

definition drop_job :: "nat \<Rightarrow> Bridge \<Rightarrow> Bridge" where
  "drop_job n b = b\<lparr>br_jobs := take n (br_jobs b) @ drop (Suc n) (br_jobs b)\<rparr>"

definition go_to_sleep :: "Bridge \<Rightarrow> Bridge" where
  "go_to_sleep = tell ''agent.sleep'' JNull"

text \<open>The program has ended: its response becomes a held draft.\<close>

definition job_output :: "nat \<Rightarrow> string \<Rightarrow> string \<Rightarrow> Bridge \<Rightarrow> Bridge" where
  "job_output n ch response b =
     tell ''draft.create'' (str_obj [(''channel_id'', ch), (''content'', response)])
       (b\<lparr>br_jobs := (br_jobs b)[n := AwaitAck ch response]\<rparr>)"

text \<open>case ack := <-b.pendingDraftAck\<close>

definition job_acked :: "nat \<Rightarrow> draftAckData \<Rightarrow> Bridge \<Rightarrow> Bridge" where
  "job_acked n ack b =
     go_to_sleep (tell ''draft.send'' (str_obj [(''draft_id'', ak_DraftID ack)])
       (drop_job n (b\<lparr>br_acks := None\<rparr>)))"

text \<open>case <-time.After(5 * time.Second)\<close>

definition job_timeout :: "nat \<Rightarrow> string \<Rightarrow> string \<Rightarrow> Bridge \<Rightarrow> Bridge" where
  "job_timeout n ch response b =
     go_to_sleep (tell ''message.send'' (str_obj [(''channel_id'', ch), (''content'', response),
       (''content_type'', ''text'')]) (drop_job n b))"

text \<open>The goroutines' steps; the last rule is the end of the five minutes, or of the bridge.\<close>

inductive job_step :: "Bridge \<Rightarrow> Bridge \<Rightarrow> bool" where
  job_not_started: "n < length (br_jobs b) \<Longrightarrow> br_jobs b ! n = Spawned rt ch prompt \<Longrightarrow>
    job_step b (drop_job n b)"
| job_done: "n < length (br_jobs b) \<Longrightarrow> br_jobs b ! n = Spawned rt ch prompt \<Longrightarrow>
    agent_command rt prompt \<noteq> None \<Longrightarrow> job_step b (job_output n ch (agent_response stdout stderr) b)"
| job_ack: "n < length (br_jobs b) \<Longrightarrow> br_jobs b ! n = AwaitAck ch response \<Longrightarrow>
    br_acks b = Some ack \<Longrightarrow> job_step b (job_acked n ack b)"
| job_late: "n < length (br_jobs b) \<Longrightarrow> br_jobs b ! n = AwaitAck ch response \<Longrightarrow>
    job_step b (job_timeout n ch response b)"
| job_cancelled: "n < length (br_jobs b) \<Longrightarrow> br_jobs b ! n = AwaitAck ch response \<Longrightarrow>
    job_step b (drop_job n b)"

inductive_cases job_stepE: "job_step b b'"

text \<open>Everything the running bridge does.\<close>

inductive bridge_step :: "Bridge \<Rightarrow> Bridge \<Rightarrow> bool" where
  bridge_read: "readLoop_turn i b = Inr b' \<Longrightarrow> bridge_step b b'"
| bridge_job: "job_step b b' \<Longrightarrow> bridge_step b b'"
| bridge_poll: "bridge_step b (pollInbox b)"
| bridge_clock: "bridge_step b (b\<lparr>br_now := t\<rparr>)"
| bridge_breaks: "bridge_step b (b\<lparr>br_broken := True\<rparr>)"

end
