(* ===== verification/Agent_Main.thy ===== *)
theory Agent_Main
  imports Bridge
begin

text \<open>
  cmd/lark-agent/main.go: the command that starts a bridge.  What flag.Parse makes of
  the command line is a parameter, a flag that is not given being None; the environment
  gives the empty string for a variable that is not set.  Log lines and the usage text
  on standard error are left out.
\<close>

section \<open>Settings\<close>

definition envOr :: "(string \<Rightarrow> string) \<Rightarrow> string \<Rightarrow> string \<Rightarrow> string" where
  "envOr env key fallback = (if env key \<noteq> '''' then env key else fallback)"

record flags =
  fl_server :: "string option"
  fl_api_key :: "string option"
  fl_name :: "string option"
  fl_detect :: bool

definition flag_or :: "string option \<Rightarrow> string \<Rightarrow> string" where
  "flag_or f d = (case f of Some v \<Rightarrow> v | None \<Rightarrow> d)"

text \<open>Bytes that are not the second or later byte of a UTF-8 sequence: the runes Fprintf counts.\<close>

definition rune_count :: "string \<Rightarrow> nat" where
  "rune_count s = length (filter (\<lambda>c. of_char c div 64 \<noteq> (2 :: nat)) s)"

text \<open>Fprintf's verb for a string padded with spaces on the right.\<close>

definition pad_right :: "nat \<Rightarrow> string \<Rightarrow> string" where
  "pad_right n s = s @ replicate (n - rune_count s) CHR '' ''"

definition RuntimeSummary :: "DetectedRuntime list \<Rightarrow> string" where
  "RuntimeSummary ds =
     (if ds = [] then ''No agent runtimes detected.''
      else ''Detected '' @ Itoa (int (length ds)) @ '' runtime(s):'' @ [CHR 0x0A] @
        concat (map (\<lambda>d. ''  '' @ pad_right 8 (rd_Type d) @ '' '' @ pad_right 30 (dr_Path d) @ '' ''
                   @ dr_Version d @ [CHR 0x0A]) ds))"

section \<open>The command\<close>

text \<open>What the command does: print a summary, give up with status 1, or run a bridge.\<close>

datatype command = Printed string | Exit1 | Runs "bridge_error option \<times> Bridge"

definition agent_main ::
  "(string \<Rightarrow> string) \<Rightarrow> flags \<Rightarrow> machine \<Rightarrow> (string \<Rightarrow> bool) \<Rightarrow> incoming \<Rightarrow> command" where
  "agent_main env fl mc reachable answer =
     (let serverURL = flag_or (fl_server fl) (envOr env ''LARK_SERVER'' ''http://localhost:4001'');
          apiKey = flag_or (fl_api_key fl) (envOr env ''LARK_API_KEY'' '''');
          nm = flag_or (fl_name fl) (envOr env ''LARK_AGENT_NAME'' ''lark-agent'')
      in if fl_detect fl then Printed (RuntimeSummary (DetectRuntimes mc))
         else if apiKey = '''' then Exit1
         else if DetectRuntimes mc = [] then Exit1
         else Runs (bridge_start mc reachable answer (NewBridge serverURL apiKey nm)))"

section \<open>Properties\<close>

lemma start_sends:
  assumes "bridge_start mc reachable answer b = (None, b')"
  shows "map (\<lambda>f. (env_Type f, env_Data f)) (the (br_conn b')) =
      [(''auth.login'', Some (str_obj [(''token'', br_apiKey b)])),
       (''agent.hello'', Some (hello_data (br_name b) (DetectRuntimes mc)))]
    \<and> br_detected b' = DetectRuntimes mc"
  using assms
  by (auto simp: bridge_start_def bridge_connect_def bridge_authenticate_def bridge_send_def sendHello_def
      newEnvelope_def split: if_splits option.splits incoming.splits)

text \<open>
  A bridge the command keeps running has logged in with a key that is not empty and then
  introduced itself as the runtimes of the machine, of which there is at least one: the
  provider unknown and the type cli of sendHello are never sent.
\<close>

theorem agent_introduces_itself:
  assumes "agent_main env fl mc reachable answer = Runs (None, b)"
  shows "\<exists>key nm d ds. key \<noteq> '''' \<and> br_detected b = d # ds \<and>
     map (\<lambda>f. (env_Type f, env_Data f)) (the (br_conn b)) =
       [(''auth.login'', Some (str_obj [(''token'', key)])),
        (''agent.hello'', Some (JObj [(''name'', JStr nm),
           (''role_card'', JObj [(''capabilities'', JArr (map JStr (rd_Type d # map rd_Type ds))),
              (''system_prompt'', JStr (hello_prompt nm (rd_Type d # map rd_Type ds)))]),
           (''runtime'', str_obj [(''model'', dr_Version d), (''provider'', rd_Provider d), (''type'', rd_Type d)])]))]"
proof -
  obtain url key nm where b: "bridge_start mc reachable answer (NewBridge url key nm) = (None, b)"
    and k: "key \<noteq> ''''" and ds: "DetectRuntimes mc \<noteq> []"
    using assms by (auto simp: agent_main_def Let_def split: if_splits)
  then obtain d ds where d: "DetectRuntimes mc = d # ds" by (cases "DetectRuntimes mc") auto
  show ?thesis
    using start_sends [OF b] k d
    by (intro exI [of _ key] exI [of _ nm] exI [of _ d] exI [of _ ds]) (simp add: NewBridge_def hello_data_def Let_def)
qed

end
