(* ===== verification/Bridge_Props.thy ===== *)
theory Bridge_Props
  imports Bridge Ws_Props
begin

text \<open>
  The bridge against the server it talks to: what each side sends is what the other
  reads, the jobs of the bridge end, and where acknowledgements go astray.
\<close>

section \<open>Saying hello\<close>

lemma strs_of_JStr [simp]: "strs_of (map JStr ss) = Some ss"
  by (induction ss) simp_all

lemma strs_of_JStr_comp [simp]: "strs_of (map (JStr \<circ> f) xs) = Some (map f xs)"
  using strs_of_JStr [of "map f xs"] by simp

lemma detect_one_type: "detect_one mc d = Some x \<Longrightarrow> rd_Type x = rd_Type d \<and> rd_Provider x = rd_Provider d"
  by (auto simp: detect_one_def RuntimeDef.extend_def split: option.splits)

lemma pickRuntime_first:
  "pickRuntime (DetectRuntimes mc) = (case DetectRuntimes mc of [] \<Rightarrow> None | d # _ \<Rightarrow> Some d)"
proof -
  obtain a b c d where s: "SupportedRuntimes = [a, b, c, d]"
    and t: "rd_Type a = RuntimeClaude" "rd_Type b = RuntimeCodex" "rd_Type c = RuntimeGemini" "rd_Type d = RuntimeKimi"
    by (simp add: SupportedRuntimes_def)
  show ?thesis
    unfolding DetectRuntimes_def pickRuntime_def s
    by (cases "detect_one mc a"; cases "detect_one mc b"; cases "detect_one mc c"; cases "detect_one mc d")
       (simp_all add: List.map_filter_simps RuntimeByType_def detect_one_type t runtime_names)
qed

text \<open>
  C32: The server reads the bridge's agent.hello as it was meant: the name, a role card
  listing every detected runtime, and as the runtime the very program, with its
  provider and version, that the bridge will run when it is woken.
\<close>

theorem hello_understood:
  "\<exists>h. ParseAgentHello (Some (hello_data nm (DetectRuntimes mc))) = Some h
     \<and> ah_Name h = nm \<and> rc_Capabilities (ah_RoleCard h) = map rd_Type (DetectRuntimes mc)
     \<and> (case pickRuntime (DetectRuntimes mc) of
          None \<Rightarrow> ah_Runtime h = \<lparr>ri_Type = ''cli'', ri_Provider = ''unknown'', ri_Model = ''''\<rparr>
        | Some rt \<Rightarrow> ah_Runtime h = \<lparr>ri_Type = rd_Type rt, ri_Provider = rd_Provider rt, ri_Model = dr_Version rt\<rparr>)"
  unfolding pickRuntime_first
  by (cases "DetectRuntimes mc")
     (simp_all add: hello_data_def Let_def ParseAgentHello_def AgentHelloData_member_def RoleCard_member_def
        RuntimeInfo_member_def set_struct_def str_obj_def key_eq_def lower_char_def)

section \<open>Waking up\<close>

text \<open>What the bridge keeps of a message.\<close>

definition heard :: "Message \<Rightarrow> wake_message" where
  "heard m = \<lparr>wm_ID = msg_ID m, wm_SenderID = msg_SenderID m, wm_Content = msg_Content m,
     wm_CreatedAt = msg_CreatedAt m\<rparr>"

lemma decode_brief:
  "- (2 ^ 63) \<le> msg_CreatedAt m \<Longrightarrow> msg_CreatedAt m < 2 ^ 63 \<Longrightarrow> decode_message (message_brief m) = Some (heard m)"
  by (simp add: decode_message_def message_brief_def wake_message_member_def key_eq_def lower_char_def heard_def)

lemma decode_briefs:
  "\<forall>m\<in>set ms. - (2 ^ 63) \<le> msg_CreatedAt m \<and> msg_CreatedAt m < 2 ^ 63 \<Longrightarrow>
   decode_each decode_message (map message_brief ms) = Some (map heard ms)"
  by (induction ms) (simp_all add: decode_brief)

lemma wake_decoded:
  assumes "\<forall>m\<in>set ms. - (2 ^ 63) \<le> msg_CreatedAt m \<and> msg_CreatedAt m < 2 ^ 63"
  shows "unmarshal wakeData_member (Some (wake_data reason (str_obj [(''id'', ch)]) (JArr (map message_brief ms)) nm))
      \<lparr>wk_Reason = '''', wk_Channel = '''', wk_Messages = []\<rparr>
    = Some \<lparr>wk_Reason = reason, wk_Channel = ch, wk_Messages = map heard ms\<rparr>"
  using decode_briefs [OF assms]
  by (simp add: wake_data_def omit_str_def str_obj_def wakeData_member_def wake_context_member_def
      wake_channel_member_def set_struct_def key_eq_def lower_char_def)

text \<open>
  C33: When the server wakes a bridge with the recent messages of a channel, the bridge
  tells that channel it is thinking and starts its preferred program on a prompt with
  the sender and the content of exactly those messages, in the server's order.
\<close>

theorem wake_understood:
  assumes "\<forall>m\<in>set ms. - (2 ^ 63) \<le> msg_CreatedAt m \<and> msg_CreatedAt m < 2 ^ 63"
    and "br_detected b = DetectRuntimes mc" "br_detected b = rt # rest"
    and "br_conn b = Some out" "\<not> br_broken b"
    and "env_Type e = ''agent.wake''"
    and "env_Data e = Some (wake_data reason (str_obj [(''id'', ch)]) (JArr (map message_brief ms)) nm)"
  shows "handleEvent e b = b\<lparr>
     br_conn := Some (out @ [newEnvelope ''agent.thinking'' (str_obj [(''channel_id'', ch)]) b]),
     br_jobs := br_jobs b @ [Spawned rt ch (''Recent conversation:'' @ [CHR 0x0A, CHR 0x0A]
       @ concat (map (\<lambda>m. ''['' @ msg_SenderID m @ ''] '' @ msg_Content m @ [CHR 0x0A]) ms)
       @ [CHR 0x0A] @ ''Respond to the latest message.'')]\<rparr>"
proof -
  have "DetectRuntimes mc = rt # rest" using assms(2,3) by simp
  then have p: "pickRuntime (br_detected b) = Some rt"
    using pickRuntime_first [of mc] assms(2) by simp
  have "buildPrompt (map heard ms) = ''Recent conversation:'' @ [CHR 0x0A, CHR 0x0A]
       @ concat (map (\<lambda>m. ''['' @ msg_SenderID m @ ''] '' @ msg_Content m @ [CHR 0x0A]) ms)
       @ [CHR 0x0A] @ ''Respond to the latest message.''"
    by (simp add: buildPrompt_def heard_def comp_def)
  with p show ?thesis
    unfolding handleEvent_def handleWake_def assms(6,7) wake_decoded [OF assms(1)]
    by (simp add: tell_def bridge_send_def assms(4,5))
qed

definition sample_machine :: machine where
  "sample_machine = \<lparr>windows = False, LookPath = (\<lambda>p. if p = ''codex'' then Some ''/bin/codex'' else None),
     CombinedOutput = (\<lambda>p a. Some ''codex 1.0'')\<rparr>"

definition sample_bridge :: Bridge where
  "sample_bridge = (NewBridge ''http://lark:8080'' ''key'' ''bot'')
     \<lparr>br_detected := DetectRuntimes sample_machine, br_conn := Some []\<rparr>"

definition sample_wake :: envelope where
  "sample_wake = \<lparr>env_V = 1, env_ID = ''e'', env_Type = ''agent.wake'', env_TS = 7,
     env_Data = Some (wake_data ''mention'' (str_obj [(''id'', ''c'')])
       (JArr (map message_brief (t_messages sample_db))) ''bot'')\<rparr>"

lemma sample_detected:
  "DetectRuntimes sample_machine = [RuntimeDef.extend (SupportedRuntimes ! 1)
     \<lparr>dr_Path = ''/bin/codex'', dr_Version = detectVersion sample_machine ''/bin/codex''\<rparr>]"
  by (simp add: DetectRuntimes_def SupportedRuntimes_def List.map_filter_simps detect_one_def sample_machine_def)

theorem wake_understood_witness:
  "length (br_jobs (handleEvent sample_wake sample_bridge)) = 1"
  using wake_understood [of "t_messages sample_db" sample_bridge sample_machine _ "[]" "[]" sample_wake
    "''mention''" "''c''" "''bot''"]
  by (simp add: sample_bridge_def sample_detected NewBridge_def sample_wake_def sample_db_eval(1) Message0_def)

section \<open>Jobs end\<close>

definition job_weight :: "job \<Rightarrow> nat" where
  "job_weight j = (case j of Spawned _ _ _ \<Rightarrow> 2 | AwaitAck _ _ \<Rightarrow> 1)"

definition jobs_weight :: "Bridge \<Rightarrow> nat" where
  "jobs_weight b = sum_list (map job_weight (br_jobs b))"

lemma tell_jobs [simp]: "br_jobs (tell t d b) = br_jobs b"
  by (simp add: tell_def bridge_send_def split: option.split)

lemma weight_split:
  "n < length xs \<Longrightarrow> sum_list (map f xs) = sum_list (map f (take n xs)) + f (xs ! n) + sum_list (map f (drop (Suc n) xs))"
  for f :: "'a \<Rightarrow> nat"
  by (subst id_take_nth_drop [of n xs]) simp_all

lemma job_step_weight: "job_step b b' \<Longrightarrow> jobs_weight b' < jobs_weight b"
proof (induction rule: job_step.induct)
  case (job_done n b rt ch prompt out err)
  then show ?case
    using weight_split [OF job_done(1), of job_weight]
    by (simp add: jobs_weight_def job_output_def job_weight_def upd_conv_take_nth_drop)
qed (simp_all add: jobs_weight_def job_acked_def job_timeout_def go_to_sleep_def drop_job_def weight_split job_weight_def)


section \<open>A response reaches the channel\<close>

text \<open>A healthy server and an agent's open connection r.\<close>

definition ready :: "nat \<Rightarrow> string \<Rightarrow> world \<Rightarrow> bool" where
  "ready r ch w \<longleftrightarrow> c_authenticated (heap w r) \<and> c_isAgent (heap w r) \<and> \<not> c_cancelled (heap w r)
     \<and> \<not> c_closed (heap w r) \<and> faults (db w) = []
     \<and> c_id (heap w r) \<noteq> '''' \<and> c_id (heap w r) \<in> mb_ID ` set (t_members (db w))
     \<and> ch \<noteq> '''' \<and> ch \<in> ch_ID ` set (t_channels (db w))"

definition fresh_uuids :: "store \<Rightarrow> bool" where
  "fresh_uuids s \<longleftrightarrow> inj (uuids s) \<and> (\<forall>k\<ge>uuid_ctr s. uuids s k \<noteq> '''' \<and> uuids s k \<notin> hd_ID ` set (t_drafts s)
     \<and> uuids s k \<notin> msg_ID ` set (t_messages s))"

lemma ctx_open: "\<not> c_cancelled (heap w r) \<Longrightarrow> with_ctx r op w = (fst (op (db w)), w\<lparr>db := snd (op (db w))\<rparr>)"
  by (simp add: with_ctx_def on_db_def split_beta)

lemma query_open: "faults s = [] \<Longrightarrow> query f s = (Inr (f s), s)"
  by (simp add: query_def take_fault_def)

lemma exec_open: "faults s = [] \<Longrightarrow> exec g s = (case g s of Inl e \<Rightarrow> (Inl e, s) | Inr t \<Rightarrow> (Inr (), t))"
  by (simp add: exec_def take_fault_def)

definition draft_of :: "string \<Rightarrow> string \<Rightarrow> string \<Rightarrow> store \<Rightarrow> HeldDraft" where
  "draft_of me ch content s = HeldDraft0\<lparr>hd_ID := uuids s (uuid_ctr s), hd_AgentID := me, hd_ChannelID := ch,
     hd_Content := content, hd_RoomVersion := ch_RoomVersion (the (List.find (\<lambda>c. ch_ID c = ch) (t_channels s))),
     hd_Status := ''held'', hd_ExpiresAt := now s + 600000, hd_CreatedAt := or_now 0 s, hd_UpdatedAt := or_now 0 s\<rparr>"

lemma find_id: "i \<in> f ` set xs \<Longrightarrow> \<exists>x. List.find (\<lambda>x. f x = i) xs = Some x \<and> f x = i \<and> x \<in> set xs"
  by (cases "List.find (\<lambda>x. f x = i) xs") (auto simp: find_None_iff dest: find_someD)

lemma create_draft_open:
  assumes "faults s = []" "me \<in> mb_ID ` set (t_members s)" "ch \<in> ch_ID ` set (t_channels s)" "fresh_uuids s"
  shows "CreateDraft (HeldDraft0\<lparr>hd_AgentID := me, hd_ChannelID := ch, hd_Content := content, hd_ThreadID := '''',
      hd_RoomVersion := ch_RoomVersion (the (List.find (\<lambda>c. ch_ID c = ch) (t_channels s))), hd_Status := ''held'',
      hd_ExpiresAt := now s + 600000\<rparr>) s
    = (Inr (), draft_of me ch content s, s\<lparr>uuid_ctr := Suc (uuid_ctr s), t_drafts := t_drafts s @ [draft_of me ch content s]\<rparr>)"
  using assms
  by (simp add: CreateDraft_def fresh_id_def new_uuid_def exec_open insert_checked_def bad_def dup_def
      draft_status_ok_def draft_fks_def fresh_uuids_def draft_of_def HeldDraft0_def or_now_def Let_def)

lemma version_open:
  assumes "faults s = []" "ch \<in> ch_ID ` set (t_channels s)"
  shows "GetChannelRoomVersion ch s = (Inr (ch_RoomVersion (the (List.find (\<lambda>c. ch_ID c = ch) (t_channels s)))), s)"
  using find_id [OF assms(2)] by (auto simp: GetChannelRoomVersion_def query_open [OF assms(1)])

lemma draft_created:
  assumes "ready r ch w" "fresh_uuids (db w)" "content \<noteq> ''''"
  defines "d \<equiv> draft_of (c_id (heap w r)) ch content (db w)"
  shows "handleWSDraftCreate r (Some (str_obj [(''channel_id'', ch), (''content'', content)])) w
    = reply r ''draft.ack'' (JObj [(''draft_id'', JStr (hd_ID d)), (''room_version'', JNum (hd_RoomVersion d))])
        (w\<lparr>db := (db w)\<lparr>uuid_ctr := Suc (uuid_ctr (db w)), t_drafts := t_drafts (db w) @ [d]\<rparr>\<rparr>)"
proof -
  note r = assms(1) [unfolded ready_def]
  have p: "unmarshal_strs [''channel_id'', ''content'', ''thread_id'']
      (Some (str_obj [(''channel_id'', ch), (''content'', content)])) = Some [ch, content, '''']"
    by (simp add: unmarshal_strs_def str_obj_def key_eq_def lower_char_def)
  show ?thesis
    using create_draft_open [of "db w" "c_id (heap w r)" ch content] version_open [of "db w" ch] r assms(2,3)
    by (simp add: handleWSDraftCreate_def if_agent_def p ctx_open made_def d_def)
qed

lemma put_message_parents:
  "ids (put_message x s) PChannel = ids s PChannel" "ids (put_message x s) PMember = ids s PMember"
  by (simp_all add: put_message_def upd_where_def comp_def if_distrib cong: if_cong)

lemma create_message_open:
  assumes "faults s = []" "uuids s (uuid_ctr s) \<noteq> ''''" "uuids s (uuid_ctr s) \<notin> msg_ID ` set (t_messages s)"
    and "msg_ID x = ''''" "msg_ThreadID x = ''''" "msg_Type x \<noteq> ''''" "msg_ChannelID x \<noteq> ''''" "msg_SenderID x \<noteq> ''''"
    and "msg_ChannelID x \<in> ch_ID ` set (t_channels s)" "msg_SenderID x \<in> mb_ID ` set (t_members s)"
  shows "CreateMessage x s = (Inr (), x\<lparr>msg_ID := uuids s (uuid_ctr s), msg_CreatedAt := now s, msg_UpdatedAt := now s\<rparr>,
    put_message (message_row (x\<lparr>msg_ID := uuids s (uuid_ctr s), msg_CreatedAt := now s, msg_UpdatedAt := now s\<rparr>))
      (s\<lparr>uuid_ctr := Suc (uuid_ctr s)\<rparr>))"
proof -
  let ?m = "x\<lparr>msg_ID := uuids s (uuid_ctr s), msg_CreatedAt := now s, msg_UpdatedAt := now s\<rparr>"
  let ?s = "s\<lparr>uuid_ctr := Suc (uuid_ctr s)\<rparr>"
  have m: "?m\<lparr>msg_Type := msg_Type x\<rparr> = ?m" by simp
  have "list_all (fk_sat (ids (put_message (message_row ?m) ?s))) (message_fks (message_row ?m))"
    using assms(5,9,10) unfolding message_fks_def
    by (simp add: put_message_parents message_row_def nullStr_def del: ids.simps) simp
  then show ?thesis
    using assms(1-4,6-8)
    by (simp add: CreateMessage_def fresh_id_def new_uuid_def exec_open insert_checked_def dup_def Let_def)
qed

lemma draft_sent:
  assumes "ready r ch w" "fresh_uuids (db w)"
    and "List.find (\<lambda>d. hd_ID d = i) (t_drafts (db w)) = Some d" "i \<noteq> ''''"
    and "hd_AgentID d = c_id (heap w r)" "hd_ChannelID d = ch" "hd_ThreadID d = ''''" "hd_Status d = ''held''"
    and "hd_RoomVersion d = ch_RoomVersion (the (List.find (\<lambda>c. ch_ID c = ch) (t_channels (db w))))"
  shows "\<exists>m\<in>set (t_messages (db (handleWSDraftSend r (Some (str_obj [(''draft_id'', i)])) w))).
    msg_SenderID m = c_id (heap w r) \<and> msg_ChannelID m = ch \<and> msg_Content m = hd_Content d"
proof -
  note r = assms(1) [unfolded ready_def]
  have p: "unmarshal DraftSendData_member (Some (str_obj [(''draft_id'', i)])) \<lparr>ds_DraftID = '''', ds_ForceVersion = False\<rparr>
      = Some \<lparr>ds_DraftID = i, ds_ForceVersion = False\<rparr>"
    by (simp add: str_obj_def DraftSendData_member_def key_eq_def lower_char_def)
  have g: "GetDraft i (db w) = (Inr (Some d), db w)" using r assms(3) by (simp add: GetDraft_def query_open)
  let ?x = "draft_message d"
  let ?m = "?x\<lparr>msg_ID := uuids (db w) (uuid_ctr (db w)), msg_CreatedAt := now (db w), msg_UpdatedAt := now (db w)\<rparr>"
  let ?s = "put_message (message_row ?m) ((db w)\<lparr>uuid_ctr := Suc (uuid_ctr (db w))\<rparr>)"
  have c: "CreateMessage ?x (db w) = (Inr (), ?m, ?s)"
    using r assms by (intro create_message_open) (auto simp: draft_message_def Message0_def fresh_uuids_def)
  have v: "GetChannelRoomVersion ch (db w) = (Inr (hd_RoomVersion d), db w)"
    using version_open [of "db w" ch] r assms(9) by simp
  have f: "faults ?s = []" using r by (simp add: put_message_def)
  have u: "UpdateDraftStatus i ''sent'' ?s = (Inr (), ?s\<lparr>t_drafts := upd_where (\<lambda>d. hd_ID d = i)
         (\<lambda>d. d\<lparr>hd_Status := ''sent'', hd_UpdatedAt := now ?s\<rparr>) (t_drafts ?s)\<rparr>)"
    by (simp add: UpdateDraftStatus_def exec_open f draft_status_ok_def)
  have "t_messages (db (handleWSDraftSend r (Some (str_obj [(''draft_id'', i)])) w)) = t_messages ?s"
    using r assms(4-8)
    by (simp add: handleWSDraftSend_def if_agent_def p ctx_open g v staleAfter_def made_def c u
        SendNewMessage_def to_channel_def reply_def stamp_def on_db_def NewEnvelope_def new_uuid_def split_beta send_ref_def)
  moreover have "\<exists>m\<in>set (t_messages ?s). msg_SenderID m = c_id (heap w r) \<and> msg_ChannelID m = ch \<and> msg_Content m = hd_Content d"
    using assms(5-7) by (auto simp: put_message_def upd_where_def message_row_def draft_message_def Message0_def nullStr_def)
  ultimately show ?thesis by simp
qed

definition frames :: "Bridge \<Rightarrow> envelope list" where
  "frames b = (case br_conn b of None \<Rightarrow> [] | Some out \<Rightarrow> out)"

lemma frames_tell:
  "br_conn b = Some out \<Longrightarrow> \<not> br_broken b \<Longrightarrow> tell t d b = b\<lparr>br_conn := Some (out @ [newEnvelope t d b])\<rparr>"
  by (simp add: tell_def bridge_send_def)

lemma dispatch_drafts:
  "env_Type e = ''draft.create'' \<Longrightarrow> handleWSEvent r e w = handleWSDraftCreate r (env_Data e) w"
  "env_Type e = ''draft.send'' \<Longrightarrow> handleWSEvent r e w = handleWSDraftSend r (env_Data e) w"
  by (simp_all add: handleWSEvent_def ws_handlers_def)

lemma agent_response_nonempty: "agent_response out err \<noteq> ''''"
  by (simp add: agent_response_def Let_def)

text \<open>The server's half: the acknowledged draft is found again and becomes a message.\<close>

lemma draft_then_sent:
  assumes r: "ready r ch w" and u: "fresh_uuids (db w)" and d: "d = draft_of (c_id (heap w r)) ch resp (db w)"
    and w1: "w1 = reply r ''draft.ack'' data
      (w\<lparr>db := (db w)\<lparr>uuid_ctr := Suc (uuid_ctr (db w)), t_drafts := t_drafts (db w) @ [d]\<rparr>\<rparr>)"
  shows "\<exists>m\<in>set (t_messages (db (handleWSDraftSend r (Some (str_obj [(''draft_id'', hd_ID d)])) w1))).
    msg_SenderID m = c_id (heap w r) \<and> msg_ChannelID m = ch \<and> msg_Content m = resp"
proof -
  have db1: "t_channels (db w1) = t_channels (db w)" "t_drafts (db w1) = t_drafts (db w) @ [d]"
    "t_messages (db w1) = t_messages (db w)" "t_members (db w1) = t_members (db w)" "faults (db w1) = faults (db w)"
    "uuids (db w1) = uuids (db w)" "uuid_ctr (db w1) = Suc (Suc (uuid_ctr (db w)))"
    by (simp_all add: w1 reply_def stamp_def on_db_def NewEnvelope_def new_uuid_def split_beta)
  have h1: "c_id (heap w1 r) = c_id (heap w r)" "c_authenticated (heap w1 r) = c_authenticated (heap w r)"
    "c_isAgent (heap w1 r) = c_isAgent (heap w r)" "c_cancelled (heap w1 r) = c_cancelled (heap w r)"
    "c_closed (heap w1 r) = c_closed (heap w r)"
    by (simp_all add: w1 reply_def stamp_def on_db_def split_beta send_ref_def Send_def)
  have "ready r ch w1" using r by (simp add: ready_def db1 h1)
  moreover have "uuids (db w) k \<noteq> hd_ID d" if "Suc (Suc (uuid_ctr (db w))) \<le> k" for k
    using that u by (auto simp: fresh_uuids_def d draft_of_def dest: injD)
  then have "fresh_uuids (db w1)" using u by (auto simp: fresh_uuids_def db1)
  moreover have nf: "List.find (\<lambda>x. hd_ID x = hd_ID d) (t_drafts (db w)) = None" "hd_ID d \<noteq> ''''"
    using u by (force simp: fresh_uuids_def d draft_of_def find_None_iff)+
  then have "List.find (\<lambda>x. hd_ID x = hd_ID d) (t_drafts (db w1)) = Some d" by (simp add: db1 find_append)
  moreover note nf(2)
  ultimately have "\<exists>m\<in>set (t_messages (db (handleWSDraftSend r (Some (str_obj [(''draft_id'', hd_ID d)])) w1))).
    msg_SenderID m = c_id (heap w1 r) \<and> msg_ChannelID m = ch \<and> msg_Content m = hd_Content d"
    by (rule draft_sent) (simp_all add: h1 db1 d draft_of_def HeldDraft0_def)
  moreover have "hd_Content d = resp" by (simp add: d draft_of_def)
  ultimately show ?thesis by (simp only: h1)
qed

text \<open>The bridge's half: it takes the acknowledgement and names the draft in its draft.send.\<close>

lemma ack_taken:
  assumes b1: "b1 = b\<lparr>br_jobs := (br_jobs b)[n := AwaitAck ch resp], br_conn := Some out\<rparr>"
    and b: "\<not> br_broken b" "br_acks b = None" "n < length (br_jobs b)"
    and e: "env_Type e = ''draft.ack''" "env_Data e = Some (JObj [(''draft_id'', JStr i), (''room_version'', JNum v)])"
    and v: "- (2 ^ 63) \<le> v" "v < 2 ^ 63"
    and b2: "b2 = handleEvent e b1" and ack: "ack = \<lparr>ak_DraftID = i, ak_RoomVersion = v\<rparr>"
  shows "br_acks b2 = Some ack" "job_step b2 (job_acked n ack b2)"
    "frames (job_acked n ack b2) ! length (frames b1) = newEnvelope ''draft.send'' (str_obj [(''draft_id'', i)]) b"
proof -
  have s: "b2 = b1\<lparr>br_acks := Some ack\<rparr>"
    using v e by (simp add: b2 handleEvent_def handleDraftAck_def draftAckData_member_def
        key_eq_def lower_char_def b1 b(2) ack)
  then show "br_acks b2 = Some ack" by simp
  show "job_step b2 (job_acked n ack b2)" using b(3) by (intro job_ack [of n _ ch resp]) (simp_all add: s b1)
  show "frames (job_acked n ack b2) ! length (frames b1) = newEnvelope ''draft.send'' (str_obj [(''draft_id'', i)]) b"
    by (simp add: s b1 job_acked_def go_to_sleep_def drop_job_def frames_tell frames_def b(1) ack
        newEnvelope_def nth_append)
qed

text \<open>
  C29: The whole exchange: on a server without faults, when a program run for an
  agent's channel ends, the draft.create frame the bridge writes makes the server hold
  the response and answer draft.ack; that frame makes the bridge write draft.send, and
  that makes the server store, as the agent's message in that channel, exactly the
  response.
\<close>

theorem response_posted:
  assumes "ready r ch w" "fresh_uuids (db w)" "length (c_send (heap w r)) < send_cap"
    and "\<forall>c\<in>set (t_channels (db w)). - (2 ^ 63) \<le> ch_RoomVersion c \<and> ch_RoomVersion c < 2 ^ 63"
    and "br_conn b = Some out" "\<not> br_broken b" "br_acks b = None"
    and "n < length (br_jobs b)" "br_jobs b ! n = Spawned rt ch prompt"
    and "b1 = job_output n ch (agent_response stdout stderr) b"
    and "w1 = handleWSEvent r (last (frames b1)) w"
    and "b2 = handleEvent (last (c_send (heap w1 r))) b1"
  shows "\<exists>ack. br_acks b2 = Some ack \<and> job_step b2 (job_acked n ack b2)
    \<and> (\<exists>m\<in>set (t_messages (db (handleWSEvent r (frames (job_acked n ack b2) ! length (frames b1)) w1))).
         msg_SenderID m = c_id (heap w r) \<and> msg_ChannelID m = ch \<and> msg_Content m = agent_response stdout stderr)"
proof -
  let ?resp = "agent_response stdout stderr"
  define d where "d = draft_of (c_id (heap w r)) ch ?resp (db w)"
  define e1 where "e1 = newEnvelope ''draft.create'' (str_obj [(''channel_id'', ch), (''content'', ?resp)]) b"
  define data where "data = JObj [(''draft_id'', JStr (hd_ID d)), (''room_version'', JNum (hd_RoomVersion d))]"
  note r = assms(1) [unfolded ready_def]
  have b1: "b1 = b\<lparr>br_jobs := (br_jobs b)[n := AwaitAck ch ?resp], br_conn := Some (out @ [e1])\<rparr>"
    using assms(5,6) by (simp add: assms(10) job_output_def frames_tell e1_def newEnvelope_def)
  have w1: "w1 = reply r ''draft.ack'' data
      (w\<lparr>db := (db w)\<lparr>uuid_ctr := Suc (uuid_ctr (db w)), t_drafts := t_drafts (db w) @ [d]\<rparr>\<rparr>)"
    using draft_created [OF assms(1,2) agent_response_nonempty]
    by (simp add: assms(11) b1 frames_def dispatch_drafts e1_def newEnvelope_def d_def data_def)
  obtain c where c: "List.find (\<lambda>c. ch_ID c = ch) (t_channels (db w)) = Some c" "c \<in> set (t_channels (db w))"
    using find_id [of ch ch_ID "t_channels (db w)"] r by blast
  have v: "- (2 ^ 63) \<le> hd_RoomVersion d" "hd_RoomVersion d < 2 ^ 63"
    using assms(4) c by (auto simp: d_def draft_of_def)
  have e2: "env_Type (last (c_send (heap w1 r))) = ''draft.ack''" "env_Data (last (c_send (heap w1 r))) =
      Some (JObj [(''draft_id'', JStr (hd_ID d)), (''room_version'', JNum (hd_RoomVersion d))])"
    using r assms(3) by (simp_all add: w1 data_def reply_def stamp_def on_db_def NewEnvelope_def new_uuid_def
        send_ref_def Send_def split_beta)
  note bridge = ack_taken [OF b1 assms(6,7,8) e2 v assms(12) refl]
  have sent: "handleWSEvent r (frames (job_acked n \<lparr>ak_DraftID = hd_ID d, ak_RoomVersion = hd_RoomVersion d\<rparr> b2) ! length (frames b1)) w1 =
      handleWSDraftSend r (Some (str_obj [(''draft_id'', hd_ID d)])) w1"
    unfolding bridge(3) by (simp add: dispatch_drafts newEnvelope_def)
  show ?thesis
  proof (intro exI conjI)
    show "\<exists>m\<in>set (t_messages (db (handleWSEvent r (frames (job_acked n \<lparr>ak_DraftID = hd_ID d, ak_RoomVersion = hd_RoomVersion d\<rparr> b2)
        ! length (frames b1)) w1))). msg_SenderID m = c_id (heap w r) \<and> msg_ChannelID m = ch \<and> msg_Content m = ?resp"
      unfolding sent by (rule draft_then_sent [OF assms(1,2) d_def w1])
  qed (rule bridge)+
qed

definition sample_server :: world where
  "sample_server = sample_world\<lparr>db := sample_db\<lparr>uuids := (\<lambda>n. replicate (Suc n) CHR ''x'')\<rparr>\<rparr>"

definition sample_busy :: Bridge where
  "sample_busy = sample_bridge\<lparr>br_jobs := [Spawned (hd (DetectRuntimes sample_machine)) ''c'' ''p'']\<rparr>"

lemma sample_server_ready: "ready 1 ''c'' sample_server" "fresh_uuids (db sample_server)"
  "length (c_send (heap sample_server 1)) < send_cap"
  "\<forall>c\<in>set (t_channels (db sample_server)). ch_RoomVersion c = 2"
proof -
  have h: "c_authenticated (heap sample_world 1)" "c_isAgent (heap sample_world 1)" "\<not> c_cancelled (heap sample_world 1)"
    by code_simp+
  have i: "mb_ID ` set (t_members sample_db) = {''m'', ''n''}" "ch_ID ` set (t_channels sample_db) = {''c''}"
    using sample_db_eval(3,4) by (metis list.set_map set_simps insert_commute empty_set list.simps(15))+
  show "ready 1 ''c'' sample_server"
    using sample_world_eval h i by (simp add: ready_def sample_server_def sample_db_eval(5) del: One_nat_def)
  have "inj (\<lambda>n. replicate (Suc n) CHR ''x'')" by (rule injI) (metis length_replicate nat.inject)
  moreover have "replicate (Suc k) CHR ''x'' \<noteq> ''a''" "replicate (Suc k) CHR ''x'' \<noteq> ''b''" for k by simp_all
  moreover have "t_drafts sample_db = []" by code_simp
  ultimately show "fresh_uuids (db sample_server)"
    by (simp add: fresh_uuids_def sample_server_def sample_db_eval(1) Message0_def)
  show "length (c_send (heap sample_server 1)) < send_cap"
    using sample_world_eval by (simp add: sample_server_def send_cap_def del: One_nat_def)
  have "\<forall>c\<in>set (t_channels sample_db). ch_RoomVersion c = 2"
    using arg_cong [OF sample_db_eval(2), of set] by auto
  then show "\<forall>c\<in>set (t_channels (db sample_server)). ch_RoomVersion c = 2" by (simp add: sample_server_def)
qed

theorem response_posted_witness:
  "\<exists>e. \<exists>m\<in>set (t_messages (db (handleWSEvent 1 e (handleWSEvent 1
       (last (frames (job_output 0 ''c'' (agent_response ''done'' '''') sample_busy))) sample_server)))).
     msg_SenderID m = ''n'' \<and> msg_ChannelID m = ''c'' \<and> msg_Content m = agent_response ''done'' ''''"
proof -
  have "c_id (heap sample_server 1) = ''n''"
    using sample_world_eval by (simp add: sample_server_def del: One_nat_def)
  moreover have "\<exists>e. \<exists>m\<in>set (t_messages (db (handleWSEvent 1 e (handleWSEvent 1
       (last (frames (job_output 0 ''c'' (agent_response ''done'' '''') sample_busy))) sample_server)))).
     msg_SenderID m = c_id (heap sample_server 1) \<and> msg_ChannelID m = ''c'' \<and> msg_Content m = agent_response ''done'' ''''"
    using response_posted [OF sample_server_ready(1-3) _ _ _ _ _ _ refl refl refl, of sample_busy "[]" 0 _ "''p''"
        "''done''" "''''"] sample_server_ready(4)
    by (auto simp: sample_busy_def sample_bridge_def NewBridge_def)
  ultimately show ?thesis by simp
qed

section \<open>Late acknowledgements\<close>

definition told :: "Bridge \<Rightarrow> (string \<times> json option) list" where
  "told b = map (\<lambda>e. (env_Type e, env_Data e)) (frames b)"

definition ack_data :: "string \<Rightarrow> int \<Rightarrow> json" where
  "ack_data i v = JObj [(''draft_id'', JStr i), (''room_version'', JNum v)]"

lemma ack_read:
  assumes "br_acks b = None" "env_Type e = ''draft.ack''" "env_Data e = Some (ack_data i v)"
    "- (2 ^ 63) \<le> v" "v < 2 ^ 63"
  shows "handleEvent e b = b\<lparr>br_acks := Some \<lparr>ak_DraftID = i, ak_RoomVersion = v\<rparr>\<rparr>"
  using assms by (simp add: handleEvent_def handleDraftAck_def ack_data_def draftAckData_member_def key_eq_def lower_char_def)

lemma told_tell:
  "br_conn b = Some out \<Longrightarrow> \<not> br_broken b \<Longrightarrow> told (tell t d b) = told b @ [(t, Some d)]"
  "br_conn b = Some out \<Longrightarrow> \<not> br_broken b \<Longrightarrow> br_conn (tell t d b) = Some (out @ [newEnvelope t d b])"
  "br_broken (tell t d b) = br_broken b" "br_acks (tell t d b) = br_acks b"
  by (simp_all add: told_def frames_tell frames_def newEnvelope_def) (simp_all add: tell_def bridge_send_def split: option.split)

text \<open>
  C35: Acknowledgements carry nothing that ties them to a response.  If the ack of a
  first draft comes after the five seconds, the response has been posted directly and
  the ack stays in the channel; the next response r2 takes it at once: the bridge sends
  the first draft again, and r2's own ack, when it comes, waits for the response after
  it.  So r1 is posted twice and r2 not at all.
\<close>

theorem late_ack_shifts_drafts:
  assumes "br_conn b = Some out" "\<not> br_broken b" "br_acks b = None" "br_jobs b = [AwaitAck ch r1]"
    and "env_Type e1 = ''draft.ack''" "env_Data e1 = Some (ack_data d1 v1)" "- (2 ^ 63) \<le> v1" "v1 < 2 ^ 63"
    and "env_Type e2 = ''draft.ack''" "env_Data e2 = Some (ack_data d2 v2)" "- (2 ^ 63) \<le> v2" "v2 < 2 ^ 63"
    and "b1 = handleEvent e1 (job_timeout 0 ch r1 b)"
    and "b2 = job_output 0 ch2 r2 (b1\<lparr>br_jobs := [Spawned rt ch2 p]\<rparr>)"
    and "b3 = job_acked 0 (the (br_acks b2)) b2"
  shows "job_step b (job_timeout 0 ch r1 b) \<and> job_step b2 b3 \<and> br_jobs b3 = []
    \<and> told b3 = told b @
      [(''message.send'', Some (str_obj [(''channel_id'', ch), (''content'', r1), (''content_type'', ''text'')])),
       (''agent.sleep'', Some JNull),
       (''draft.create'', Some (str_obj [(''channel_id'', ch2), (''content'', r2)])),
       (''draft.send'', Some (str_obj [(''draft_id'', d1)])), (''agent.sleep'', Some JNull)]
    \<and> br_acks (handleEvent e2 b3) = Some \<lparr>ak_DraftID = d2, ak_RoomVersion = v2\<rparr>"
proof -
  let ?t = "job_timeout 0 ch r1 b"
  have t: "br_acks ?t = None" "br_jobs ?t = []" "\<not> br_broken ?t" "\<exists>out. br_conn ?t = Some out"
    "told ?t = told b @ [(''message.send'', Some (str_obj [(''channel_id'', ch), (''content'', r1),
       (''content_type'', ''text'')])), (''agent.sleep'', Some JNull)]"
    using assms(1-4)
    by (simp_all add: job_timeout_def go_to_sleep_def drop_job_def told_tell) (simp add: told_def frames_def)
  have b1: "b1 = ?t\<lparr>br_acks := Some \<lparr>ak_DraftID = d1, ak_RoomVersion = v1\<rparr>\<rparr>"
    unfolding assms(13) using ack_read [OF t(1) assms(5-8)] .
  have b2: "br_jobs b2 = [AwaitAck ch2 r2]" "br_acks b2 = Some \<lparr>ak_DraftID = d1, ak_RoomVersion = v1\<rparr>"
    "\<not> br_broken b2" "\<exists>out. br_conn b2 = Some out"
    "told b2 = told ?t @ [(''draft.create'', Some (str_obj [(''channel_id'', ch2), (''content'', r2)]))]"
    using t by (auto simp: assms(14) b1 job_output_def told_tell) (simp add: told_def frames_def)
  have b3: "br_jobs b3 = []" "br_acks b3 = None"
    "told b3 = told b2 @ [(''draft.send'', Some (str_obj [(''draft_id'', d1)])), (''agent.sleep'', Some JNull)]"
    using b2(1-4) by (auto simp: assms(15) job_acked_def go_to_sleep_def drop_job_def told_tell) (simp add: told_def frames_def)
  have s: "job_step b ?t" "job_step b2 b3"
    using assms(4) b2 by (auto intro: job_late job_ack simp: assms(15))
  show ?thesis using s b3 b2(5) t(5) ack_read [OF b3(2) assms(9-12)] by simp
qed

theorem late_ack_shifts_drafts_witness:
  "told (job_acked 0 \<lparr>ak_DraftID = ''d'', ak_RoomVersion = 3\<rparr> (job_output 0 ''c'' ''two''
      ((handleEvent (event ''draft.ack'' (Some (ack_data ''d'' 3)))
         (job_timeout 0 ''c'' ''one'' (sample_bridge\<lparr>br_jobs := [AwaitAck ''c'' ''one'']\<rparr>)))
       \<lparr>br_jobs := [Spawned (hd (DetectRuntimes sample_machine)) ''c'' ''p'']\<rparr>))) ! 3
    = (''draft.send'', Some (str_obj [(''draft_id'', ''d'')]))"
proof -
  let ?b = "sample_bridge\<lparr>br_jobs := [AwaitAck ''c'' ''one'']\<rparr>"
  let ?b1 = "handleEvent (event ''draft.ack'' (Some (ack_data ''d'' 3))) (job_timeout 0 ''c'' ''one'' ?b)"
  let ?b2 = "job_output 0 ''c'' ''two'' (?b1\<lparr>br_jobs := [Spawned (hd (DetectRuntimes sample_machine)) ''c'' ''p'']\<rparr>)"
  have b: "br_conn ?b = Some []" "\<not> br_broken ?b" "br_acks ?b = None" "br_jobs ?b = [AwaitAck ''c'' ''one'']" "told ?b = []"
    by (simp_all add: sample_bridge_def NewBridge_def told_def frames_def)
  have "br_acks ?b2 = Some \<lparr>ak_DraftID = ''d'', ak_RoomVersion = 3\<rparr>"
    using b by (simp add: job_output_def told_tell event_def ack_read job_timeout_def go_to_sleep_def drop_job_def)
  then show ?thesis
    using late_ack_shifts_drafts [OF b(1-4), of "event ''draft.ack'' (Some (ack_data ''d'' 3))" "''d''" 3
        "event ''draft.ack'' (Some (ack_data ''f'' 4))" "''f''" 4 ?b1 ?b2 "''c''" "''two''"
        "hd (DetectRuntimes sample_machine)" "''p''" "job_acked 0 (the (br_acks ?b2)) ?b2"] b(5)
    by (simp add: event_def)
qed

end
