(* ===== verification/Flow_Props.thy ===== *)
theory Flow_Props
  imports Flow_Serves Db_Types Ws_Props
begin

text \<open>
  What a workflow run does: the report it leaves, how long it can take, and two places
  where the engine does not do what the workflow's author would expect.
\<close>

section \<open>What a step leaves alone\<close>

text \<open>The clock and the run table.\<close>

definition calm :: "store \<Rightarrow> store \<Rightarrow> bool" where
  "calm s s' \<longleftrightarrow> now s' = now s \<and> t_runs s' = t_runs s"

lemma calm_refl [simp]: "calm s s"
  by (simp add: calm_def)

lemma calm_trans: "calm s t \<Longrightarrow> calm t u \<Longrightarrow> calm s u"
  by (simp add: calm_def)

lemma calm_fault: "calm s (snd (take_fault s))"
  by (cases "faults s") (simp_all add: take_fault_def calm_def)

lemma calm_exec:
  assumes "\<And>t t'. g t = Inr t' \<Longrightarrow> calm t t'"
  shows "calm s (snd (exec g s))"
proof -
  obtain f u where f: "take_fault s = (f, u)" by force
  then have "calm s u" using calm_fault [of s] by simp
  then show ?thesis using f assms calm_trans by (auto simp: exec_def split: option.split sum.split)
qed

lemma calm_query: "calm s (snd (query f s))"
proof -
  have "snd (query f s) = snd (take_fault s)"
    by (simp add: query_def split_beta split: option.split prod.split)
  then show ?thesis by (simp add: calm_fault)
qed

lemma calm_fresh: "calm s (snd (fresh_id i s))"
  by (simp add: fresh_id_def new_uuid_def calm_def)

lemma calm_fresh_exec:
  "(\<And>t t'. g t = Inr t' \<Longrightarrow> calm t t') \<Longrightarrow> calm s (snd (exec g (snd (fresh_id i s))))"
  by (rule calm_trans [OF calm_fresh calm_exec])

lemma calm_creates:
  "calm s (snd (snd (CreateMessage m s)))" "calm s (snd (snd (CreateChannel c s)))"
  "calm s (snd (snd (CreateTask t s)))" "calm s (snd (snd (UpdateTask t s)))"
  "calm s (snd (snd (CreateNotification n s)))"
  by (auto simp: CreateMessage_def CreateChannel_def CreateTask_def UpdateTask_def CreateNotification_def
      Let_def split_beta put_message_def intro!: calm_exec calm_fresh_exec dest!: insert_checkedD split: if_splits)
    (auto simp: calm_def)

lemma calm_dm: "calm s (snd (snd (CreateDMChannel c mids s)))"
proof -
  obtain r c' s' where d: "CreateDMChannel c mids s = (r, c', s')" by (metis prod.exhaust)
  then have "same_tables s s'"
    using retry_frame [of maxRetries mids c s r c' s'] by (simp add: CreateDMChannel_def maxRetries_def)
  then show ?thesis by (auto simp: d same_tables_def calm_def)
qed

lemma calm_on_ok:
  assumes "calm s (snd r)" "\<And>x t. calm t (snd (k x t))"
  shows "calm s (snd (on_ok r k))"
proof -
  obtain x t where r: "r = (x, t)" by force
  then show ?thesis using assms(1) assms(2) [of t] by (cases x) (auto intro: calm_trans)
qed

lemma calm_lookups: "calm s (snd (GetTask i s))" "calm s (snd (GetDMChannel wid mids s))"
proof -
  show "calm s (snd (GetTask i s))" by (simp add: GetTask_def calm_fault)
  have "calm t (snd (case cid of None \<Rightarrow> (Inr None, t) | Some cid \<Rightarrow> GetChannel cid t))" for cid t
    by (simp add: GetChannel_def calm_fault split: option.split)
  then show "calm s (snd (GetDMChannel wid mids s))"
    by (auto simp: GetDMChannel_def intro!: calm_on_ok calm_query)
qed

section \<open>Steps\<close>

text \<open>
  A step leaves the run table alone, takes at most five minutes or until the deadline,
  and keeps the number in its entry.
\<close>

definition settled :: "int \<Rightarrow> outcome \<Rightarrow> world \<Rightarrow> step_answer \<Rightarrow> bool" where
  "settled dl res w = (\<lambda>(res', out, w'). t_runs (db w') = t_runs (db w) \<and> now (db w) \<le> now (db w')
     \<and> now (db w') \<le> max dl (now (db w) + 300000) \<and> go_get res' ''step'' = go_get res ''step'')"

definition calmly :: "world \<Rightarrow> world \<Rightarrow> bool" where
  "calmly w w' \<longleftrightarrow> calm (db w) (db w')"

lemma calmly_refl [simp]: "calmly w w"
  by (simp add: calmly_def)

lemma calmly_trans: "calmly w v \<Longrightarrow> calmly v u \<Longrightarrow> calmly w u"
  by (simp add: calmly_def calm_def)

lemma settled_calmly: "calmly w w' \<Longrightarrow> go_get res' ''step'' = go_get res ''step'' \<Longrightarrow> settled dl res w (res', out, w')"
  by (simp add: settled_def calmly_def calm_def)

lemma calmly_deadline:
  assumes "\<And>s. calm s (snd (op s))"
  shows "calmly w (snd (by_deadline dl op w))"
  using assms [of "(db w)\<lparr>faults := [Some ''context deadline exceeded'']\<rparr>"] assms [of "db w"]
  by (simp add: by_deadline_def on_db_def calmly_def calm_def split_beta)

lemma calmly_send: "calmly w (SendNewMessage ch m w)"
  by (simp add: SendNewMessage_def to_channel_def stamp_def on_db_def NewEnvelope_def new_uuid_def split_beta
      calmly_def calm_def)

lemma keeps_step: "k \<noteq> ''step'' \<Longrightarrow> go_get (go_put k v m) ''step'' = go_get m ''step''"
  by (simp add: go_any.lookup_put)

lemma keeps_failed: "go_get (failed_with e res) ''step'' = go_get res ''step''"
  by (simp add: failed_with_def keeps_step)

lemma settled_made:
  assumes "\<And>s. calm s (snd (snd (op s)))"
    and "\<And>r v. calmly w v \<Longrightarrow> settled dl res w (k r v)"
  shows "settled dl res w (step_made dl op k res w)"
proof -
  obtain x r v where b: "by_deadline dl (made op) w = ((x, r), v)" by (metis prod.exhaust)
  have "calmly w v"
    using calmly_deadline [of "made op" w dl] assms(1) b by (simp add: made_def split_beta)
  then show ?thesis
    using assms(2) by (auto simp: step_made_def b settled_calmly keeps_failed split: sum.split)
qed

lemma settled_from:
  "calmly w v \<Longrightarrow> settled dl res v a \<Longrightarrow> settled dl res w a"
  by (auto simp: settled_def calmly_def calm_def)

lemma settled_send: "settled dl res w (step_send dl ch who txt res w)"
  unfolding step_send_def
  by (rule settled_made) (auto simp: calm_creates both_def keeps_step intro!: settled_calmly elim: calmly_trans [OF _ calmly_send])

lemma settled_dm: "settled dl res w (step_dm dl flow who txt res w)"
proof -
  obtain dm v where d: "by_deadline dl (GetDMChannel (wf_WorkspaceID flow) [wf_CreatedBy flow, who]) w = (dm, v)" by force
  have v: "calmly w v"
    using calmly_deadline [of "GetDMChannel (wf_WorkspaceID flow) [wf_CreatedBy flow, who]" w dl] calm_lookups(2) d by simp
  have "settled dl res v (step_made dl (\<lambda>s. CreateDMChannel c ids s) (\<lambda>c. step_send dl (ch_ID c) p txt res) res v)" for c ids p
    by (rule settled_made) (auto simp: calm_dm intro: settled_from settled_send)
  then show ?thesis
    using v by (auto simp: step_dm_def d settled_calmly keeps_failed Let_def intro: settled_from settled_send split: sum.split option.split)
qed

lemma settled_rows:
  "settled dl res w (step_channel dl flow nm ty res w)" "settled dl res w (step_task dl flow fs res w)"
  "settled dl res w (step_notify dl fs res w)"
  unfolding step_channel_def step_task_def step_notify_def
  by (rule settled_made; auto simp: calm_creates both_def keeps_step intro: settled_calmly)+

lemma settled_update: "settled dl res w (step_update_task dl fs res w)"
proof -
  obtain t v where d: "by_deadline dl (GetTask (fs ! 0)) w = (t, v)" by force
  have v: "calmly w v" using calmly_deadline [of "GetTask (fs ! 0)" w dl] calm_lookups(1) d by simp
  have "settled dl res v (step_made dl (UpdateTask x) (\<lambda>t w. (go_put ''task_id'' (JStr (task_ID t)) res, [], w)) res v)" for x
    by (rule settled_made) (auto simp: calm_creates keeps_step intro: settled_calmly)
  then show ?thesis
    using v by (auto simp: step_update_task_def d keeps_failed Let_def intro: settled_from settled_calmly split: sum.split option.split)
qed

text \<open>An HTTP request ends with the context it runs under.\<close>

definition http_in_time :: "engine \<Rightarrow> bool" where
  "http_in_time eng \<longleftrightarrow> (\<forall>r t. int (fst (eng_http eng r t)) \<le> max 0 t)"

lemma settled_http:
  assumes "http_in_time eng" "now (db w) < dl"
  shows "settled dl res w (step_http eng dl fs hs res w)"
proof -
  let ?r = "\<lparr>hr_method = (if fs ! 1 = '''' then ''GET'' else fs ! 1), hr_url = fs ! 0, hr_headers = hs,
            hr_body = (if fs ! 2 = '''' then NoBody else Text (fs ! 2))\<rparr>"
  obtain ms ans where a: "eng_http eng ?r (dl - now (db w)) = (ms, ans)" by force
  have "int (fst (eng_http eng ?r (dl - now (db w)))) \<le> max 0 (dl - now (db w))"
    using assms(1) unfolding http_in_time_def by blast
  then have "int ms \<le> dl - now (db w)" using a assms(2) by simp
  then show ?thesis
    by (auto simp: step_http_def a settled_def pass_time_def keeps_step failed_with_def Let_def
        simp del: One_nat_def split: sum.split)
qed

lemma settled_condition: "settled dl res w (step_condition eng prev fs v res w)"
  by (simp add: step_condition_def Let_def settled_def keeps_step)

lemma settled_configured:
  "(\<And>c. settled dl res w (k c w)) \<Longrightarrow> settled dl res w (configured eng st res cfg k w)"
  by (auto simp: configured_def settled_calmly keeps_failed split: option.split)

lemma settled_step:
  assumes "http_in_time eng" "now (db w) < dl"
  shows "settled dl res w (executeStep eng dl flow st res prev w)"
  unfolding executeStep_def Let_def
  by (auto simp: settled_send settled_dm settled_rows settled_update settled_http [OF assms] settled_condition
      keeps_step settled_calmly simp del: One_nat_def intro!: settled_configured split: prod.split)
    (auto simp: settled_def pass_time_def)

section \<open>Runs\<close>

text \<open>How a report may end before the last step: at a failure that stops the run, or at the deadline.\<close>

definition stops :: "workflowStep \<Rightarrow> outcome \<Rightarrow> bool" where
  "stops st r \<longleftrightarrow> is_failed r \<and> \<not> stp_ContinueOnError st"

definition timed_out :: "nat \<Rightarrow> workflowStep \<Rightarrow> outcome \<Rightarrow> bool" where
  "timed_out i st r \<longleftrightarrow> r = skipped_entry i st"

lemma run_steps_calm:
  assumes "http_in_time eng" "run_steps eng dl flow i sts prev w = (rs, w')"
  shows "t_runs (db w') = t_runs (db w) \<and> now (db w') \<le> max (now (db w)) (dl + 300000)"
  using assms(2)
proof (induction sts arbitrary: i prev w rs w')
  case (Cons st sts)
  show ?case
  proof (cases "dl \<le> now (db w)")
    case False
    obtain res out v where e: "executeStep eng dl flow st (fresh_entry i st prev) prev w = (res, out, v)"
      by (metis prod.exhaust)
    then have v: "t_runs (db v) = t_runs (db w)" "now (db v) \<le> dl + 300000"
      using settled_step [OF assms(1), of w dl "fresh_entry i st prev" flow st prev] False by (auto simp: settled_def)
    show ?thesis
      using Cons.prems Cons.IH [of "Suc i" out v] False e v
      by (auto split: if_splits prod.splits)
  qed (use Cons.prems in auto)
qed auto

lemma entry_step:
  "go_get (skipped_entry i st) ''step'' = Some (JNum (int i))" "go_get (fresh_entry i st prev) ''step'' = Some (JNum (int i))"
  by (simp_all add: skipped_entry_def fresh_entry_def)

text \<open>
  C36: The report of a run numbers the executed steps in order without gaps; only its
  last entry can be a failure that stops the run; and it is shorter than the workflow
  only if it ends in such a failure or in the deadline's skipped entry.
\<close>

theorem run_report:
  assumes "http_in_time eng" "run_steps eng dl flow i sts prev w = (rs, w')"
  shows "length rs \<le> length sts
    \<and> (\<forall>j<length rs. go_get (rs ! j) ''step'' = Some (JNum (int (i + j))))
    \<and> (\<forall>j. Suc j < length rs \<longrightarrow> \<not> stops (sts ! j) (rs ! j))
    \<and> (length rs < length sts \<longrightarrow> rs \<noteq> [] \<and> (stops (sts ! (length rs - 1)) (last rs)
         \<or> timed_out (i + (length rs - 1)) (sts ! (length rs - 1)) (last rs)))"
  using assms(2)
proof (induction sts arbitrary: i prev w rs w')
  case (Cons st sts)
  show ?case
  proof (cases "dl \<le> now (db w)")
    case True
    then show ?thesis using Cons.prems by (auto simp: entry_step timed_out_def)
  next
    case False
    obtain res out v where e: "executeStep eng dl flow st (fresh_entry i st prev) prev w = (res, out, v)"
      by (metis prod.exhaust)
    then have n: "go_get res ''step'' = Some (JNum (int i))"
      using settled_step [OF assms(1), of w dl "fresh_entry i st prev" flow st prev] False
      by (simp add: settled_def entry_step)
    show ?thesis
    proof (cases "stops st res")
      case True
      then have "rs = [res]" using Cons.prems False e by (simp add: stops_def)
      then show ?thesis using True n by simp
    next
      case run: False
      obtain rs' where r: "run_steps eng dl flow (Suc i) sts out v = (rs', w')" "rs = res # rs'"
        using Cons.prems False e run by (auto simp: stops_def split: prod.splits)
      note IH = Cons.IH [OF r(1)]
      show ?thesis
        using IH n run unfolding r(2)
        by (auto simp: nth_Cons less_Suc_eq_0_disj split: nat.split)
    qed
  qed
qed simp

text \<open>
  C37: A run ends: the steps take at most ten minutes of the clock, five to the
  deadline and five for a delay that began just before it, and they never touch the
  table of runs themselves.
\<close>

theorem run_ends:
  assumes "http_in_time eng" "run_steps eng (now (db w) + runTimeout) flow 0 sts [] w = (rs, w')"
  shows "now (db w') \<le> now (db w) + 600000 \<and> t_runs (db w') = t_runs (db w)"
  using run_steps_calm [OF assms] by (simp add: runTimeout_def)

text \<open>
  C38: A run whose steps end at or after the deadline is never marked as finished: the
  update that should do it runs under the context that has just expired, so its row
  stays as it was, "running".  One delay of 300 seconds, which the engine accepts, is
  enough.
\<close>

theorem late_run_stays_running:
  assumes "http_in_time eng" "unmarshal_list decode_step (wf_Steps flow) = Some sts"
    and "run_steps eng (now (db w) + runTimeout) flow 0 sts [] w = (rs, w')"
    and "now (db w) + runTimeout \<le> now (db w')"
  shows "t_runs (db (executeWorkflow eng run flow w)) = t_runs (db w)"
proof -
  have "t_runs (snd (UpdateWorkflowRun x ((db w')\<lparr>faults := [Some e]\<rparr>))) = t_runs (db w')" for x e
    by (simp add: UpdateWorkflowRun_def exec_def take_fault_def)
  then show ?thesis
    using assms(4) run_steps_calm [OF assms(1,3)]
    by (simp add: executeWorkflow_def assms(2,3) finish_run_def by_deadline_def Let_def split_beta)
qed

definition sample_engine :: engine where
  "sample_engine = \<lparr>eng_http = (\<lambda>r t. (0, Inl '''')), eng_json_error = (\<lambda>j. ''''), eng_fmt_float = (\<lambda>j. '''')\<rparr>"

definition sample_flow :: Workflow where
  "sample_flow = Workflow0\<lparr>wf_ID := ''f'', wf_Steps := Some (JArr [JObj [(''type'', JStr ''delay''),
     (''config'', JObj [(''seconds'', JNum 300)])]])\<rparr>"

definition sample_run :: WorkflowRun where
  "sample_run = new_run sample_flow None"

definition flow_world :: world where
  "flow_world = world0 (sample_db\<lparr>t_runs := [sample_run]\<rparr>)"

lemma sample_engine_in_time: "http_in_time sample_engine"
  by (simp add: http_in_time_def sample_engine_def)

lemma sample_steps: "unmarshal_list decode_step (wf_Steps sample_flow) =
    Some [\<lparr>stp_Type = ''delay'', stp_Config = Some (JObj [(''seconds'', JNum 300)]), stp_ContinueOnError = False\<rparr>]"
  by code_simp

lemma sample_run_steps:
  "run_steps sample_engine (now (db flow_world) + runTimeout) sample_flow 0
     [\<lparr>stp_Type = ''delay'', stp_Config = Some (JObj [(''seconds'', JNum 300)]), stp_ContinueOnError = False\<rparr>] [] flow_world
   = ([fresh_entry 0 \<lparr>stp_Type = ''delay'', stp_Config = Some (JObj [(''seconds'', JNum 300)]), stp_ContinueOnError = False\<rparr> []],
      pass_time 300000 flow_world)"
  by (simp add: runTimeout_def executeStep_def configured_def Delay_member_def key_eq_def lower_char_def
      is_failed_def fresh_entry_def Let_def)

theorem run_report_witness:
  "go_get (fst (run_steps sample_engine (now (db flow_world) + runTimeout) sample_flow 0
     (the (unmarshal_list decode_step (wf_Steps sample_flow))) [] flow_world) ! 0) ''step'' = Some (JNum 0)"
  using run_report [OF sample_engine_in_time sample_run_steps] by (simp add: sample_steps sample_run_steps del: run_steps.simps)

theorem run_ends_witness:
  "now (db (snd (run_steps sample_engine (now (db flow_world) + runTimeout) sample_flow 0
     (the (unmarshal_list decode_step (wf_Steps sample_flow))) [] flow_world))) \<le> now (db flow_world) + 600000"
  using run_ends [OF sample_engine_in_time sample_run_steps] by (simp add: sample_steps sample_run_steps del: run_steps.simps)

theorem late_run_stays_running_witness:
  "map wr_Status (t_runs (db (executeWorkflow sample_engine sample_run sample_flow flow_world))) = [''running'']"
  using late_run_stays_running [OF sample_engine_in_time sample_steps sample_run_steps, of sample_run]
  by (simp add: pass_time_def runTimeout_def) (simp add: flow_world_def world0_def sample_run_def new_run_def)

text \<open>
  C39: A conditional step whose condition is false gates nothing: its own entry says
  skipped, and the run goes on with the next step as if the condition had held.
\<close>

theorem false_condition_gates_nothing:
  assumes "now (db w) < dl" "stp_Type st = ''conditional''"
    and "unmarshal Condition_member (stp_Config st) (replicate 2 '''', None) = Some (fs, expected)"
    and "\<not> evaluateCondition (eng_fmt_float eng)
      (if fs ! 0 = '''' then None else getNestedValue [(''prev'', JObj prev)] (fs ! 0)) (fs ! 1) expected"
  shows "\<exists>r. go_get r ''status'' = Some (JStr ''skipped'')
    \<and> run_steps eng dl flow i (st # sts) prev w =
        (case run_steps eng dl flow (Suc i) sts [(''condition_met'', JBool False)] w of (rs, v) \<Rightarrow> (r # rs, v))"
proof -
  let ?r = "go_put ''status'' (JStr ''skipped'') (go_put ''condition_met'' (JBool False) (fresh_entry i st prev))"
  have s: "go_get ?r ''status'' = Some (JStr ''skipped'')" by (simp add: go_any.lookup_put)
  have "executeStep eng dl flow st (fresh_entry i st prev) prev w = (?r, [(''condition_met'', JBool False)], w)"
    using assms by (simp add: executeStep_def configured_def step_condition_def Let_def del: One_nat_def)
  then have "run_steps eng dl flow i (st # sts) prev w =
      (case run_steps eng dl flow (Suc i) sts [(''condition_met'', JBool False)] w of (rs, v) \<Rightarrow> (?r # rs, v))"
    using assms(1) s by (simp add: is_failed_def)
  then show ?thesis using s by blast
qed

definition sample_condition :: workflowStep where
  "sample_condition = \<lparr>stp_Type = ''conditional'',
     stp_Config = Some (JObj [(''operator'', JStr ''exists'')]), stp_ContinueOnError = False\<rparr>"

theorem false_condition_gates_nothing_witness:
  "length (fst (run_steps sample_engine (now (db flow_world) + 1) sample_flow 0
     [sample_condition, sample_condition] [] flow_world)) = 2"
proof -
  have u: "unmarshal Condition_member (stp_Config sample_condition) (replicate 2 '''', None) = Some (['''', ''exists''], None)"
    by code_simp
  have c: "\<not> evaluateCondition (eng_fmt_float sample_engine) (if ['''', ''exists''] ! 0 = '''' then None
      else getNestedValue [(''prev'', JObj prev)] (['''', ''exists''] ! 0)) (['''', ''exists''] ! 1) None" for prev
    by (simp add: evaluateCondition_def del: One_nat_def getNestedValue.simps)
  have t: "now (db flow_world) < now (db flow_world) + 1" "stp_Type sample_condition = ''conditional''"
    by (simp_all add: sample_condition_def)
  have one: "length (fst (run_steps sample_engine (now (db flow_world) + 1) sample_flow i (sample_condition # sts) prev flow_world))
      = Suc (length (fst (run_steps sample_engine (now (db flow_world) + 1) sample_flow (Suc i) sts
          [(''condition_met'', JBool False)] flow_world)))" for i sts prev
    using false_condition_gates_nothing [OF t u c, of sample_flow i sts prev]
    by (auto simp: split_beta simp del: run_steps.simps)
  show ?thesis unfolding one by simp
qed

end
