(* ===== verification/Rest_Props.thy ===== *)
theory Rest_Props
  imports Rest_Serves Ws_Props
begin

text \<open>
  What the HTTP half guarantees about messages and uploads: the message handlers leave
  what others wrote alone, and an upload stays below its workspace's directory.  The
  last section proves defects the model shows.
\<close>

section \<open>Paths\<close>

lemma split_path_nonempty [simp]: "split_path s \<noteq> []"
  by (induction s) (auto split: list.split)

lemma split_path_append: "split_path (a @ ''/'' @ b) = split_path a @ split_path b"
proof (induction a)
  case (Cons c a)
  then show ?case by (cases "split_path a") (auto split: list.split)
qed simp

lemma split_path_plain: "CHR ''/'' \<notin> set s \<Longrightarrow> split_path s = [s]"
  by (induction s) auto

text \<open>A name that is one element of a path.\<close>

definition element :: "string \<Rightarrow> bool" where
  "element s \<longleftrightarrow> CHR ''/'' \<notin> set s \<and> s \<notin> {'''', ''.'', ''..''}"

lemma clean_parts_elements:
  "list_all element es \<Longrightarrow> clean_parts r acc (ps @ es) = clean_parts r acc ps @ es"
proof (induction r acc ps rule: clean_parts.induct)
  case (1 r acc)
  then show ?case
    by (induction es arbitrary: acc) (auto simp: element_def)
qed (auto split: list.split)

lemma Join_snoc: "xs \<noteq> [] \<Longrightarrow> Join (xs @ [y]) sep = Join xs sep @ sep @ y"
  by (induction xs sep rule: Join.induct) (auto simp: neq_Nil_conv)

lemma Clean_elements:
  assumes "element a" "element b"
  shows "path_Clean a = a" "path_Clean (a @ ''/'' @ b) = a @ ''/'' @ b"
    "p \<noteq> '''' \<Longrightarrow> path_Clean (p @ ''/'' @ a @ ''/'' @ b) = path_Clean (p @ ''/'' @ a) @ ''/'' @ b"
proof -
  have plain: "split_path a = [a]" "split_path b = [b]" and ne: "a \<noteq> ''''"
    using assms by (simp_all add: element_def split_path_plain)
  have root: "\<not> is_rooted a" "\<not> is_rooted (a @ x)" for x
    using assms by (cases a; auto simp: is_rooted_def HasPrefix_def element_def)+
  have parts: "clean_parts r [] (ps @ [a]) = clean_parts r [] ps @ [a]"
    "clean_parts r [] (ps @ [a, b]) = clean_parts r [] ps @ [a, b]" for r ps
    using assms by (simp_all add: clean_parts_elements)
  note pair = parts [of _ "[]", simplified]
  show "path_Clean a = a" using root pair by (simp add: path_Clean_def plain)
  show "path_Clean (a @ ''/'' @ b) = a @ ''/'' @ b"
    using root(2) [of "''/'' @ b"] pair by (simp add: path_Clean_def plain split_path_append [simplified])
  assume p: "p \<noteq> ''''"
  have split: "split_path (p @ ''/'' @ a) = split_path p @ [a]"
    "split_path (p @ ''/'' @ a @ ''/'' @ b) = split_path p @ [a, b]"
    using split_path_append [of p a] split_path_append [of p "a @ ''/'' @ b"] split_path_append [of a b]
    by (simp_all add: plain)
  have rooted: "is_rooted (p @ x) = is_rooted p" for x using p by (cases p) (auto simp: is_rooted_def HasPrefix_def)
  have join: "Join (xs @ [a, b]) ''/'' = Join (xs @ [a]) ''/'' @ ''/'' @ b" for xs
    using Join_snoc [of "xs @ [a]" b] by simp
  show "path_Clean (p @ ''/'' @ a @ ''/'' @ b) = path_Clean (p @ ''/'' @ a) @ ''/'' @ b"
    unfolding path_Clean_def Let_def rooted split parts join by simp
qed

lemma fullPath_below:
  assumes "element a" "element b"
  shows "fullPath d (path_Join [a, b]) = fullPath d a @ ''/'' @ b"
proof -
  have ne: "a \<noteq> ''''" using assms by (simp add: element_def)
  show ?thesis
  proof (cases "baseDir d = ''''")
    case True
    then show ?thesis using ne Clean_elements(1,2) [OF assms] by (simp add: fullPath_def)
  next
    case False
    then show ?thesis using ne Clean_elements(2,3) [OF assms] by (simp add: fullPath_def)
  qed
qed

section \<open>Uploads\<close>

lemma uuid_plain: "uuid_chars i s \<Longrightarrow> CHR ''/'' \<notin> set s"
  by (induction i s rule: uuid_chars.induct) (auto simp: hex_digit_def split: if_splits)

lemma ext_plain: "CHR ''/'' \<notin> set acc \<Longrightarrow> CHR ''/'' \<notin> set (ext_rev s acc)"
  by (induction s acc rule: ext_rev.induct) auto

lemma uuid_element: "isUUID s \<Longrightarrow> element (s @ path_Ext t)" "isUUID s \<Longrightarrow> element s"
  using uuid_plain [of 0 s] ext_plain [of "''''" "rev t"]
  by (auto simp: element_def isUUID_def path_Ext_def split: if_splits dest: arg_cong [of _ _ length])

lemma fullPath_files [simp]: "fullPath (d\<lparr>files := x\<rparr>) q = fullPath d q"
  by (simp add: fullPath_def)

lemma store_upload_files:
  assumes "store_upload month wid me u mime (w, d) = (r, w', d')"
    and "isUUID wid" "isUUID (fst (on_db new_uuid w))" "go_get (files d') p \<noteq> go_get (files d) p"
  shows "p = fullPath d wid @ ''/'' @ fst (on_db new_uuid w) @ path_Ext (up_Filename u)"
    "status r = 201 \<or> go_get (files d) p \<noteq> None"
proof -
  obtain i v where i: "on_db new_uuid w = (i, v)" by fastforce
  note below = fullPath_below [OF uuid_element(2,1), OF assms(2), of i d "up_Filename u"]
  show "p = fullPath d wid @ ''/'' @ fst (on_db new_uuid w) @ path_Ext (up_Filename u)"
    "status r = 201 \<or> go_get (files d) p \<noteq> None"
    using assms below
    by (auto simp: store_upload_def i Let_def Save_def storage_Delete_def go_any.lookup_put writeJSON_def
        simp del: path_Join.simps split: option.splits prod.splits sum.splits if_splits)
qed


definition sample_uuid :: string where
  "sample_uuid = ''123e4567-e89b-12d3-a456-426614174000''"

definition sample_disk :: disk where
  "sample_disk = \<lparr>baseDir = ''./data//files'', files = [], os_fails = (\<lambda>p. None)\<rparr>"

definition upload_world :: world where
  "upload_world = world0 (sample_db\<lparr>uuids := (\<lambda>n. sample_uuid),
     t_workspaces := map (\<lambda>x. x\<lparr>ws_ID := sample_uuid\<rparr>) (t_workspaces sample_db)\<rparr>)"

definition upload_request :: request where
  "upload_request = \<lparr>rq_params = [(''id'', sample_uuid)], rq_query = [], rq_body = None, rq_auth = '''',
     rq_member = Some (Member0\<lparr>mb_ID := ''m'', mb_WorkspaceID := sample_uuid\<rparr>)\<rparr>"

definition sample_form :: form where
  "sample_form = FormFile \<lparr>up_Filename = ''../../../etc/cron.d/job.txt'', up_ContentType = ''text/plain'',
     up_Data = ''* * * * *'', up_Size = 9\<rparr>"


section \<open>Other members' messages\<close>

text \<open>
  A change that keeps a consistent database consistent and every message that is not
  me's as it was: the relation the handlers on messages are walked through with.
\<close>

definition spares :: "string \<Rightarrow> store \<Rightarrow> store \<Rightarrow> bool" where
  "spares me s s' \<longleftrightarrow> (db_ok s \<longrightarrow> db_ok s' \<and> others me s' = others me s)"

lemma spares_steps: "(spares me)\<^sup>*\<^sup>* s s' \<Longrightarrow> spares me s s'"
  by (induction rule: rtranclp_induct) (auto simp: spares_def)

lemma spares_frame: "db_step s s' \<Longrightarrow> t_messages s' = t_messages s \<Longrightarrow> spares me s s'"
  unfolding spares_def using others_cong db_step_ok by blast

lemma spares_op: "ws_op me s s' \<Longrightarrow> spares me s s'"
  unfolding spares_def using ws_op_others db_step_ok [OF ws_op_db_step] by blast

interpretation own_logic: step_logic "spares me" for me
  by unfold_locales (rule spares_op [OF op_take] spares_op [OF op_faults] spares_op [OF op_uuid]
    spares_op [OF op_wake] spares_op [OF op_notify])+

lemma rest_messages:
  "t_messages (snd (snd (CreateEditHistory h s))) = t_messages s"
  "t_messages (snd (snd (AddReaction x s))) = t_messages s"
  "t_messages (snd (RemoveReaction a b c s)) = t_messages s"
  "t_messages (snd (snd (CreatePin p s))) = t_messages s"
  "t_messages (snd (DeletePin i s)) = t_messages s"
  "t_messages (snd (IncrementUsage wid mt st en n s)) = t_messages s"
proof -
  note ds = fresh_id_def new_uuid_def Let_def split_beta
  show "t_messages (snd (snd (CreateEditHistory h s))) = t_messages s"
    by (auto simp: CreateEditHistory_def ds intro!: exec_messages [THEN trans] dest!: insert_checked_some)
  show "t_messages (snd (snd (AddReaction x s))) = t_messages s"
    by (auto simp: AddReaction_def ds intro!: exec_messages [THEN trans] dest!: insert_checked_some split: if_splits)
  show "t_messages (snd (RemoveReaction a b c s)) = t_messages s"
    by (auto simp: RemoveReaction_def intro!: exec_messages)
  show "t_messages (snd (snd (CreatePin p s))) = t_messages s"
    by (auto simp: CreatePin_def ds intro!: exec_messages [THEN trans] dest!: insert_checked_some)
  show "t_messages (snd (DeletePin i s)) = t_messages s"
    by (auto simp: DeletePin_def intro!: exec_messages)
  show "t_messages (snd (IncrementUsage wid mt st en n s)) = t_messages s"
    by (auto simp: IncrementUsage_def ds intro!: exec_messages [THEN trans] dest!: insert_checked_some split: if_splits)
qed

lemma can_own:
  "can (spares me) (made (CreateEditHistory h)) w" "can (spares me) (made (AddReaction x)) w"
  "can (spares me) (made (CreatePin p)) w" "can (spares me) (RemoveReaction a b c) w"
  "can (spares me) (DeletePin i) w" "can (spares me) (IncrementUsage wid mt st en n) w"
  by (rule own_logic.can_made own_logic.can_one, rule spares_frame, rule db_step.intros, rule rest_messages)+

lemma can_own_post:
  "msg_SenderID x = me \<Longrightarrow> msg_ReplyCount x = 0 \<Longrightarrow> can (spares me) (made (CreateMessage x)) w"
  by (rule own_logic.can_made, rule spares_op, erule (1) ws_op.intros)

lemma can_own_edit:
  "m \<in> set (t_messages (db w)) \<Longrightarrow> msg_SenderID m = me \<Longrightarrow> msg_ID x = msg_ID m \<Longrightarrow>
   can (spares me) (made (UpdateMessage x)) w"
  by (rule own_logic.can_made, rule spares_op, rule op_edit [of m]) simp_all

lemma can_own_delete:
  "m \<in> set (t_messages (db w)) \<Longrightarrow> msg_SenderID m = me \<Longrightarrow> can (spares me) (DeleteMessage (msg_ID m)) w"
  by (rule own_logic.can_one, rule spares_op, rule op_unsend) simp_all

text \<open>A step whose statement is only harmless in the state at hand.\<close>

lemma try_made_here:
  assumes "runs (spares me) A w0 w" "can (spares me) (made op) w"
    "\<And>x v. runs (spares me) A w0 v \<Longrightarrow> runs (spares me) A w0 (snd (k x v))"
  shows "runs (spares me) A w0 (snd (try_made op k w))"
proof -
  have "runs (spares me) A w0 (snd (on_db (made op) w))"
    using own_logic.runs_on_db [OF assms(1,2), where k = "\<lambda>x v. v"] by (simp add: split_beta)
  then show ?thesis using assms(3)
    by (auto simp: try_made_def try_svc_def stored_def Let_def split: prod.split sum.split)
qed

lemma try_db_here:
  assumes "runs (spares me) A w0 w" "can (spares me) op w"
    "\<And>x v. runs (spares me) A w0 v \<Longrightarrow> runs (spares me) A w0 (snd (k x v))"
  shows "runs (spares me) A w0 (snd (try_db op k w))"
proof -
  have "runs (spares me) A w0 (snd (on_db op w))"
    using own_logic.runs_on_db [OF assms(1,2), where k = "\<lambda>x v. v"] by (simp add: split_beta)
  then show ?thesis using assms(3) by (auto simp: try_db_def try_svc_def Let_def split: prod.split sum.split)
qed

lemma try_message:
  assumes "runs (spares me) A w0 w"
    "\<And>x v. runs (spares me) A w0 v \<Longrightarrow>
      (\<And>m. x = Some m \<Longrightarrow> m \<in> set (t_messages (db v)) \<and> msg_ID m = i) \<Longrightarrow> runs (spares me) A w0 (snd (k x v))"
  shows "runs (spares me) A w0 (snd (try_db (GetMessage i) k w))"
proof -
  obtain x v where x: "on_db (GetMessage i) w = (x, v)" by fastforce
  have v: "runs (spares me) A w0 v"
    using own_logic.runs_on_db [OF assms(1) own_logic.can_get(5), where k = "\<lambda>x v. v" and i1 = i] x by simp
  show ?thesis
  proof (cases x)
    case (Inr y)
    have "y = List.find (\<lambda>m. msg_ID m = i) (t_messages (db v))"
      using on_db_result [OF x [unfolded GetMessage_def]] Inr by simp
    then have "m \<in> set (t_messages (db v)) \<and> msg_ID m = i" if "y = Some m" for m
      using find_someD' [of m "\<lambda>m. msg_ID m = i" "t_messages (db v)"] that by simp
    then show ?thesis using assms(2) [OF v] Inr by (simp add: try_db_def try_svc_def x)
  qed (simp add: try_db_def try_svc_def x v)
qed

lemmas own_rules = own_logic.rest_rules own_logic.runs_rules own_logic.can_lookup own_logic.can_get can_own
  own_logic.runs_handleMentions own_logic.runs_fold

lemma own_recordUsage: "runs (spares me) A w0 w \<Longrightarrow> runs (spares me) A w0 (recordUsage month wid m n w)"
  unfolding recordUsage_def by (simp add: split_beta) (intro own_rules)

lemma own_notify_dm: "runs (spares me) A w0 w \<Longrightarrow> runs (spares me) A w0 (notify_dm nm msg m w)"
  unfolding notify_dm_def Let_def by (intro own_rules)

lemma own_notifyDM: "runs (spares me) A w0 w \<Longrightarrow> runs (spares me) A w0 (notifyDMRecipients msg w)"
  unfolding notifyDMRecipients_def Let_def by (intro own_rules own_notify_dm)

lemma own_reaction: "runs (spares me) A w0 w \<Longrightarrow> runs (spares me) A w0 (broadcastReactionEvent i rx w)"
  unfolding broadcastReactionEvent_def Let_def by (intro own_rules)

lemma spares_harmless:
  "acts (spares me) A (handleAddReaction q)" "acts (spares me) A (handleRemoveReaction q)"
  "acts (spares me) A (handlePinMessage q)" "acts (spares me) A (handleUnpinMessage q)"
  by (rule actsI, (unfold guard_defs handleAddReaction_def handleRemoveReaction_def
    handlePinMessage_def handleUnpinMessage_def)[1], (intro own_rules own_reaction; assumption)[1])+

lemma spares_create:
  assumes "rq_member q = Some m"
  shows "acts (spares (mb_ID m)) A (handleCreateMessage month q)"
  by (rule actsI, (unfold guard_defs handleCreateMessage_def)[1],
      (intro own_rules own_notifyDM own_recordUsage can_own_post; (assumption | simp add: row_fields assms))[1])

lemma spares_edit:
  assumes q: "rq_member q = Some me"
  shows "acts (spares (mb_ID me)) A (handleUpdateMessage q)"
proof (rule actsI)
  fix w0 w assume w: "runs (spares (mb_ID me)) A w0 w"
  have edit: "runs (spares (mb_ID me)) A w0 (snd (let w = (if msg_Content x \<noteq> ''''
        then snd (on_db (made (CreateEditHistory (edit_entry me (now (db v)) x))) v) else v)
      in try_made (UpdateMessage (trackMessageEdit (now (db w)) x)) (k :: Message \<Rightarrow> world \<Rightarrow> answer) w))"
    if v: "runs (spares (mb_ID me)) A w0 v" and m: "m \<in> set (t_messages (db v))" "msg_SenderID m = mb_ID me"
      and x: "msg_ID x = msg_ID m" and k: "\<And>y u. runs (spares (mb_ID me)) A w0 u \<Longrightarrow> runs (spares (mb_ID me)) A w0 (snd (k y u))"
    for v m x k
  proof -
    let ?h = "made (CreateEditHistory (edit_entry me (now (db v)) x))"
    define u where "u = (if msg_Content x \<noteq> '''' then snd (on_db ?h v) else v)"
    have "runs (spares (mb_ID me)) A w0 u" unfolding u_def by (simp add: v) (intro own_rules v impI)
    moreover have "t_messages (db u) = t_messages (db v)"
      by (simp add: u_def on_db_def split_beta made_def rest_messages)
    then have "can (spares (mb_ID me)) (made (UpdateMessage (trackMessageEdit (now (db u)) x))) u"
      using m x by (intro can_own_edit [of m]) (simp_all add: trackMessageEdit_def)
    ultimately show ?thesis unfolding u_def [symmetric] Let_def by (rule try_made_here) (rule k)
  qed
  show "runs (spares (mb_ID me)) A w0 (snd (handleUpdateMessage q w))"
    unfolding handleUpdateMessage_def authed_def q option.case
  proof (rule try_message [OF w], rule own_logic.rest_found, assumption, rule own_logic.rest_if)
    fix v m x
    assume v: "runs (spares (mb_ID me)) A w0 v" and x: "x = Some m" "\<And>m. x = Some m \<Longrightarrow> m \<in> set (t_messages (db v)) \<and> msg_ID m = URLParam q ''id''"
      and own: "\<not> msg_SenderID m \<noteq> mb_ID me"
    show "runs (spares (mb_ID me)) A w0 (snd (decodeAndProtect Message_member q m
         (\<lambda>a. a\<lparr>msg_ID := msg_ID m, msg_ChannelID := msg_ChannelID m, msg_SenderID := msg_SenderID m, msg_CreatedAt := msg_CreatedAt m\<rparr>)
         (\<lambda>m w. let w = if msg_Content m \<noteq> '''' then snd (on_db (made (CreateEditHistory (edit_entry me (now (db w)) m))) w) else w
            in try_made (UpdateMessage (trackMessageEdit (now (db w)) m))
                 (\<lambda>m w. respond 200 (Message_json m) (to_channel (msg_ChannelID m) ''message.edit'' (Message_json m) w)) w) v))"
      by (rule own_logic.rest_protect [OF v], rule edit [of v m])
         (use v x own in \<open>auto intro: own_logic.rest_ends own_logic.runs_rules\<close>)
  qed (rule own_logic.rest_ends, assumption)
qed

lemma spares_delete:
  assumes q: "rq_member q = Some me"
  shows "acts (spares (mb_ID me)) A (handleDeleteMessage q)"
proof (rule actsI)
  fix w0 w assume w: "runs (spares (mb_ID me)) A w0 w"
  have del: "runs (spares (mb_ID me)) A w0 (snd (try_db (DeleteMessage i) (k :: unit \<Rightarrow> world \<Rightarrow> answer) u))"
    if "runs (spares (mb_ID me)) A w0 u" "m \<in> set (t_messages (db u))" "msg_ID m = i" "msg_SenderID m = mb_ID me"
      "\<And>y u. runs (spares (mb_ID me)) A w0 u \<Longrightarrow> runs (spares (mb_ID me)) A w0 (snd (k y u))" for u m i k
    using try_db_here [OF that(1) can_own_delete [OF that(2,4)], of k] that(3,5) by simp
  show "runs (spares (mb_ID me)) A w0 (snd (handleDeleteMessage q w))"
    unfolding handleDeleteMessage_def authed_def q option.case
  proof (rule try_message [OF w], rule own_logic.rest_found, assumption)
    fix v m x
    assume v: "runs (spares (mb_ID me)) A w0 v" and x: "x = Some m" "\<And>m. x = Some m \<Longrightarrow> m \<in> set (t_messages (db v)) \<and> msg_ID m = URLParam q ''id''"
    obtain c u where c: "on_db (GetChannel (msg_ChannelID m)) v = (c, u)" by fastforce
    have u: "runs (spares (mb_ID me)) A w0 u"
      using own_logic.runs_on_db [OF v own_logic.can_get(4), where k = "\<lambda>x v. v" and i1 = "msg_ChannelID m"] c by simp
    have "t_messages (db u) = t_messages (db v)" using on_db_result [OF c [unfolded GetChannel_def]] by auto
    then have m: "m \<in> set (t_messages (db u))" "msg_ID m = URLParam q ''id''" using x by auto
    note ends = own_logic.rest_ends(2) [OF u]
    show "runs (spares (mb_ID me)) A w0 (snd (let (ch, w) = on_db (GetChannel (msg_ChannelID m)) v in
       case ch of
         Inr (Some ch) \<Rightarrow>
           if ch_WorkspaceID ch \<noteq> mb_WorkspaceID me then refuse 404 ''message not found'' w
           else if msg_SenderID m \<noteq> mb_ID me then refuse 403 ''not message author'' w
           else try_db (DeleteMessage (URLParam q ''id'')) (\<lambda>_. empty_answer) w
       | _ \<Rightarrow> refuse 404 ''message not found'' w))"
      unfolding c Let_def by (auto split: sum.split option.split intro!: ends del [OF u m] own_logic.rest_ends)
  qed
qed

text \<open>
  C30: Over HTTP as over the WebSocket nobody touches what others wrote: the handlers
  that post, edit, delete, react to and pin messages leave every message the caller did
  not write in place, with its channel, thread, author and content, and keep the
  database consistent.
\<close>

definition on_messages :: "(int \<Rightarrow> int \<times> int) \<Rightarrow> (request \<Rightarrow> world \<Rightarrow> answer) list" where
  "on_messages month = [handleCreateMessage month, handleUpdateMessage, handleDeleteMessage,
     handleAddReaction, handleRemoveReaction, handlePinMessage, handleUnpinMessage]"

theorem rest_others_untouched:
  assumes "h \<in> set (on_messages month)" "rq_member q = Some me" "db_ok (db w)"
  shows "others (mb_ID me) (db (snd (h q w))) = others (mb_ID me) (db w) \<and> db_ok (db (snd (h q w)))"
proof -
  have "acts (spares (mb_ID me)) (\<lambda>_. True) (h q)"
    using assms(1) spares_create [OF assms(2)] spares_edit [OF assms(2)] spares_delete [OF assms(2)] spares_harmless
    unfolding on_messages_def by auto
  then have "(spares (mb_ID me))\<^sup>*\<^sup>* (db w) (db (snd (h q w)))" by (auto simp: acts_def runs_def)
  then show ?thesis using assms(3) by (auto dest!: spares_steps simp: spares_def)
qed

definition delete_request :: request where
  "delete_request = \<lparr>rq_params = [(''id'', ''b'')], rq_query = [], rq_body = None, rq_auth = '''',
     rq_member = Some (Member0\<lparr>mb_ID := ''m'', mb_WorkspaceID := ''w''\<rparr>)\<rparr>"

theorem rest_others_untouched_witness:
  "others ''m'' (db (snd (handleDeleteMessage delete_request sample_world))) = [(''b'', ''c'', ''n'', ''a'', ''yo'')]"
proof -
  have h: "handleDeleteMessage \<in> set (on_messages (\<lambda>t. (0, 1)))" by (simp add: on_messages_def)
  have ok: "db_ok (db sample_world)" using db_reach_ok [OF sample_reach] by (simp add: sample_world_db)
  show ?thesis
    using rest_others_untouched [OF h _ ok, of delete_request "Member0\<lparr>mb_ID := ''m'', mb_WorkspaceID := ''w''\<rparr>"]
    by (simp add: delete_request_def sample_world_db others_def others_in_def core_def sample_db_eval(1) Message0_def Member0_def)
qed

section \<open>Defects\<close>

text \<open>A changed password is never stored: the statement the handler runs has no column for it.\<close>

theorem password_change_lost:
  "map mb_PasswordHash (t_members (db (snd (handleChangePassword q w)))) = map mb_PasswordHash (t_members (db w))"
proof -
  have frame: "map mb_PasswordHash (t_members (snd (exec g s))) = map mb_PasswordHash (t_members s)"
    if "\<And>s s'. g s = Inr s' \<Longrightarrow> map mb_PasswordHash (t_members s') = map mb_PasswordHash (t_members s)" for g s
    by (rule exec_cases [of g s]) (auto simp: take_fault_def dest: that split: list.splits)
  have keep: "map mb_PasswordHash (t_members (snd (snd (UpdateMember m s)))) = map mb_PasswordHash (t_members s)" for m s
    by (simp add: UpdateMember_def split_beta, rule frame) (auto simp: upd_where_def)
  have kept: "map mb_PasswordHash (t_members s') = map mb_PasswordHash (t_members s)"
    if "UpdateMember m s = (x, y, s')" for m s x y s'
    using keep [of m s] that by simp
  show ?thesis
    by (auto simp: handleChangePassword_def authed_def strs_body_def decoded_def refuse_def hash_password_def
        read_random_def try_made_def try_svc_def stored_def on_db_def made_def Let_def empty_answer_def
        dest: kept split: option.split prod.split sum.split)
qed

text \<open>The backup handler asks for a relative path and the store refuses every one of them.\<close>

theorem backup_never_succeeds: "status (fst (handleAdminBackup mkdir_ok moment q w)) \<noteq> 200"
  by (auto simp: handleAdminBackup_def as_admin_def requireAdmin_def try_db_def try_svc_def on_db_def Backup_def
      HasPrefix_def Let_def writeError_def writeErrorCode_def writeJSON_def serverError_def split: option.split)

text \<open>A redirect target that browsers read as another host passes the check.\<close>

theorem backslash_redirect_accepted: "safe_redirect ([CHR ''/'', CHR 0x5C] @ host) = [CHR ''/'', CHR 0x5C] @ host"
  by (simp add: safe_redirect_def HasPrefix_def)

text \<open>
  One integration whose configuration is text that is not JSON, which the handler that
  creates integrations stores unchecked, leaves every listing of integrations without a body.
\<close>

lemma those_None: "x \<in> set xs \<Longrightarrow> f x = None \<Longrightarrow> those (map f xs) = None"
  by (induction xs) (auto split: option.split)

theorem broken_config_hides_integrations:
  assumes "i \<in> set (t_integrations (db w))" "ig_ConfigSchema i \<noteq> ''''" "parse (ig_ConfigSchema i) = None"
    and "status (fst (handleListIntegrations parse q w)) = 200"
  shows "response.body (fst (handleListIntegrations parse q w)) = None"
proof (cases "ListIntegrations (db w)")
  case (Pair x s)
  show ?thesis
  proof (cases x)
    case (Inr rows)
    have "i \<in> set rows"
      using Pair Inr assms(1)
      by (auto simp: ListIntegrations_def query_def order_asc_def take_fault_def split: list.splits option.splits)
    moreover have "Integration_json parse i = None" using assms(2,3) by (simp add: Integration_json_def omit_text_def)
    ultimately have "slice_encoded (Integration_json parse) rows = None"
      using those_None [of i rows "Integration_json parse"] by (cases rows) (simp_all add: slice_encoded_def)
    then show ?thesis using Pair Inr
      by (simp add: handleListIntegrations_def try_db_def try_svc_def on_db_def encoded_def)
  qed (use assms(4) Pair in \<open>simp add: handleListIntegrations_def try_db_def try_svc_def on_db_def serverError_def
      writeErrorCode_def writeJSON_def\<close>)
qed

text \<open>Without configured prices a subscription that names no price is an enterprise plan.\<close>

theorem empty_price_is_enterprise: "GetPlanForPriceID (NewStripeService (\<lambda>k. '''')) '''' = ''enterprise''"
  by (simp add: GetPlanForPriceID_def NewStripeService_def)

end
